(* ===== verification/Prelude.thy ===== *)
theory Prelude
  imports Complex_Main "HOL-Library.Sublist" "HOL-Library.Word" "HOL-Library.Log_Nat"
begin

text \<open>
  The vocabulary the component theories share: the names of the model's basic types, and the
  operations of Python's \<^verbatim>\<open>str\<close> and \<^verbatim>\<open>list\<close> that the program calls, with their laws.

  Text comes in two kinds. Strings the program itself writes (error codes, messages, keys, file
  names after sanitising, settings) are HOL \<open>string\<close>s, one \<open>char\<close> per Python character up to
  U+00FF. Text that arrives from outside (a client's file name, a document's contents) is
  \<open>unicode\<close>, a list of code points, so that nothing is assumed about its alphabet. The operations
  below are polymorphic and serve both.
\<close>

section \<open>Types\<close>

type_synonym byte = "8 word"
type_synonym bytes = "byte list"
type_synonym codepoint = nat
type_synonym unicode = "codepoint list"

text \<open>A UUID is identified with its canonical text, which is what \<^verbatim>\<open>str(uuid)\<close> gives.\<close>

type_synonym uuid = string

text \<open>An aware UTC \<^verbatim>\<open>datetime\<close>: whole microseconds since the epoch.\<close>

type_synonym time = int

abbreviation microseconds_per_second :: int where
  "microseconds_per_second \<equiv> 1000000"

section \<open>Collections of facts\<close>

named_theorems str_simps \<open>evaluation of the Python string operations\<close>
named_theorems op_defs \<open>definitions of the operations of a component, unfolded by its proofs\<close>
named_theorems frame \<open>what an operation leaves unchanged\<close>

section \<open>Prefixes, search and splitting\<close>

fun starts_with :: "'a list \<Rightarrow> 'a list \<Rightarrow> bool" where
  "starts_with [] s = True"
| "starts_with (p # ps) [] = False"
| "starts_with (p # ps) (x # xs) = (p = x \<and> starts_with ps xs)"

lemma starts_with_iff: "starts_with p s \<longleftrightarrow> (\<exists>t. s = p @ t)"
  by (induction p s rule: starts_with.induct) auto

lemma starts_with_append [simp]: "starts_with p (p @ s)"
  by (auto simp: starts_with_iff)

lemma starts_with_self [simp]: "starts_with p p"
  by (auto simp: starts_with_iff)

definition ends_with :: "'a list \<Rightarrow> 'a list \<Rightarrow> bool" where
  "ends_with p s = starts_with (rev p) (rev s)"

lemma ends_with_iff: "ends_with p s \<longleftrightarrow> (\<exists>t. s = t @ p)"
  unfolding ends_with_def starts_with_iff
  by (metis rev_append rev_rev_ident)

text \<open>\<^verbatim>\<open>s.find(p)\<close>: the least index at which \<open>p\<close> occurs, \<open>None\<close> for Python's \<^verbatim>\<open>-1\<close>.\<close>

fun py_find :: "'a list \<Rightarrow> 'a list \<Rightarrow> nat option" where
  "py_find p [] = (if p = [] then Some 0 else None)"
| "py_find p (x # xs) = (if starts_with p (x # xs) then Some 0 else map_option Suc (py_find p xs))"

lemma py_find_Some:
  "py_find p s = Some i \<Longrightarrow> s = take i s @ p @ drop (i + length p) s"
proof (induction p s arbitrary: i rule: py_find.induct)
  case (1 p)
  then show ?case by (simp split: if_splits)
next
  case (2 p x xs)
  show ?case
  proof (cases "starts_with p (x # xs)")
    case True
    then obtain t where t: "x # xs = p @ t" by (auto simp: starts_with_iff)
    from True "2.prems" have "i = 0" by simp
    with t show ?thesis by simp
  next
    case False
    with "2.prems" obtain j where j: "py_find p xs = Some j" "i = Suc j" by auto
    with "2.IH"[OF False j(1)] show ?thesis by simp
  qed
qed

lemma py_find_None: "py_find p s = None \<Longrightarrow> s \<noteq> a @ p @ b"
proof (induction p s arbitrary: a rule: py_find.induct)
  case (1 p)
  then show ?case by (auto split: if_splits)
next
  case (2 p x xs)
  from "2.prems" have no: "\<not> starts_with p (x # xs)" and rest: "py_find p xs = None"
    by (auto split: if_splits)
  show ?case
  proof (cases a)
    case Nil
    with no show ?thesis by (auto simp: starts_with_iff)
  next
    case (Cons y ys)
    with "2.IH"[OF no rest, of ys] show ?thesis by auto
  qed
qed

text \<open>Python's \<^verbatim>\<open>p in s\<close> on strings.\<close>

definition py_in :: "'a list \<Rightarrow> 'a list \<Rightarrow> bool" where
  "py_in p s = (py_find p s \<noteq> None)"

lemma py_in_iff: "py_in p s \<longleftrightarrow> (\<exists>a b. s = a @ p @ b)"
proof
  assume "py_in p s"
  then obtain i where "py_find p s = Some i" by (auto simp: py_in_def)
  then have "s = take i s @ p @ drop (i + length p) s" by (rule py_find_Some)
  then show "\<exists>a b. s = a @ p @ b" by blast
next
  assume "\<exists>a b. s = a @ p @ b"
  then show "py_in p s" unfolding py_in_def using py_find_None by blast
qed

text \<open>\<^verbatim>\<open>s.partition(sep)\<close>.\<close>

definition py_partition :: "'a list \<Rightarrow> 'a list \<Rightarrow> 'a list \<times> 'a list \<times> 'a list" where
  "py_partition sep s =
     (case py_find sep s of
        None \<Rightarrow> (s, [], [])
      | Some i \<Rightarrow> (take i s, sep, drop (i + length sep) s))"

text \<open>\<^verbatim>\<open>s.rpartition(c)\<close> for a separator of one character.\<close>

definition py_rpartition :: "'a \<Rightarrow> 'a list \<Rightarrow> 'a list \<times> 'a list \<times> 'a list" where
  "py_rpartition c s =
     (if c \<in> set s
      then (rev (tl (dropWhile (\<lambda>x. x \<noteq> c) (rev s))), [c], rev (takeWhile (\<lambda>x. x \<noteq> c) (rev s)))
      else ([], [], s))"

lemma py_partition_concat:
  "py_partition sep s = (a, m, b) \<Longrightarrow> s = a @ m @ b"
  unfolding py_partition_def using py_find_Some[of sep s] by (auto split: option.splits)

lemma rev_dropWhile_split:
  assumes "c \<in> set s"
  shows "s = rev (tl (dropWhile (\<lambda>x. x \<noteq> c) (rev s))) @ [c] @ rev (takeWhile (\<lambda>x. x \<noteq> c) (rev s))"
proof -
  have "dropWhile (\<lambda>x. x \<noteq> c) (rev s) \<noteq> []"
    using assms by (simp add: dropWhile_eq_Nil_conv)
  moreover from hd_dropWhile[OF this] have "hd (dropWhile (\<lambda>x. x \<noteq> c) (rev s)) = c"
    by simp
  ultimately have d: "dropWhile (\<lambda>x. x \<noteq> c) (rev s) = c # tl (dropWhile (\<lambda>x. x \<noteq> c) (rev s))"
    by (metis list.collapse)
  have "rev s = takeWhile (\<lambda>x. x \<noteq> c) (rev s) @ dropWhile (\<lambda>x. x \<noteq> c) (rev s)" by simp
  then have "rev (rev s) = rev (takeWhile (\<lambda>x. x \<noteq> c) (rev s) @ (c # tl (dropWhile (\<lambda>x. x \<noteq> c) (rev s))))"
    using d by simp
  then show ?thesis by simp
qed

lemma py_rpartition_concat:
  assumes "py_rpartition c s = (a, m, b)"
  shows "s = a @ m @ b"
proof (cases "c \<in> set s")
  case True
  with assms have a: "a = rev (tl (dropWhile (\<lambda>x. x \<noteq> c) (rev s)))" and m: "m = [c]"
    and b: "b = rev (takeWhile (\<lambda>x. x \<noteq> c) (rev s))"
    by (simp_all add: py_rpartition_def)
  show ?thesis unfolding a m b by (rule rev_dropWhile_split[OF True])
next
  case False
  with assms show ?thesis by (simp add: py_rpartition_def)
qed

lemma py_rpartition_tail: "py_rpartition c s = (a, m, b) \<Longrightarrow> c \<notin> set b"
  unfolding py_rpartition_def by (auto split: if_splits dest: set_takeWhileD)

text \<open>\<^verbatim>\<open>s.split(c)\<close> for a separator of one character, and \<^verbatim>\<open>sep.join(parts)\<close>.\<close>

fun py_split :: "'a \<Rightarrow> 'a list \<Rightarrow> 'a list list" where
  "py_split c [] = [[]]"
| "py_split c (x # xs) =
     (if x = c then [] # py_split c xs
      else (case py_split c xs of [] \<Rightarrow> [[x]] | y # ys \<Rightarrow> (x # y) # ys))"

fun py_join :: "'a list \<Rightarrow> 'a list list \<Rightarrow> 'a list" where
  "py_join sep [] = []"
| "py_join sep [x] = x"
| "py_join sep (x # y # ys) = x @ sep @ py_join sep (y # ys)"

lemma py_split_nonempty [simp]: "py_split c s \<noteq> []"
  by (induction s) (auto split: list.splits)

lemma py_join_Cons: "ys \<noteq> [] \<Longrightarrow> py_join sep (x # ys) = x @ sep @ py_join sep ys"
  by (cases ys) auto

lemma py_join_split [simp]: "py_join [c] (py_split c s) = s"
proof (induction s)
  case Nil
  then show ?case by simp
next
  case (Cons x xs)
  show ?case
  proof (cases "x = c")
    case True
    with Cons show ?thesis by (simp add: py_join_Cons)
  next
    case False
    obtain y ys where "py_split c xs = y # ys"
      using py_split_nonempty by (metis neq_Nil_conv)
    with Cons False show ?thesis by (cases ys) auto
  qed
qed

lemma py_split_no_sep: "p \<in> set (py_split c s) \<Longrightarrow> c \<notin> set p"
proof (induction s arbitrary: p)
  case Nil
  then show ?case by simp
next
  case (Cons x xs)
  obtain y ys where "py_split c xs = y # ys"
    using py_split_nonempty by (metis neq_Nil_conv)
  with Cons show ?case by (auto split: if_splits)
qed

lemma py_split_id: "c \<notin> set s \<Longrightarrow> py_split c s = [s]"
  by (induction s) auto

lemma py_split_append: "c \<notin> set a \<Longrightarrow> py_split c (a @ c # b) = a # py_split c b"
  by (induction a) auto

lemma py_split_join:
  assumes "xs \<noteq> []" and "\<And>p. p \<in> set xs \<Longrightarrow> c \<notin> set p"
  shows "py_split c (py_join [c] xs) = xs"
  using assms
proof (induction xs)
  case Nil
  then show ?case by simp
next
  case (Cons x xs)
  show ?case
  proof (cases "xs = []")
    case True
    with Cons.prems show ?thesis by (simp add: py_split_id)
  next
    case False
    with Cons show ?thesis by (simp add: py_join_Cons py_split_append)
  qed
qed

lemma py_split_set: "p \<in> set (py_split c s) \<Longrightarrow> set p \<subseteq> set s"
proof (induction s arbitrary: p)
  case Nil
  then show ?case by simp
next
  case (Cons x xs)
  obtain y ys where "py_split c xs = y # ys"
    using py_split_nonempty by (metis neq_Nil_conv)
  with Cons show ?case by (fastforce split: if_splits)
qed

lemma length_dropWhile_Suc [termination_simp]: "length (dropWhile P xs) < Suc (length xs)"
  by (simp add: length_dropWhile_le less_Suc_eq_le)

section \<open>Stripping\<close>

text \<open>\<^verbatim>\<open>lstrip\<close>, \<^verbatim>\<open>rstrip\<close> and \<^verbatim>\<open>strip\<close>, with the set of characters to drop as a predicate.\<close>

definition lstrip_by :: "('a \<Rightarrow> bool) \<Rightarrow> 'a list \<Rightarrow> 'a list" where
  "lstrip_by P s = dropWhile P s"

definition rstrip_by :: "('a \<Rightarrow> bool) \<Rightarrow> 'a list \<Rightarrow> 'a list" where
  "rstrip_by P s = rev (dropWhile P (rev s))"

definition strip_by :: "('a \<Rightarrow> bool) \<Rightarrow> 'a list \<Rightarrow> 'a list" where
  "strip_by P s = rstrip_by P (lstrip_by P s)"

lemma rstrip_by_prefix: "\<exists>t. s = rstrip_by P s @ t"
  unfolding rstrip_by_def
  by (metis rev_append rev_rev_ident takeWhile_dropWhile_id)

lemma lstrip_by_suffix: "\<exists>t. s = t @ lstrip_by P s"
  unfolding lstrip_by_def by (metis takeWhile_dropWhile_id)

lemma set_rstrip_by: "set (rstrip_by P s) \<subseteq> set s"
  unfolding rstrip_by_def by (metis set_dropWhileD set_rev subsetI)

lemma set_lstrip_by: "set (lstrip_by P s) \<subseteq> set s"
  unfolding lstrip_by_def by (metis set_dropWhileD subsetI)

lemma set_strip_by: "set (strip_by P s) \<subseteq> set s"
  unfolding strip_by_def using set_rstrip_by set_lstrip_by by fastforce

lemma length_rstrip_by: "length (rstrip_by P s) \<le> length s"
  unfolding rstrip_by_def by (metis length_dropWhile_le length_rev)

lemma length_strip_by: "length (strip_by P s) \<le> length s"
  unfolding strip_by_def lstrip_by_def
  by (meson length_dropWhile_le length_rstrip_by order_trans)

lemma last_rstrip_by: "rstrip_by P s \<noteq> [] \<Longrightarrow> \<not> P (last (rstrip_by P s))"
  unfolding rstrip_by_def by (simp add: last_rev hd_dropWhile)

lemma hd_lstrip_by: "lstrip_by P s \<noteq> [] \<Longrightarrow> \<not> P (hd (lstrip_by P s))"
  unfolding lstrip_by_def by (simp add: hd_dropWhile)

lemma hd_rstrip_by: "rstrip_by P s \<noteq> [] \<Longrightarrow> hd (rstrip_by P s) = hd s"
  by (metis hd_append2 rstrip_by_prefix)

lemma rstrip_by_empty_iff: "rstrip_by P s = [] \<longleftrightarrow> (\<forall>x \<in> set s. P x)"
  unfolding rstrip_by_def by (simp add: dropWhile_eq_Nil_conv)

lemma lstrip_by_empty_iff: "lstrip_by P s = [] \<longleftrightarrow> (\<forall>x \<in> set s. P x)"
  unfolding lstrip_by_def by (simp add: dropWhile_eq_Nil_conv)

lemma strip_by_ends:
  assumes "strip_by P s \<noteq> []"
  shows "\<not> P (hd (strip_by P s))" and "\<not> P (last (strip_by P s))"
proof -
  show "\<not> P (last (strip_by P s))"
    using assms unfolding strip_by_def by (rule last_rstrip_by)
  have "lstrip_by P s \<noteq> []"
    using assms unfolding strip_by_def by (auto simp: rstrip_by_def)
  then show "\<not> P (hd (strip_by P s))"
    using assms unfolding strip_by_def by (simp add: hd_rstrip_by hd_lstrip_by)
qed

lemma strip_by_empty_iff: "strip_by P s = [] \<longleftrightarrow> (\<forall>x \<in> set s. P x)"
proof
  assume "strip_by P s = []"
  then have "\<forall>x \<in> set (lstrip_by P s). P x"
    unfolding strip_by_def by (simp add: rstrip_by_empty_iff)
  then have "lstrip_by P s = []"
    by (metis hd_lstrip_by list.set_sel(1))
  then show "\<forall>x \<in> set s. P x" by (simp add: lstrip_by_empty_iff)
next
  assume "\<forall>x \<in> set s. P x"
  then have "lstrip_by P s = []" by (simp add: lstrip_by_empty_iff)
  then show "strip_by P s = []" by (simp add: strip_by_def rstrip_by_def)
qed

lemma rstrip_by_id: "s = [] \<or> \<not> P (last s) \<Longrightarrow> rstrip_by P s = s"
  unfolding rstrip_by_def by (cases s rule: rev_cases) auto

lemma lstrip_by_id: "s = [] \<or> \<not> P (hd s) \<Longrightarrow> lstrip_by P s = s"
  unfolding lstrip_by_def by (cases s) auto

lemma strip_by_id: "s = [] \<or> \<not> P (hd s) \<and> \<not> P (last s) \<Longrightarrow> strip_by P s = s"
  unfolding strip_by_def by (auto simp: lstrip_by_id rstrip_by_id)

lemma strip_by_idem [simp]: "strip_by P (strip_by P s) = strip_by P s"
  by (cases "strip_by P s = []") (auto intro: strip_by_id dest: strip_by_ends simp: strip_by_ends)

section \<open>Characters\<close>

abbreviation ord_of :: "char \<Rightarrow> nat" where
  "ord_of c \<equiv> of_char c"

text \<open>\<^verbatim>\<open>str.lower\<close> on the characters up to U+00FF.\<close>

definition lower_char :: "char \<Rightarrow> char" where
  "lower_char c =
     (let n = ord_of c
      in if 65 \<le> n \<and> n \<le> 90 \<or> 192 \<le> n \<and> n \<le> 222 \<and> n \<noteq> 215 then char_of (n + 32) else c)"

definition lower :: "string \<Rightarrow> string" where
  "lower s = map lower_char s"

lemma ord_lower_char:
  "ord_of (lower_char c) =
     (if 65 \<le> ord_of c \<and> ord_of c \<le> 90 \<or> 192 \<le> ord_of c \<and> ord_of c \<le> 222 \<and> ord_of c \<noteq> 215
      then ord_of c + 32 else ord_of c)"
  unfolding lower_char_def Let_def by auto

lemma lower_char_idem [simp]: "lower_char (lower_char c) = lower_char c"
proof -
  have "ord_of (lower_char (lower_char c)) = ord_of (lower_char c)"
    unfolding ord_lower_char by auto
  then show ?thesis by (metis of_char_eq_iff)
qed

lemma lower_idem [simp]: "lower (lower s) = lower s"
  by (simp add: lower_def)

lemma length_lower [simp]: "length (lower s) = length s"
  by (simp add: lower_def)

text \<open>\<^verbatim>\<open>str.isspace\<close>: the whitespace that \<^verbatim>\<open>strip()\<close> and \<^verbatim>\<open>split()\<close> act on.\<close>

definition is_space :: "codepoint \<Rightarrow> bool" where
  "is_space n \<longleftrightarrow>
     9 \<le> n \<and> n \<le> 13 \<or> 28 \<le> n \<and> n \<le> 32 \<or> n = 133 \<or> n = 160 \<or> n = 5760 \<or>
     8192 \<le> n \<and> n \<le> 8202 \<or> n = 8232 \<or> n = 8233 \<or> n = 8239 \<or> n = 8287 \<or> n = 12288"

abbreviation space_char :: "char \<Rightarrow> bool" where
  "space_char c \<equiv> is_space (ord_of c)"

abbreviation py_strip :: "string \<Rightarrow> string" where
  "py_strip s \<equiv> strip_by space_char s"

text \<open>The code points of a string literal.\<close>

definition codes :: "string \<Rightarrow> unicode" where
  "codes s = map of_char s"

text \<open>A text between single quotes.\<close>

definition py_quote :: "string \<Rightarrow> string" where
  "py_quote s = [CHR 0x27] @ s @ [CHR 0x27]"

section \<open>Integers as decimal text\<close>

text \<open>\<^verbatim>\<open>str(n)\<close> of an \<^verbatim>\<open>int\<close>.\<close>

definition digit_char :: "nat \<Rightarrow> char" where
  "digit_char d = char_of (48 + d)"

fun show_nat :: "nat \<Rightarrow> string" where
  "show_nat n = (if n < 10 then [digit_char n] else show_nat (n div 10) @ [digit_char (n mod 10)])"

declare show_nat.simps [simp del]

definition show_int :: "int \<Rightarrow> string" where
  "show_int i = (if i < 0 then ''-'' @ show_nat (nat (- i)) else show_nat (nat i))"

lemma show_nat_nonempty [simp]: "show_nat n \<noteq> []"
  by (subst show_nat.simps) simp

lemma show_nat_inj: "show_nat m = show_nat n \<Longrightarrow> m = n"
proof (induction m arbitrary: n rule: less_induct)
  case (less m)
  have digit: "digit_char a = digit_char b \<Longrightarrow> a = b" if "a < 10" "b < 10" for a b
    using that arg_cong[of "digit_char a" "digit_char b" of_char] by (simp add: digit_char_def)
  show ?case
  proof (cases "m < 10 \<or> n < 10")
    case True
    with less.prems show ?thesis
      using digit by (cases "m < 10"; cases "n < 10") (auto simp: show_nat.simps[of m] show_nat.simps[of n] show_nat_nonempty[THEN not_sym])
  next
    case False
    with less.prems have "show_nat (m div 10) = show_nat (n div 10)" "digit_char (m mod 10) = digit_char (n mod 10)"
      by (simp_all add: show_nat.simps[of m] show_nat.simps[of n])
    with less.IH[of "m div 10" "n div 10"] False digit have "m div 10 = n div 10" "m mod 10 = n mod 10" by simp_all
    then show ?thesis by (metis div_mult_mod_eq)
  qed
qed

lemma find_append:
  "find P (xs @ ys) = (case find P xs of None \<Rightarrow> find P ys | Some x \<Rightarrow> Some x)"
  by (induction xs) auto

lemma show_nat_0 [simp]: "show_nat 0 = ''0''"
  by code_simp

end
