(* ===== verification/Enums.thy ===== *)
theory Enums
  imports Prelude
begin

text \<open>
  \<^verbatim>\<open>app/core/enums.py\<close>: the enumerations shared by the database models, the API and the worker.
  Each is a \<^verbatim>\<open>StrEnum\<close>, so a member has a string value, and a value that names no member is
  rejected. Iteration over an enum class is in the order of declaration (\<open>job_status_members\<close>,
  \<open>document_type_members\<close>), which makes it an instance of class \<open>enum\<close>.
\<close>

section \<open>Job status\<close>

datatype job_status = QUEUED | PROCESSING | RETRYING | COMPLETED | FAILED

fun status_value :: "job_status \<Rightarrow> string" where
  "status_value QUEUED = ''queued''"
| "status_value PROCESSING = ''processing''"
| "status_value RETRYING = ''retrying''"
| "status_value COMPLETED = ''completed''"
| "status_value FAILED = ''failed''"

definition job_status_members :: "job_status list" where
  "job_status_members = [QUEUED, PROCESSING, RETRYING, COMPLETED, FAILED]"

lemma job_status_members [simp]: "set job_status_members = UNIV" "distinct job_status_members"
  by (auto simp: job_status_members_def intro: job_status.exhaust)

instantiation job_status :: enum
begin

definition enum_job_status :: "job_status list" where
  "enum_job_status = job_status_members"

definition enum_all_job_status :: "(job_status \<Rightarrow> bool) \<Rightarrow> bool" where
  "enum_all_job_status P = list_all P enum_class.enum"

definition enum_ex_job_status :: "(job_status \<Rightarrow> bool) \<Rightarrow> bool" where
  "enum_ex_job_status P = list_ex P enum_class.enum"

instance
proof
  show univ: "(UNIV :: job_status set) = set enum_class.enum"
    by (simp add: enum_job_status_def)
  show "distinct (enum_class.enum :: job_status list)"
    by (simp add: enum_job_status_def)
  show "enum_class.enum_all P = Ball UNIV P" for P :: "job_status \<Rightarrow> bool"
    by (simp add: enum_all_job_status_def univ list_all_iff)
  show "enum_class.enum_ex P = Bex UNIV P" for P :: "job_status \<Rightarrow> bool"
    by (simp add: enum_ex_job_status_def univ list_ex_iff)
qed

end

definition terminal_statuses :: "job_status set" where
  "terminal_statuses = {COMPLETED, FAILED}"

definition active_statuses :: "job_status set" where
  "active_statuses = {QUEUED, PROCESSING, RETRYING}"

text \<open>States from which a worker is allowed to claim a job.\<close>

definition claimable_statuses :: "job_status set" where
  "claimable_statuses = {QUEUED, RETRYING}"

definition is_terminal :: "job_status \<Rightarrow> bool" where
  "is_terminal s \<longleftrightarrow> s \<in> terminal_statuses"

definition is_active :: "job_status \<Rightarrow> bool" where
  "is_active s \<longleftrightarrow> s \<in> active_statuses"

section \<open>Document types, providers, storage, events\<close>

datatype document_type = INVOICE | RESUME | SUPPORT_TICKET | GENERIC

fun document_type_value :: "document_type \<Rightarrow> string" where
  "document_type_value INVOICE = ''invoice''"
| "document_type_value RESUME = ''resume''"
| "document_type_value SUPPORT_TICKET = ''support_ticket''"
| "document_type_value GENERIC = ''generic''"

definition document_type_members :: "document_type list" where
  "document_type_members = [INVOICE, RESUME, SUPPORT_TICKET, GENERIC]"

lemma document_type_members [simp]: "set document_type_members = UNIV" "distinct document_type_members"
  by (auto simp: document_type_members_def intro: document_type.exhaust)

instantiation document_type :: enum
begin

definition enum_document_type :: "document_type list" where
  "enum_document_type = document_type_members"

definition enum_all_document_type :: "(document_type \<Rightarrow> bool) \<Rightarrow> bool" where
  "enum_all_document_type P = list_all P enum_class.enum"

definition enum_ex_document_type :: "(document_type \<Rightarrow> bool) \<Rightarrow> bool" where
  "enum_ex_document_type P = list_ex P enum_class.enum"

instance
proof
  show univ: "(UNIV :: document_type set) = set enum_class.enum"
    by (simp add: enum_document_type_def)
  show "distinct (enum_class.enum :: document_type list)"
    by (simp add: enum_document_type_def)
  show "enum_class.enum_all P = Ball UNIV P" for P :: "document_type \<Rightarrow> bool"
    by (simp add: enum_all_document_type_def univ list_all_iff)
  show "enum_class.enum_ex P = Bex UNIV P" for P :: "document_type \<Rightarrow> bool"
    by (simp add: enum_ex_document_type_def univ list_ex_iff)
qed

end

datatype llm_provider_name = OPENAI | FAKE

fun llm_provider_value :: "llm_provider_name \<Rightarrow> string" where
  "llm_provider_value OPENAI = ''openai''"
| "llm_provider_value FAKE = ''fake''"

datatype storage_backend = LOCAL

fun storage_backend_value :: "storage_backend \<Rightarrow> string" where
  "storage_backend_value LOCAL = ''local''"

datatype event_type = DOCUMENT_PROCESSING_REQUESTED

fun event_type_value :: "event_type \<Rightarrow> string" where
  "event_type_value DOCUMENT_PROCESSING_REQUESTED = ''document.processing.requested''"

section \<open>Values determine members\<close>

text \<open>\<^verbatim>\<open>JobStatus(value)\<close>: the member with that value, an error (here \<open>None\<close>) when there is none.\<close>

definition status_of_value :: "string \<Rightarrow> job_status option" where
  "status_of_value v = find (\<lambda>s. status_value s = v) job_status_members"

definition document_type_of_value :: "string \<Rightarrow> document_type option" where
  "document_type_of_value v = find (\<lambda>t. document_type_value t = v) document_type_members"

lemma status_value_inj: "status_value a = status_value b \<longleftrightarrow> a = b"
  by (cases a; cases b) auto

lemma document_type_value_inj: "document_type_value a = document_type_value b \<longleftrightarrow> a = b"
  by (cases a; cases b) auto

lemma status_of_value_roundtrip [simp]: "status_of_value (status_value s) = Some s"
  by (cases s) (auto simp: status_of_value_def job_status_members_def)

lemma document_type_of_value_roundtrip [simp]:
  "document_type_of_value (document_type_value t) = Some t"
  by (cases t) (auto simp: document_type_of_value_def document_type_members_def)

lemma status_of_value_Some: "status_of_value v = Some s \<Longrightarrow> status_value s = v"
  by (auto simp: status_of_value_def find_Some_iff)

lemma document_type_of_value_Some: "document_type_of_value v = Some t \<Longrightarrow> document_type_value t = v"
  by (auto simp: document_type_of_value_def find_Some_iff)

section \<open>The three classifications of a status\<close>

lemmas status_sets = terminal_statuses_def active_statuses_def claimable_statuses_def

lemma terminal_xor_active: "is_terminal s \<longleftrightarrow> \<not> is_active s"
  by (cases s) (auto simp: is_terminal_def is_active_def status_sets)

lemma claimable_active: "s \<in> claimable_statuses \<Longrightarrow> is_active s"
  by (auto simp: is_active_def status_sets)

end
