(* ===== verification/Errors.thy ===== *)
theory Errors
  imports Enums
begin

text \<open>
  \<^verbatim>\<open>app/core/exceptions.py\<close>: the exception hierarchy. A class sets some of the four class
  attributes and inherits the others; the model keeps the table as the source writes it (\<open>own_\<dots>\<close>
  and \<open>parent\<close>) and resolves an attribute along the chain of base classes, as Python does.

  Everything the program catches or classifies is an \<open>exc\<close>: one of the application's own errors, or
  an exception of a driver or of the standard library, of which the program looks only at the
  classes it is an instance of and at its text.
\<close>

section \<open>JSON values\<close>

text \<open>What error details, event payloads and extraction results are made of.\<close>

datatype json =
    JNull
  | JBool bool
  | JInt int
  | JFloat rat
  | JStr unicode
  | JList "json list"
  | JObj "(string \<times> json) list"

abbreviation jstr :: "string \<Rightarrow> json" where
  "jstr s \<equiv> JStr (codes s)"

section \<open>The class table\<close>

datatype error_class =
    AppError | RetryableError | NonRetryableError
  | NotFoundError | ConflictError | ValidationFailedError | FileTooLargeError
  | UnsupportedFileTypeError | DependencyUnavailableError
  | StorageError | StoragePathError | TextExtractionError | EmptyDocumentError
  | LLMError | LLMRateLimitError | LLMTimeoutError | LLMProviderError
  | LLMAuthenticationError | LLMResponseValidationError | LLMConfigurationError
  | QueueError | MalformedEventError | InvalidJobTransitionError

fun parent :: "error_class \<Rightarrow> error_class option" where
  "parent AppError = None"
| "parent RetryableError = Some AppError"
| "parent NonRetryableError = Some AppError"
| "parent NotFoundError = Some NonRetryableError"
| "parent ConflictError = Some NonRetryableError"
| "parent ValidationFailedError = Some NonRetryableError"
| "parent FileTooLargeError = Some NonRetryableError"
| "parent UnsupportedFileTypeError = Some NonRetryableError"
| "parent DependencyUnavailableError = Some RetryableError"
| "parent StorageError = Some RetryableError"
| "parent StoragePathError = Some NonRetryableError"
| "parent TextExtractionError = Some NonRetryableError"
| "parent EmptyDocumentError = Some NonRetryableError"
| "parent LLMError = Some AppError"
| "parent LLMRateLimitError = Some LLMError"
| "parent LLMTimeoutError = Some LLMError"
| "parent LLMProviderError = Some LLMError"
| "parent LLMAuthenticationError = Some LLMError"
| "parent LLMResponseValidationError = Some LLMError"
| "parent LLMConfigurationError = Some NonRetryableError"
| "parent QueueError = Some RetryableError"
| "parent MalformedEventError = Some NonRetryableError"
| "parent InvalidJobTransitionError = Some ConflictError"

text \<open>The attributes a class body assigns.\<close>

fun own_code :: "error_class \<Rightarrow> string option" where
  "own_code AppError = Some ''internal_error''"
| "own_code RetryableError = Some ''transient_error''"
| "own_code NonRetryableError = Some ''permanent_error''"
| "own_code NotFoundError = Some ''not_found''"
| "own_code ConflictError = Some ''conflict''"
| "own_code ValidationFailedError = Some ''validation_failed''"
| "own_code FileTooLargeError = Some ''file_too_large''"
| "own_code UnsupportedFileTypeError = Some ''unsupported_file_type''"
| "own_code DependencyUnavailableError = Some ''dependency_unavailable''"
| "own_code StorageError = Some ''storage_error''"
| "own_code StoragePathError = Some ''invalid_storage_path''"
| "own_code TextExtractionError = Some ''text_extraction_failed''"
| "own_code EmptyDocumentError = Some ''empty_document''"
| "own_code LLMError = Some ''llm_error''"
| "own_code LLMRateLimitError = Some ''llm_rate_limited''"
| "own_code LLMTimeoutError = Some ''llm_timeout''"
| "own_code LLMProviderError = Some ''llm_provider_error''"
| "own_code LLMAuthenticationError = Some ''llm_authentication_failed''"
| "own_code LLMResponseValidationError = Some ''llm_invalid_response''"
| "own_code LLMConfigurationError = Some ''llm_not_configured''"
| "own_code QueueError = Some ''queue_error''"
| "own_code MalformedEventError = Some ''malformed_event''"
| "own_code InvalidJobTransitionError = Some ''invalid_job_transition''"

fun own_http_status :: "error_class \<Rightarrow> int option" where
  "own_http_status AppError = Some 500"
| "own_http_status RetryableError = Some 503"
| "own_http_status NonRetryableError = None"
| "own_http_status NotFoundError = Some 404"
| "own_http_status ConflictError = Some 409"
| "own_http_status ValidationFailedError = Some 400"
| "own_http_status FileTooLargeError = Some 413"
| "own_http_status UnsupportedFileTypeError = Some 415"
| "own_http_status DependencyUnavailableError = Some 503"
| "own_http_status StorageError = None"
| "own_http_status StoragePathError = Some 400"
| "own_http_status TextExtractionError = Some 422"
| "own_http_status EmptyDocumentError = Some 422"
| "own_http_status LLMError = Some 502"
| "own_http_status LLMRateLimitError = Some 429"
| "own_http_status LLMTimeoutError = Some 504"
| "own_http_status LLMProviderError = None"
| "own_http_status LLMAuthenticationError = Some 502"
| "own_http_status LLMResponseValidationError = Some 422"
| "own_http_status LLMConfigurationError = Some 503"
| "own_http_status QueueError = None"
| "own_http_status MalformedEventError = Some 400"
| "own_http_status InvalidJobTransitionError = None"

fun own_retryable :: "error_class \<Rightarrow> bool option" where
  "own_retryable AppError = Some False"
| "own_retryable RetryableError = Some True"
| "own_retryable NonRetryableError = Some False"
| "own_retryable LLMRateLimitError = Some True"
| "own_retryable LLMTimeoutError = Some True"
| "own_retryable LLMProviderError = Some True"
| "own_retryable LLMAuthenticationError = Some False"
| "own_retryable LLMResponseValidationError = Some False"
| "own_retryable _ = None"

fun own_default_message :: "error_class \<Rightarrow> string option" where
  "own_default_message AppError = Some ''An unexpected error occurred.''"
| "own_default_message RetryableError =
     Some ''A transient error occurred; the operation will be retried.''"
| "own_default_message NonRetryableError =
     Some ''The operation cannot succeed and will not be retried.''"
| "own_default_message NotFoundError = Some ''Resource not found.''"
| "own_default_message ConflictError =
     Some ''The request conflicts with the current state of the resource.''"
| "own_default_message ValidationFailedError = Some ''The request could not be validated.''"
| "own_default_message FileTooLargeError =
     Some ''The uploaded file exceeds the maximum allowed size.''"
| "own_default_message UnsupportedFileTypeError =
     Some ''The uploaded file type is not supported.''"
| "own_default_message DependencyUnavailableError =
     Some ''A required dependency is unavailable.''"
| "own_default_message StorageError = Some ''The file could not be read from storage.''"
| "own_default_message StoragePathError =
     Some ''The requested storage path is not permitted.''"
| "own_default_message TextExtractionError = Some ''The document could not be parsed.''"
| "own_default_message EmptyDocumentError =
     Some ''No text could be extracted from the document.''"
| "own_default_message LLMError = Some ''The language model request failed.''"
| "own_default_message LLMRateLimitError =
     Some ''The language model provider rate-limited the request.''"
| "own_default_message LLMTimeoutError = Some ''The language model request timed out.''"
| "own_default_message LLMProviderError =
     Some ''The language model provider returned an error.''"
| "own_default_message LLMAuthenticationError =
     Some ''The language model provider rejected the API credentials.''"
| "own_default_message LLMResponseValidationError =
     Some ''The language model returned a response that failed validation.''"
| "own_default_message LLMConfigurationError =
     Some ''The language model provider is not configured.''"
| "own_default_message QueueError = Some ''The message queue is unavailable.''"
| "own_default_message MalformedEventError =
     Some ''The queue message could not be decoded.''"
| "own_default_message InvalidJobTransitionError =
     Some ''The requested job state transition is not allowed.''"

section \<open>Attribute lookup along the base classes\<close>

fun class_depth :: "error_class \<Rightarrow> nat" where
  "class_depth AppError = 0"
| "class_depth RetryableError = 1"
| "class_depth NonRetryableError = 1"
| "class_depth LLMError = 1"
| "class_depth InvalidJobTransitionError = 3"
| "class_depth _ = 2"

lemma parent_depth: "parent c = Some p \<Longrightarrow> class_depth p < class_depth c"
  by (cases c) auto

function resolve :: "(error_class \<Rightarrow> 'a option) \<Rightarrow> error_class \<Rightarrow> 'a option" where
  "resolve own c =
     (case own c of
        Some v \<Rightarrow> Some v
      | None \<Rightarrow> (case parent c of None \<Rightarrow> None | Some p \<Rightarrow> resolve own p))"
  by pat_completeness auto
termination
  by (relation "measure (\<lambda>(own, c). class_depth c)") (auto dest: parent_depth)

function is_subclass :: "error_class \<Rightarrow> error_class \<Rightarrow> bool" where
  "is_subclass c b =
     (c = b \<or> (case parent c of None \<Rightarrow> False | Some p \<Rightarrow> is_subclass p b))"
  by pat_completeness auto
termination
  by (relation "measure (\<lambda>(c, b). class_depth c)") (auto dest: parent_depth)

declare resolve.simps [simp del] is_subclass.simps [simp del]

definition error_code :: "error_class \<Rightarrow> string" where
  "error_code c = (case resolve own_code c of Some s \<Rightarrow> s | None \<Rightarrow> [])"

definition http_status :: "error_class \<Rightarrow> int" where
  "http_status c = (case resolve own_http_status c of Some n \<Rightarrow> n | None \<Rightarrow> 0)"

definition retryable :: "error_class \<Rightarrow> bool" where
  "retryable c = (resolve own_retryable c = Some True)"

definition default_message :: "error_class \<Rightarrow> string" where
  "default_message c = (case resolve own_default_message c of Some s \<Rightarrow> s | None \<Rightarrow> [])"

lemmas class_attributes = error_code_def http_status_def retryable_def default_message_def

section \<open>Error values\<close>

record app_error =
  err_class :: error_class
  err_message :: string
  err_details :: "(string \<times> json) list"

text \<open>\<^verbatim>\<open>AppError.__init__\<close>: an absent or empty message falls back to the class's default.\<close>

definition mk_error :: "error_class \<Rightarrow> string option \<Rightarrow> (string \<times> json) list \<Rightarrow> app_error" where
  "mk_error c msg details =
     \<lparr>err_class = c,
      err_message = (case msg of
                       None \<Rightarrow> default_message c
                     | Some m \<Rightarrow> if m = [] then default_message c else m),
      err_details = details\<rparr>"

text \<open>
  \<^verbatim>\<open>AppError.to_dict\<close>: details only when there are any, the correlation ID only when it is a
  non-empty string.
\<close>

definition to_dict :: "app_error \<Rightarrow> string option \<Rightarrow> json" where
  "to_dict e correlation_id =
     JObj [(''error'',
       JObj ([(''code'', jstr (error_code (err_class e))), (''message'', jstr (err_message e))] @
         (if err_details e \<noteq> [] then [(''details'', JObj (err_details e))] else []) @
         (case correlation_id of
            None \<Rightarrow> []
          | Some cid \<Rightarrow> if cid \<noteq> [] then [(''correlation_id'', jstr cid)] else [])))]"

text \<open>
  Any exception. A foreign one carries the qualified names of its class and base classes, the
  class itself first, and its text.
\<close>

datatype exc =
    AppExc app_error
  | OtherExc (exc_mro: "string list") (exc_text: string)

type_synonym 'a result = "exc + 'a"

abbreviation raise_app :: "error_class \<Rightarrow> string \<Rightarrow> (string \<times> json) list \<Rightarrow> exc" where
  "raise_app c msg details \<equiv> AppExc (mk_error c (Some msg) details)"

text \<open>\<^verbatim>\<open>isinstance(e, C)\<close> for an application class and for a foreign one.\<close>

fun is_app_instance :: "exc \<Rightarrow> error_class \<Rightarrow> bool" where
  "is_app_instance (AppExc e) c = is_subclass (err_class e) c"
| "is_app_instance (OtherExc mro t) c = False"

fun is_foreign_instance :: "exc \<Rightarrow> string \<Rightarrow> bool" where
  "is_foreign_instance (AppExc e) c = False"
| "is_foreign_instance (OtherExc mro t) c = (c \<in> set mro)"

text \<open>\<^verbatim>\<open>type(e).__name__\<close>: the last part of the qualified name.\<close>

definition type_name :: "string list \<Rightarrow> string" where
  "type_name mro = (case mro of [] \<Rightarrow> [] | c # _ \<Rightarrow> last (py_split (CHR ''.'') c))"

section \<open>Facts about the table\<close>

lemma is_subclass_refl [simp]: "is_subclass c c"
  by (simp add: is_subclass.simps)

lemma resolve_own [simp]: "own c = Some v \<Longrightarrow> resolve own c = Some v"
  by (simp add: resolve.simps)

lemma resolve_parent: "own c = None \<Longrightarrow> parent c = Some p \<Longrightarrow> resolve own c = resolve own p"
  by (subst resolve.simps) simp

lemma mk_error_class [simp]: "err_class (mk_error c m d) = c"
  by (simp add: mk_error_def)

lemma is_subclass_AppError: "is_subclass c AppError"
  by (cases c) (simp_all add: is_subclass.simps)

lemma is_subclass_QueueError: "is_subclass c QueueError \<longleftrightarrow> c = QueueError"
  by (cases c) (simp_all add: is_subclass.simps)

lemma retryable_iff:
  "retryable c \<longleftrightarrow>
     c \<in> {RetryableError, DependencyUnavailableError, StorageError, QueueError,
          LLMRateLimitError, LLMTimeoutError, LLMProviderError}"
  by (cases c) (simp_all add: retryable_def resolve.simps)

lemma http_status_values:
  "http_status c \<in> {400, 404, 409, 413, 415, 422, 429, 500, 502, 503, 504}"
  by (cases c) (simp_all add: http_status_def resolve.simps)

lemma error_code_inj: "error_code c = error_code d \<longleftrightarrow> c = d"
  by (cases c; cases d) (simp_all add: error_code_def)

lemma default_message_nonempty: "default_message c \<noteq> []"
  by (cases c) (simp_all add: default_message_def)

lemma mk_error_message_nonempty: "err_message (mk_error c m d) \<noteq> []"
  by (simp add: mk_error_def default_message_nonempty split: option.split)

end
