(* ===== verification/Py_Float.thy ===== *)
theory Py_Float
  imports Prelude
begin

text \<open>
  Python's \<^verbatim>\<open>float\<close> arithmetic, as far as the program uses it: the retry delay, the duration in
  milliseconds, the averages and rates of the metrics and the upload limit in megabytes.

  A finite \<^verbatim>\<open>float\<close> is a rational number; an operation computes the exact result and rounds it to
  the nearest number with 53 significant bits, ties to even (IEEE 754 binary64). \<open>fl\<close> is that
  rounding. The exponent range is not bounded: overflow to \<^verbatim>\<open>inf\<close> and subnormal numbers are outside
  the model, and the one place where the program can meet overflow (\<^verbatim>\<open>float(2**exponent)\<close>) models
  it itself. \<open>round_even\<close> and \<open>py_round\<close> are Python's \<^verbatim>\<open>round\<close> with zero and with given digits.
\<close>

type_synonym py_float = rat

section \<open>Powers of two and the binary exponent\<close>

definition pow2 :: "int \<Rightarrow> rat" where
  "pow2 k = (if 0 \<le> k then 2 ^ nat k else 1 / 2 ^ nat (- k))"

lemma pow2_powi: "pow2 k = 2 powi k"
  by (simp add: pow2_def power_int_def field_simps)

lemma pow2_pos [simp]: "0 < pow2 k"
  by (simp add: pow2_powi)

lemma pow2_nonneg [simp]: "0 \<le> pow2 k"
  by (simp add: less_imp_le)

lemma pow2_not_neg [simp]: "\<not> pow2 k < 0"
  by (simp add: not_less)

lemma pow2_nz [simp]: "pow2 k \<noteq> 0"
  using pow2_pos[of k] by linarith

lemma pow2_add: "pow2 (a + b) = pow2 a * pow2 b"
  by (simp add: pow2_powi power_int_add)

lemma pow2_diff: "pow2 (a - b) = pow2 a / pow2 b"
  by (simp add: pow2_powi power_int_diff)

lemma pow2_Suc: "pow2 (k + 1) = 2 * pow2 k"
  by (simp add: pow2_add) (simp add: pow2_def)

lemma pow2_0 [simp]: "pow2 0 = 1"
  by (simp add: pow2_def)

lemma pow2_mono: "a \<le> b \<Longrightarrow> pow2 a \<le> pow2 b"
  by (simp add: pow2_powi power_int_increasing)

lemma pow2_strict: "a < b \<Longrightarrow> pow2 a < pow2 b"
  by (simp add: pow2_powi power_int_strict_increasing)

lemma pow2_less_imp: "pow2 a < pow2 b \<Longrightarrow> a < b"
  using pow2_mono[of b a] by fastforce

lemma pow2_nat: "pow2 (int n) = 2 ^ n"
  by (simp add: pow2_def)

definition expo :: "rat \<Rightarrow> int" where
  "expo x =
     (case quotient_of x of (n, d) \<Rightarrow>
        let e = bitlen n - bitlen d in if pow2 e \<le> x then e else e - 1)"

lemma bitlen_pow2_bounds:
  assumes "0 < n"
  shows "pow2 (bitlen n - 1) \<le> of_int n" and "of_int n < pow2 (bitlen n)"
proof -
  have b: "0 < bitlen n"
    using bitlen_eq_zero_iff[of n] bitlen_nonneg[of n] assms by linarith
  have 1: "2 ^ nat (bitlen n - 1) \<le> n" and 2: "n < 2 ^ nat (bitlen n)"
    using bitlen_bounds[OF assms] by auto
  from 1 have "(of_int (2 ^ nat (bitlen n - 1)) :: rat) \<le> of_int n" by (simp only: of_int_le_iff)
  with b show "pow2 (bitlen n - 1) \<le> of_int n" by (simp add: pow2_def)
  from 2 have "(of_int n :: rat) < of_int (2 ^ nat (bitlen n))" by (simp only: of_int_less_iff)
  with b show "of_int n < pow2 (bitlen n)" by (simp add: pow2_def)
qed

lemma expo_bounds:
  assumes "0 < x"
  shows "pow2 (expo x) \<le> x" and "x < pow2 (expo x + 1)"
proof -
  obtain n d where q: "quotient_of x = (n, d)" by (cases "quotient_of x") auto
  have d: "0 < d" using quotient_of_denom_pos[OF q] .
  have x: "x = of_int n / of_int d" using quotient_of_div[OF q] .
  have n: "0 < n" using assms d unfolding x by (simp add: zero_less_divide_iff)
  define e where "e = bitlen n - bitlen d"
  have E: "expo x = (if pow2 e \<le> x then e else e - 1)"
    by (simp add: expo_def q e_def Let_def)
  note N = bitlen_pow2_bounds[OF n] and D = bitlen_pow2_bounds[OF d]
  have dp: "(0::rat) < of_int d" using d by simp
  have up: "x < pow2 (e + 1)"
  proof -
    have "x * pow2 (bitlen d - 1) \<le> x * of_int d"
      using D(1) assms by (intro mult_left_mono) auto
    also have "\<dots> = of_int n" using dp by (simp add: x)
    also have "\<dots> < pow2 (bitlen n)" by (rule N(2))
    finally have "x < pow2 (bitlen n) / pow2 (bitlen d - 1)" by (simp add: field_simps)
    also have "\<dots> = pow2 (e + 1)" by (simp add: e_def algebra_simps flip: pow2_diff)
    finally show ?thesis .
  qed
  have lo: "pow2 (e - 1) \<le> x"
  proof -
    have "pow2 (bitlen n - 1) \<le> of_int n" by (rule N(1))
    also have "\<dots> = x * of_int d" using dp by (simp add: x)
    also have "\<dots> \<le> x * pow2 (bitlen d)" using D(2) assms by (intro mult_left_mono) auto
    finally have "pow2 (bitlen n - 1) / pow2 (bitlen d) \<le> x" by (simp add: field_simps)
    then show ?thesis by (simp add: e_def algebra_simps flip: pow2_diff)
  qed
  show "pow2 (expo x) \<le> x" using lo by (simp add: E)
  show "x < pow2 (expo x + 1)" using up by (auto simp: E)
qed

lemma expo_unique:
  assumes "pow2 e \<le> x" and "x < pow2 (e + 1)"
  shows "expo x = e"
proof -
  have "0 < x" using assms(1) pow2_pos[of e] by linarith
  note b = expo_bounds[OF this]
  have "pow2 e < pow2 (expo x + 1)" using assms(1) b(2) by linarith
  then have "e < expo x + 1" by (rule pow2_less_imp)
  moreover have "pow2 (expo x) < pow2 (e + 1)" using assms(2) b(1) by linarith
  then have "expo x < e + 1" by (rule pow2_less_imp)
  ultimately show ?thesis by simp
qed

lemma expo_mono:
  assumes "0 < x" "x \<le> y"
  shows "expo x \<le> expo y"
proof -
  have "0 < y" using assms by linarith
  have "pow2 (expo x) < pow2 (expo y + 1)"
    using expo_bounds(1)[OF assms(1)] expo_bounds(2)[OF \<open>0 < y\<close>] assms(2) by linarith
  then have "expo x < expo y + 1" by (rule pow2_less_imp)
  then show ?thesis by simp
qed

lemma expo_scale: "0 < x \<Longrightarrow> expo (x * pow2 k) = expo x + k"
  using expo_bounds[of x] by (intro expo_unique) (simp_all add: pow2_add mult.assoc mult.commute)

section \<open>Rounding to an integer, ties to even\<close>

definition round_even :: "rat \<Rightarrow> int" where
  "round_even x =
     (let f = \<lfloor>x\<rfloor>; r = x - of_int f
      in if r < 1 / 2 then f else if 1 / 2 < r then f + 1 else if even f then f else f + 1)"

lemma round_even_of_int [simp]: "round_even (of_int n) = n"
  by (simp add: round_even_def)

lemma round_even_floor: "round_even x = \<lfloor>x\<rfloor> \<or> round_even x = \<lfloor>x\<rfloor> + 1"
  by (simp add: round_even_def Let_def)

lemma round_even_mono: "x \<le> y \<Longrightarrow> round_even x \<le> round_even y"
proof -
  assume xy: "x \<le> y"
  show ?thesis
  proof (cases "\<lfloor>x\<rfloor> = \<lfloor>y\<rfloor>")
    case True
    with xy show ?thesis by (auto simp: round_even_def Let_def)
  next
    case False
    with floor_mono[OF xy] have "\<lfloor>x\<rfloor> + 1 \<le> \<lfloor>y\<rfloor>" by linarith
    with round_even_floor[of x] round_even_floor[of y] show ?thesis by linarith
  qed
qed

lemma round_even_error: "\<bar>of_int (round_even x) - x\<bar> \<le> 1 / 2"
proof -
  have "of_int \<lfloor>x\<rfloor> \<le> x" "x < of_int \<lfloor>x\<rfloor> + 1" by linarith+
  then show ?thesis by (auto simp: round_even_def Let_def)
qed

section \<open>Rounding to a float\<close>

definition fl_pos :: "rat \<Rightarrow> rat" where
  "fl_pos x = (let u = pow2 (expo x - 52) in of_int (round_even (x / u)) * u)"

definition fl :: "rat \<Rightarrow> py_float" where
  "fl x = (if x = 0 then 0 else if 0 < x then fl_pos x else - fl_pos (- x))"

lemma fl_0 [simp]: "fl 0 = 0"
  by (simp add: fl_def)

lemma fl_minus: "fl (- x) = - fl x"
  by (simp add: fl_def)

lemma mantissa_bounds:
  assumes "0 < x"
  shows "pow2 52 \<le> x / pow2 (expo x - 52)" and "x / pow2 (expo x - 52) < pow2 53"
proof -
  have "pow2 52 * pow2 (expo x - 52) = pow2 (expo x)" by (simp flip: pow2_add)
  with expo_bounds(1)[OF assms] show "pow2 52 \<le> x / pow2 (expo x - 52)"
    by (simp add: pos_le_divide_eq)
  have "pow2 53 * pow2 (expo x - 52) = pow2 (expo x + 1)"
    by (simp add: algebra_simps flip: pow2_add)
  with expo_bounds(2)[OF assms] show "x / pow2 (expo x - 52) < pow2 53"
    by (simp add: pos_divide_less_eq)
qed

lemma fl_pos_bounds:
  assumes "0 < x"
  shows "pow2 (expo x) \<le> fl_pos x" and "fl_pos x \<le> pow2 (expo x + 1)"
proof -
  let ?u = "pow2 (expo x - 52)"
  have 52: "pow2 52 = of_int (2 ^ 52)" and 53: "pow2 53 = of_int (2 ^ 53)" by (simp_all add: pow2_def)
  have "round_even (pow2 52) \<le> round_even (x / ?u)"
    by (intro round_even_mono mantissa_bounds assms)
  then have lo: "pow2 52 \<le> of_int (round_even (x / ?u))"
    unfolding 52 round_even_of_int by (simp only: of_int_le_iff)
  have "round_even (x / ?u) \<le> round_even (pow2 53)"
    by (intro round_even_mono less_imp_le mantissa_bounds assms)
  then have hi: "of_int (round_even (x / ?u)) \<le> pow2 53"
    unfolding 53 round_even_of_int by (simp only: of_int_le_iff)
  have "pow2 52 * ?u \<le> of_int (round_even (x / ?u)) * ?u"
    by (intro mult_right_mono lo) simp
  then show "pow2 (expo x) \<le> fl_pos x" by (simp add: fl_pos_def Let_def flip: pow2_add)
  have "of_int (round_even (x / ?u)) * ?u \<le> pow2 53 * ?u"
    by (intro mult_right_mono hi) simp
  then show "fl_pos x \<le> pow2 (expo x + 1)"
    by (simp add: fl_pos_def Let_def algebra_simps flip: pow2_add)
qed

lemma fl_pos_pos: "0 < x \<Longrightarrow> 0 < fl_pos x"
  using fl_pos_bounds(1)[of x] pow2_pos[of "expo x"] by linarith

lemma fl_pos_mono:
  assumes "0 < x" "x \<le> y"
  shows "fl_pos x \<le> fl_pos y"
proof (cases "expo x = expo y")
  case True
  have "x / pow2 (expo y - 52) \<le> y / pow2 (expo y - 52)"
    using assms(2) by (simp add: divide_right_mono)
  then have "round_even (x / pow2 (expo y - 52)) \<le> round_even (y / pow2 (expo y - 52))"
    by (rule round_even_mono)
  then show ?thesis by (simp add: fl_pos_def True Let_def)
next
  case False
  with expo_mono[OF assms] have "expo x + 1 \<le> expo y" by simp
  then have "pow2 (expo x + 1) \<le> pow2 (expo y)" by (rule pow2_mono)
  moreover have "0 < y" using assms by linarith
  ultimately show ?thesis
    using fl_pos_bounds(2)[OF assms(1)] fl_pos_bounds(1)[OF \<open>0 < y\<close>] by linarith
qed

lemma fl_mono: "x \<le> y \<Longrightarrow> fl x \<le> fl y"
  using fl_pos_mono[of x y] fl_pos_mono[of "- y" "- x"] fl_pos_pos[of "- x"] fl_pos_pos[of y]
    fl_pos_pos[of x] fl_pos_pos[of "- y"]
  by (auto simp: fl_def)

lemma fl_nonneg [intro]: "0 \<le> x \<Longrightarrow> 0 \<le> fl x"
  using fl_mono[of 0 x] by simp

lemma fl_pos_error:
  assumes "0 < x"
  shows "\<bar>fl_pos x - x\<bar> \<le> pow2 (expo x - 53)"
proof -
  let ?u = "pow2 (expo x - 52)"
  have u: "pow2 (expo x - 53) = ?u / 2"
    using pow2_Suc[of "expo x - 53"] by simp
  have "\<bar>of_int (round_even (x / ?u)) - x / ?u\<bar> * ?u \<le> 1 / 2 * ?u"
    by (intro mult_right_mono round_even_error) simp
  moreover have "\<bar>of_int (round_even (x / ?u)) - x / ?u\<bar> * ?u
      = \<bar>(of_int (round_even (x / ?u)) - x / ?u) * ?u\<bar>"
    by (simp add: abs_mult)
  then have "\<bar>of_int (round_even (x / ?u)) - x / ?u\<bar> * ?u = \<bar>fl_pos x - x\<bar>"
    by (simp add: fl_pos_def Let_def left_diff_distrib)
  ultimately show ?thesis by (simp add: u)
qed

text \<open>The relative error of one operation is at most half a unit in the last place.\<close>

lemma fl_error: "\<bar>fl x - x\<bar> \<le> \<bar>x\<bar> / 2 ^ 53"
proof -
  have *: "\<bar>fl_pos y - y\<bar> \<le> y / 2 ^ 53" if "0 < y" for y
  proof -
    have "pow2 (expo y - 53) = pow2 (expo y) / 2 ^ 53" by (simp add: pow2_diff) (simp add: pow2_def)
    with fl_pos_error[OF that] expo_bounds(1)[OF that] show ?thesis
      by (simp add: field_simps)
  qed
  consider "x = 0" | "0 < x" | "0 < - x" by linarith
  then show ?thesis
  proof cases
    case 3
    have "\<bar>fl x - x\<bar> = \<bar>fl_pos (- x) - - x\<bar>" using 3 by (simp add: fl_def abs_minus_commute)
    also have "\<dots> \<le> - x / 2 ^ 53" by (rule *[OF 3])
    finally show ?thesis using 3 by simp
  qed (use *[of x] in \<open>auto simp: fl_def\<close>)
qed

section \<open>Numbers that are floats\<close>

definition is_fl :: "rat \<Rightarrow> bool" where
  "is_fl x \<longleftrightarrow> fl x = x"

lemma fl_pos_exact:
  assumes "0 < m" "m < 2 ^ 53"
  shows "fl_pos (of_int m * pow2 k) = of_int m * pow2 k"
proof -
  let ?x = "of_int m * pow2 k :: rat"
  have pos: "0 < ?x" using assms by simp
  have ex: "expo ?x = expo (of_int m) + k" using assms by (simp add: expo_scale)
  have "pow2 (expo (of_int m)) \<le> of_int m" using assms by (intro expo_bounds) simp
  also have "(of_int m :: rat) < pow2 53" using assms by (simp add: pow2_def)
  finally have "expo (of_int m) < 53" by (rule pow2_less_imp)
  then have e: "0 \<le> 52 - expo (of_int m)" by simp
  have "?x / pow2 (expo ?x - 52) = of_int m * (pow2 k / pow2 (expo (of_int m) + k - 52))"
    by (simp add: ex)
  also have "pow2 k / pow2 (expo (of_int m) + k - 52) = pow2 (52 - expo (of_int m))"
    by (simp add: algebra_simps flip: pow2_diff)
  also have "pow2 (52 - expo (of_int m)) = of_int (2 ^ nat (52 - expo (of_int m)))"
    using e by (simp add: pow2_def)
  also have "of_int m * of_int (2 ^ nat (52 - expo (of_int m))) = (of_int (m * 2 ^ nat (52 - expo (of_int m))) :: rat)"
    by simp
  finally have "of_int (round_even (?x / pow2 (expo ?x - 52))) = ?x / pow2 (expo ?x - 52)"
    by (simp only: round_even_of_int)
  then show ?thesis by (simp add: fl_pos_def Let_def)
qed

lemma is_fl_of_int:
  assumes "\<bar>m\<bar> < 2 ^ 53"
  shows "is_fl (of_int m)"
  using fl_pos_exact[of m 0] fl_pos_exact[of "- m" 0] assms by (auto simp: is_fl_def fl_def)

lemma fl_pos_scale: "0 < x \<Longrightarrow> fl_pos (x * pow2 k) = fl_pos x * pow2 k"
  by (simp add: fl_pos_def expo_scale Let_def pow2_diff pow2_add)

lemma fl_scale: "fl (x * pow2 k) = fl x * pow2 k"
proof -
  have "0 < x * pow2 k \<longleftrightarrow> 0 < x" by (simp add: zero_less_mult_iff)
  then show ?thesis
    using fl_pos_scale[of x k] fl_pos_scale[of "- x" k] by (auto simp: fl_def)
qed

lemma is_fl_scale: "is_fl x \<Longrightarrow> is_fl (x * pow2 k)"
  by (simp add: is_fl_def fl_scale)

lemma fl_pos_is_fl:
  assumes "0 < x"
  shows "is_fl (fl_pos x)"
proof -
  let ?u = "pow2 (expo x - 52)"
  let ?m = "round_even (x / ?u)"
  have f: "fl_pos x = of_int ?m * ?u" by (simp add: fl_pos_def Let_def)
  have pos: "0 < fl_pos x" using assms by (rule fl_pos_pos)
  show ?thesis
  proof (cases "fl_pos x = pow2 (expo x + 1)")
    case True
    have "is_fl (of_int 1 * pow2 (expo x + 1))"
      by (intro is_fl_scale is_fl_of_int) simp
    with True show ?thesis by simp
  next
    case False
    with fl_pos_bounds(2)[OF assms] have "of_int ?m * ?u < pow2 53 * ?u"
      by (simp add: f algebra_simps flip: pow2_add)
    then have "(of_int ?m :: rat) < pow2 53" by (rule mult_right_less_imp_less) simp
    then have "(of_int ?m :: rat) < of_int (2 ^ 53)" by (simp add: pow2_def)
    then have "?m < 2 ^ 53" by (simp only: of_int_less_iff)
    moreover have "0 < ?m" using pos unfolding f by (simp add: zero_less_mult_iff)
    ultimately have "\<bar>?m\<bar> < 2 ^ 53" by simp
    then show ?thesis unfolding f by (intro is_fl_scale is_fl_of_int)
  qed
qed

lemma is_fl_minus: "is_fl (- x) \<longleftrightarrow> is_fl x"
  by (simp add: is_fl_def fl_minus)

lemma is_fl_fl [simp]: "is_fl (fl x)"
  using fl_pos_is_fl[of x] fl_pos_is_fl[of "- x"]
  by (auto simp: fl_def is_fl_minus) (simp add: is_fl_def)

lemma fl_fl [simp]: "fl (fl x) = fl x"
  using is_fl_fl unfolding is_fl_def .

lemma fl_le_float: "x \<le> y \<Longrightarrow> is_fl y \<Longrightarrow> fl x \<le> y"
  using fl_mono[of x y] by (simp add: is_fl_def)

lemma float_le_fl: "x \<le> y \<Longrightarrow> is_fl x \<Longrightarrow> x \<le> fl y"
  using fl_mono[of x y] by (simp add: is_fl_def)

lemma is_fl_double: "is_fl x \<Longrightarrow> is_fl (2 * x)"
  using is_fl_scale[of x 1] by (simp add: pow2_def mult.commute)

section \<open>Python's round\<close>

text \<open>\<^verbatim>\<open>round(x, n)\<close> for a float: the exact value to \<open>n\<close> decimals, ties to even, then to a float.\<close>

definition py_round :: "py_float \<Rightarrow> nat \<Rightarrow> py_float" where
  "py_round x n = fl (of_int (round_even (x * 10 ^ n)) / 10 ^ n)"

text \<open>\<^verbatim>\<open>a / b\<close> of two integers, and \<^verbatim>\<open>int(x)\<close> of a float, which truncates towards zero.\<close>

definition py_div_int :: "int \<Rightarrow> int \<Rightarrow> py_float" where
  "py_div_int a b = fl (of_int a / of_int b)"

definition py_int :: "py_float \<Rightarrow> int" where
  "py_int x = (if 0 \<le> x then \<lfloor>x\<rfloor> else \<lceil>x\<rceil>)"

lemma py_int_nonneg: "0 \<le> x \<Longrightarrow> 0 \<le> py_int x"
  by (simp add: py_int_def)

lemma py_int_mono: "x \<le> y \<Longrightarrow> py_int x \<le> py_int y"
proof -
  assume xy: "x \<le> y"
  show ?thesis
  proof (cases "0 \<le> x \<or> y < 0")
    case True
    with xy show ?thesis by (auto simp: py_int_def floor_mono ceiling_mono)
  next
    case False
    then have "\<lceil>x\<rceil> \<le> 0" "0 \<le> \<lfloor>y\<rfloor>" by (auto simp: ceiling_le_iff)
    then have "\<lceil>x\<rceil> \<le> \<lfloor>y\<rfloor>" by linarith
    with False show ?thesis by (auto simp: py_int_def)
  qed
qed

end
