(* ===== verification/Models.thy ===== *)
theory Models
  imports Errors Py_Float "HOL-Library.Char_ord" "HOL-Library.List_Lexorder" "HOL-Library.Product_Lexorder"
begin

text \<open>
  \<^verbatim>\<open>app/db/models\<close>: the three tables of the pipeline and the state of the database.

  A table is the list of its rows, in no particular order. The constraints the models declare
  (primary keys, \<^verbatim>\<open>unique=True\<close>, foreign keys) are enforced where rows are inserted and are
  collected in \<open>db_ok\<close>. \<^verbatim>\<open>app/core/time.py\<close> is here too: the columns it fills are here.
\<close>

section \<open>Rows\<close>

record document =
  doc_id :: uuid
  doc_original_filename :: string
  doc_stored_filename :: string
  doc_content_type :: string
  doc_file_size :: int
  doc_storage_path :: string
  doc_checksum :: string
  doc_requested_document_type :: "document_type option"
  doc_created_at :: time

record job =
  job_id :: uuid
  job_document_id :: uuid
  job_status :: job_status
  job_retry_count :: int
  job_max_retries :: int
  job_error_message :: "string option"
  job_queued_at :: time
  job_started_at :: "time option"
  job_completed_at :: "time option"
  job_processing_duration_ms :: "int option"
  job_consumer_name :: "string option"
  job_created_at :: time
  job_updated_at :: time

record extraction_result =
  res_id :: uuid
  res_job_id :: uuid
  res_detected_document_type :: document_type
  res_extracted_data :: json
  res_raw_text :: "unicode option"
  res_model_provider :: string
  res_model_name :: string
  res_prompt_version :: string
  res_input_tokens :: "int option"
  res_output_tokens :: "int option"
  res_confidence_score :: "py_float option"
  res_created_at :: time

text \<open>\<^verbatim>\<open>ProcessingJob.attempts_remaining\<close>.\<close>

definition attempts_remaining :: "job \<Rightarrow> int" where
  "attempts_remaining j = max 0 (job_max_retries j - job_retry_count j)"

text \<open>\<^verbatim>\<open>StoredFile\<close> of \<^verbatim>\<open>app/services/file_storage.py\<close>: what storing an upload returns.\<close>

record stored_file =
  sf_stored_filename :: string
  sf_storage_path :: string
  sf_size :: int
  sf_checksum :: string

section \<open>The database\<close>

record db =
  db_documents :: "document list"
  db_jobs :: "job list"
  db_results :: "extraction_result list"

definition find_job :: "uuid \<Rightarrow> db \<Rightarrow> job option" where
  "find_job i d = find (\<lambda>r. job_id r = i) (db_jobs d)"

definition find_document :: "uuid \<Rightarrow> db \<Rightarrow> document option" where
  "find_document i d = find (\<lambda>r. doc_id r = i) (db_documents d)"

text \<open>The result of a job: the relationship \<^verbatim>\<open>ProcessingJob.result\<close> (\<^verbatim>\<open>uselist=False\<close>).\<close>

definition find_result :: "uuid \<Rightarrow> db \<Rightarrow> extraction_result option" where
  "find_result i d = find (\<lambda>r. res_job_id r = i) (db_results d)"

text \<open>\<^verbatim>\<open>UPDATE \<dots> SET f WHERE P\<close>.\<close>

definition update_rows :: "('a \<Rightarrow> bool) \<Rightarrow> ('a \<Rightarrow> 'a) \<Rightarrow> 'a list \<Rightarrow> 'a list" where
  "update_rows P f rows = map (\<lambda>r. if P r then f r else r) rows"

section \<open>Constraints\<close>

text \<open>
  Primary keys, the unique constraints on \<^verbatim>\<open>documents.stored_filename\<close> and
  \<^verbatim>\<open>extraction_results.job_id\<close>, and the two foreign keys.
\<close>

definition db_ok :: "db \<Rightarrow> bool" where
  "db_ok d \<longleftrightarrow>
     distinct (map doc_id (db_documents d)) \<and>
     distinct (map doc_stored_filename (db_documents d)) \<and>
     distinct (map job_id (db_jobs d)) \<and>
     distinct (map res_id (db_results d)) \<and>
     distinct (map res_job_id (db_results d)) \<and>
     job_document_id ` set (db_jobs d) \<subseteq> doc_id ` set (db_documents d) \<and>
     res_job_id ` set (db_results d) \<subseteq> job_id ` set (db_jobs d)"

section \<open>Time\<close>

text \<open>
  \<^verbatim>\<open>elapsed_ms\<close>: \<^verbatim>\<open>delta.total_seconds()\<close> is the float nearest to the microseconds divided by
  \<open>10 ^ 6\<close>; it is multiplied by 1000 as a float, truncated, and never negative.
\<close>

definition total_seconds :: "int \<Rightarrow> py_float" where
  "total_seconds us = fl (of_int us / 10 ^ 6)"

definition elapsed_ms :: "time \<Rightarrow> time \<Rightarrow> int" where
  "elapsed_ms start finish = max 0 (py_int (fl (total_seconds (finish - start) * 1000)))"

section \<open>Lemmas on rows\<close>

lemma find_job_Some: "find_job i d = Some j \<Longrightarrow> j \<in> set (db_jobs d) \<and> job_id j = i"
  unfolding find_job_def by (auto simp: find_Some_iff)

lemma find_job_None_iff: "find_job i d = None \<longleftrightarrow> i \<notin> job_id ` set (db_jobs d)"
  unfolding find_job_def by (auto simp: find_None_iff)

lemma find_result_Some: "find_result i d = Some r \<Longrightarrow> r \<in> set (db_results d) \<and> res_job_id r = i"
  unfolding find_result_def by (auto simp: find_Some_iff)

lemma find_result_None_iff: "find_result i d = None \<longleftrightarrow> i \<notin> res_job_id ` set (db_results d)"
  unfolding find_result_def by (auto simp: find_None_iff)

lemma find_distinct_key:
  assumes "distinct (map k xs)" and "x \<in> set xs"
  shows "find (\<lambda>y. k y = k x) xs = Some x"
  using assms by (induction xs) auto

lemma find_job_in: "db_ok d \<Longrightarrow> j \<in> set (db_jobs d) \<Longrightarrow> find_job (job_id j) d = Some j"
  unfolding find_job_def db_ok_def by (rule find_distinct_key) auto

lemma find_update_rows:
  assumes "\<And>r. k (f r) = k r"
  shows "find (\<lambda>r. k r = i) (update_rows P f rows) =
    map_option (\<lambda>r. if P r then f r else r) (find (\<lambda>r. k r = i) rows)"
  using assms by (induction rows) (auto simp: update_rows_def)

lemma map_key_update_rows:
  "(\<And>r. P r \<Longrightarrow> k (f r) = k r) \<Longrightarrow> map k (update_rows P f rows) = map k rows"
  by (auto simp: update_rows_def)

lemma set_update_rows: "set (update_rows P f rows) = (\<lambda>r. if P r then f r else r) ` set rows"
  by (simp add: update_rows_def)

lemma length_update_rows [simp]: "length (update_rows P f rows) = length rows"
  by (simp add: update_rows_def)

lemma filter_key_distinct:
  "distinct (map k xs) \<Longrightarrow>
     filter (\<lambda>x. k x = i \<and> Q x) xs =
     (case find (\<lambda>x. k x = i) xs of None \<Rightarrow> [] | Some x \<Rightarrow> if Q x then [x] else [])"
proof (induction xs)
  case Nil
  then show ?case by simp
next
  case (Cons x xs)
  show ?case
  proof (cases "k x = i")
    case True
    with Cons.prems have no: "\<forall>y \<in> set xs. k y \<noteq> i" by (auto simp: image_iff)
    then have "filter (\<lambda>x. k x = i \<and> Q x) xs = []" by (simp add: filter_empty_conv)
    with True show ?thesis by simp
  next
    case False
    with Cons show ?thesis by simp
  qed
qed

section \<open>The duration of a job\<close>

lemma elapsed_ms_nonneg: "0 \<le> elapsed_ms a b"
  by (simp add: elapsed_ms_def)

lemma elapsed_ms_backwards: "b \<le> a \<Longrightarrow> elapsed_ms a b = 0"
proof -
  assume "b \<le> a"
  then have "total_seconds (b - a) \<le> 0"
    unfolding total_seconds_def using fl_mono[of "of_int (b - a) / 10 ^ 6" 0]
    by (simp add: divide_le_0_iff)
  then have "fl (total_seconds (b - a) * 1000) \<le> 0"
    using fl_mono[of "total_seconds (b - a) * 1000" 0] by simp
  from py_int_mono[OF this] show ?thesis by (simp add: elapsed_ms_def py_int_def)
qed

lemma elapsed_ms_mono: "b \<le> c \<Longrightarrow> elapsed_ms a b \<le> elapsed_ms a c"
proof -
  assume "b \<le> c"
  then have "total_seconds (b - a) \<le> total_seconds (c - a)"
    unfolding total_seconds_def by (intro fl_mono) (simp add: divide_right_mono)
  then have "fl (total_seconds (b - a) * 1000) \<le> fl (total_seconds (c - a) * 1000)"
    by (intro fl_mono) simp
  from py_int_mono[OF this] show ?thesis by (simp add: elapsed_ms_def)
qed

end
