(* ===== verification/World.thy ===== *)
theory World
  imports Models
begin

text \<open>
  The state an operation of the program runs in, and the calls that reach outside the program.

  A \<open>world\<close> holds the database, the state of Redis, of the language-model provider and of the file
  store (three type parameters: their code is not in the repository or is behind an interface), and
  the sources of everything the program does not determine: the clock, fresh UUIDs, random numbers,
  the outcome of every call to the database, and what other processes do to the database meanwhile.
  These sources are arbitrary; theorems quantify over them.

  Every awaited database call is a point where others may act: it first applies one function from
  \<open>w_others\<close> (the commits of other workers and of the API since the last call), then takes one \<open>fault\<close>
  from \<open>w_faults\<close>: the call succeeds, or raises before it took effect, or raises although it took
  effect (a commit whose acknowledgement is lost).
\<close>

datatype fault = NoFault | FailBefore exc | FailAfter exc

record ('r, 'p, 'f) world =
  w_db :: db
  w_redis :: 'r
  w_provider :: 'p
  w_files :: 'f
  w_now :: time
  w_times :: "time list"
  w_uuid :: "nat \<Rightarrow> uuid"
  w_uuid_next :: nat
  w_randoms :: "py_float list"
  w_others :: "(db \<Rightarrow> db) list"
  w_faults :: "fault list"

section \<open>Clock, identifiers, random numbers\<close>

definition utcnow :: "('r, 'p, 'f) world \<Rightarrow> time \<times> ('r, 'p, 'f) world" where
  "utcnow w =
     (case w_times w of
        [] \<Rightarrow> (w_now w, w)
      | t # ts \<Rightarrow> (t, w\<lparr>w_now := t, w_times := ts\<rparr>))"

definition uuid4 :: "('r, 'p, 'f) world \<Rightarrow> uuid \<times> ('r, 'p, 'f) world" where
  "uuid4 w = (w_uuid w (w_uuid_next w), w\<lparr>w_uuid_next := Suc (w_uuid_next w)\<rparr>)"

definition random01 :: "('r, 'p, 'f) world \<Rightarrow> py_float \<times> ('r, 'p, 'f) world" where
  "random01 w =
     (case w_randoms w of
        [] \<Rightarrow> (0, w)
      | x # xs \<Rightarrow> (x, w\<lparr>w_randoms := xs\<rparr>))"

section \<open>Database calls\<close>

definition interfere :: "('r, 'p, 'f) world \<Rightarrow> ('r, 'p, 'f) world" where
  "interfere w =
     (case w_others w of
        [] \<Rightarrow> w
      | g # gs \<Rightarrow> w\<lparr>w_db := g (w_db w), w_others := gs\<rparr>)"

definition next_fault :: "('r, 'p, 'f) world \<Rightarrow> fault \<times> ('r, 'p, 'f) world" where
  "next_fault w =
     (case w_faults w of
        [] \<Rightarrow> (NoFault, w)
      | f # fs \<Rightarrow> (f, w\<lparr>w_faults := fs\<rparr>))"

text \<open>A call that reads the database, or has no effect on it.\<close>

definition db_read ::
  "(db \<Rightarrow> 'a result) \<Rightarrow> ('r, 'p, 'f) world \<Rightarrow> 'a result \<times> ('r, 'p, 'f) world" where
  "db_read f w =
     (case next_fault (interfere w) of (x, w') \<Rightarrow>
        (case x of
           NoFault \<Rightarrow> (f (w_db w'), w')
         | FailBefore e \<Rightarrow> (Inl e, w')
         | FailAfter e \<Rightarrow> (Inl e, w')))"

text \<open>A transaction's commit: \<open>f\<close> computes the new database or the error the database raises.\<close>

definition db_write ::
  "(db \<Rightarrow> db result) \<Rightarrow> ('r, 'p, 'f) world \<Rightarrow> unit result \<times> ('r, 'p, 'f) world" where
  "db_write f w =
     (case next_fault (interfere w) of (x, w') \<Rightarrow>
        (case x of
           FailBefore e \<Rightarrow> (Inl e, w')
         | NoFault \<Rightarrow>
             (case f (w_db w') of Inl e \<Rightarrow> (Inl e, w') | Inr d \<Rightarrow> (Inr (), w'\<lparr>w_db := d\<rparr>))
         | FailAfter e \<Rightarrow>
             (case f (w_db w') of Inl e' \<Rightarrow> (Inl e', w') | Inr d \<Rightarrow> (Inl e, w'\<lparr>w_db := d\<rparr>))))"

text \<open>
  The commit of a transaction whose earlier statement locked the rows it matched: nobody else can
  have changed them since, so no interference is applied (what others do to other rows in between
  can as well be done at the next call).
\<close>

definition commit_locked ::
  "(db \<Rightarrow> db) \<Rightarrow> ('r, 'p, 'f) world \<Rightarrow> unit result \<times> ('r, 'p, 'f) world" where
  "commit_locked f w =
     (case next_fault w of (x, w') \<Rightarrow>
        (case x of
           NoFault \<Rightarrow> (Inr (), w'\<lparr>w_db := f (w_db w')\<rparr>)
         | FailBefore e \<Rightarrow> (Inl e, w')
         | FailAfter e \<Rightarrow> (Inl e, w'\<lparr>w_db := f (w_db w')\<rparr>)))"

section \<open>What these calls leave alone\<close>

text \<open>Everything a call to the database cannot touch.\<close>

definition same_outside :: "('r, 'p, 'f) world \<Rightarrow> ('r, 'p, 'f) world \<Rightarrow> bool" where
  "same_outside w w' \<longleftrightarrow>
     w_redis w' = w_redis w \<and> w_provider w' = w_provider w \<and> w_files w' = w_files w \<and>
     w_randoms w' = w_randoms w \<and> w_uuid w' = w_uuid w"

lemma same_outside_refl [simp]: "same_outside w w"
  by (simp add: same_outside_def)

lemma same_outside_trans [trans]: "same_outside u v \<Longrightarrow> same_outside v w \<Longrightarrow> same_outside u w"
  by (simp add: same_outside_def)

lemma utcnow_frame [frame]:
  "utcnow w = (t, w') \<Longrightarrow> same_outside w w' \<and> w_db w' = w_db w \<and> w_others w' = w_others w \<and>
     w_faults w' = w_faults w"
  by (auto simp: utcnow_def same_outside_def split: list.splits)

lemma uuid4_frame [frame]:
  "uuid4 w = (i, w') \<Longrightarrow> same_outside w w' \<and> w_db w' = w_db w \<and> w_others w' = w_others w \<and>
     w_faults w' = w_faults w"
  by (auto simp: uuid4_def same_outside_def)

lemma random01_frame [frame]:
  "random01 w = (x, w') \<Longrightarrow> w_db w' = w_db w \<and> w_others w' = w_others w \<and> w_faults w' = w_faults w \<and>
     w_redis w' = w_redis w \<and> w_provider w' = w_provider w \<and> w_files w' = w_files w"
  by (auto simp: random01_def split: list.splits)

lemma next_fault_frame:
  "next_fault w = (x, w') \<Longrightarrow> same_outside w w' \<and> w_db w' = w_db w \<and> w_others w' = w_others w"
  by (auto simp: next_fault_def same_outside_def split: list.splits)

lemma interfere_frame: "same_outside w (interfere w)"
  by (simp add: interfere_def same_outside_def split: list.split)

lemma db_read_frame [frame]: "db_read f w = (r, w') \<Longrightarrow> same_outside w w'"
  using interfere_frame[of w]
  by (auto simp: db_read_def dest!: next_fault_frame intro: same_outside_trans
      split: prod.splits fault.splits)

lemma db_write_frame [frame]: "db_write f w = (r, w') \<Longrightarrow> same_outside w w'"
  using interfere_frame[of w]
  by (auto simp: db_write_def same_outside_def dest!: next_fault_frame
      split: prod.splits fault.splits sum.splits)

lemma commit_locked_frame [frame]: "commit_locked f w = (r, w') \<Longrightarrow> same_outside w w'"
  by (auto simp: commit_locked_def same_outside_def dest!: next_fault_frame
      split: prod.splits fault.splits)

section \<open>A reliable database nobody else writes to\<close>

text \<open>No call fails and no other process commits: what one operation does on its own.\<close>

definition quiet :: "('r, 'p, 'f) world \<Rightarrow> bool" where
  "quiet w \<longleftrightarrow> w_faults w = [] \<and> w_others w = []"

lemma quiet_interfere [simp]: "quiet w \<Longrightarrow> interfere w = w"
  by (simp add: quiet_def interfere_def)

lemma quiet_next_fault [simp]: "quiet w \<Longrightarrow> next_fault w = (NoFault, w)"
  by (simp add: quiet_def next_fault_def)

lemma quiet_utcnow: "quiet w \<Longrightarrow> utcnow w = (t, w') \<Longrightarrow> quiet w'"
  by (auto simp: quiet_def dest: utcnow_frame)

lemma quiet_db_read [simp]: "quiet w \<Longrightarrow> db_read f w = (f (w_db w), w)"
  by (simp add: db_read_def)

lemma quiet_db_write [simp]:
  "quiet w \<Longrightarrow>
     db_write f w =
       (case f (w_db w) of Inl e \<Rightarrow> (Inl e, w) | Inr d \<Rightarrow> (Inr (), w\<lparr>w_db := d\<rparr>))"
  by (simp add: db_write_def)

lemma quiet_commit_locked [simp]:
  "quiet w \<Longrightarrow> commit_locked f w = (Inr (), w\<lparr>w_db := f (w_db w)\<rparr>)"
  by (simp add: commit_locked_def)

lemma quiet_update [simp]:
  "quiet (w\<lparr>w_db := d\<rparr>) = quiet w"
  "quiet (w\<lparr>w_redis := x\<rparr>) = quiet w"
  "quiet (w\<lparr>w_provider := y\<rparr>) = quiet w"
  "quiet (w\<lparr>w_files := z\<rparr>) = quiet w"
  "quiet (w\<lparr>w_now := t\<rparr>) = quiet w"
  "quiet (w\<lparr>w_times := ts\<rparr>) = quiet w"
  by (simp_all add: quiet_def)

section \<open>Interference under a rely condition\<close>

text \<open>
  \<open>rely R w\<close>: every change other processes make to the database while the operation runs is in \<open>R\<close>.
  The locale collects, for a reflexive and transitive \<open>R\<close>, what a call does to the database.
\<close>

definition rely :: "(db \<Rightarrow> db \<Rightarrow> bool) \<Rightarrow> ('r, 'p, 'f) world \<Rightarrow> bool" where
  "rely R w \<longleftrightarrow> (\<forall>g \<in> set (w_others w). \<forall>d. R d (g d))"

locale shared_db =
  fixes R :: "db \<Rightarrow> db \<Rightarrow> bool"
  assumes R_refl [simp, intro]: "R d d"
    and R_trans [trans]: "R d d' \<Longrightarrow> R d' d'' \<Longrightarrow> R d d''"
begin

lemma interfere_rely:
  assumes "rely R w"
  shows "R (w_db w) (w_db (interfere w))" and "rely R (interfere w)"
  using assms by (auto simp: interfere_def rely_def split: list.split)

lemma next_fault_rely: "next_fault w = (x, w') \<Longrightarrow> rely R w \<Longrightarrow> rely R w' \<and> w_db w' = w_db w"
  by (auto simp: rely_def dest: next_fault_frame)

lemma utcnow_rely: "utcnow w = (t, w') \<Longrightarrow> rely R w \<Longrightarrow> rely R w' \<and> w_db w' = w_db w"
  by (auto simp: rely_def dest: utcnow_frame)

lemma uuid4_rely: "uuid4 w = (t, w') \<Longrightarrow> rely R w \<Longrightarrow> rely R w' \<and> w_db w' = w_db w"
  by (auto simp: rely_def dest: uuid4_frame)

lemma random01_rely: "random01 w = (t, w') \<Longrightarrow> rely R w \<Longrightarrow> rely R w' \<and> w_db w' = w_db w"
  by (auto simp: rely_def dest: random01_frame)

text \<open>A read leaves the database to the others; the value it returns is of the database it leaves.\<close>

lemma db_read_rely:
  assumes "db_read f w = (r, w')" and "rely R w"
  shows "R (w_db w) (w_db w')" and "rely R w'" and "r = Inr a \<Longrightarrow> f (w_db w') = Inr a"
proof -
  obtain x v where v: "next_fault (interfere w) = (x, v)" by fastforce
  with assms(1) have w': "w' = v" and r: "r = Inr a \<Longrightarrow> f (w_db v) = Inr a"
    by (auto simp: db_read_def split: fault.splits)
  from interfere_rely[OF assms(2)] next_fault_rely[OF v] show "R (w_db w) (w_db w')" "rely R w'"
    by (auto simp: w')
  show "r = Inr a \<Longrightarrow> f (w_db w') = Inr a" using r by (simp add: w')
qed

text \<open>A commit acts on the database the others left: not at all, or exactly by \<open>f\<close>.\<close>

lemma db_write_rely:
  assumes "db_write f w = (r, w')" and "rely R w"
  obtains d where "R (w_db w) d" and "w_db w' = d \<and> r \<noteq> Inr () \<or> f d = Inr (w_db w')"
    and "rely R w'"
proof -
  obtain x v where v: "next_fault (interfere w) = (x, v)" by fastforce
  from interfere_rely[OF assms(2)] next_fault_rely[OF v]
  have R: "R (w_db w) (w_db v)" and rv: "rely R v" by auto
  have "w_db w' = w_db v \<and> r \<noteq> Inr () \<or> f (w_db v) = Inr (w_db w')"
    using assms(1) v by (auto simp: db_write_def split: fault.splits sum.splits)
  moreover have "rely R w'"
    using assms(1) v rv by (auto simp: db_write_def rely_def split: fault.splits sum.splits)
  ultimately show thesis using R that by blast
qed

text \<open>If what the operation itself writes is in \<open>R\<close> too, so is the whole call.\<close>

lemma db_write_guarantee:
  assumes "db_write f w = (r, w')" and "rely R w" and "\<And>d d'. f d = Inr d' \<Longrightarrow> R d d'"
  shows "R (w_db w) (w_db w')" and "rely R w'"
  using db_write_rely[OF assms(1,2)] assms(3) R_trans by metis+

lemma commit_locked_guarantee:
  assumes "commit_locked f w = (r, w')" and "rely R w" and "R (w_db w) (f (w_db w))"
  shows "R (w_db w) (w_db w')" and "rely R w'" and "r = Inr u \<Longrightarrow> w_db w' = f (w_db w)"
  using assms
  by (auto simp: commit_locked_def rely_def dest!: next_fault_frame split: prod.splits fault.splits)

end

end
