(* ===== verification/Session.thy ===== *)
theory Session
  imports World
begin

text \<open>
  One SQLAlchemy \<^verbatim>\<open>AsyncSession\<close> (\<^verbatim>\<open>app/db/session.py\<close>: \<^verbatim>\<open>expire_on_commit=False\<close>,
  \<^verbatim>\<open>autoflush=False\<close>), as the worker and the API use it: it holds one loaded job with its document
  and result, the changes made to that job in memory, and the result rows added but not yet written.

  Nothing reaches the database before \<open>session_commit\<close>, which writes in one transaction the columns
  whose value differs from the one loaded, and inserts the added rows. \<open>session_rollback\<close> drops the
  pending changes and expires the loaded job; \<open>session_refresh\<close> reads it again.
\<close>

record session =
  sess_loaded :: job
  sess_job :: job
  sess_document :: "document option"
  sess_result :: "extraction_result option"
  sess_new :: "extraction_result list"
  sess_expired :: bool

definition open_session :: "job \<Rightarrow> document option \<Rightarrow> extraction_result option \<Rightarrow> session" where
  "open_session j doc res =
     \<lparr>sess_loaded = j, sess_job = j, sess_document = doc, sess_result = res, sess_new = [],
      sess_expired = False\<rparr>"

lemma open_session_simps [simp]:
  "sess_loaded (open_session j doc res) = j" "sess_job (open_session j doc res) = j"
  "sess_document (open_session j doc res) = doc" "sess_result (open_session j doc res) = res"
  "sess_new (open_session j doc res) = []" "sess_expired (open_session j doc res) = False"
  by (simp_all add: open_session_def)

section \<open>Errors raised by the database layer\<close>

definition integrity_error :: exc where
  "integrity_error =
     OtherExc [''sqlalchemy.exc.IntegrityError'', ''sqlalchemy.exc.DatabaseError'',
               ''sqlalchemy.exc.DBAPIError'', ''sqlalchemy.exc.StatementError'',
               ''sqlalchemy.exc.SQLAlchemyError'', ''builtins.Exception'']
              ''constraint violated''"

definition stale_data_error :: exc where
  "stale_data_error =
     OtherExc [''sqlalchemy.orm.exc.StaleDataError'', ''sqlalchemy.exc.SQLAlchemyError'',
               ''builtins.Exception''] ''UPDATE statement matched 0 rows''"

definition data_error :: exc where
  "data_error =
     OtherExc [''sqlalchemy.exc.DBAPIError'', ''sqlalchemy.exc.StatementError'',
               ''sqlalchemy.exc.SQLAlchemyError'', ''builtins.Exception'']
              ''the database refuses the value of a column''"

definition invalid_request_error :: exc where
  "invalid_request_error =
     OtherExc [''sqlalchemy.exc.InvalidRequestError'', ''sqlalchemy.exc.SQLAlchemyError'',
               ''builtins.Exception''] ''Could not refresh instance''"

lemmas db_errors = integrity_error_def data_error_def stale_data_error_def invalid_request_error_def

section \<open>Flush\<close>

text \<open>
  The value a column has after the flush: written only when it was changed in memory. Every column is
  written like this but the primary key, by which the row is found.
\<close>

definition pick :: "'a \<Rightarrow> 'a \<Rightarrow> 'a \<Rightarrow> 'a" where
  "pick loaded current row = (if current = loaded then row else current)"

definition flush_row :: "time \<Rightarrow> job \<Rightarrow> job \<Rightarrow> job \<Rightarrow> job" where
  "flush_row now l c r =
     r\<lparr>job_document_id := pick (job_document_id l) (job_document_id c) (job_document_id r),
       job_max_retries := pick (job_max_retries l) (job_max_retries c) (job_max_retries r),
       job_created_at := pick (job_created_at l) (job_created_at c) (job_created_at r),
       job_status := pick (job_status l) (job_status c) (job_status r),
       job_retry_count := pick (job_retry_count l) (job_retry_count c) (job_retry_count r),
       job_error_message := pick (job_error_message l) (job_error_message c) (job_error_message r),
       job_queued_at := pick (job_queued_at l) (job_queued_at c) (job_queued_at r),
       job_started_at := pick (job_started_at l) (job_started_at c) (job_started_at r),
       job_completed_at := pick (job_completed_at l) (job_completed_at c) (job_completed_at r),
       job_processing_duration_ms :=
         pick (job_processing_duration_ms l) (job_processing_duration_ms c)
           (job_processing_duration_ms r),
       job_consumer_name := pick (job_consumer_name l) (job_consumer_name c) (job_consumer_name r),
       job_updated_at := now\<rparr>"

definition flush_job :: "time \<Rightarrow> job \<Rightarrow> job \<Rightarrow> db \<Rightarrow> db result" where
  "flush_job now l c d =
     (if c = l then Inr d
      else if find_job (job_id l) d = None then Inl stale_data_error
      else if job_document_id c \<noteq> job_document_id l \<and> job_document_id c \<notin> doc_id ` set (db_documents d)
      then Inl integrity_error
      else Inr (d\<lparr>db_jobs := update_rows (\<lambda>r. job_id r = job_id l) (flush_row now l c) (db_jobs d)\<rparr>))"

text \<open>
  What PostgreSQL stores: a text or \<^verbatim>\<open>JSONB\<close> string without U+0000 and without surrogates, and an
  \<^verbatim>\<open>Integer\<close> of 32 bits.
\<close>

definition pg_text :: "unicode \<Rightarrow> bool" where
  "pg_text t \<longleftrightarrow> list_all (\<lambda>c. c \<noteq> 0 \<and> (c < 55296 \<or> 57343 < c)) t"

fun pg_json :: "json \<Rightarrow> bool" where
  "pg_json (JStr t) = pg_text t"
| "pg_json (JList vs) = (\<forall>v \<in> set vs. pg_json v)"
| "pg_json (JObj kvs) = (\<forall>kv \<in> set kvs. pg_text (codes (fst kv)) \<and> pg_json (snd kv))"
| "pg_json _ = True"

definition pg_integer :: "int option \<Rightarrow> bool" where
  "pg_integer n = (case n of None \<Rightarrow> True | Some i \<Rightarrow> - (2 ^ 31) \<le> i \<and> i < 2 ^ 31)"

text \<open>
  \<^verbatim>\<open>INSERT INTO extraction_results\<close>: rejected when a value is longer than its \<^verbatim>\<open>String(n)\<close> column or not a
  value of its type, by the unique constraint on \<^verbatim>\<open>job_id\<close>, by the primary key, or by the foreign key.
\<close>

definition result_fits :: "extraction_result \<Rightarrow> bool" where
  "result_fits r \<longleftrightarrow>
     length (res_model_provider r) \<le> 64 \<and> length (res_model_name r) \<le> 128 \<and> length (res_prompt_version r) \<le> 32 \<and>
     pg_text (codes (res_model_provider r)) \<and> pg_text (codes (res_model_name r)) \<and>
     pg_text (codes (res_prompt_version r)) \<and> pg_json (res_extracted_data r) \<and>
     (case res_raw_text r of None \<Rightarrow> True | Some t \<Rightarrow> pg_text t) \<and>
     pg_integer (res_input_tokens r) \<and> pg_integer (res_output_tokens r)"

definition insert_result :: "extraction_result \<Rightarrow> db \<Rightarrow> db result" where
  "insert_result r d =
     (if \<not> result_fits r then Inl data_error
      else if res_job_id r \<in> res_job_id ` set (db_results d) \<or> res_id r \<in> res_id ` set (db_results d)
         \<or> res_job_id r \<notin> job_id ` set (db_jobs d)
      then Inl integrity_error
      else Inr (d\<lparr>db_results := db_results d @ [r]\<rparr>))"

fun insert_results :: "extraction_result list \<Rightarrow> db \<Rightarrow> db result" where
  "insert_results [] d = Inr d"
| "insert_results (r # rs) d =
     (case insert_result r d of Inl e \<Rightarrow> Inl e | Inr d' \<Rightarrow> insert_results rs d')"

definition flush :: "time \<Rightarrow> session \<Rightarrow> db \<Rightarrow> db result" where
  "flush now s d =
     (case flush_job now (sess_loaded s) (sess_job s) d of
        Inl e \<Rightarrow> Inl e
      | Inr d' \<Rightarrow> insert_results (sess_new s) d')"

section \<open>Session operations\<close>

definition session_commit ::
  "session \<Rightarrow> ('r, 'p, 'f) world \<Rightarrow> unit result \<times> session \<times> ('r, 'p, 'f) world" where
  "session_commit s w =
     (case utcnow w of (now, w1) \<Rightarrow>
        (case db_write (flush now s) w1 of
           (Inl e, w2) \<Rightarrow> (Inl e, s, w2)
         | (Inr _, w2) \<Rightarrow> (Inr (), s\<lparr>sess_loaded := sess_job s, sess_new := []\<rparr>, w2)))"

definition session_rollback ::
  "session \<Rightarrow> ('r, 'p, 'f) world \<Rightarrow> unit result \<times> session \<times> ('r, 'p, 'f) world" where
  "session_rollback s w =
     (case db_read (\<lambda>_. Inr ()) w of
        (Inl e, w1) \<Rightarrow> (Inl e, s, w1)
      | (Inr _, w1) \<Rightarrow>
          (Inr (), s\<lparr>sess_job := sess_loaded s, sess_new := [], sess_expired := True\<rparr>, w1))"

definition session_refresh ::
  "session \<Rightarrow> ('r, 'p, 'f) world \<Rightarrow> unit result \<times> session \<times> ('r, 'p, 'f) world" where
  "session_refresh s w =
     (case db_read
        (\<lambda>d. case find_job (job_id (sess_loaded s)) d of
               None \<Rightarrow> Inl invalid_request_error
             | Some j \<Rightarrow> Inr j) w of
        (Inl e, w1) \<Rightarrow> (Inl e, s, w1)
      | (Inr j, w1) \<Rightarrow> (Inr (), s\<lparr>sess_loaded := j, sess_job := j, sess_expired := False\<rparr>, w1))"

text \<open>\<^verbatim>\<open>session.add(result)\<close>.\<close>

definition session_add :: "extraction_result \<Rightarrow> session \<Rightarrow> session" where
  "session_add r s = s\<lparr>sess_new := sess_new s @ [r]\<rparr>"

section \<open>Lemmas\<close>

text \<open>A text of the program is stored unless it contains a NUL character.\<close>

lemma pg_text_codes [simp]: "pg_text (codes s) \<longleftrightarrow> list_all (\<lambda>c. c \<noteq> CHR 0x00) s"
proof -
  have "(of_char c :: nat) \<noteq> 0 \<and> ((of_char c :: nat) < 55296 \<or> 57343 < (of_char c :: nat)) \<longleftrightarrow> c \<noteq> CHR 0x00" for c
  proof -
    have "(of_char c :: nat) = 0 \<longleftrightarrow> c = CHR 0x00"
      using of_char_eq_iff[of c "CHR 0x00", where 'a = nat] by simp
    moreover have "(of_char c :: nat) < 256" by simp
    ultimately show ?thesis by linarith
  qed
  then show ?thesis by (simp add: pg_text_def codes_def list_all_iff)
qed

lemma flush_row_id [simp]: "job_id (flush_row now l c r) = job_id r"
  by (simp add: flush_row_def)

lemma flush_row_document [simp]:
  "job_document_id (flush_row now l c r) = pick (job_document_id l) (job_document_id c) (job_document_id r)"
  by (simp add: flush_row_def)

lemma flush_row_status [simp]:
  "job_status (flush_row now l c r) = pick (job_status l) (job_status c) (job_status r)"
  by (simp add: flush_row_def)

lemma flush_row_max [simp]:
  "job_max_retries (flush_row now l c r) = pick (job_max_retries l) (job_max_retries c) (job_max_retries r)"
  by (simp add: flush_row_def)

lemma flush_row_created [simp]:
  "job_created_at (flush_row now l c r) = pick (job_created_at l) (job_created_at c) (job_created_at r)"
  by (simp add: flush_row_def)

text \<open>Two versions of a row agree in the columns that identify the job.\<close>

definition same_keys :: "job \<Rightarrow> job \<Rightarrow> bool" where
  "same_keys l c \<longleftrightarrow> job_id c = job_id l \<and> job_document_id c = job_document_id l \<and>
     job_max_retries c = job_max_retries l \<and> job_created_at c = job_created_at l"

text \<open>Without a change to these columns, an update meets no constraint.\<close>

lemma flush_job_same_keys:
  "same_keys l c \<Longrightarrow> flush_job now l c d =
     (if c = l then Inr d
      else if find_job (job_id l) d = None then Inl stale_data_error
      else Inr (d\<lparr>db_jobs := update_rows (\<lambda>r. job_id r = job_id l) (flush_row now l c) (db_jobs d)\<rparr>))"
  by (simp add: flush_job_def same_keys_def)

lemma pick_same [simp]: "pick l l r = r"
  by (simp add: pick_def)

text \<open>A row nobody else touched since it was loaded becomes exactly the object in memory.\<close>

lemma pick_loaded [simp]: "pick l c l = c"
  by (simp add: pick_def)

lemma find_job_update_rows:
  assumes "\<And>r. job_id (f r) = job_id r"
  shows "find_job i (d\<lparr>db_jobs := update_rows P f (db_jobs d)\<rparr>) =
    map_option (\<lambda>r. if P r then f r else r) (find_job i d)"
  using find_update_rows[of job_id f i P "db_jobs d"] assms by (simp add: find_job_def)

lemma find_job_same_jobs [simp]:
  "find_job i (d\<lparr>db_results := x\<rparr>) = find_job i d"
  "find_job i (d\<lparr>db_documents := y\<rparr>) = find_job i d"
  by (simp_all add: find_job_def)

lemma find_result_same_results [simp]:
  "find_result i (d\<lparr>db_jobs := x\<rparr>) = find_result i d"
  "find_result i (d\<lparr>db_documents := y\<rparr>) = find_result i d"
  by (simp_all add: find_result_def)

text \<open>An update of job rows keeps the constraints if it keeps the keys and refers to documents there are.\<close>

lemma db_ok_update_references:
  assumes "db_ok d" and "\<And>r. P r \<Longrightarrow> job_id (f r) = job_id r"
    and "\<And>r. r \<in> set (db_jobs d) \<Longrightarrow> P r \<Longrightarrow> job_document_id (f r) \<in> doc_id ` set (db_documents d)"
  shows "db_ok (d\<lparr>db_jobs := update_rows P f (db_jobs d)\<rparr>)"
proof -
  have "map job_id (update_rows P f (db_jobs d)) = map job_id (db_jobs d)"
    using assms(2) by (simp add: map_key_update_rows)
  moreover from this have "job_id ` set (update_rows P f (db_jobs d)) = job_id ` set (db_jobs d)"
    by (metis set_map)
  moreover have "job_document_id ` set (update_rows P f (db_jobs d)) \<subseteq> doc_id ` set (db_documents d)"
    using assms(1,3) unfolding set_update_rows db_ok_def by auto
  ultimately show ?thesis using assms(1) by (simp add: db_ok_def)
qed

lemma db_ok_update_jobs:
  assumes "db_ok d" and "\<And>r. P r \<Longrightarrow> job_id (f r) = job_id r"
    and "\<And>r. P r \<Longrightarrow> job_document_id (f r) = job_document_id r"
  shows "db_ok (d\<lparr>db_jobs := update_rows P f (db_jobs d)\<rparr>)"
  using assms by (intro db_ok_update_references) (auto simp: db_ok_def)

lemma flush_job_db_ok:
  assumes "flush_job now l c d = Inr d'" and "db_ok d"
  shows "db_ok d'"
proof -
  have "d' = d \<or> (job_document_id c = job_document_id l \<or> job_document_id c \<in> doc_id ` set (db_documents d)) \<and>
      d' = d\<lparr>db_jobs := update_rows (\<lambda>r. job_id r = job_id l) (flush_row now l c) (db_jobs d)\<rparr>"
    using assms(1) by (auto simp: flush_job_def split: if_splits)
  moreover have "job_document_id r \<in> doc_id ` set (db_documents d)" if "r \<in> set (db_jobs d)" for r
    using assms(2) that by (auto simp: db_ok_def)
  ultimately show ?thesis
    using assms(2) by (auto simp: pick_def intro: db_ok_update_references)
qed

lemma insert_result_Inr:
  "insert_result r d = Inr d' \<longleftrightarrow>
     d' = d\<lparr>db_results := db_results d @ [r]\<rparr> \<and> result_fits r \<and> res_job_id r \<notin> res_job_id ` set (db_results d) \<and>
     res_id r \<notin> res_id ` set (db_results d) \<and> res_job_id r \<in> job_id ` set (db_jobs d)"
  unfolding insert_result_def by (simp split: if_split) blast

lemma insert_result_db_ok: "insert_result r d = Inr d' \<Longrightarrow> db_ok d \<Longrightarrow> db_ok d'"
  unfolding insert_result_Inr db_ok_def by simp

lemma insert_results_db_ok: "insert_results rs d = Inr d' \<Longrightarrow> db_ok d \<Longrightarrow> db_ok d'"
  by (induction rs arbitrary: d) (auto dest: insert_result_db_ok split: sum.splits)

text \<open>Whatever a commit does, the declared constraints hold afterwards.\<close>

lemma flush_db_ok: "flush now s d = Inr d' \<Longrightarrow> db_ok d \<Longrightarrow> db_ok d'"
  by (auto simp: flush_def dest: flush_job_db_ok insert_results_db_ok split: sum.splits)

lemma session_commit_frame [frame]: "session_commit s w = (r, s', w') \<Longrightarrow> same_outside w w'"
  by (auto simp: session_commit_def dest!: utcnow_frame db_write_frame intro: same_outside_trans
      split: prod.splits sum.splits)

lemma session_rollback_frame [frame]: "session_rollback s w = (r, s', w') \<Longrightarrow> same_outside w w'"
  by (auto simp: session_rollback_def dest!: db_read_frame split: prod.splits sum.splits)

lemma session_refresh_frame [frame]: "session_refresh s w = (r, s', w') \<Longrightarrow> same_outside w w'"
  by (auto simp: session_refresh_def dest!: db_read_frame split: prod.splits sum.splits)

lemma session_refresh_Inr:
  assumes "session_refresh s w = (Inr u, s', w')"
  shows "sess_loaded s' = sess_job s'" and "sess_new s' = sess_new s" and "\<not> sess_expired s'"
  using assms by (auto simp: session_refresh_def split: prod.splits sum.splits)

context shared_db
begin

lemma session_rollback_rely:
  assumes "session_rollback s w = (r, s', w')" and "rely R w"
  shows "R (w_db w) (w_db w')" and "rely R w'"
  using assms
  by (auto simp: session_rollback_def split: prod.splits sum.splits
      dest: db_read_rely(1) db_read_rely(2))

lemma session_refresh_rely:
  assumes "session_refresh s w = (r, s', w')" and "rely R w"
  shows "R (w_db w) (w_db w')" and "rely R w'"
  using assms
  by (auto simp: session_refresh_def split: prod.splits sum.splits
      dest: db_read_rely(1) db_read_rely(2))

lemma session_refresh_current:
  assumes "session_refresh s w = (Inr u, s', w')" and "rely R w"
  shows "find_job (job_id (sess_loaded s)) (w_db w') = Some (sess_job s')"
  using assms
  by (auto simp: session_refresh_def split: prod.splits sum.splits option.splits
      dest!: db_read_rely(3)[OF _ _ refl])

text \<open>What a commit does: nothing, or a flush of the session onto the database the others left.\<close>

lemma session_commit_rely:
  assumes "session_commit s w = (r, s', w')" and "rely R w"
  obtains now d where "R (w_db w) d"
    and "w_db w' = d \<and> r \<noteq> Inr () \<or> flush now s d = Inr (w_db w')" and "rely R w'"
proof -
  obtain now w1 where u: "utcnow w = (now, w1)" by fastforce
  obtain r' w2 where c: "db_write (flush now s) w1 = (r', w2)" by fastforce
  have eq: "w' = w2" "r \<noteq> Inr () \<longleftrightarrow> r' \<noteq> Inr ()"
    using assms(1) u c by (auto simp: session_commit_def split: sum.splits)
  from utcnow_rely[OF u assms(2)] have "rely R w1" "w_db w1 = w_db w" by auto
  from db_write_rely[OF c this(1)] this(2) eq that show thesis by metis
qed

lemma session_commit_guarantee:
  assumes "session_commit s w = (r, s', w')" and "rely R w"
    and "\<And>now d d'. flush now s d = Inr d' \<Longrightarrow> R d d'"
  shows "R (w_db w) (w_db w')" and "rely R w'"
  using session_commit_rely[OF assms(1,2)] assms(3) R_trans by metis+

end

end
