(* ===== verification/Job_Service.thy ===== *)
theory Job_Service
  imports Session
begin

text \<open>
  \<^verbatim>\<open>app/services/job_service.py\<close>: the lifecycle of a job and every change of its row.

  The functions that change a loaded job come in two parts: the change to the object in memory
  (\<open>completed_job\<close>, \<open>retrying_job\<close>, \<open>failed_job\<close>, \<open>requeued_job\<close>) and the operation of the source
  (\<open>mark_completed\<close>, \dots) with its check of the transition table, its clock reading and its optional
  commit. Log lines are left out.
\<close>

section \<open>The transition table\<close>

fun allowed_transitions :: "job_status \<Rightarrow> job_status set" where
  "allowed_transitions QUEUED = {PROCESSING, FAILED}"
| "allowed_transitions PROCESSING = {COMPLETED, RETRYING, FAILED}"
| "allowed_transitions RETRYING = {PROCESSING, FAILED}"
| "allowed_transitions COMPLETED = {}"
| "allowed_transitions FAILED = {QUEUED}"

definition MAX_ERROR_MESSAGE_CHARS :: nat where
  "MAX_ERROR_MESSAGE_CHARS = 2000"

definition is_transition_allowed :: "job_status \<Rightarrow> job_status \<Rightarrow> bool" where
  "is_transition_allowed current target \<longleftrightarrow> target \<in> allowed_transitions current"

definition invalid_transition :: "job_status \<Rightarrow> job_status \<Rightarrow> exc" where
  "invalid_transition current target =
     raise_app InvalidJobTransitionError
       (''Cannot move a job from '' @ status_value current @ '' to '' @ status_value target @ ''.'')
       [(''from'', jstr (status_value current)), (''to'', jstr (status_value target))]"

definition ensure_transition_allowed :: "job_status \<Rightarrow> job_status \<Rightarrow> unit result" where
  "ensure_transition_allowed current target =
     (if \<not> is_transition_allowed current target then Inl (invalid_transition current target)
      else Inr ())"

definition truncate_error :: "string option \<Rightarrow> string option" where
  "truncate_error message =
     (case message of
        None \<Rightarrow> None
      | Some m \<Rightarrow>
          if length m \<le> MAX_ERROR_MESSAGE_CHARS then Some m
          else Some (take MAX_ERROR_MESSAGE_CHARS m @ ''... [truncated]''))"

section \<open>Creation\<close>

text \<open>The widths of the \<^verbatim>\<open>String(n)\<close> columns of \<^verbatim>\<open>documents\<close>, and what the texts of the client may contain.\<close>

definition document_fits :: "document \<Rightarrow> bool" where
  "document_fits doc \<longleftrightarrow>
     length (doc_original_filename doc) \<le> 255 \<and> length (doc_stored_filename doc) \<le> 255 \<and>
     length (doc_content_type doc) \<le> 128 \<and> length (doc_storage_path doc) \<le> 1024 \<and>
     length (doc_checksum doc) \<le> 64 \<and>
     pg_text (codes (doc_original_filename doc)) \<and> pg_text (codes (doc_content_type doc))"

definition insert_document_and_job :: "document \<Rightarrow> job \<Rightarrow> db \<Rightarrow> db result" where
  "insert_document_and_job doc j d =
     (if \<not> document_fits doc then Inl data_error
      else if doc_id doc \<in> doc_id ` set (db_documents d)
        \<or> doc_stored_filename doc \<in> doc_stored_filename ` set (db_documents d)
        \<or> job_id j \<in> job_id ` set (db_jobs d)
      then Inl integrity_error
      else Inr (d\<lparr>db_documents := db_documents d @ [doc], db_jobs := db_jobs d @ [j]\<rparr>))"

definition new_document ::
  "uuid \<Rightarrow> time \<Rightarrow> stored_file \<Rightarrow> string \<Rightarrow> string \<Rightarrow> document_type option \<Rightarrow> document" where
  "new_document did now stored original_filename content_type requested =
     \<lparr>doc_id = did, doc_original_filename = original_filename,
      doc_stored_filename = sf_stored_filename stored, doc_content_type = content_type,
      doc_file_size = sf_size stored, doc_storage_path = sf_storage_path stored,
      doc_checksum = sf_checksum stored, doc_requested_document_type = requested,
      doc_created_at = now\<rparr>"

definition new_job :: "uuid \<Rightarrow> uuid \<Rightarrow> time \<Rightarrow> int \<Rightarrow> job" where
  "new_job jid did now max_retries =
     \<lparr>job_id = jid, job_document_id = did, job_status = QUEUED, job_retry_count = 0,
      job_max_retries = max_retries, job_error_message = None, job_queued_at = now,
      job_started_at = None, job_completed_at = None, job_processing_duration_ms = None,
      job_consumer_name = None, job_created_at = now, job_updated_at = now\<rparr>"

definition create_document_and_job ::
  "stored_file \<Rightarrow> string \<Rightarrow> string \<Rightarrow> document_type option \<Rightarrow> int \<Rightarrow> ('r, 'p, 'f) world \<Rightarrow>
     session result \<times> ('r, 'p, 'f) world" where
  "create_document_and_job stored original_filename content_type requested max_retries w =
     (case uuid4 w of (did, w1) \<Rightarrow>
      case uuid4 w1 of (jid, w2) \<Rightarrow>
      case utcnow w2 of (now, w3) \<Rightarrow>
        let doc = new_document did now stored original_filename content_type requested;
            j = new_job jid did now max_retries
        in (case db_write (insert_document_and_job doc j) w3 of
              (Inl e, w4) \<Rightarrow> (Inl e, w4)
            | (Inr _, w4) \<Rightarrow>
                (case session_refresh (open_session j (Some doc) None) w4 of
                   (Inl e, s, w5) \<Rightarrow> (Inl e, w5)
                 | (Inr _, s, w5) \<Rightarrow>
                     (case db_read
                        (\<lambda>d. case find_document did d of
                               None \<Rightarrow> Inl invalid_request_error
                             | Some doc' \<Rightarrow> Inr doc') w5 of
                        (Inl e, w6) \<Rightarrow> (Inl e, w6)
                      | (Inr doc', w6) \<Rightarrow> (Inr (s\<lparr>sess_document := Some doc'\<rparr>), w6)))))"

section \<open>Queries\<close>

definition get_document :: "uuid \<Rightarrow> ('r, 'p, 'f) world \<Rightarrow> document result \<times> ('r, 'p, 'f) world" where
  "get_document did w =
     db_read
       (\<lambda>d. case find_document did d of
              None \<Rightarrow> Inl (raise_app NotFoundError ''No document exists with that ID.''
                            [(''document_id'', jstr did)])
            | Some doc \<Rightarrow> Inr doc) w"

text \<open>A job row with its document and its result, as \<^verbatim>\<open>_job_query\<close> loads them.\<close>

definition load_job :: "db \<Rightarrow> job \<Rightarrow> session" where
  "load_job d j = open_session j (find_document (job_document_id j) d) (find_result (job_id j) d)"

definition get_job :: "uuid \<Rightarrow> ('r, 'p, 'f) world \<Rightarrow> session result \<times> ('r, 'p, 'f) world" where
  "get_job jid w =
     db_read
       (\<lambda>d. case find_job jid d of
              None \<Rightarrow> Inl (raise_app NotFoundError ''No job exists with that ID.''
                            [(''job_id'', jstr jid)])
            | Some j \<Rightarrow> Inr (load_job d j)) w"

text \<open>\<^verbatim>\<open>ORDER BY created_at DESC, id DESC\<close>.\<close>

definition newest_first :: "job list \<Rightarrow> job list" where
  "newest_first rows = rev (sort_key (\<lambda>j. (job_created_at j, job_id j)) rows)"

definition list_jobs ::
  "job_status option \<Rightarrow> int \<Rightarrow> int \<Rightarrow> ('r, 'p, 'f) world \<Rightarrow>
     (session list \<times> int) result \<times> ('r, 'p, 'f) world" where
  "list_jobs status limit offset w =
     (let keep = (\<lambda>j. case status of None \<Rightarrow> True | Some s \<Rightarrow> job_status j = s)
      in (case db_read
            (\<lambda>d. Inr (map (load_job d)
               (take (nat limit) (drop (nat offset) (newest_first (filter keep (db_jobs d))))))) w of
            (Inl e, w1) \<Rightarrow> (Inl e, w1)
          | (Inr jobs, w1) \<Rightarrow>
              (case db_read (\<lambda>d. Inr (int (length (filter keep (db_jobs d))))) w1 of
                 (Inl e, w2) \<Rightarrow> (Inl e, w2)
               | (Inr n, w2) \<Rightarrow> (Inr (jobs, n), w2))))"

section \<open>Claiming\<close>

text \<open>The \<^verbatim>\<open>WHERE\<close> clause of the conditional \<^verbatim>\<open>UPDATE\<close>.\<close>

definition claim_condition :: "uuid \<Rightarrow> time \<Rightarrow> job \<Rightarrow> bool" where
  "claim_condition jid stale_cutoff r \<longleftrightarrow>
     job_id r = jid \<and>
     (job_status r \<in> claimable_statuses \<or>
      job_status r = PROCESSING \<and>
        (case job_started_at r of None \<Rightarrow> False | Some t \<Rightarrow> t < stale_cutoff))"

text \<open>Its \<^verbatim>\<open>VALUES\<close>.\<close>

definition claim_values :: "time \<Rightarrow> string \<Rightarrow> job \<Rightarrow> job" where
  "claim_values now consumer_name r =
     r\<lparr>job_status := PROCESSING, job_started_at := Some now,
       job_consumer_name := Some consumer_name, job_updated_at := now\<rparr>"

definition claim_effect :: "uuid \<Rightarrow> time \<Rightarrow> time \<Rightarrow> string \<Rightarrow> db \<Rightarrow> db" where
  "claim_effect jid stale_cutoff now consumer_name d =
     d\<lparr>db_jobs := update_rows (claim_condition jid stale_cutoff) (claim_values now consumer_name)
                   (db_jobs d)\<rparr>"

definition multiple_results_error :: exc where
  "multiple_results_error =
     OtherExc [''sqlalchemy.exc.MultipleResultsFound'', ''sqlalchemy.exc.InvalidRequestError'',
               ''sqlalchemy.exc.SQLAlchemyError'', ''builtins.Exception'']
              ''Multiple rows were found when one or none was required''"

definition scalar_one_or_none :: "'a list \<Rightarrow> 'a option result" where
  "scalar_one_or_none xs =
     (case xs of [] \<Rightarrow> Inr None | [x] \<Rightarrow> Inr (Some x) | _ \<Rightarrow> Inl multiple_results_error)"

text \<open>
  The row its \<^verbatim>\<open>RETURNING\<close> gives. PostgreSQL refuses a consumer name longer than the column, once there
  is a row to write it to.
\<close>

definition claim_query :: "uuid \<Rightarrow> time \<Rightarrow> string \<Rightarrow> db \<Rightarrow> uuid option result" where
  "claim_query jid stale_cutoff consumer_name d =
     (let matched = filter (claim_condition jid stale_cutoff) (db_jobs d)
      in if matched \<noteq> [] \<and> 128 < length consumer_name then Inl data_error
         else scalar_one_or_none (map job_id matched))"

text \<open>
  The \<^verbatim>\<open>UPDATE\<close> locks the row it matches until the commit (\<open>commit_locked\<close>); other processes act
  before the statement and after the commit.
\<close>

definition claim_job ::
  "uuid \<Rightarrow> string \<Rightarrow> int \<Rightarrow> ('r, 'p, 'f) world \<Rightarrow> session option result \<times> ('r, 'p, 'f) world" where
  "claim_job jid consumer_name stale_after_seconds w =
     (case utcnow w of (now, w1) \<Rightarrow>
        let stale_cutoff = now - stale_after_seconds * microseconds_per_second
        in (case db_read (claim_query jid stale_cutoff consumer_name) w1 of
              (Inl e, w2) \<Rightarrow> (Inl e, w2)
            | (Inr None, w2) \<Rightarrow>
                (case db_read (\<lambda>_. Inr ()) w2 of
                   (Inl e, w3) \<Rightarrow> (Inl e, w3)
                 | (Inr _, w3) \<Rightarrow> (Inr None, w3))
            | (Inr (Some _), w2) \<Rightarrow>
                (case commit_locked (claim_effect jid stale_cutoff now consumer_name) w2 of
                   (Inl e, w3) \<Rightarrow> (Inl e, w3)
                 | (Inr _, w3) \<Rightarrow>
                     (case get_job jid w3 of
                        (Inl e, w4) \<Rightarrow> (Inl e, w4)
                      | (Inr s, w4) \<Rightarrow> (Inr (Some s), w4)))))"

section \<open>State changes\<close>

definition completed_job :: "time \<Rightarrow> job \<Rightarrow> job" where
  "completed_job now j =
     j\<lparr>job_status := COMPLETED, job_completed_at := Some now, job_error_message := None,
       job_processing_duration_ms :=
         (case job_started_at j of
            None \<Rightarrow> job_processing_duration_ms j
          | Some t \<Rightarrow> Some (elapsed_ms t now))\<rparr>"

definition retrying_job :: "string \<Rightarrow> job \<Rightarrow> job" where
  "retrying_job error_message j =
     j\<lparr>job_status := RETRYING, job_retry_count := job_retry_count j + 1,
       job_error_message := truncate_error (Some error_message)\<rparr>"

definition failed_job :: "time \<Rightarrow> string \<Rightarrow> job \<Rightarrow> job" where
  "failed_job now error_message j =
     j\<lparr>job_status := FAILED, job_completed_at := Some now,
       job_error_message := truncate_error (Some error_message),
       job_processing_duration_ms :=
         (case job_started_at j of
            None \<Rightarrow> job_processing_duration_ms j
          | Some t \<Rightarrow> Some (elapsed_ms t now))\<rparr>"

definition requeued_job :: "time \<Rightarrow> job \<Rightarrow> job" where
  "requeued_job now j =
     j\<lparr>job_status := QUEUED, job_retry_count := 0, job_error_message := None,
       job_started_at := None, job_completed_at := None, job_processing_duration_ms := None,
       job_consumer_name := None, job_queued_at := now\<rparr>"

lemmas job_changes = completed_job_def retrying_job_def failed_job_def requeued_job_def

text \<open>\<^verbatim>\<open>if commit: await session.commit()\<close>.\<close>

definition commit_if ::
  "bool \<Rightarrow> session \<Rightarrow> ('r, 'p, 'f) world \<Rightarrow> unit result \<times> session \<times> ('r, 'p, 'f) world" where
  "commit_if commit s w = (if commit then session_commit s w else (Inr (), s, w))"

definition mark_completed ::
  "bool \<Rightarrow> session \<Rightarrow> ('r, 'p, 'f) world \<Rightarrow> unit result \<times> session \<times> ('r, 'p, 'f) world" where
  "mark_completed commit s w =
     (case ensure_transition_allowed (job_status (sess_job s)) COMPLETED of
        Inl e \<Rightarrow> (Inl e, s, w)
      | Inr _ \<Rightarrow>
          (case utcnow w of (now, w1) \<Rightarrow>
             commit_if commit (s\<lparr>sess_job := completed_job now (sess_job s)\<rparr>) w1))"

definition mark_retrying ::
  "string \<Rightarrow> bool \<Rightarrow> session \<Rightarrow> ('r, 'p, 'f) world \<Rightarrow>
     unit result \<times> session \<times> ('r, 'p, 'f) world" where
  "mark_retrying error_message commit s w =
     (case ensure_transition_allowed (job_status (sess_job s)) RETRYING of
        Inl e \<Rightarrow> (Inl e, s, w)
      | Inr _ \<Rightarrow> commit_if commit (s\<lparr>sess_job := retrying_job error_message (sess_job s)\<rparr>) w)"

definition mark_failed ::
  "string \<Rightarrow> bool \<Rightarrow> session \<Rightarrow> ('r, 'p, 'f) world \<Rightarrow>
     unit result \<times> session \<times> ('r, 'p, 'f) world" where
  "mark_failed error_message commit s w =
     (case ensure_transition_allowed (job_status (sess_job s)) FAILED of
        Inl e \<Rightarrow> (Inl e, s, w)
      | Inr _ \<Rightarrow>
          (case utcnow w of (now, w1) \<Rightarrow>
             commit_if commit (s\<lparr>sess_job := failed_job now error_message (sess_job s)\<rparr>) w1))"

definition reset_for_manual_retry ::
  "bool \<Rightarrow> session \<Rightarrow> ('r, 'p, 'f) world \<Rightarrow> unit result \<times> session \<times> ('r, 'p, 'f) world" where
  "reset_for_manual_retry commit s w =
     (case ensure_transition_allowed (job_status (sess_job s)) QUEUED of
        Inl e \<Rightarrow> (Inl e, s, w)
      | Inr _ \<Rightarrow>
          (case utcnow w of (now, w1) \<Rightarrow>
             commit_if commit (s\<lparr>sess_job := requeued_job now (sess_job s)\<rparr>) w1))"

lemmas mark_defs = mark_completed_def mark_retrying_def mark_failed_def reset_for_manual_retry_def
lemmas claim_defs = claim_effect_def claim_condition_def claim_values_def

section \<open>The transition table\<close>

lemma ensure_transition_Inr [simp]:
  "ensure_transition_allowed c t = Inr u \<longleftrightarrow> t \<in> allowed_transitions c"
  by (simp add: ensure_transition_allowed_def is_transition_allowed_def)

lemma ensure_transition_Inl:
  "ensure_transition_allowed c t = Inl e \<longleftrightarrow>
     t \<notin> allowed_transitions c \<and> e = invalid_transition c t"
  by (auto simp: ensure_transition_allowed_def is_transition_allowed_def)

lemma into_completed [simp]: "COMPLETED \<in> allowed_transitions s \<longleftrightarrow> s = PROCESSING"
  by (cases s) auto

lemma into_retrying [simp]: "RETRYING \<in> allowed_transitions s \<longleftrightarrow> s = PROCESSING"
  by (cases s) auto

lemma into_failed [simp]: "FAILED \<in> allowed_transitions s \<longleftrightarrow> is_active s"
  by (cases s) (auto simp: is_active_def status_sets)

lemma into_queued [simp]: "QUEUED \<in> allowed_transitions s \<longleftrightarrow> s = FAILED"
  by (cases s) auto

lemma into_processing [simp]: "PROCESSING \<in> allowed_transitions s \<longleftrightarrow> s \<in> claimable_statuses"
  by (cases s) (auto simp: status_sets)

lemma job_change_keys [simp]:
  "job_id (completed_job t j) = job_id j" "job_id (retrying_job m j) = job_id j"
  "job_id (failed_job t m j) = job_id j" "job_id (requeued_job t j) = job_id j"
  "job_document_id (completed_job t j) = job_document_id j"
  "job_document_id (retrying_job m j) = job_document_id j"
  "job_document_id (failed_job t m j) = job_document_id j"
  "job_document_id (requeued_job t j) = job_document_id j"
  "job_max_retries (completed_job t j) = job_max_retries j"
  "job_max_retries (retrying_job m j) = job_max_retries j"
  "job_max_retries (failed_job t m j) = job_max_retries j"
  "job_max_retries (requeued_job t j) = job_max_retries j"
  by (simp_all add: job_changes)

lemma job_change_status [simp]:
  "job_status (completed_job t j) = COMPLETED" "job_status (retrying_job m j) = RETRYING"
  "job_status (failed_job t m j) = FAILED" "job_status (requeued_job t j) = QUEUED"
  by (simp_all add: job_changes)

lemma claim_values_keys [simp]:
  "job_id (claim_values t c j) = job_id j"
  "job_document_id (claim_values t c j) = job_document_id j"
  "job_max_retries (claim_values t c j) = job_max_retries j"
  "job_retry_count (claim_values t c j) = job_retry_count j"
  "job_status (claim_values t c j) = PROCESSING"
  "job_started_at (claim_values t c j) = Some t"
  by (simp_all add: claim_values_def)

lemma truncate_error_length:
  "truncate_error (Some m) = Some m' \<Longrightarrow> length m' \<le> MAX_ERROR_MESSAGE_CHARS + 15"
  by (auto simp: truncate_error_def MAX_ERROR_MESSAGE_CHARS_def split: if_splits)

section \<open>Frames\<close>

lemma get_job_frame [frame]: "get_job jid w = (r, w') \<Longrightarrow> same_outside w w'"
  unfolding get_job_def by (rule db_read_frame)

lemma commit_if_frame [frame]: "commit_if c s w = (r, s', w') \<Longrightarrow> same_outside w w'"
  by (auto simp: commit_if_def dest: session_commit_frame split: if_splits)

lemma mark_frame [frame]:
  "mark_completed c s w = (r, s', w') \<Longrightarrow> same_outside w w'"
  "mark_retrying m c s w = (r, s', w') \<Longrightarrow> same_outside w w'"
  "mark_failed m c s w = (r, s', w') \<Longrightarrow> same_outside w w'"
  "reset_for_manual_retry c s w = (r, s', w') \<Longrightarrow> same_outside w w'"
  by (auto simp: mark_defs dest!: utcnow_frame commit_if_frame intro: same_outside_trans
      split: sum.splits prod.splits)

lemma claim_job_frame [frame]: "claim_job jid c st w = (r, w') \<Longrightarrow> same_outside w w'"
  unfolding claim_job_def Let_def
  by (auto dest!: utcnow_frame db_read_frame commit_locked_frame get_job_frame
      intro: same_outside_trans split: sum.splits prod.splits option.splits)

section \<open>One claim at a time\<close>

lemma claim_condition_id: "claim_condition jid t r \<Longrightarrow> job_id r = jid"
  by (simp add: claim_condition_def)

lemma find_job_claim_effect:
  "find_job i (claim_effect jid cutoff now c d) =
     map_option (\<lambda>r. if claim_condition jid cutoff r then claim_values now c r else r) (find_job i d)"
  unfolding claim_effect_def by (rule find_job_update_rows) simp

lemma claim_effect_db_ok: "db_ok d \<Longrightarrow> db_ok (claim_effect jid cutoff now c d)"
  unfolding claim_effect_def by (rule db_ok_update_jobs) auto

lemma claim_effect_none:
  assumes "db_ok d" and "\<And>j. find_job jid d = Some j \<Longrightarrow> \<not> claim_condition jid cutoff j"
  shows "claim_effect jid cutoff now c d = d"
proof -
  have "update_rows (claim_condition jid cutoff) (claim_values now c) (db_jobs d) = db_jobs d"
    unfolding update_rows_def
  proof (rule map_idI)
    fix r assume "r \<in> set (db_jobs d)"
    with assms show "(if claim_condition jid cutoff r then claim_values now c r else r) = r"
      using claim_condition_id find_job_in by fastforce
  qed
  then show ?thesis by (simp add: claim_effect_def)
qed

lemma claim_matches:
  assumes "db_ok d"
  shows "filter (claim_condition jid cutoff) (db_jobs d) =
    (case find_job jid d of
       None \<Rightarrow> []
     | Some j \<Rightarrow> if claim_condition jid cutoff j then [j] else [])"
proof -
  let ?Q = "\<lambda>r. job_status r \<in> claimable_statuses \<or> job_status r = PROCESSING \<and>
        (case job_started_at r of None \<Rightarrow> False | Some t \<Rightarrow> t < cutoff)"
  have eq: "claim_condition jid cutoff = (\<lambda>r. job_id r = jid \<and> ?Q r)"
    by (auto simp: claim_condition_def)
  have "distinct (map job_id (db_jobs d))" using assms by (simp add: db_ok_def)
  from filter_key_distinct[OF this, of jid ?Q] show ?thesis
    unfolding eq find_job_def by (auto split: option.split dest: find_Some_iff[THEN iffD1])
qed

text \<open>The claim on its own, when nothing interferes and nothing fails.\<close>

lemma quiet_claim_job:
  assumes "quiet w" and "db_ok (w_db w)" and "utcnow w = (now, w1)"
  shows "claim_job jid c stale w =
    (case find_job jid (w_db w) of
       None \<Rightarrow> (Inr None, w1)
     | Some j \<Rightarrow>
         if claim_condition jid (now - stale * microseconds_per_second) j
         then if 128 < length c then (Inl data_error, w1)
              else let d' = claim_effect jid (now - stale * microseconds_per_second) now c (w_db w)
                   in (Inr (Some (load_job d' (claim_values now c j))), w1\<lparr>w_db := d'\<rparr>)
         else (Inr None, w1))"
proof -
  have q: "quiet w1" and db: "w_db w1 = w_db w"
    using quiet_utcnow[OF assms(1,3)] utcnow_frame[OF assms(3)] by auto
  show ?thesis
    using q db
    by (simp add: claim_job_def assms(3) claim_matches[OF assms(2)] claim_query_def scalar_one_or_none_def Let_def
        get_job_def find_job_claim_effect split: option.split)
qed

end
