(* ===== verification/Protocol.thy ===== *)
theory Protocol
  imports Job_Service
begin

text \<open>
  The abstract machine of the pipeline: what the program as a whole may do to the database.

  \<open>db_step\<close> has one rule per kind of commit: an upload creates a document with its job, a worker
  claims, completes, retries or fails a job, the operator re-queues one. Except for the claim, a
  commit is computed from a \<open>snapshot\<close> of the job: the row as it was when the session read it, which
  may be out of date when the commit happens.

  The locale \<open>job_protocol\<close> is the interface between the job service and its clients (worker and
  API): for any relation \<open>R\<close> that contains these commits, as far as the results stored satisfy \<open>V\<close>, each
  operation of the job service stays within \<open>R\<close>, whatever fails and whatever others commit within \<open>R\<close>
  meanwhile.
\<close>

section \<open>Commits\<close>

text \<open>No change of status touches the identity of the job.\<close>

lemma same_keys_changes [simp]:
  "same_keys l (completed_job now l)" "same_keys l (retrying_job m l)"
  "same_keys l (failed_job now m l)" "same_keys l (requeued_job now l)"
  by (simp_all add: same_keys_def) (simp_all add: job_changes)

text \<open>The job still exists, with the fields that never change.\<close>

definition snapshot :: "job \<Rightarrow> db \<Rightarrow> bool" where
  "snapshot l d \<longleftrightarrow>
     (\<exists>j. find_job (job_id l) d = Some j \<and> job_document_id j = job_document_id l \<and>
          job_max_retries j = job_max_retries l)"

text \<open>The flush of a completed job together with its result.\<close>

definition flush_completed :: "time \<Rightarrow> time \<Rightarrow> job \<Rightarrow> extraction_result \<Rightarrow> db \<Rightarrow> db result" where
  "flush_completed t now l r d =
     (case flush_job t l (completed_job now l) d of
        Inl e \<Rightarrow> Inl e
      | Inr d' \<Rightarrow> insert_result r d')"

inductive db_step :: "db \<Rightarrow> db \<Rightarrow> bool" where
  create: "insert_document_and_job doc (new_job jid (doc_id doc) now budget) d = Inr d' \<Longrightarrow>
     db_step d d'"
| claim: "db_step d (claim_effect jid cutoff now c d)"
| complete: "snapshot l d \<Longrightarrow> job_status l = PROCESSING \<Longrightarrow> res_job_id r = job_id l \<Longrightarrow>
     flush_completed t now l r d = Inr d' \<Longrightarrow> db_step d d'"
| retry: "snapshot l d \<Longrightarrow> job_status l = PROCESSING \<Longrightarrow> job_retry_count l < job_max_retries l \<Longrightarrow>
     flush_job t l (retrying_job m l) d = Inr d' \<Longrightarrow> db_step d d'"
| fail: "snapshot l d \<Longrightarrow> is_active (job_status l) \<Longrightarrow>
     flush_job t l (failed_job now m l) d = Inr d' \<Longrightarrow> db_step d d'"
| requeue: "snapshot l d \<Longrightarrow> job_status l = FAILED \<Longrightarrow>
     flush_job t l (requeued_job now l) d = Inr d' \<Longrightarrow> db_step d d'"

abbreviation db_steps :: "db \<Rightarrow> db \<Rightarrow> bool" where
  "db_steps \<equiv> db_step\<^sup>*\<^sup>*"

text \<open>What the program can have made of an empty database.\<close>

definition empty_db :: db where
  "empty_db = \<lparr>db_documents = [], db_jobs = [], db_results = []\<rparr>"

section \<open>Sessions\<close>

text \<open>A session whose job is as loaded, with nothing pending.\<close>

definition fresh :: "session \<Rightarrow> bool" where
  "fresh s \<longleftrightarrow> sess_job s = sess_loaded s \<and> sess_new s = []"

lemma fresh_open [simp]: "fresh (open_session j doc res)"
  by (simp add: fresh_def open_session_def)

lemma flush_no_new [simp]: "sess_new s = [] \<Longrightarrow> flush t s d = flush_job t (sess_loaded s) (sess_job s) d"
  by (simp add: flush_def split: sum.split)

lemma flush_one_result:
  "sess_loaded s = l \<Longrightarrow> sess_job s = completed_job now l \<Longrightarrow> sess_new s = [r] \<Longrightarrow>
     flush t s d = flush_completed t now l r d"
  by (simp add: flush_def flush_completed_def split: sum.split)

lemma snapshot_self: "find_job i d = Some j \<Longrightarrow> snapshot j d"
  using find_job_Some[of i d j] by (auto simp: snapshot_def)

section \<open>The interface of the job service\<close>

locale job_protocol = shared_db R for R :: "db \<Rightarrow> db \<Rightarrow> bool" +
  fixes V :: "extraction_result \<Rightarrow> bool"
  assumes keeps: "R d d' \<Longrightarrow> snapshot l d \<Longrightarrow> snapshot l d'"
    and create_R: "insert_document_and_job doc (new_job jid (doc_id doc) now budget) d = Inr d' \<Longrightarrow> R d d'"
    and claim_R: "R d (claim_effect jid cutoff now c d)"
    and complete_R: "snapshot l d \<Longrightarrow> job_status l = PROCESSING \<Longrightarrow> res_job_id r = job_id l \<Longrightarrow> V r \<Longrightarrow>
      flush_completed t now l r d = Inr d' \<Longrightarrow> R d d'"
    and retry_R: "snapshot l d \<Longrightarrow> job_status l = PROCESSING \<Longrightarrow> job_retry_count l < job_max_retries l \<Longrightarrow>
      flush_job t l (retrying_job m l) d = Inr d' \<Longrightarrow> R d d'"
    and fail_R: "snapshot l d \<Longrightarrow> is_active (job_status l) \<Longrightarrow>
      flush_job t l (failed_job now m l) d = Inr d' \<Longrightarrow> R d d'"
    and requeue_R: "snapshot l d \<Longrightarrow> job_status l = FAILED \<Longrightarrow>
      flush_job t l (requeued_job now l) d = Inr d' \<Longrightarrow> R d d'"
begin

lemma get_job_rely:
  assumes "get_job jid w = (r, w')" and "rely R w"
  shows "R (w_db w) (w_db w')" and "rely R w'"
    and "r = Inr s \<Longrightarrow> fresh s \<and> \<not> sess_expired s \<and> job_id (sess_loaded s) = jid \<and>
      snapshot (sess_loaded s) (w_db w') \<and> s = load_job (w_db w') (sess_loaded s)"
proof -
  note q = db_read_rely[OF assms(1)[unfolded get_job_def] assms(2)]
  show "R (w_db w) (w_db w')" "rely R w'" using q(1,2) by auto
  assume "r = Inr s"
  from q(3)[OF this] obtain j where j: "find_job jid (w_db w') = Some j" "s = load_job (w_db w') j"
    by (auto split: option.splits)
  with find_job_Some[OF j(1)] snapshot_self[OF j(1)]
  show "fresh s \<and> \<not> sess_expired s \<and> job_id (sess_loaded s) = jid \<and>
      snapshot (sess_loaded s) (w_db w') \<and> s = load_job (w_db w') (sess_loaded s)"
    by (simp add: load_job_def)
qed

text \<open>Commits of a session whose flush is in \<open>R\<close> wherever the snapshot is still valid.\<close>

lemma commit_snapshot:
  assumes "session_commit s w = (r, s', w')" and "rely R w" and "snapshot l (w_db w)"
    and "\<And>t d d'. snapshot l d \<Longrightarrow> flush t s d = Inr d' \<Longrightarrow> R d d'"
  shows "R (w_db w) (w_db w')" and "rely R w'"
proof -
  obtain now d where "R (w_db w) d" "w_db w' = d \<or> flush now s d = Inr (w_db w')" "rely R w'"
    using session_commit_rely[OF assms(1,2)] by metis
  with keeps[OF this(1) assms(3)] assms(4) show "R (w_db w) (w_db w')" "rely R w'"
    by (auto intro: R_trans)
qed

lemma claim_job_rely:
  assumes "claim_job jid c stale w = (r, w')" and "rely R w"
  shows "R (w_db w) (w_db w') \<and> rely R w' \<and>
    (\<forall>s. r = Inr (Some s) \<longrightarrow> fresh s \<and> \<not> sess_expired s \<and> job_id (sess_loaded s) = jid \<and>
       snapshot (sess_loaded s) (w_db w'))"
proof -
  obtain now w1 where u: "utcnow w = (now, w1)" by fastforce
  define cutoff where "cutoff = now - stale * microseconds_per_second"
  obtain r2 w2 where q: "db_read (claim_query jid cutoff c) w1 = (r2, w2)" by fastforce
  note 1 = utcnow_rely[OF u assms(2)]
  have 2: "R (w_db w) (w_db w2)" "rely R w2"
    using db_read_rely(1,2)[OF q] 1 by auto
  show ?thesis
  proof (cases "\<exists>i. r2 = Inr (Some i)")
    case False
    with assms(1) u q 2 show ?thesis
      by (auto simp: claim_job_def Let_def cutoff_def split: sum.splits option.splits prod.splits
          dest: db_read_rely(1,2) intro: R_trans)
  next
    case True
    obtain r3 w3 where c: "commit_locked (claim_effect jid cutoff now c) w2 = (r3, w3)" by fastforce
    have 3: "R (w_db w) (w_db w3)" "rely R w3"
      using commit_locked_guarantee(1,2)[OF c 2(2) claim_R] 2(1) R_trans by blast+
    obtain r4 w4 where g: "get_job jid w3 = (r4, w4)" by fastforce
    note 4 = get_job_rely[OF g 3(2)]
    from assms(1) u q True c g have "r = (case r3 of Inl e \<Rightarrow> Inl e | Inr _ \<Rightarrow> (case r4 of Inl e \<Rightarrow> Inl e | Inr s \<Rightarrow> Inr (Some s)))"
      and "w' = (case r3 of Inl e \<Rightarrow> w3 | Inr _ \<Rightarrow> w4)"
      by (auto simp: claim_job_def Let_def cutoff_def split: sum.splits option.splits prod.splits)
    with 3 4 R_trans[OF 3(1) 4(1)] show ?thesis by (auto split: sum.splits)
  qed
qed

lemma mark_failed_rely:
  assumes "mark_failed m True s w = (r, s', w')" and "rely R w" and "fresh s"
    and "snapshot (sess_loaded s) (w_db w)"
  shows "R (w_db w) (w_db w')" and "rely R w'"
proof -
  have "R (w_db w) (w_db w') \<and> rely R w'"
  proof (cases "is_active (job_status (sess_job s))")
    case False
    with assms show ?thesis by (auto simp: mark_failed_def split: sum.splits)
  next
    case True
    obtain now w1 where u: "utcnow w = (now, w1)" by fastforce
    let ?s = "s\<lparr>sess_job := failed_job now m (sess_job s)\<rparr>"
    have c: "session_commit ?s w1 = (r, s', w')"
      using assms(1) True u
      by (auto simp: mark_failed_def commit_if_def ensure_transition_allowed_def
          is_transition_allowed_def split: prod.splits)
    note 1 = utcnow_rely[OF u assms(2)]
    have "R (w_db w1) (w_db w')" "rely R w'"
      by (rule commit_snapshot[OF c, of "sess_loaded s"];
          use 1 assms True fail_R in \<open>auto simp: fresh_def\<close>)+
    with 1 show ?thesis by simp
  qed
  then show "R (w_db w) (w_db w')" and "rely R w'" by auto
qed

lemma mark_retrying_rely:
  assumes "mark_retrying m True s w = (r, s', w')" and "rely R w" and "fresh s"
    and "snapshot (sess_loaded s) (w_db w)"
    and "job_retry_count (sess_loaded s) < job_max_retries (sess_loaded s)"
  shows "R (w_db w) (w_db w')" and "rely R w'"
proof -
  have "R (w_db w) (w_db w') \<and> rely R w'"
  proof (cases "job_status (sess_job s) = PROCESSING")
    case False
    with assms show ?thesis by (auto simp: mark_retrying_def split: sum.splits)
  next
    case True
    let ?s = "s\<lparr>sess_job := retrying_job m (sess_job s)\<rparr>"
    have c: "session_commit ?s w = (r, s', w')"
      using assms(1) True
      by (auto simp: mark_retrying_def commit_if_def ensure_transition_allowed_def
          is_transition_allowed_def split: prod.splits)
    have "R (w_db w) (w_db w')" "rely R w'"
      by (rule commit_snapshot[OF c, of "sess_loaded s"];
          use assms True retry_R in \<open>auto simp: fresh_def\<close>)+
    then show ?thesis by simp
  qed
  then show "R (w_db w) (w_db w')" and "rely R w'" by auto
qed

lemma reset_for_manual_retry_rely:
  assumes "reset_for_manual_retry True s w = (r, s', w')" and "rely R w" and "fresh s"
    and "snapshot (sess_loaded s) (w_db w)"
  shows "R (w_db w) (w_db w')" and "rely R w'"
proof -
  have "R (w_db w) (w_db w') \<and> rely R w'"
  proof (cases "job_status (sess_job s) = FAILED")
    case False
    with assms show ?thesis by (auto simp: reset_for_manual_retry_def split: sum.splits)
  next
    case True
    obtain now w1 where u: "utcnow w = (now, w1)" by fastforce
    let ?s = "s\<lparr>sess_job := requeued_job now (sess_job s)\<rparr>"
    have c: "session_commit ?s w1 = (r, s', w')"
      using assms(1) True u
      by (auto simp: reset_for_manual_retry_def commit_if_def ensure_transition_allowed_def
          is_transition_allowed_def split: prod.splits)
    note 1 = utcnow_rely[OF u assms(2)]
    have "R (w_db w1) (w_db w')" "rely R w'"
      by (rule commit_snapshot[OF c, of "sess_loaded s"];
          use 1 assms True requeue_R in \<open>auto simp: fresh_def\<close>)+
    with 1 show ?thesis by simp
  qed
  then show "R (w_db w) (w_db w')" and "rely R w'" by auto
qed

end

section \<open>The commits satisfy the interface\<close>

inductive_cases db_stepE: "db_step d d'"

lemma find_job_flush:
  assumes "flush_job t l c d = Inr d'"
  shows "find_job i d' =
    (if c \<noteq> l then map_option (\<lambda>r. if job_id r = job_id l then flush_row t l c r else r) (find_job i d)
     else find_job i d)"
  using assms find_job_update_rows[of "flush_row t l c" i "\<lambda>r. job_id r = job_id l" d]
  by (auto simp: flush_job_def split: if_splits)

lemma snapshot_iff:
  "snapshot l d \<longleftrightarrow>
     map_option (\<lambda>j. (job_document_id j, job_max_retries j)) (find_job (job_id l) d) =
       Some (job_document_id l, job_max_retries l)"
  by (auto simp: snapshot_def)

lemma snapshot_flush:
  assumes "flush_job t k c d = Inr d'" and "same_keys k c" and "snapshot l d"
  shows "snapshot l d'"
proof -
  from assms(3) obtain j where "find_job (job_id l) d = Some j"
    and "job_document_id j = job_document_id l" and "job_max_retries j = job_max_retries l"
    by (auto simp: snapshot_def)
  then show ?thesis using assms(2) by (simp add: snapshot_def find_job_flush[OF assms(1)] same_keys_def)
qed

lemmas snapshot_flushes =
  snapshot_flush[OF _ same_keys_changes(1)] snapshot_flush[OF _ same_keys_changes(2)]
  snapshot_flush[OF _ same_keys_changes(3)] snapshot_flush[OF _ same_keys_changes(4)]

lemma flush_completed_cases:
  assumes "flush_completed t now l r d = Inr d'"
  obtains d1 where "flush_job t l (completed_job now l) d = Inr d1" and "insert_result r d1 = Inr d'"
  using assms by (auto simp: flush_completed_def split: sum.splits)

lemma snapshot_insert: "insert_result r d = Inr d' \<Longrightarrow> snapshot l d \<Longrightarrow> snapshot l d'"
  by (auto simp: insert_result_Inr snapshot_iff)

lemma snapshot_create: "insert_document_and_job doc j d = Inr d' \<Longrightarrow> snapshot l d \<Longrightarrow> snapshot l d'"
  by (auto simp: insert_document_and_job_def snapshot_def find_job_def find_append split: if_splits)

lemma snapshot_claim: "snapshot l d \<Longrightarrow> snapshot l (claim_effect jid cutoff now c d)"
  unfolding snapshot_iff by (auto simp: find_job_claim_effect option.map_comp)

lemma snapshot_complete: "flush_completed t now k r d = Inr d' \<Longrightarrow> snapshot l d \<Longrightarrow> snapshot l d'"
  by (erule flush_completed_cases) (blast intro: snapshot_flushes snapshot_insert)

lemma db_step_keeps: "db_step d d' \<Longrightarrow> snapshot l d \<Longrightarrow> snapshot l d'"
  by (erule db_stepE)
    (blast intro: snapshot_create snapshot_claim snapshot_flushes snapshot_complete)+

lemma db_steps_keeps: "db_steps d d' \<Longrightarrow> snapshot l d \<Longrightarrow> snapshot l d'"
  by (induction rule: rtranclp_induct) (auto intro: db_step_keeps)

interpretation pipeline: job_protocol db_steps "\<lambda>_. True"
  by unfold_locales (auto intro: db_steps_keeps db_step.intros)

section \<open>Invariants of everything the program can commit\<close>

definition error_bounded :: "job \<Rightarrow> bool" where
  "error_bounded j \<longleftrightarrow>
     (case job_error_message j of None \<Rightarrow> True | Some m \<Rightarrow> length m \<le> MAX_ERROR_MESSAGE_CHARS + 15)"

definition job_inv :: "db \<Rightarrow> job \<Rightarrow> bool" where
  "job_inv d j \<longleftrightarrow>
     job_retry_count j \<le> max 0 (job_max_retries j) \<and> error_bounded j \<and>
     (job_status j = COMPLETED \<longrightarrow> find_result (job_id j) d \<noteq> None)"

definition pipeline_inv :: "db \<Rightarrow> bool" where
  "pipeline_inv d \<longleftrightarrow> db_ok d \<and> (\<forall>j \<in> set (db_jobs d). job_inv d j)"

text \<open>The change to the row is one the invariant survives.\<close>

definition sound_change :: "job \<Rightarrow> job \<Rightarrow> bool" where
  "sound_change l c \<longleftrightarrow>
     same_keys l c \<and>
     (job_retry_count c = job_retry_count l \<or> job_retry_count c \<le> max 0 (job_max_retries l)) \<and>
     (job_error_message c = job_error_message l \<or> error_bounded c)"

lemma error_bounded_truncate: "job_error_message j = truncate_error (Some m) \<Longrightarrow> error_bounded j"
  by (auto simp: error_bounded_def truncate_error_def MAX_ERROR_MESSAGE_CHARS_def)

lemma sound_changes [intro]:
  "sound_change l (completed_job now l)"
  "sound_change l (failed_job now m l)"
  "sound_change l (requeued_job now l)"
  "job_retry_count l < job_max_retries l \<Longrightarrow> sound_change l (retrying_job m l)"
proof -
  have "error_bounded (failed_job now m l)" and "error_bounded (retrying_job m l)"
    by (rule error_bounded_truncate; simp add: failed_job_def retrying_job_def)+
  then show "sound_change l (completed_job now l)" "sound_change l (failed_job now m l)"
    "sound_change l (requeued_job now l)"
    "job_retry_count l < job_max_retries l \<Longrightarrow> sound_change l (retrying_job m l)"
    by (simp_all add: sound_change_def)
      (simp_all add: job_changes error_bounded_def)
qed

lemma job_inv_flush_row:
  assumes "job_inv d r" and "sound_change l c" and "job_max_retries r = job_max_retries l"
    and "job_status c = COMPLETED \<longrightarrow> find_result (job_id r) d \<noteq> None"
  shows "job_inv d (flush_row t l c r)"
  using assms
  by (auto simp: job_inv_def sound_change_def same_keys_def flush_row_def pick_def error_bounded_def)

lemma pipeline_inv_flush:
  assumes inv: "pipeline_inv d" and "flush_job t l c d = Inr d'" and "sound_change l c"
    and "snapshot l d" and "job_status c = COMPLETED \<longrightarrow> find_result (job_id l) d \<noteq> None"
  shows "pipeline_inv d'"
proof (cases "c = l")
  case True
  with assms show ?thesis by (simp add: flush_job_def)
next
  case False
  have d': "d' = d\<lparr>db_jobs := update_rows (\<lambda>r. job_id r = job_id l) (flush_row t l c) (db_jobs d)\<rparr>"
    using assms(2) False by (simp add: flush_job_def split: if_splits)
  have same: "job_inv d' = job_inv d" by (auto simp: d' job_inv_def fun_eq_iff)
  have "job_inv d r'" if "r' \<in> set (db_jobs d')" for r'
  proof -
    from that obtain r where r: "r \<in> set (db_jobs d)"
      and r': "r' = (if job_id r = job_id l then flush_row t l c r else r)"
      by (auto simp: d' set_update_rows)
    have "job_inv d r" using inv r by (simp add: pipeline_inv_def)
    moreover have "job_max_retries r = job_max_retries l" if "job_id r = job_id l"
      using assms(4) inv r that find_job_in[of d r] by (auto simp: snapshot_def pipeline_inv_def)
    ultimately show ?thesis using job_inv_flush_row[of d r l c t] assms(3,5) by (auto simp: r')
  qed
  then show ?thesis
    using inv flush_job_db_ok[OF assms(2)] by (simp add: pipeline_inv_def same)
qed

lemma find_result_append:
  "find_result i (d\<lparr>db_results := db_results d @ [r]\<rparr>) =
     (case find_result i d of Some x \<Rightarrow> Some x | None \<Rightarrow> if res_job_id r = i then Some r else None)"
  by (simp add: find_result_def find_append split: option.split)

lemma pipeline_inv_insert_result:
  "pipeline_inv d \<Longrightarrow> insert_result r d = Inr d' \<Longrightarrow> pipeline_inv d'"
  using insert_result_db_ok[of r d d']
  by (auto simp: pipeline_inv_def job_inv_def insert_result_Inr find_result_append split: option.split)

text \<open>
  A completed job is flushed before its result is inserted; the two inserts commute, so the
  invariant can be followed in the other order.
\<close>

lemma flush_job_keys:
  assumes "flush_job t l c d = Inr d'"
  shows "map job_id (db_jobs d') = map job_id (db_jobs d)"
    and "db_results d' = db_results d" and "db_documents d' = db_documents d"
  using assms by (auto simp: flush_job_def map_key_update_rows split: if_splits)

lemma flush_completed_swap:
  assumes "flush_completed t now l r d = Inr d'"
  obtains d1 where "insert_result r d = Inr d1" and "flush_job t l (completed_job now l) d1 = Inr d'"
proof -
  from assms obtain d1 where f: "flush_job t l (completed_job now l) d = Inr d1"
    and i: "insert_result r d1 = Inr d'" by (rule flush_completed_cases)
  have "job_id ` set (db_jobs d1) = job_id ` set (db_jobs d)"
    using flush_job_keys(1)[OF f] by (metis set_map)
  then have "insert_result r d = Inr (d\<lparr>db_results := db_results d @ [r]\<rparr>)"
    using i flush_job_keys(2)[OF f] by (simp add: insert_result_Inr)
  moreover have "flush_job t l (completed_job now l) (d\<lparr>db_results := db_results d @ [r]\<rparr>) = Inr d'"
    using f i by (auto simp: flush_job_def insert_result_Inr split: if_splits)
  ultimately show thesis by (rule that)
qed

lemma pipeline_inv_claim: "pipeline_inv d \<Longrightarrow> pipeline_inv (claim_effect jid cutoff now c d)"
  using claim_effect_db_ok[of d jid cutoff now c]
  by (auto simp: pipeline_inv_def job_inv_def claim_effect_def claim_values_def set_update_rows
      error_bounded_def)

lemma insert_document_and_job_Inr:
  "insert_document_and_job doc j d = Inr d' \<longleftrightarrow>
     document_fits doc \<and> doc_id doc \<notin> doc_id ` set (db_documents d) \<and>
     doc_stored_filename doc \<notin> doc_stored_filename ` set (db_documents d) \<and>
     job_id j \<notin> job_id ` set (db_jobs d) \<and>
     d' = d\<lparr>db_documents := db_documents d @ [doc], db_jobs := db_jobs d @ [j]\<rparr>"
  unfolding insert_document_and_job_def by (simp split: if_split) blast

lemma pipeline_inv_create:
  assumes "pipeline_inv d" and "insert_document_and_job doc (new_job jid (doc_id doc) now budget) d = Inr d'"
  shows "pipeline_inv d'"
  using assms
  by (auto simp: pipeline_inv_def job_inv_def insert_document_and_job_Inr db_ok_def new_job_def
      error_bounded_def find_result_def)

lemma pipeline_inv_complete:
  assumes "pipeline_inv d" and "snapshot l d" and "res_job_id r = job_id l"
    and "flush_completed t now l r d = Inr d'"
  shows "pipeline_inv d'"
proof -
  from assms(4) obtain d1 where i: "insert_result r d = Inr d1"
    and f: "flush_job t l (completed_job now l) d1 = Inr d'" by (rule flush_completed_swap)
  have inv: "pipeline_inv d1" by (rule pipeline_inv_insert_result[OF assms(1) i])
  have snap: "snapshot l d1" by (rule snapshot_insert[OF i assms(2)])
  have res: "find_result (job_id l) d1 \<noteq> None"
    using i assms(3) by (auto simp: insert_result_Inr find_result_append split: option.split)
  show ?thesis
    by (rule pipeline_inv_flush[OF inv f sound_changes(1) snap]) (simp add: res)
qed

lemma pipeline_inv_step:
  assumes "db_step d d'" and "pipeline_inv d"
  shows "pipeline_inv d'"
  using assms(1)
proof cases
  case create
  with assms(2) show ?thesis by (blast intro: pipeline_inv_create)
next
  case claim
  with assms(2) show ?thesis by (simp add: pipeline_inv_claim)
next
  case complete
  with assms(2) show ?thesis by (blast intro: pipeline_inv_complete)
next
  case (retry l t m)
  show ?thesis
    by (rule pipeline_inv_flush[OF assms(2) retry(4) sound_changes(4)[OF retry(3)] retry(1)]) simp
next
  case (fail l t now m)
  show ?thesis by (rule pipeline_inv_flush[OF assms(2) fail(3) sound_changes(2) fail(1)]) simp
next
  case (requeue l t now)
  show ?thesis by (rule pipeline_inv_flush[OF assms(2) requeue(3) sound_changes(3) requeue(1)]) simp
qed

lemma pipeline_inv_steps: "db_steps d d' \<Longrightarrow> pipeline_inv d \<Longrightarrow> pipeline_inv d'"
  by (induction rule: rtranclp_induct) (auto intro: pipeline_inv_step)

lemma pipeline_inv_empty: "pipeline_inv empty_db"
  by (simp add: pipeline_inv_def empty_db_def db_ok_def)

text \<open>Rows are never deleted, and results and documents never change once they are written.\<close>

definition extends_db :: "db \<Rightarrow> db \<Rightarrow> bool" where
  "extends_db d d' \<longleftrightarrow>
     prefix (db_documents d) (db_documents d') \<and> prefix (db_results d) (db_results d') \<and>
     prefix (map (\<lambda>j. (job_id j, job_document_id j, job_max_retries j, job_created_at j)) (db_jobs d))
       (map (\<lambda>j. (job_id j, job_document_id j, job_max_retries j, job_created_at j)) (db_jobs d'))"

lemma extends_refl [simp]: "extends_db d d"
  by (simp add: extends_db_def)

lemma extends_trans: "extends_db d d' \<Longrightarrow> extends_db d' d'' \<Longrightarrow> extends_db d d''"
  unfolding extends_db_def by (auto intro: prefix_order.trans)

lemma extends_flush: "flush_job t l c d = Inr d' \<Longrightarrow> same_keys l c \<Longrightarrow> extends_db d d'"
  by (auto simp: flush_job_def extends_db_def map_key_update_rows same_keys_def split: if_splits)

lemmas extends_flushes =
  extends_flush[OF _ same_keys_changes(1)] extends_flush[OF _ same_keys_changes(2)]
  extends_flush[OF _ same_keys_changes(3)] extends_flush[OF _ same_keys_changes(4)]

lemma extends_insert: "insert_result r d = Inr d' \<Longrightarrow> extends_db d d'"
  by (auto simp: insert_result_Inr extends_db_def)

lemma extends_create: "insert_document_and_job doc j d = Inr d' \<Longrightarrow> extends_db d d'"
  by (auto simp: insert_document_and_job_Inr extends_db_def)

lemma extends_claim: "extends_db d (claim_effect jid cutoff now c d)"
  by (simp add: extends_db_def claim_effect_def map_key_update_rows claim_values_def)

lemma extends_complete: "flush_completed t now l r d = Inr d' \<Longrightarrow> extends_db d d'"
  by (erule flush_completed_cases) (blast intro: extends_flushes extends_insert extends_trans)

lemma extends_step: "db_step d d' \<Longrightarrow> extends_db d d'"
  by (erule db_stepE)
    (blast intro: extends_create extends_claim extends_complete extends_flushes)+

lemma extends_steps: "db_steps d d' \<Longrightarrow> extends_db d d'"
  by (induction rule: rtranclp_induct) (auto intro: extends_step extends_trans)

end
