(* ===== verification/Samples.thy ===== *)
theory Samples
  imports Job_Service
begin

text \<open>
  Concrete data the witnesses of the properties run on: one uploaded text document with its job, in
  a database, and a world around it in which nothing fails.
\<close>

definition sample_stored :: stored_file where
  "sample_stored =
     \<lparr>sf_stored_filename = ''a1.txt'', sf_storage_path = ''a1.txt'', sf_size = 3,
      sf_checksum = ''c0''\<rparr>"

definition sample_document :: document where
  "sample_document = new_document ''doc'' 0 sample_stored ''note.txt'' ''text/plain'' None"

definition queued_job :: job where
  "queued_job = new_job ''job'' ''doc'' 0 3"

definition processing_job :: job where
  "processing_job = claim_values 1000000 ''worker'' queued_job"

definition sample_result :: extraction_result where
  "sample_result =
     \<lparr>res_id = ''res'', res_job_id = ''job'', res_detected_document_type = INVOICE,
      res_extracted_data = JObj [], res_raw_text = None, res_model_provider = ''fake'',
      res_model_name = ''fake-1'', res_prompt_version = ''v1'', res_input_tokens = None,
      res_output_tokens = None, res_confidence_score = None, res_created_at = 0\<rparr>"

definition sample_db :: "job \<Rightarrow> db" where
  "sample_db j = \<lparr>db_documents = [sample_document], db_jobs = [j], db_results = []\<rparr>"

text \<open>Identifiers come from a fixed sequence of 32 distinct names.\<close>

definition sample_uuid :: "nat \<Rightarrow> uuid" where
  "sample_uuid n = ''id'' @ show_nat n"

definition sample_world :: "'r \<Rightarrow> 'p \<Rightarrow> 'f \<Rightarrow> db \<Rightarrow> time \<Rightarrow> ('r, 'p, 'f) world" where
  "sample_world r p f d now =
     \<lparr>w_db = d, w_redis = r, w_provider = p, w_files = f, w_now = now, w_times = [],
      w_uuid = sample_uuid, w_uuid_next = 0, w_randoms = [], w_others = [], w_faults = []\<rparr>"

lemmas sample_defs =
  sample_stored_def sample_document_def queued_job_def processing_job_def sample_result_def
  sample_db_def new_document_def new_job_def claim_values_def

lemma quiet_sample_world [simp]: "quiet (sample_world r p f d now)"
  by (simp add: quiet_def sample_world_def)

lemma sample_world_simps [simp]:
  "w_db (sample_world r p f d now) = d" "w_redis (sample_world r p f d now) = r"
  "w_provider (sample_world r p f d now) = p" "w_files (sample_world r p f d now) = f"
  "utcnow (sample_world r p f d now) = (now, sample_world r p f d now)"
  "(sample_world r p f d now)\<lparr>w_db := d'\<rparr> = sample_world r p f d' now"
  "(sample_world r p f d now)\<lparr>w_redis := r'\<rparr> = sample_world r' p f d now"
  "(sample_world r p f d now)\<lparr>w_provider := p'\<rparr> = sample_world r p' f d now"
  "(sample_world r p f d now)\<lparr>w_files := f'\<rparr> = sample_world r p f' d now"
  by (simp_all add: sample_world_def utcnow_def)

lemma db_ok_sample [simp]:
  "job_document_id j = ''doc'' \<Longrightarrow> db_ok (sample_db j)"
  by (simp add: db_ok_def sample_db_def sample_document_def new_document_def)

lemma find_job_sample [simp]:
  "find_job i (sample_db j) = (if job_id j = i then Some j else None)"
  by (simp add: find_job_def sample_db_def)

lemma sample_job_fields [simp]:
  "job_id queued_job = ''job''" "job_document_id queued_job = ''doc''"
  "job_status queued_job = QUEUED" "job_id processing_job = ''job''"
  "job_document_id processing_job = ''doc''" "job_status processing_job = PROCESSING"
  "job_started_at processing_job = Some 1000000" "job_retry_count queued_job = 0"
  "job_retry_count processing_job = 0" "job_max_retries processing_job = 3"
  "job_max_retries queued_job = 3"
  by (simp_all add: queued_job_def processing_job_def new_job_def)

end
