(* ===== verification/Job_Properties.thy ===== *)
theory Job_Properties
  imports Protocol Samples "HOL-Library.Multiset"
begin

text \<open>
  The properties of the job service: what its operations do on their own (exactly one claim, the
  transition table, paging), and what holds of the database however they interleave.
\<close>

section \<open>A session whose job is the row in the database\<close>

definition current :: "session \<Rightarrow> db \<Rightarrow> bool" where
  "current s d \<longleftrightarrow> fresh s \<and> find_job (job_id (sess_loaded s)) d = Some (sess_loaded s)"

lemma flush_row_loaded: "same_keys l c \<Longrightarrow> flush_row now l c l = c\<lparr>job_updated_at := now\<rparr>"
  by (cases l, cases c) (simp add: flush_row_def same_keys_def)

lemma quiet_commit_current:
  assumes "quiet w" and "fresh s" and "find_job (job_id l) (w_db w) = Some l" and "sess_loaded s = l"
    and "same_keys l c" and "c \<noteq> l" and "utcnow w = (now, w1)"
  shows "session_commit (s\<lparr>sess_job := c\<rparr>) w =
    (Inr (), s\<lparr>sess_job := c, sess_loaded := c\<rparr>,
     w1\<lparr>w_db := (w_db w)\<lparr>db_jobs :=
        update_rows (\<lambda>r. job_id r = job_id l) (flush_row now l c) (db_jobs (w_db w))\<rparr>\<rparr>)"
proof -
  have "quiet w1" "w_db w1 = w_db w"
    using quiet_utcnow[OF assms(1,7)] utcnow_frame[OF assms(7)] by auto
  with assms show ?thesis
    by (simp add: session_commit_def flush_job_same_keys fresh_def)
qed

text \<open>What an operation that moves a job to \<open>target\<close> has to do.\<close>

definition conforms ::
  "job_status \<Rightarrow> session \<Rightarrow> ('r, 'p, 'f) world \<Rightarrow> unit result \<times> session \<times> ('r, 'p, 'f) world \<Rightarrow> bool" where
  "conforms target s w out \<longleftrightarrow>
     (case out of (r, s', w') \<Rightarrow>
        if target \<in> allowed_transitions (job_status (sess_job s)) then
          r = Inr () \<and> job_status (sess_job s') = target \<and> same_keys (sess_job s) (sess_job s') \<and>
          (\<exists>now. find_job (job_id (sess_job s)) (w_db w') = Some ((sess_job s')\<lparr>job_updated_at := now\<rparr>)) \<and>
          (\<forall>i. i \<noteq> job_id (sess_job s) \<longrightarrow> find_job i (w_db w') = find_job i (w_db w)) \<and>
          db_results (w_db w') = db_results (w_db w) \<and>
          db_documents (w_db w') = db_documents (w_db w)
        else r = Inl (invalid_transition (job_status (sess_job s)) target) \<and> s' = s \<and> w' = w)"

lemma conforms_commit:
  assumes "quiet w" and "current s (w_db w)" and "same_keys (sess_job s) c"
    and "job_status c = target" and "target \<in> allowed_transitions (job_status (sess_job s))"
    and "w_db w1 = w_db w" and "quiet w1"
  shows "conforms target s w (session_commit (s\<lparr>sess_job := c\<rparr>) w1)"
proof -
  obtain now w2 where u: "utcnow w1 = (now, w2)" by fastforce
  let ?l = "sess_loaded s"
  have l: "sess_job s = ?l" "fresh s" "find_job (job_id ?l) (w_db w1) = Some ?l"
    using assms(2,6) by (auto simp: current_def fresh_def)
  have "c \<noteq> ?l"
    using assms(4,5) l(1) by (cases "job_status ?l") auto
  note commit = quiet_commit_current[OF assms(7) l(2,3) refl _ this u]
  have other: "map_option (\<lambda>r. if job_id r = k then f r else r) (find_job i d) = find_job i d"
    if "i \<noteq> k" for i k d f
    using that by (cases "find_job i d") (auto dest: find_job_Some)
  from commit assms l show ?thesis
    by (auto simp: conforms_def find_job_update_rows flush_row_loaded other)
qed

text \<open>
  C8. Every state change follows the transition table. On a session whose job is the row in the
  database, \<open>mark_completed\<close>, \<open>mark_retrying\<close>, \<open>mark_failed\<close> and \<open>reset_for_manual_retry\<close> either
  commit exactly that job with the new status, touching no other row, or, when the table forbids the
  transition, raise \<open>InvalidJobTransitionError\<close> and change nothing.
\<close>

theorem marks_follow_the_table:
  assumes "quiet w" and "current s (w_db w)"
  shows "conforms COMPLETED s w (mark_completed True s w) \<and>
    conforms RETRYING s w (mark_retrying m True s w) \<and>
    conforms FAILED s w (mark_failed m True s w) \<and>
    conforms QUEUED s w (reset_for_manual_retry True s w)"
proof -
  obtain now w1 where u: "utcnow w = (now, w1)" by fastforce
  have w1: "w_db w1 = w_db w" "quiet w1"
    using utcnow_frame[OF u] quiet_utcnow[OF assms(1) u] by auto
  have step: "conforms t s w
      (case ensure_transition_allowed (job_status (sess_job s)) t of
         Inl e \<Rightarrow> (Inl e, s, w)
       | Inr _ \<Rightarrow> session_commit (s\<lparr>sess_job := c\<rparr>) v)"
    if "same_keys (sess_job s) c" "job_status c = t" "w_db v = w_db w" "quiet v" for t c v
  proof (cases "t \<in> allowed_transitions (job_status (sess_job s))")
    case True
    with conforms_commit[OF assms that(1,2) _ that(3,4)] show ?thesis
      by (simp add: ensure_transition_allowed_def is_transition_allowed_def)
  next
    case False
    then show ?thesis
      by (simp add: conforms_def ensure_transition_allowed_def is_transition_allowed_def)
  qed
  show ?thesis
    unfolding mark_defs commit_if_def u prod.case if_True
    using assms(1) w1 by (intro conjI step) simp_all
qed

lemma marks_follow_the_table_witness:
  "conforms FAILED (open_session processing_job None None)
     (sample_world () () () (sample_db processing_job) 5000000)
     (mark_failed ''boom'' True (open_session processing_job None None)
        (sample_world () () () (sample_db processing_job) 5000000))"
  using marks_follow_the_table[of "sample_world () () () (sample_db processing_job) 5000000"
      "open_session processing_job None None" "''boom''"]
  by (simp add: current_def)

section \<open>Claims\<close>

text \<open>
  C7. At most one worker holds a job: once a claim has succeeded, a second worker's claim whose stale
  cut-off is not later than the first claim's time is refused and leaves the database as it is.
\<close>

theorem claim_exclusive:
  assumes "quiet w" and "db_ok (w_db w)" and "utcnow w = (now, w0)"
    and "claim_job jid c stale w = (Inr (Some s), w1)"
    and "utcnow w1 = (now', w2)" and "now' \<le> now + stale * microseconds_per_second"
  shows "claim_job jid c' stale w1 = (Inr None, w2) \<and> w_db w2 = w_db w1 \<and>
    (\<exists>j. find_job jid (w_db w1) = Some j \<and> job_status j = PROCESSING \<and>
         job_consumer_name j = Some c \<and> job_started_at j = Some now \<and> sess_job s = j)"
proof -
  let ?cut = "now - stale * microseconds_per_second"
  from assms(4) quiet_claim_job[OF assms(1-3), of jid c stale]
  obtain j where j: "find_job jid (w_db w) = Some j" "claim_condition jid ?cut j"
    and s: "s = load_job (claim_effect jid ?cut now c (w_db w)) (claim_values now c j)"
    and w1: "w1 = w0\<lparr>w_db := claim_effect jid ?cut now c (w_db w)\<rparr>"
    by (auto simp: Let_def split: option.splits if_splits)
  have q1: "quiet w1" and ok1: "db_ok (w_db w1)"
    using quiet_utcnow[OF assms(1,3)] assms(2) by (auto simp: w1 intro: claim_effect_db_ok)
  have row: "find_job jid (w_db w1) = Some (claim_values now c j)"
    by (simp add: w1 find_job_claim_effect j)
  have "\<not> claim_condition jid (now' - stale * microseconds_per_second) (claim_values now c j)"
    using assms(6) by (simp add: claim_condition_def claimable_statuses_def)
  then have "claim_job jid c' stale w1 = (Inr None, w2)"
    using quiet_claim_job[OF q1 ok1 assms(5), of jid c' stale] row by simp
  then show ?thesis using utcnow_frame[OF assms(5)] row s
    by (simp add: load_job_def open_session_def claim_values_def)
qed

definition claimed_sample :: "(unit, unit, unit) world" where
  "claimed_sample = snd (claim_job ''job'' ''w1'' 60 (sample_world () () () (sample_db queued_job) 5))"

lemma claimed_sample_eq:
  "claim_job ''job'' ''w1'' 60 (sample_world () () () (sample_db queued_job) 5) =
     (Inr (Some (load_job (sample_db (claim_values 5 ''w1'' queued_job)) (claim_values 5 ''w1'' queued_job))),
      sample_world () () () (sample_db (claim_values 5 ''w1'' queued_job)) 5)"
proof -
  have "claim_effect ''job'' (5 - 60 * microseconds_per_second) 5 ''w1'' (sample_db queued_job) =
      sample_db (claim_values 5 ''w1'' queued_job)"
    by (simp add: claim_effect_def update_rows_def sample_db_def claim_condition_def
        claimable_statuses_def)
  then show ?thesis
    using quiet_claim_job[of "sample_world () () () (sample_db queued_job) 5" 5
        "sample_world () () () (sample_db queued_job) 5" "''job''" "''w1''" 60]
    by (simp add: claim_condition_def claimable_statuses_def Let_def)
qed

lemma claim_exclusive_witness:
  "claim_job ''job'' ''w2'' 60 claimed_sample = (Inr None, claimed_sample)"
  using claim_exclusive[OF _ _ _ claimed_sample_eq, of 5 _ 5]
  by (simp add: claimed_sample_def claimed_sample_eq)

section \<open>Whatever interleaves\<close>

text \<open>
  C6. In every database the pipeline can reach, however uploads, workers, re-queued jobs and stale
  sessions interleave, all constraints hold, a \<open>COMPLETED\<close> job has its extraction result, no job has
  retried more often than it may, and no stored error is longer than the truncation limit.
\<close>

theorem reachable_database_sound:
  assumes "db_steps empty_db d"
  shows "db_ok d \<and> (\<forall>j \<in> set (db_jobs d).
    (job_status j = COMPLETED \<longrightarrow> find_result (job_id j) d \<noteq> None) \<and>
    job_retry_count j \<le> max 0 (job_max_retries j) \<and>
    (case job_error_message j of None \<Rightarrow> True | Some m \<Rightarrow> length m \<le> MAX_ERROR_MESSAGE_CHARS + 15))"
  using pipeline_inv_steps[OF assms pipeline_inv_empty]
  by (simp add: pipeline_inv_def job_inv_def error_bounded_def)

lemma sample_reachable: "db_steps empty_db (sample_db queued_job)"
proof -
  have "insert_document_and_job sample_document (new_job ''job'' (doc_id sample_document) 0 3) empty_db =
      Inr (sample_db queued_job)"
    by (simp add: insert_document_and_job_Inr document_fits_def empty_db_def sample_defs)
  then show ?thesis by (blast intro: db_step.create)
qed

lemma reachable_database_sound_witness:
  "db_ok (sample_db queued_job) \<and> job_retry_count queued_job \<le> max 0 (job_max_retries queued_job)"
proof -
  have "queued_job \<in> set (db_jobs (sample_db queued_job))" by (simp add: sample_db_def)
  with reachable_database_sound[OF sample_reachable] show ?thesis by blast
qed

section \<open>A session that lost its claim\<close>

text \<open>
  C27. The update of a job is by primary key only: a worker whose claim went stale (its session was
  loaded while the job was \<open>PROCESSING\<close>) overwrites a job that another worker has completed since,
  and marks it \<open>FAILED\<close>; the check of the transition table sees only its own copy.
\<close>

theorem stale_session_overwrites_completed:
  assumes "quiet w" and "fresh s" and "job_status (sess_loaded s) = PROCESSING"
    and "find_job (job_id (sess_loaded s)) (w_db w) = Some j" and "job_status j = COMPLETED"
  shows "\<exists>s' w' j'. mark_failed m True s w = (Inr (), s', w') \<and>
    find_job (job_id (sess_loaded s)) (w_db w') = Some j' \<and> job_status j' = FAILED"
proof -
  obtain now w1 where u: "utcnow w = (now, w1)" by fastforce
  obtain now' w2 where u': "utcnow w1 = (now', w2)" by fastforce
  have q: "quiet w1" "quiet w2" "w_db w1 = w_db w" "w_db w2 = w_db w"
    using quiet_utcnow[OF assms(1) u] quiet_utcnow[OF _ u'] utcnow_frame[OF u] utcnow_frame[OF u'] by auto
  have l: "sess_job s = sess_loaded s" using assms(2) by (simp add: fresh_def)
  have act: "is_active PROCESSING" by (simp add: is_active_def status_sets)
  have ne: "failed_job now m (sess_loaded s) \<noteq> sess_loaded s"
    using assms(3) by (metis job_change_status(3) job_status.distinct)
  from assms q l ne act u u' show ?thesis
    by (simp add: mark_failed_def ensure_transition_allowed_def is_transition_allowed_def commit_if_def
        session_commit_def fresh_def flush_job_same_keys find_job_update_rows pick_def)
      (use find_job_Some[OF assms(4)] in blast)
qed

lemma stale_session_overwrites_completed_witness:
  "\<exists>s' w' j'. mark_failed ''late'' True (open_session processing_job None None)
      (sample_world () () () (sample_db (completed_job 7 processing_job)) 9) = (Inr (), s', w') \<and>
    find_job ''job'' (w_db w') = Some j' \<and> job_status j' = FAILED"
  using stale_session_overwrites_completed[OF quiet_sample_world[of "()" "()" "()"
        "sample_db (completed_job 7 processing_job)" 9]
      fresh_open[of processing_job None None], of "completed_job 7 processing_job" "''late''"]
  by simp

section \<open>Listing\<close>

lemma newest_first_props:
  shows "mset (newest_first rows) = mset rows"
    and "sorted_wrt (\<lambda>a b. (job_created_at b, job_id b) \<le> (job_created_at a, job_id a)) (newest_first rows)"
proof -
  have "sorted_wrt (\<lambda>a b. (job_created_at a, job_id a) \<le> (job_created_at b, job_id b))
      (sort_key (\<lambda>j. (job_created_at j, job_id j)) rows)"
    using sorted_sort_key[of "\<lambda>j. (job_created_at j, job_id j)" rows] by (simp add: sorted_map)
  then show "sorted_wrt (\<lambda>a b. (job_created_at b, job_id b) \<le> (job_created_at a, job_id a))
      (newest_first rows)"
    by (simp add: newest_first_def sorted_wrt_rev)
qed (simp add: newest_first_def)

definition matches_status :: "job_status option \<Rightarrow> job \<Rightarrow> bool" where
  "matches_status status j \<longleftrightarrow> (case status of None \<Rightarrow> True | Some s \<Rightarrow> job_status j = s)"

text \<open>
  C26. Listing pages through the jobs with the requested status, newest first: there is one order of
  exactly the matching jobs such that the page at any offset and limit is that slice of it, so
  consecutive pages neither skip nor repeat a job, and every page reports the number of matching jobs.
\<close>

theorem list_jobs_pages:
  assumes "quiet w"
  shows "\<exists>rows. mset rows = filter_mset (matches_status status) (mset (db_jobs (w_db w))) \<and>
    sorted_wrt (\<lambda>a b. (job_created_at b, job_id b) \<le> (job_created_at a, job_id a)) rows \<and>
    (\<forall>limit offset. list_jobs status limit offset w =
       (Inr (map (load_job (w_db w)) (take (nat limit) (drop (nat offset) rows)), int (length rows)), w)) \<and>
    (\<forall>n m a. 0 \<le> n \<longrightarrow> 0 \<le> m \<longrightarrow> 0 \<le> a \<longrightarrow>
       take (nat (n + m)) (drop (nat a) rows) =
         take (nat n) (drop (nat a) rows) @ take (nat m) (drop (nat (a + n)) rows))"
proof -
  let ?rows = "newest_first (filter (matches_status status) (db_jobs (w_db w)))"
  have len: "length (filter (matches_status status) (db_jobs (w_db w))) = length ?rows"
    using newest_first_props(1) mset_eq_length by metis
  have "list_jobs status limit offset w =
      (Inr (map (load_job (w_db w)) (take (nat limit) (drop (nat offset) ?rows)), int (length ?rows)), w)"
    for limit offset
    using assms len by (simp add: list_jobs_def Let_def matches_status_def[abs_def])
  moreover have "take (nat (n + m)) (drop (nat a) ?rows) =
      take (nat n) (drop (nat a) ?rows) @ take (nat m) (drop (nat (a + n)) ?rows)"
    if "0 \<le> n" "0 \<le> m" "0 \<le> a" for n m a
    using that by (simp add: nat_add_distrib take_add) (simp add: add.commute)
  ultimately show ?thesis
    using newest_first_props by (intro exI[of _ ?rows]) simp
qed

lemma list_jobs_pages_witness:
  "\<exists>rows. mset rows = {#queued_job#} \<and>
     list_jobs None 5 0 (sample_world () () () (sample_db queued_job) 5) =
       (Inr (map (load_job (sample_db queued_job)) (take 5 rows), int (length rows)),
        sample_world () () () (sample_db queued_job) 5)"
  using list_jobs_pages[OF quiet_sample_world[of "()" "()" "()" "sample_db queued_job" 5], of None]
  by (auto simp: matches_status_def sample_db_def)

end
