(* ===== verification/Redis.thy ===== *)
theory Redis
  imports World "HOL-Library.AList"
begin

text \<open>
  The Redis commands the program uses. The server and its client library are not in the repository:
  a \<open>redis_api\<close> is an argument of every operation that talks to Redis, one function per command over
  an unspecified state, each of which may return an error.

  The locale \<open>redis_server\<close> states the documented behaviour the program relies on: which commands can
  make a stream entry stop being outstanding (only \<^verbatim>\<open>XACK\<close> of that entry), and what the sorted-set
  commands and scripts do. It is interpreted by \<open>mem_redis\<close>, an in-memory server with streams, consumer
  groups, pending lists and sorted sets.
\<close>

type_synonym fields = "(string \<times> string) list"

record 'r redis_api =
  rd_ping :: "'r \<Rightarrow> unit result \<times> 'r"
  rd_xgroup_create :: "string \<Rightarrow> string \<Rightarrow> string \<Rightarrow> bool \<Rightarrow> 'r \<Rightarrow> unit result \<times> 'r"
  rd_xadd :: "string \<Rightarrow> fields \<Rightarrow> 'r \<Rightarrow> string result \<times> 'r"
  rd_xreadgroup :: "string \<Rightarrow> string \<Rightarrow> string \<Rightarrow> int \<Rightarrow> int \<Rightarrow> 'r \<Rightarrow>
    (string \<times> (string \<times> fields) list) list result \<times> 'r"
  rd_xpending_range :: "string \<Rightarrow> string \<Rightarrow> int \<Rightarrow> int \<Rightarrow> 'r \<Rightarrow> (string \<times> int) list result \<times> 'r"
  rd_xclaim :: "string \<Rightarrow> string \<Rightarrow> string \<Rightarrow> int \<Rightarrow> string list \<Rightarrow> 'r \<Rightarrow>
    (string \<times> fields) list result \<times> 'r"
  rd_xack :: "string \<Rightarrow> string \<Rightarrow> string \<Rightarrow> 'r \<Rightarrow> unit result \<times> 'r"
  rd_xlen :: "string \<Rightarrow> 'r \<Rightarrow> int result \<times> 'r"
  rd_xpending :: "string \<Rightarrow> string \<Rightarrow> 'r \<Rightarrow> int option result \<times> 'r"
  rd_zcard :: "string \<Rightarrow> 'r \<Rightarrow> int result \<times> 'r"
  rd_zadd :: "string \<Rightarrow> (string \<times> py_float) list \<Rightarrow> 'r \<Rightarrow> unit result \<times> 'r"
  rd_script :: "('r \<Rightarrow> string list \<times> 'r) \<Rightarrow> 'r \<Rightarrow> string list result \<times> 'r"
  rd_zrangebyscore :: "string \<Rightarrow> py_float \<Rightarrow> nat \<Rightarrow> nat \<Rightarrow> 'r \<Rightarrow> string list"
  rd_zrem :: "string \<Rightarrow> string list \<Rightarrow> 'r \<Rightarrow> 'r"

text \<open>A command issued from a world.\<close>

definition redis_call :: "('r \<Rightarrow> 'a \<times> 'r) \<Rightarrow> ('r, 'p, 'f) world \<Rightarrow> 'a \<times> ('r, 'p, 'f) world" where
  "redis_call f w = (case f (w_redis w) of (x, r) \<Rightarrow> (x, w\<lparr>w_redis := r\<rparr>))"

text \<open>Everything a Redis command cannot touch.\<close>

definition same_but_redis :: "('r, 'p, 'f) world \<Rightarrow> ('r, 'p, 'f) world \<Rightarrow> bool" where
  "same_but_redis w w' \<longleftrightarrow> w\<lparr>w_redis := w_redis w'\<rparr> = w'"

lemma redis_call_frame [frame]: "redis_call f w = (x, w') \<Longrightarrow> w' = w\<lparr>w_redis := w_redis w'\<rparr>"
  by (auto simp: redis_call_def split: prod.splits)

lemma redis_call_state: "redis_call f w = (x, w') \<longleftrightarrow>
    (\<exists>r. f (w_redis w) = (x, r) \<and> w' = w\<lparr>w_redis := r\<rparr>)"
  by (auto simp: redis_call_def split: prod.splits)

section \<open>The errors of the client library\<close>

definition REDIS_ERROR :: string where "REDIS_ERROR = ''redis.exceptions.RedisError''"
definition REDIS_CONNECTION_ERROR :: string where
  "REDIS_CONNECTION_ERROR = ''redis.exceptions.ConnectionError''"
definition REDIS_RESPONSE_ERROR :: string where
  "REDIS_RESPONSE_ERROR = ''redis.exceptions.ResponseError''"
definition OS_ERROR :: string where "OS_ERROR = ''builtins.OSError''"

lemmas redis_error_names =
  REDIS_ERROR_def REDIS_CONNECTION_ERROR_def REDIS_RESPONSE_ERROR_def OS_ERROR_def

section \<open>What the program relies on\<close>

locale redis_server =
  fixes rd :: "'r redis_api"
    and outstanding :: "string \<Rightarrow> string \<Rightarrow> 'r \<Rightarrow> string set"
    and zset :: "string \<Rightarrow> 'r \<Rightarrow> string \<Rightarrow> py_float option"
  assumes xadd_keeps: "rd_xadd rd s f r = (res, r') \<Longrightarrow> outstanding s' g r \<subseteq> outstanding s' g r'"
    and xadd_zset: "rd_xadd rd s f r = (res, r') \<Longrightarrow> zset k r' = zset k r"
    and xadd_new: "rd_xadd rd s f r = (Inr i, r') \<Longrightarrow> i \<in> outstanding s g r'"
    and xreadgroup_keeps: "rd_xreadgroup rd s g c n b r = (y, r') \<Longrightarrow> outstanding s' g' r' = outstanding s' g' r"
    and xreadgroup_ids: "rd_xreadgroup rd s g c n b r = (Inr rows, r') \<Longrightarrow> (s', msgs) \<in> set rows \<Longrightarrow>
      (i, f) \<in> set msgs \<Longrightarrow> i \<in> outstanding s g r'"
    and xpending_keeps: "rd_xpending_range rd s g n idle r = (z, r') \<Longrightarrow> outstanding s' g' r' = outstanding s' g' r"
    and xclaim_keeps: "rd_xclaim rd s g c idle ids r = (cl, r') \<Longrightarrow> outstanding s' g' r' = outstanding s' g' r"
    and xack_keeps: "rd_xack rd s g i r = (v, r') \<Longrightarrow> outstanding s' g' r - (if s' = s \<and> g' = g then {i} else {})
      \<subseteq> outstanding s' g' r'"
    and xack_zset: "rd_xack rd s g i r = (v, r') \<Longrightarrow> zset k r' = zset k r"
    and zadd_keeps: "rd_zadd rd k pairs r = (v, r') \<Longrightarrow> outstanding s g r' = outstanding s g r"
    and zadd_zset: "rd_zadd rd k [(m, x)] r = (Inr (), r') \<Longrightarrow>
      zset k' r' = (if k' = k then (zset k r)(m \<mapsto> x) else zset k' r)"
    and script_Inr: "rd_script rd body r = (Inr vs, r') \<Longrightarrow> body r = (vs, r')"
    and script_Inl: "rd_script rd body r = (Inl e, r') \<Longrightarrow> r' = r \<or> r' = snd (body r)"
    and zrange: "\<exists>due. distinct due \<and> set due = {m. \<exists>x. zset k r m = Some x \<and> x \<le> limit_score} \<and>
      sorted_wrt (\<lambda>a b. the (zset k r a) \<le> the (zset k r b)) due \<and>
      rd_zrangebyscore rd k limit_score off cnt r = take cnt (drop off due)"
    and zrem_zset: "zset k' (rd_zrem rd k ms r) =
      (if k' = k then (\<lambda>m. if m \<in> set ms then None else zset k r m) else zset k' r)"
    and zrem_keeps: "outstanding s g (rd_zrem rd k ms r) = outstanding s g r"
begin

lemma zrange_first:
  shows "set (rd_zrangebyscore rd k limit_score 0 n r) \<subseteq> {m. \<exists>x. zset k r m = Some x \<and> x \<le> limit_score}"
    and "distinct (rd_zrangebyscore rd k limit_score 0 n r)"
proof -
  obtain due where "distinct due" and d: "set due = {m. \<exists>x. zset k r m = Some x \<and> x \<le> limit_score}"
    and t: "rd_zrangebyscore rd k limit_score 0 n r = take n (drop 0 due)"
    using zrange[of k r limit_score 0 n] by blast
  show "set (rd_zrangebyscore rd k limit_score 0 n r) \<subseteq> {m. \<exists>x. zset k r m = Some x \<and> x \<le> limit_score}"
    unfolding t d[symmetric] by (auto dest: in_set_takeD)
  show "distinct (rd_zrangebyscore rd k limit_score 0 n r)"
    unfolding t using \<open>distinct due\<close> by simp
qed

text \<open>When fewer than the limit come back, nothing that is due was left out.\<close>

lemma zrange_complete:
  assumes "length (rd_zrangebyscore rd k limit_score 0 n r) < n"
  shows "set (rd_zrangebyscore rd k limit_score 0 n r) = {m. \<exists>x. zset k r m = Some x \<and> x \<le> limit_score}"
proof -
  obtain due where d: "set due = {m. \<exists>x. zset k r m = Some x \<and> x \<le> limit_score}"
    and "rd_zrangebyscore rd k limit_score 0 n r = take n (drop 0 due)"
    using zrange[of k r limit_score 0 n] by blast
  moreover from this(2) assms have "length due < n" by simp
  ultimately show ?thesis by simp
qed

end

section \<open>An in-memory server\<close>

record pending_entry =
  pe_id :: string
  pe_fields :: fields
  pe_consumer :: string
  pe_delivered :: int
  pe_since :: int

record stream_group =
  grp_unread :: "(string \<times> fields) list"
  grp_pending :: "pending_entry list"

record mem_redis =
  mr_clock_ms :: int
  mr_counter :: nat
  mr_entries :: "string \<Rightarrow> (string \<times> fields) list"
  mr_groups :: "string \<Rightarrow> string \<Rightarrow> stream_group option"
  mr_zsets :: "string \<Rightarrow> (string \<times> py_float) list"

definition empty_redis :: mem_redis where
  "empty_redis =
     \<lparr>mr_clock_ms = 0, mr_counter = 0, mr_entries = (\<lambda>_. []), mr_groups = (\<lambda>_ _. None),
      mr_zsets = (\<lambda>_. [])\<rparr>"

definition response_error :: "string \<Rightarrow> exc" where
  "response_error text = OtherExc [REDIS_RESPONSE_ERROR, REDIS_ERROR, ''builtins.Exception''] text"

definition mem_xgroup_create :: "string \<Rightarrow> string \<Rightarrow> string \<Rightarrow> bool \<Rightarrow> mem_redis \<Rightarrow> unit result \<times> mem_redis" where
  "mem_xgroup_create s g start mkstream r =
     (case mr_groups r s g of
        Some _ \<Rightarrow> (Inl (response_error ''BUSYGROUP Consumer Group name already exists''), r)
      | None \<Rightarrow>
          (Inr (), r\<lparr>mr_groups := (mr_groups r)(s := (mr_groups r s)(g \<mapsto> \<lparr>grp_unread = mr_entries r s, grp_pending = []\<rparr>))\<rparr>))"

definition mem_xadd :: "string \<Rightarrow> fields \<Rightarrow> mem_redis \<Rightarrow> string result \<times> mem_redis" where
  "mem_xadd s f r =
     (let i = show_nat (mr_counter r) @ ''-0''
      in (Inr i, r\<lparr>mr_counter := Suc (mr_counter r),
                   mr_entries := (mr_entries r)(s := mr_entries r s @ [(i, f)]),
                   mr_groups := (mr_groups r)(s := (\<lambda>g.
                     map_option (\<lambda>grp. grp\<lparr>grp_unread := grp_unread grp @ [(i, f)]\<rparr>) (mr_groups r s g)))\<rparr>))"

definition set_group :: "string \<Rightarrow> string \<Rightarrow> stream_group \<Rightarrow> mem_redis \<Rightarrow> mem_redis" where
  "set_group s g grp r = r\<lparr>mr_groups := (mr_groups r)(s := (mr_groups r s)(g \<mapsto> grp))\<rparr>"

definition no_group :: exc where
  "no_group = response_error ''NOGROUP No such key or consumer group''"

definition mem_xreadgroup ::
  "string \<Rightarrow> string \<Rightarrow> string \<Rightarrow> int \<Rightarrow> int \<Rightarrow> mem_redis \<Rightarrow>
     (string \<times> (string \<times> fields) list) list result \<times> mem_redis" where
  "mem_xreadgroup s g c n block_ms r =
     (case mr_groups r s g of
        None \<Rightarrow> (Inl no_group, r)
      | Some grp \<Rightarrow>
          let got = take (nat n) (grp_unread grp)
          in if got = [] then (Inr [], r)
             else (Inr [(s, got)],
               set_group s g
                 \<lparr>grp_unread = drop (nat n) (grp_unread grp),
                  grp_pending = grp_pending grp @
                    map (\<lambda>(i, f). \<lparr>pe_id = i, pe_fields = f, pe_consumer = c, pe_delivered = 1,
                                    pe_since = mr_clock_ms r\<rparr>) got\<rparr> r))"

definition idle_enough :: "int \<Rightarrow> mem_redis \<Rightarrow> pending_entry \<Rightarrow> bool" where
  "idle_enough idle r p \<longleftrightarrow> idle \<le> mr_clock_ms r - pe_since p"

definition mem_xpending_range ::
  "string \<Rightarrow> string \<Rightarrow> int \<Rightarrow> int \<Rightarrow> mem_redis \<Rightarrow> (string \<times> int) list result \<times> mem_redis" where
  "mem_xpending_range s g n idle r =
     (case mr_groups r s g of
        None \<Rightarrow> (Inl no_group, r)
      | Some grp \<Rightarrow>
          (Inr (take (nat n) (map (\<lambda>p. (pe_id p, pe_delivered p))
              (filter (idle_enough idle r) (grp_pending grp)))), r))"

definition mem_xclaim ::
  "string \<Rightarrow> string \<Rightarrow> string \<Rightarrow> int \<Rightarrow> string list \<Rightarrow> mem_redis \<Rightarrow>
     (string \<times> fields) list result \<times> mem_redis" where
  "mem_xclaim s g c idle ids r =
     (case mr_groups r s g of
        None \<Rightarrow> (Inl no_group, r)
      | Some grp \<Rightarrow>
          let hit = (\<lambda>p. pe_id p \<in> set ids \<and> idle_enough idle r p)
          in (Inr (map (\<lambda>p. (pe_id p, pe_fields p)) (filter hit (grp_pending grp))),
              set_group s g
                (grp\<lparr>grp_pending := map (\<lambda>p. if hit p
                   then p\<lparr>pe_consumer := c, pe_delivered := pe_delivered p + 1, pe_since := mr_clock_ms r\<rparr>
                   else p) (grp_pending grp)\<rparr>) r))"

definition mem_xack :: "string \<Rightarrow> string \<Rightarrow> string \<Rightarrow> mem_redis \<Rightarrow> unit result \<times> mem_redis" where
  "mem_xack s g i r =
     (case mr_groups r s g of
        None \<Rightarrow> (Inr (), r)
      | Some grp \<Rightarrow>
          (Inr (), set_group s g (grp\<lparr>grp_pending := filter (\<lambda>p. pe_id p \<noteq> i) (grp_pending grp)\<rparr>) r))"

definition mem_xpending :: "string \<Rightarrow> string \<Rightarrow> mem_redis \<Rightarrow> int option result \<times> mem_redis" where
  "mem_xpending s g r =
     (case mr_groups r s g of
        None \<Rightarrow> (Inl no_group, r)
      | Some grp \<Rightarrow> (Inr (Some (int (length (grp_pending grp)))), r))"

definition mem_zadd :: "string \<Rightarrow> (string \<times> py_float) list \<Rightarrow> mem_redis \<Rightarrow> unit result \<times> mem_redis" where
  "mem_zadd k ms r =
     (Inr (), r\<lparr>mr_zsets := (mr_zsets r)(k := fold (\<lambda>(m, x). AList.update m x) ms (mr_zsets r k))\<rparr>)"

definition mem_zrangebyscore :: "string \<Rightarrow> py_float \<Rightarrow> nat \<Rightarrow> nat \<Rightarrow> mem_redis \<Rightarrow> string list" where
  "mem_zrangebyscore k limit_score off n r =
     take n (drop off (map fst (sort_key (\<lambda>(m, x). (x, m))
       (filter (\<lambda>(m, x). x \<le> limit_score) (AList.clearjunk (mr_zsets r k))))))"

definition mem_zrem :: "string \<Rightarrow> string list \<Rightarrow> mem_redis \<Rightarrow> mem_redis" where
  "mem_zrem k ms r =
     r\<lparr>mr_zsets := (mr_zsets r)(k := filter (\<lambda>(m, x). m \<notin> set ms) (mr_zsets r k))\<rparr>"

definition mem_api :: "mem_redis redis_api" where
  "mem_api =
     \<lparr>rd_ping = Pair (Inr ()), rd_xgroup_create = mem_xgroup_create, rd_xadd = mem_xadd,
      rd_xreadgroup = mem_xreadgroup, rd_xpending_range = mem_xpending_range,
      rd_xclaim = mem_xclaim, rd_xack = mem_xack,
      rd_xlen = (\<lambda>s r. (Inr (int (length (mr_entries r s))), r)), rd_xpending = mem_xpending,
      rd_zcard = (\<lambda>k r. (Inr (int (length (AList.clearjunk (mr_zsets r k)))), r)),
      rd_zadd = mem_zadd, rd_script = (\<lambda>body r. (case body r of (vs, r') \<Rightarrow> (Inr vs, r'))),
      rd_zrangebyscore = mem_zrangebyscore, rd_zrem = mem_zrem\<rparr>"

text \<open>Entries not yet acknowledged for a group: not yet delivered to it, or pending in it.\<close>

definition mem_outstanding :: "string \<Rightarrow> string \<Rightarrow> mem_redis \<Rightarrow> string set" where
  "mem_outstanding s g r =
     (case mr_groups r s g of
        None \<Rightarrow> fst ` set (mr_entries r s)
      | Some grp \<Rightarrow> fst ` set (grp_unread grp) \<union> pe_id ` set (grp_pending grp))"

definition mem_zset :: "string \<Rightarrow> mem_redis \<Rightarrow> string \<Rightarrow> py_float option" where
  "mem_zset k r = map_of (mr_zsets r k)"

lemmas mem_defs =
  mem_xgroup_create_def mem_xadd_def mem_xreadgroup_def mem_xpending_range_def mem_xclaim_def
  mem_xack_def mem_xpending_def mem_zadd_def set_group_def Let_def

lemma outstanding_set_group:
  "mem_outstanding s' g' (set_group s g grp r) =
     (if s' = s \<and> g' = g
      then fst ` set (grp_unread grp) \<union> pe_id ` set (grp_pending grp)
      else mem_outstanding s' g' r)"
  by (simp add: mem_outstanding_def set_group_def split: option.split)

lemma outstanding_group:
  "mr_groups r s g = Some grp \<Longrightarrow>
     mem_outstanding s g r = fst ` set (grp_unread grp) \<union> pe_id ` set (grp_pending grp)"
  by (simp add: mem_outstanding_def)

lemma mem_read_keeps:
  assumes "mem_xreadgroup s g c n b r = (y, r')"
  shows "mem_outstanding s' g' r' = mem_outstanding s' g' r"
proof (cases "mr_groups r s g")
  case None
  with assms show ?thesis by (simp add: mem_xreadgroup_def)
next
  case (Some grp)
  let ?got = "take (nat n) (grp_unread grp)"
  have u: "fst ` set (drop (nat n) (grp_unread grp)) \<union> fst ` set ?got = fst ` set (grp_unread grp)"
    by (metis append_take_drop_id image_Un set_append sup_commute)
  have ids: "pe_id ` (\<lambda>(i, f). \<lparr>pe_id = i, pe_fields = f, pe_consumer = c, pe_delivered = 1,
       pe_since = k\<rparr>) ` X = fst ` X" for k X
    by (force simp: image_image case_prod_beta)
  show ?thesis
  proof (cases "?got = []")
    case True
    with assms Some show ?thesis by (simp add: mem_xreadgroup_def)
  next
    case False
    with assms Some have "r' = set_group s g
        \<lparr>grp_unread = drop (nat n) (grp_unread grp),
         grp_pending = grp_pending grp @ map (\<lambda>(i, f). \<lparr>pe_id = i, pe_fields = f, pe_consumer = c,
           pe_delivered = 1, pe_since = mr_clock_ms r\<rparr>) ?got\<rparr> r"
      by (simp add: mem_xreadgroup_def Let_def)
    then show ?thesis
      using u outstanding_group[OF Some] by (auto simp add: outstanding_set_group image_Un ids)
  qed
qed

lemma mem_read_ids:
  assumes "mem_xreadgroup s g c n b r = (Inr rows, r')" and "(s', msgs) \<in> set rows"
    and "(i, f) \<in> set msgs"
  shows "i \<in> mem_outstanding s g r'"
proof -
  obtain grp where grp: "mr_groups r s g = Some grp"
    using assms(1) by (auto simp: mem_xreadgroup_def split: option.splits)
  have "(i, f) \<in> set (grp_unread grp)"
    using assms grp by (auto simp: mem_xreadgroup_def Let_def split: if_splits dest: in_set_takeD)
  then have "i \<in> mem_outstanding s g r" by (force simp: outstanding_group[OF grp])
  then show ?thesis using mem_read_keeps[OF assms(1)] by simp
qed

lemma mem_zrange:
  "\<exists>due. distinct due \<and> set due = {m. \<exists>x. mem_zset k r m = Some x \<and> x \<le> limit_score} \<and>
     sorted_wrt (\<lambda>a b. the (mem_zset k r a) \<le> the (mem_zset k r b)) due \<and>
     mem_zrangebyscore k limit_score off n r = take n (drop off due)"
proof -
  let ?xs = "AList.clearjunk (mr_zsets r k)"
  let ?ys = "sort_key (\<lambda>(m, x). (x, m)) (filter (\<lambda>(m, x). x \<le> limit_score) ?xs)"
  have dist: "distinct (map fst ?xs)" by simp
  have of: "(m, x) \<in> set ?xs \<longleftrightarrow> mem_zset k r m = Some x" for m x
    using map_of_eq_Some_iff[OF dist, of m x] by (simp add: mem_zset_def map_of_clearjunk)
  have "distinct (map fst (filter (\<lambda>(m, x). x \<le> limit_score) ?xs))"
    using dist by (simp add: distinct_map_filter)
  then have "distinct (map fst ?ys)"
    by (simp add: distinct_map) 
  moreover have "set (map fst ?ys) = {m. \<exists>x. mem_zset k r m = Some x \<and> x \<le> limit_score}"
    by (force simp: of)
  moreover have "sorted_wrt (\<lambda>a b. the (mem_zset k r a) \<le> the (mem_zset k r b)) (map fst ?ys)"
  proof -
    have "sorted_wrt (\<lambda>a b. (case a of (m, x) \<Rightarrow> (x, m)) \<le> (case b of (m, x) \<Rightarrow> (x, m))) ?ys"
      using sorted_sort_key[of "\<lambda>(m, x). (x, m)"] by (simp add: sorted_map)
    then have "sorted_wrt (\<lambda>a b. the (mem_zset k r (fst a)) \<le> the (mem_zset k r (fst b))) ?ys"
      by (rule sorted_wrt_mono_rel[rotated])
        (auto simp: of less_eq_prod_simp split: prod.splits)
    then show ?thesis by (simp add: sorted_wrt_map)
  qed
  ultimately show ?thesis by (intro exI[of _ "map fst ?ys"]) (simp add: mem_zrangebyscore_def)
qed

lemma mem_xack_keeps:
  assumes "mem_xack s g i r = (v, r')"
  shows "mem_outstanding s' g' r - (if s' = s \<and> g' = g then {i} else {}) \<subseteq> mem_outstanding s' g' r'"
proof (cases "mr_groups r s g")
  case None
  with assms show ?thesis by (auto simp: mem_xack_def)
next
  case (Some grp)
  with assms have "r' = set_group s g (grp\<lparr>grp_pending := filter (\<lambda>p. pe_id p \<noteq> i) (grp_pending grp)\<rparr>) r"
    by (simp add: mem_xack_def)
  with Some show ?thesis by (auto simp: outstanding_set_group) (auto simp: mem_outstanding_def)
qed

lemma mem_xclaim_keeps:
  assumes "mem_xclaim s g c idle ids r = (u, r')"
  shows "mem_outstanding s' g' r' = mem_outstanding s' g' r"
proof (cases "mr_groups r s g")
  case None
  with assms show ?thesis by (simp add: mem_xclaim_def)
next
  case (Some grp)
  define F where "F = (\<lambda>p. if pe_id p \<in> set ids \<and> idle_enough idle r p
    then p\<lparr>pe_consumer := c, pe_delivered := pe_delivered p + 1, pe_since := mr_clock_ms r\<rparr> else p)"
  have keys: "pe_id ` F ` X = pe_id ` X" for X
    unfolding image_image by (rule image_cong) (auto simp: F_def)
  from assms Some have "r' = set_group s g (grp\<lparr>grp_pending := map F (grp_pending grp)\<rparr>) r"
    by (simp add: mem_xclaim_def Let_def F_def)
  then show ?thesis by (simp add: outstanding_set_group outstanding_group[OF Some] keys)
qed

lemma mem_zrem_keeps: "mem_outstanding s g (mem_zrem k ms r) = mem_outstanding s g r"
  by (simp add: mem_outstanding_def mem_zrem_def split: option.split)

lemma mem_zrem_zset:
  "mem_zset k' (mem_zrem k ms r) =
     (if k' = k then (\<lambda>m. if m \<in> set ms then None else mem_zset k r m) else mem_zset k' r)"
proof -
  have "map_of (filter (\<lambda>(m, x). m \<notin> A) xs) = (\<lambda>m. if m \<in> A then None else map_of xs m)" for A and xs :: "(string \<times> py_float) list"
    by (induction xs) (auto simp: fun_eq_iff)
  then show ?thesis by (simp add: mem_zset_def mem_zrem_def fun_eq_iff)
qed

interpretation memory_redis: redis_server mem_api mem_outstanding mem_zset
proof unfold_locales
  fix k r limit_score off n
  show "\<exists>due. distinct due \<and> set due = {m. \<exists>x. mem_zset k r m = Some x \<and> x \<le> limit_score} \<and>
     sorted_wrt (\<lambda>a b. the (mem_zset k r a) \<le> the (mem_zset k r b)) due \<and>
     rd_zrangebyscore mem_api k limit_score off n r = take n (drop off due)"
    using mem_zrange by (simp add: mem_api_def)
next
  fix s g c idle ids r and cl :: "(string \<times> fields) list result" and r' s' g'
  assume "rd_xclaim mem_api s g c idle ids r = (cl, r')"
  then show "mem_outstanding s' g' r' = mem_outstanding s' g' r"
    using mem_xclaim_keeps by (simp add: mem_api_def)
next
  fix s g i r and v :: "unit result" and r' s' g'
  assume "rd_xack mem_api s g i r = (v, r')"
  then show "mem_outstanding s' g' r - (if s' = s \<and> g' = g then {i} else {}) \<subseteq> mem_outstanding s' g' r'"
    using mem_xack_keeps by (simp add: mem_api_def)
next
  fix s g c n b r and y :: "(string \<times> (string \<times> fields) list) list result" and r' s' g'
  assume "rd_xreadgroup mem_api s g c n b r = (y, r')"
  then show "mem_outstanding s' g' r' = mem_outstanding s' g' r"
    using mem_read_keeps by (simp add: mem_api_def)
next
  fix s g c n b r rows r' s' and msgs :: "(string \<times> fields) list" and i f
  assume a: "rd_xreadgroup mem_api s g c n b r = (Inr rows, r')" "(s', msgs) \<in> set rows" "(i, f) \<in> set msgs"
  then show "i \<in> mem_outstanding s g r'"
    using mem_read_ids by (simp add: mem_api_def)
next
  fix body and r :: mem_redis and vs r'
  assume "rd_script mem_api body r = (Inr vs, r')"
  then show "body r = (vs, r')" by (simp add: mem_api_def split: prod.splits)
next
  fix body and r :: mem_redis and e r'
  assume "rd_script mem_api body r = (Inl e, r')"
  then show "r' = r \<or> r' = snd (body r)" by (simp add: mem_api_def split: prod.splits)
next
  fix k' k ms and r :: mem_redis
  show "mem_zset k' (rd_zrem mem_api k ms r) =
      (if k' = k then (\<lambda>m. if m \<in> set ms then None else mem_zset k r m) else mem_zset k' r)"
    by (simp add: mem_api_def mem_zrem_zset)
next
  fix s g k ms and r :: mem_redis
  show "mem_outstanding s g (rd_zrem mem_api k ms r) = mem_outstanding s g r"
    by (simp add: mem_api_def mem_zrem_keeps)
qed (auto simp: mem_api_def mem_zset_def mem_defs mem_outstanding_def update_conv'
      split: option.splits)

end
