(* ===== verification/Events.thy ===== *)
theory Events
  imports World
begin

text \<open>
  \<^verbatim>\<open>app/schemas/events.py\<close>: the message carried on the Redis stream. Its JSON form is produced and
  checked by pydantic, which is not in the repository: an \<open>event_codec\<close> is an argument of the
  operations that use it (\<^verbatim>\<open>model_dump_json\<close> and \<^verbatim>\<open>model_validate_json\<close>, \<open>None\<close> being a
  \<^verbatim>\<open>ValidationError\<close>), and \<open>codec_ok\<close> is the round trip the program relies on.
\<close>

definition EVENT_VERSION :: int where
  "EVENT_VERSION = 1"

definition PAYLOAD_FIELD :: string where
  "PAYLOAD_FIELD = ''data''"

record event =
  ev_event_id :: uuid
  ev_event_type :: event_type
  ev_event_version :: int
  ev_job_id :: uuid
  ev_document_id :: uuid
  ev_storage_path :: string
  ev_requested_document_type :: "document_type option"
  ev_attempt :: int
  ev_created_at :: time
  ev_correlation_id :: "string option"

record event_codec =
  ev_dump :: "event \<Rightarrow> string"
  ev_load :: "string \<Rightarrow> event option"

definition codec_ok :: "event_codec \<Rightarrow> bool" where
  "codec_ok cd \<longleftrightarrow> (\<forall>e. ev_load cd (ev_dump cd e) = Some e)"

text \<open>The constructor with its defaults: a fresh event ID, the current version, attempt 0, now.\<close>

definition new_event ::
  "uuid \<Rightarrow> uuid \<Rightarrow> string \<Rightarrow> document_type option \<Rightarrow> string option \<Rightarrow> ('r, 'p, 'f) world \<Rightarrow>
     event \<times> ('r, 'p, 'f) world" where
  "new_event jid did path requested correlation w =
     (case uuid4 w of (eid, w1) \<Rightarrow>
      case utcnow w1 of (now, w2) \<Rightarrow>
        (\<lparr>ev_event_id = eid, ev_event_type = DOCUMENT_PROCESSING_REQUESTED,
          ev_event_version = EVENT_VERSION, ev_job_id = jid, ev_document_id = did,
          ev_storage_path = path, ev_requested_document_type = requested, ev_attempt = 0,
          ev_created_at = now, ev_correlation_id = correlation\<rparr>, w2))"

definition next_attempt :: "event \<Rightarrow> ('r, 'p, 'f) world \<Rightarrow> event \<times> ('r, 'p, 'f) world" where
  "next_attempt e w =
     (case uuid4 w of (eid, w1) \<Rightarrow>
      case utcnow w1 of (now, w2) \<Rightarrow>
        (e\<lparr>ev_event_id := eid, ev_attempt := ev_attempt e + 1, ev_created_at := now\<rparr>, w2))"

definition to_stream_fields :: "event_codec \<Rightarrow> event \<Rightarrow> (string \<times> string) list" where
  "to_stream_fields cd e = [(PAYLOAD_FIELD, ev_dump cd e)]"

definition log_context :: "event \<Rightarrow> (string \<times> json) list" where
  "log_context e =
     [(''event_id'', jstr (ev_event_id e)), (''job_id'', jstr (ev_job_id e)),
      (''document_id'', jstr (ev_document_id e)), (''attempt'', JInt (ev_attempt e)),
      (''correlation_id'', case ev_correlation_id e of None \<Rightarrow> JNull | Some c \<Rightarrow> jstr c)]"

section \<open>Lemmas\<close>

lemma new_event_frame [frame]:
  "new_event jid did path requested correlation w = (e, w') \<Longrightarrow>
     same_outside w w' \<and> w_db w' = w_db w \<and> w_others w' = w_others w \<and> w_faults w' = w_faults w"
  by (auto simp: new_event_def dest!: uuid4_frame utcnow_frame intro: same_outside_trans split: prod.splits)

lemma next_attempt_frame [frame]:
  "next_attempt e w = (e', w') \<Longrightarrow>
     same_outside w w' \<and> w_db w' = w_db w \<and> w_others w' = w_others w \<and> w_faults w' = w_faults w"
  by (auto simp: next_attempt_def dest!: uuid4_frame utcnow_frame intro: same_outside_trans split: prod.splits)

lemma next_attempt_fields:
  assumes "next_attempt e w = (e', w')"
  shows "ev_job_id e' = ev_job_id e" and "ev_document_id e' = ev_document_id e"
    and "ev_storage_path e' = ev_storage_path e" and "ev_attempt e' = ev_attempt e + 1"
    and "ev_event_version e' = ev_event_version e"
    and "ev_requested_document_type e' = ev_requested_document_type e"
    and "ev_correlation_id e' = ev_correlation_id e"
    and "ev_event_id e' = w_uuid w (w_uuid_next w)"
  using assms by (auto simp: next_attempt_def uuid4_def split: prod.splits)

lemma new_event_fields:
  assumes "new_event jid did path requested correlation w = (e, w')"
  shows "ev_job_id e = jid" and "ev_document_id e = did" and "ev_storage_path e = path"
    and "ev_attempt e = 0" and "ev_event_version e = EVENT_VERSION"
    and "ev_requested_document_type e = requested" and "ev_correlation_id e = correlation"
  using assms by (auto simp: new_event_def split: prod.splits)

section \<open>A codec\<close>

text \<open>
  A concrete codec with the round-trip property: every value is written with its length in front.
\<close>

definition put_nat :: "nat \<Rightarrow> string" where
  "put_nat n = replicate n (CHR ''1'') @ [CHR ''0'']"

fun get_nat :: "string \<Rightarrow> (nat \<times> string) option" where
  "get_nat [] = None"
| "get_nat (c # cs) =
     (if c = CHR ''0'' then Some (0, cs)
      else (case get_nat cs of None \<Rightarrow> None | Some (n, rest) \<Rightarrow> Some (Suc n, rest)))"

definition put_str :: "string \<Rightarrow> string" where
  "put_str s = put_nat (length s) @ s"

definition get_str :: "string \<Rightarrow> (string \<times> string) option" where
  "get_str cs = (case get_nat cs of None \<Rightarrow> None | Some (n, rest) \<Rightarrow> Some (take n rest, drop n rest))"

definition put_int :: "int \<Rightarrow> string" where
  "put_int i = put_nat (if i < 0 then 1 else 0) @ put_nat (nat \<bar>i\<bar>)"

definition get_int :: "string \<Rightarrow> (int \<times> string) option" where
  "get_int cs =
     (case get_nat cs of None \<Rightarrow> None | Some (s, rest) \<Rightarrow>
        (case get_nat rest of None \<Rightarrow> None | Some (n, rest') \<Rightarrow>
           Some (if s = 1 then - int n else int n, rest')))"

definition put_type :: "document_type option \<Rightarrow> string" where
  "put_type t =
     put_str (case t of None \<Rightarrow> ''-'' | Some t' \<Rightarrow> document_type_value t')"

definition plain_dump :: "event \<Rightarrow> string" where
  "plain_dump e =
     put_str (ev_event_id e) @ put_int (ev_event_version e) @ put_str (ev_job_id e) @
     put_str (ev_document_id e) @ put_str (ev_storage_path e) @
     put_type (ev_requested_document_type e) @ put_int (ev_attempt e) @ put_int (ev_created_at e) @
     (case ev_correlation_id e of None \<Rightarrow> put_nat 0 | Some c \<Rightarrow> put_nat 1 @ put_str c)"

definition plain_load :: "string \<Rightarrow> event option" where
  "plain_load s0 =
     (case get_str s0 of None \<Rightarrow> None | Some (eid, s1) \<Rightarrow>
     (case get_int s1 of None \<Rightarrow> None | Some (ver, s2) \<Rightarrow>
     (case get_str s2 of None \<Rightarrow> None | Some (jid, s3) \<Rightarrow>
     (case get_str s3 of None \<Rightarrow> None | Some (did, s4) \<Rightarrow>
     (case get_str s4 of None \<Rightarrow> None | Some (path, s5) \<Rightarrow>
     (case get_str s5 of None \<Rightarrow> None | Some (ty, s6) \<Rightarrow>
     (case get_int s6 of None \<Rightarrow> None | Some (att, s7) \<Rightarrow>
     (case get_int s7 of None \<Rightarrow> None | Some (cre, s8) \<Rightarrow>
     (case get_nat s8 of None \<Rightarrow> None | Some (n, s9) \<Rightarrow>
        Some \<lparr>ev_event_id = eid, ev_event_type = DOCUMENT_PROCESSING_REQUESTED,
          ev_event_version = ver, ev_job_id = jid, ev_document_id = did, ev_storage_path = path,
          ev_requested_document_type = document_type_of_value ty, ev_attempt = att,
          ev_created_at = cre,
          ev_correlation_id = (if n = 0 then None else map_option fst (get_str s9))\<rparr>)))))))))"

definition plain_codec :: event_codec where
  "plain_codec = \<lparr>ev_dump = plain_dump, ev_load = plain_load\<rparr>"

lemma get_put_nat [simp]: "get_nat (put_nat n @ s) = Some (n, s)"
  by (induction n) (simp_all add: put_nat_def)

lemma get_put_nat_end [simp]: "get_nat (put_nat n) = Some (n, [])"
  using get_put_nat[of n "[]"] by simp

lemma get_put_str [simp]: "get_str (put_str x @ s) = Some (x, s)"
  by (simp add: get_str_def put_str_def)

lemma get_put_str_end [simp]: "get_str (put_str x) = Some (x, [])"
  using get_put_str[of x "[]"] by simp

lemma get_put_int [simp]: "get_int (put_int i @ s) = Some (i, s)"
  by (simp add: get_int_def put_int_def)

lemma plain_codec_ok: "codec_ok plain_codec"
proof -
  have ty: "document_type_of_value (case t of None \<Rightarrow> ''-'' | Some t' \<Rightarrow> document_type_value t') = t" for t
  proof (cases t)
    case None
    then show ?thesis by (simp add: document_type_of_value_def document_type_members_def)
  next
    case (Some t')
    then show ?thesis by simp
  qed
  have one: "event_type = DOCUMENT_PROCESSING_REQUESTED" for event_type
    by (cases event_type)
  show ?thesis
    unfolding codec_ok_def
  proof
    fix e :: event
    show "ev_load plain_codec (ev_dump plain_codec e) = Some e"
      using one[of "ev_event_type e"]
      by (cases e) (simp add: plain_codec_def plain_dump_def plain_load_def put_type_def ty
          split: option.split)
  qed
qed

end
