(* ===== verification/Queue.thy ===== *)
theory Queue
  imports Redis Events Settings
begin

text \<open>
  \<^verbatim>\<open>app/services/queue.py\<close>: the class \<^verbatim>\<open>RedisQueue\<close>. Its state is whether a client is connected and
  whether the Lua script is registered; the stream, the consumer group and the retry set are in
  Redis. Every operation takes the Redis commands \<open>rd\<close> and the JSON codec \<open>cd\<close> as arguments. Log lines
  are left out.
\<close>

record redis_queue =
  rq_settings :: settings
  rq_client :: bool
  rq_script :: bool

record delivered_event =
  de_message_id :: string
  de_event :: event
  de_delivery_count :: int

record queue_depth =
  qd_stream_length :: int
  qd_pending :: int
  qd_scheduled_retries :: int

definition GROUP_EXISTS :: string where
  "GROUP_EXISTS = ''BUSYGROUP''"

definition SOCKET_TIMEOUT_MARGIN_SECONDS :: py_float where
  "SOCKET_TIMEOUT_MARGIN_SECONDS = 10"

definition new_queue :: "settings \<Rightarrow> redis_queue" where
  "new_queue s = \<lparr>rq_settings = s, rq_client = False, rq_script = False\<rparr>"

definition queue_stream :: "redis_queue \<Rightarrow> string" where
  "queue_stream q = redis_stream_name (rq_settings q)"

definition queue_group :: "redis_queue \<Rightarrow> string" where
  "queue_group q = redis_consumer_group (rq_settings q)"

definition retry_key :: "redis_queue \<Rightarrow> string" where
  "retry_key q = redis_retry_zset (rq_settings q)"

definition socket_timeout_seconds :: "redis_queue \<Rightarrow> py_float" where
  "socket_timeout_seconds q =
     fl (py_div_int (redis_block_ms (rq_settings q)) 1000 + SOCKET_TIMEOUT_MARGIN_SECONDS)"

section \<open>The client and its errors\<close>

definition not_connected :: exc where
  "not_connected = raise_app QueueError ''The Redis queue is not connected.'' []"

text \<open>\<^verbatim>\<open>self.client\<close> followed by one command.\<close>

definition with_client ::
  "redis_queue \<Rightarrow> ('r \<Rightarrow> 'a result \<times> 'r) \<Rightarrow> ('r, 'p, 'f) world \<Rightarrow> 'a result \<times> ('r, 'p, 'f) world" where
  "with_client q f w = (if rq_client q then redis_call f w else (Inl not_connected, w))"

text \<open>\<^verbatim>\<open>except (RedisError, OSError) as error: raise QueueError(message) from error\<close>.\<close>

definition redis_or_os_error :: "exc \<Rightarrow> bool" where
  "redis_or_os_error e \<longleftrightarrow> is_foreign_instance e REDIS_ERROR \<or> is_foreign_instance e OS_ERROR"

definition as_queue_error :: "string \<Rightarrow> 'a result \<Rightarrow> 'a result" where
  "as_queue_error message r =
     (case r of
        Inl e \<Rightarrow> Inl (if redis_or_os_error e then raise_app QueueError message [] else e)
      | Inr x \<Rightarrow> Inr x)"

section \<open>Lifecycle\<close>

definition redis_unreachable :: "settings \<Rightarrow> exc" where
  "redis_unreachable s =
     raise_app DependencyUnavailableError
       (''Redis unreachable after '' @ show_int (redis_connect_max_attempts s) @ '' attempts'')
       [(''dependency'', jstr ''redis'')]"

text \<open>The loop over \<^verbatim>\<open>range(1, max_attempts + 1)\<close>, \<open>n\<close> attempts being left.\<close>

fun connect_attempts ::
  "'r redis_api \<Rightarrow> nat \<Rightarrow> redis_queue \<Rightarrow> ('r, 'p, 'f) world \<Rightarrow>
     unit result \<times> redis_queue \<times> ('r, 'p, 'f) world" where
  "connect_attempts rd 0 q w = (Inl (redis_unreachable (rq_settings q)), q, w)"
| "connect_attempts rd (Suc n) q w =
     (case redis_call (rd_ping rd) w of
        (Inl e, w') \<Rightarrow>
          if is_foreign_instance e REDIS_CONNECTION_ERROR \<or> is_foreign_instance e OS_ERROR
          then connect_attempts rd n q w'
          else (Inl e, q, w')
      | (Inr _, w') \<Rightarrow> (Inr (), q\<lparr>rq_client := True, rq_script := True\<rparr>, w'))"

definition queue_connect ::
  "'r redis_api \<Rightarrow> redis_queue \<Rightarrow> ('r, 'p, 'f) world \<Rightarrow>
     unit result \<times> redis_queue \<times> ('r, 'p, 'f) world" where
  "queue_connect rd q w = connect_attempts rd (nat (redis_connect_max_attempts (rq_settings q))) q w"

text \<open>\<^verbatim>\<open>close\<close>, where the \<^verbatim>\<open>aclose()\<close> of the client library does not raise.\<close>

definition queue_close :: "redis_queue \<Rightarrow> redis_queue" where
  "queue_close q = (if rq_client q then q\<lparr>rq_client := False\<rparr> else q)"

definition ensure_group ::
  "'r redis_api \<Rightarrow> redis_queue \<Rightarrow> ('r, 'p, 'f) world \<Rightarrow> unit result \<times> ('r, 'p, 'f) world" where
  "ensure_group rd q w =
     (case with_client q (rd_xgroup_create rd (queue_stream q) (queue_group q) ''0'' True) w of
        (Inl e, w') \<Rightarrow>
          if is_foreign_instance e REDIS_RESPONSE_ERROR then
            (if \<not> py_in GROUP_EXISTS (exc_text e)
             then (Inl (raise_app QueueError ''Failed to create the consumer group.'' []), w')
             else (Inr (), w'))
          else (Inl e, w')
      | (Inr _, w') \<Rightarrow> (Inr (), w'))"

definition queue_health ::
  "'r redis_api \<Rightarrow> redis_queue \<Rightarrow> ('r, 'p, 'f) world \<Rightarrow> bool result \<times> ('r, 'p, 'f) world" where
  "queue_health rd q w =
     (case with_client q (rd_ping rd) w of
        (Inl e, w') \<Rightarrow>
          if redis_or_os_error e \<or> is_app_instance e QueueError then (Inr False, w') else (Inl e, w')
      | (Inr _, w') \<Rightarrow> (Inr True, w'))"

section \<open>Producing\<close>

definition publish ::
  "'r redis_api \<Rightarrow> event_codec \<Rightarrow> redis_queue \<Rightarrow> event \<Rightarrow> ('r, 'p, 'f) world \<Rightarrow>
     string result \<times> ('r, 'p, 'f) world" where
  "publish rd cd q e w =
     apfst (as_queue_error ''Failed to publish the processing event.'')
       (with_client q (rd_xadd rd (queue_stream q) (to_stream_fields cd e)) w)"

definition schedule_retry ::
  "'r redis_api \<Rightarrow> event_codec \<Rightarrow> redis_queue \<Rightarrow> event \<Rightarrow> py_float \<Rightarrow> ('r, 'p, 'f) world \<Rightarrow>
     unit result \<times> ('r, 'p, 'f) world" where
  "schedule_retry rd cd q e delay_seconds w =
     (case utcnow w of (now, w1) \<Rightarrow>
        let due_at = fl (total_seconds now + delay_seconds)
        in apfst (as_queue_error ''Failed to schedule the retry.'')
             (with_client q (rd_zadd rd (retry_key q) [(ev_dump cd e, due_at)]) w1))"

text \<open>The Lua script \<^verbatim>\<open>_POP_DUE_RETRIES\<close>, one atomic step of the server.\<close>

definition POP_DUE_RETRIES :: "'r redis_api \<Rightarrow> string \<Rightarrow> py_float \<Rightarrow> nat \<Rightarrow> 'r \<Rightarrow> string list \<times> 'r" where
  "POP_DUE_RETRIES rd key now n r =
     (let due = rd_zrangebyscore rd key now 0 n r
      in if 0 < length due then (due, rd_zrem rd key due r) else (due, r))"

definition script_not_registered :: exc where
  "script_not_registered =
     OtherExc [''builtins.TypeError'', ''builtins.Exception''] (py_quote ''NoneType'' @ '' object is not callable'')"

definition pop_due_retries ::
  "'r redis_api \<Rightarrow> event_codec \<Rightarrow> redis_queue \<Rightarrow> nat \<Rightarrow> ('r, 'p, 'f) world \<Rightarrow>
     event list result \<times> ('r, 'p, 'f) world" where
  "pop_due_retries rd cd q n w =
     (case utcnow w of (now, w1) \<Rightarrow>
        if \<not> rq_script q then (Inl script_not_registered, w1)
        else
          (case redis_call (rd_script rd (POP_DUE_RETRIES rd (retry_key q) (total_seconds now) n)) w1 of
             (r, w2) \<Rightarrow>
               (case as_queue_error ''Failed to read the retry schedule.'' r of
                  Inl e \<Rightarrow> (Inl e, w2)
                | Inr raw \<Rightarrow> (Inr (List.map_filter (ev_load cd) raw), w2))))"

section \<open>Acknowledging\<close>

definition ack ::
  "'r redis_api \<Rightarrow> redis_queue \<Rightarrow> string \<Rightarrow> ('r, 'p, 'f) world \<Rightarrow> unit result \<times> ('r, 'p, 'f) world" where
  "ack rd q message_id w =
     apfst (as_queue_error ''Failed to acknowledge the message.'')
       (with_client q (rd_xack rd (queue_stream q) (queue_group q) message_id) w)"

section \<open>Decoding\<close>

definition decode_one :: "event_codec \<Rightarrow> fields \<Rightarrow> event result" where
  "decode_one cd fs =
     (case map_of fs PAYLOAD_FIELD of
        None \<Rightarrow> Inl (raise_app MalformedEventError ''Stream entry has no payload field.'' [])
      | Some payload \<Rightarrow>
          (case ev_load cd payload of
             None \<Rightarrow> Inl (raise_app MalformedEventError ''Stream entry failed schema validation.'' [])
           | Some e \<Rightarrow>
               if ev_event_version e \<noteq> EVENT_VERSION then
                 Inl (raise_app MalformedEventError
                   (''Unsupported event version '' @ show_int (ev_event_version e) @ ''.'')
                   [(''expected'', JInt EVENT_VERSION)])
               else Inr e))"

text \<open>An undecodable entry is acknowledged and dropped; the others are returned in order.\<close>

fun decode_messages ::
  "'r redis_api \<Rightarrow> event_codec \<Rightarrow> redis_queue \<Rightarrow> (string \<Rightarrow> int option) \<Rightarrow> (string \<times> fields) list \<Rightarrow>
     ('r, 'p, 'f) world \<Rightarrow> delivered_event list result \<times> ('r, 'p, 'f) world" where
  "decode_messages rd cd q counts [] w = (Inr [], w)"
| "decode_messages rd cd q counts ((i, fs) # ms) w =
     (case decode_one cd fs of
        Inl e \<Rightarrow>
          if is_app_instance e MalformedEventError then
            (case ack rd q i w of
               (Inl e', w') \<Rightarrow> (Inl e', w')
             | (Inr _, w') \<Rightarrow> decode_messages rd cd q counts ms w')
          else (Inl e, w)
      | Inr e \<Rightarrow>
          (case decode_messages rd cd q counts ms w of
             (Inl e', w') \<Rightarrow> (Inl e', w')
           | (Inr ds, w') \<Rightarrow>
               (Inr (\<lparr>de_message_id = i, de_event = e,
                      de_delivery_count = (case counts i of None \<Rightarrow> 1 | Some n \<Rightarrow> n)\<rparr> # ds), w')))"

fun decode_entries ::
  "'r redis_api \<Rightarrow> event_codec \<Rightarrow> redis_queue \<Rightarrow> (string \<times> (string \<times> fields) list) list \<Rightarrow>
     ('r, 'p, 'f) world \<Rightarrow> delivered_event list result \<times> ('r, 'p, 'f) world" where
  "decode_entries rd cd q [] w = (Inr [], w)"
| "decode_entries rd cd q ((name, ms) # rows) w =
     (case decode_messages rd cd q Map.empty ms w of
        (Inl e, w') \<Rightarrow> (Inl e, w')
      | (Inr ds, w') \<Rightarrow>
          (case decode_entries rd cd q rows w' of
             (Inl e, w'') \<Rightarrow> (Inl e, w'')
           | (Inr ds', w'') \<Rightarrow> (Inr (ds @ ds'), w'')))"

section \<open>Consuming\<close>

definition queue_read ::
  "'r redis_api \<Rightarrow> event_codec \<Rightarrow> redis_queue \<Rightarrow> string \<Rightarrow> ('r, 'p, 'f) world \<Rightarrow>
     delivered_event list result \<times> ('r, 'p, 'f) world" where
  "queue_read rd cd q consumer_name w =
     (case with_client q
        (rd_xreadgroup rd (queue_stream q) (queue_group q) consumer_name
           (redis_read_count (rq_settings q)) (redis_block_ms (rq_settings q))) w of
        (r, w1) \<Rightarrow>
          (case as_queue_error ''Failed to read from the stream.'' r of
             Inl e \<Rightarrow> (Inl e, w1)
           | Inr response \<Rightarrow> decode_entries rd cd q response w1))"

text \<open>A Python dictionary built from pairs: a repeated key keeps its place and takes the new value.\<close>

definition dict_of :: "('a \<times> 'b) list \<Rightarrow> ('a \<times> 'b) list" where
  "dict_of ps = fold (\<lambda>(k, v). AList.update k v) ps []"

definition claim_stale ::
  "'r redis_api \<Rightarrow> event_codec \<Rightarrow> redis_queue \<Rightarrow> string \<Rightarrow> ('r, 'p, 'f) world \<Rightarrow>
     delivered_event list result \<times> ('r, 'p, 'f) world" where
  "claim_stale rd cd q consumer_name w =
     (let s = rq_settings q; failed = ''Failed to claim pending messages.''
      in (case with_client q
            (rd_xpending_range rd (queue_stream q) (queue_group q) (redis_read_count s)
               (pending_min_idle_ms s)) w of
            (Inl e, w1) \<Rightarrow> (as_queue_error failed (Inl e), w1)
          | (Inr pending, w1) \<Rightarrow>
              if pending = [] then (Inr [], w1)
              else
                let delivery_counts = dict_of (map (\<lambda>(i, n). (i, n + 1)) pending)
                in (case with_client q
                      (rd_xclaim rd (queue_stream q) (queue_group q) consumer_name
                         (pending_min_idle_ms s) (map fst delivery_counts)) w1 of
                      (Inl e, w2) \<Rightarrow> (as_queue_error failed (Inl e), w2)
                    | (Inr claimed, w2) \<Rightarrow>
                        decode_messages rd cd q (map_of delivery_counts) claimed w2)))"

definition depth ::
  "'r redis_api \<Rightarrow> redis_queue \<Rightarrow> ('r, 'p, 'f) world \<Rightarrow> queue_depth result \<times> ('r, 'p, 'f) world" where
  "depth rd q w =
     (let failed = ''Failed to read queue depth.''
      in (case with_client q (rd_xlen rd (queue_stream q)) w of
            (Inl e, w1) \<Rightarrow> (as_queue_error failed (Inl e), w1)
          | (Inr n, w1) \<Rightarrow>
              (case with_client q (rd_xpending rd (queue_stream q) (queue_group q)) w1 of
                 (Inl e, w2) \<Rightarrow> (as_queue_error failed (Inl e), w2)
               | (Inr pending, w2) \<Rightarrow>
                   (case with_client q (rd_zcard rd (retry_key q)) w2 of
                      (Inl e, w3) \<Rightarrow> (as_queue_error failed (Inl e), w3)
                    | (Inr scheduled, w3) \<Rightarrow>
                        (Inr \<lparr>qd_stream_length = n,
                              qd_pending = (case pending of None \<Rightarrow> 0 | Some p \<Rightarrow> p),
                              qd_scheduled_retries = scheduled\<rparr>, w3)))))"

section \<open>The process-wide instance\<close>

definition get_queue :: "settings \<Rightarrow> redis_queue option \<Rightarrow> redis_queue \<times> redis_queue option" where
  "get_queue s cached =
     (case cached of None \<Rightarrow> (new_queue s, Some (new_queue s)) | Some q \<Rightarrow> (q, Some q))"

definition reset_queue :: "redis_queue option \<Rightarrow> redis_queue option" where
  "reset_queue cached = None"

section \<open>What the operations leave alone\<close>

definition redis_only :: "('r, 'p, 'f) world \<Rightarrow> ('r, 'p, 'f) world \<Rightarrow> bool" where
  "redis_only w w' \<longleftrightarrow>
     w_db w' = w_db w \<and> w_provider w' = w_provider w \<and> w_files w' = w_files w \<and>
     w_others w' = w_others w \<and> w_faults w' = w_faults w \<and> w_randoms w' = w_randoms w \<and>
     w_uuid w' = w_uuid w \<and> w_uuid_next w' = w_uuid_next w"

lemma redis_only_refl [simp]: "redis_only w w"
  by (simp add: redis_only_def)

lemma redis_only_trans: "redis_only u v \<Longrightarrow> redis_only v w \<Longrightarrow> redis_only u w"
  by (simp add: redis_only_def)

lemma redis_only_utcnow: "utcnow w = (t, w') \<Longrightarrow> redis_only w w'"
  by (auto simp: utcnow_def redis_only_def split: list.splits)

lemma with_client_frame [frame]: "with_client q f w = (r, w') \<Longrightarrow> redis_only w w'"
  by (auto simp: with_client_def redis_call_def redis_only_def split: if_splits prod.splits)

lemma ack_frame [frame]: "ack rd q i w = (r, w') \<Longrightarrow> redis_only w w'"
  by (cases "with_client q (rd_xack rd (queue_stream q) (queue_group q) i) w")
    (auto simp: ack_def dest: with_client_frame)

lemma publish_frame [frame]: "publish rd cd q e w = (r, w') \<Longrightarrow> redis_only w w'"
  by (cases "with_client q (rd_xadd rd (queue_stream q) (to_stream_fields cd e)) w")
    (auto simp: publish_def dest: with_client_frame)

lemma schedule_retry_frame [frame]:
  assumes "schedule_retry rd cd q e t w = (r, w')"
  shows "redis_only w w'"
proof -
  obtain now w1 where u: "utcnow w = (now, w1)" by fastforce
  obtain r2 w2 where c: "with_client q
      (rd_zadd rd (retry_key q) [(ev_dump cd e, fl (total_seconds now + t))]) w1 = (r2, w2)" by fastforce
  from assms u c have "w' = w2" by (simp add: schedule_retry_def Let_def)
  with redis_only_trans[OF redis_only_utcnow[OF u] with_client_frame[OF c]] show ?thesis by simp
qed

lemma decode_messages_frame [frame]: "decode_messages rd cd q counts ms w = (r, w') \<Longrightarrow> redis_only w w'"
  by (induction rd cd q counts ms w arbitrary: r w' rule: decode_messages.induct)
    (auto split: sum.splits prod.splits if_splits dest!: ack_frame intro: redis_only_trans)

lemma decode_entries_frame [frame]: "decode_entries rd cd q rows w = (r, w') \<Longrightarrow> redis_only w w'"
  by (induction rd cd q rows w arbitrary: r w' rule: decode_entries.induct)
    (auto split: sum.splits prod.splits dest!: decode_messages_frame intro: redis_only_trans)

lemma as_queue_error_Inr [simp]: "as_queue_error m r = Inr x \<longleftrightarrow> r = Inr x"
  by (auto simp: as_queue_error_def split: sum.splits)

lemma as_queue_error_Inl: "as_queue_error m r = Inl e \<longleftrightarrow>
    (\<exists>e'. r = Inl e' \<and> e = (if redis_or_os_error e' then raise_app QueueError m [] else e'))"
  by (auto simp: as_queue_error_def split: sum.splits)

lemma decode_one_error: "decode_one cd fs = Inl e \<Longrightarrow> is_app_instance e MalformedEventError"
  by (auto simp: decode_one_def split: option.splits if_splits)

lemma decode_one_version: "decode_one cd fs = Inr e \<Longrightarrow> ev_event_version e = EVENT_VERSION"
  by (auto simp: decode_one_def split: option.splits if_splits)

end
