(* ===== verification/Queue_Properties.thy ===== *)
theory Queue_Properties
  imports Queue Samples Protocol
begin

text \<open>
  The properties of the queue: nothing but an acknowledgement makes a message stop being
  outstanding, undecodable entries are dropped and the others delivered in order, the retry set
  loses and duplicates nothing, connecting stops after the configured number of attempts.
\<close>

text \<open>The identifiers of the entries that do not decode.\<close>

fun undecodable :: "event_codec \<Rightarrow> (string \<times> fields) list \<Rightarrow> string set" where
  "undecodable cd [] = {}"
| "undecodable cd ((i, fs) # ms) =
     (case decode_one cd fs of Inl _ \<Rightarrow> insert i (undecodable cd ms) | Inr _ \<Rightarrow> undecodable cd ms)"

section \<open>Outstanding messages\<close>

context redis_server
begin

definition held :: "redis_queue \<Rightarrow> ('r, 'p, 'f) world \<Rightarrow> string set" where
  "held q w = outstanding (queue_stream q) (queue_group q) (w_redis w)"

definition parked :: "redis_queue \<Rightarrow> ('r, 'p, 'f) world \<Rightarrow> string \<Rightarrow> py_float option" where
  "parked q w = zset (retry_key q) (w_redis w)"

lemma with_client_state:
  assumes "with_client q f w = (r, w')"
  obtains "w' = w" "r = Inl not_connected" "\<not> rq_client q"
  | rs where "f (w_redis w) = (r, rs)" "w' = w\<lparr>w_redis := rs\<rparr>" "rq_client q"
  using assms by (auto simp: with_client_def redis_call_state split: if_splits)

lemma utcnow_held [simp]: "utcnow w = (t, w') \<Longrightarrow> held q w' = held q w \<and> parked q w' = parked q w"
  by (auto simp: held_def parked_def utcnow_def split: list.splits)

lemma with_client_apfst:
  assumes "apfst g (with_client q f w) = (r, w')"
  obtains "w' = w" "r = g (Inl not_connected)"
  | r0 where "f (w_redis w) = (r0, w_redis w')" "r = g r0"
  using assms by (auto simp: with_client_def redis_call_def split: if_splits prod.splits)

lemma ack_held:
  assumes "ack rd q i w = (r, w')"
  shows "held q w - {i} \<subseteq> held q w'"
  using assms[unfolded ack_def]
proof (rule with_client_apfst)
  fix r0 assume "rd_xack rd (queue_stream q) (queue_group q) i (w_redis w) = (r0, w_redis w')"
  from xack_keeps[OF this, of "queue_stream q" "queue_group q"] show ?thesis by (simp add: held_def)
qed auto

lemma publish_held:
  assumes "publish rd cd q e w = (r, w')"
  shows "held q w \<subseteq> held q w'"
  using assms[unfolded publish_def]
  by (rule with_client_apfst) (auto simp: held_def dest: xadd_keeps)

lemma publish_new:
  assumes "publish rd cd q e w = (Inr i, w')"
  shows "i \<in> held q w'"
  using assms[unfolded publish_def]
proof (rule with_client_apfst)
  fix r0 assume "rd_xadd rd (queue_stream q) (to_stream_fields cd e) (w_redis w) = (r0, w_redis w')"
    and "Inr i = as_queue_error ''Failed to publish the processing event.'' r0"
  then have "rd_xadd rd (queue_stream q) (to_stream_fields cd e) (w_redis w) = (Inr i, w_redis w')"
    by (simp add: as_queue_error_def split: sum.splits)
  from xadd_new[OF this] show ?thesis by (simp add: held_def)
qed (simp add: as_queue_error_def)

lemma schedule_retry_cases:
  assumes "schedule_retry rd cd q e t w = (r, w')"
  obtains "w_redis w' = w_redis w" "r = Inl not_connected"
  | r0 where "rd_zadd rd (retry_key q) [(ev_dump cd e, fl (total_seconds (fst (utcnow w)) + t))] (w_redis w)
        = (r0, w_redis w')"
      and "r = as_queue_error ''Failed to schedule the retry.'' r0"
proof -
  obtain now w1 where u: "utcnow w = (now, w1)" by fastforce
  have r1: "w_redis w1 = w_redis w" using utcnow_frame[OF u] by (simp add: same_outside_def)
  have "apfst (as_queue_error ''Failed to schedule the retry.'')
      (with_client q (rd_zadd rd (retry_key q) [(ev_dump cd e, fl (total_seconds now + t))]) w1) = (r, w')"
    using assms u by (simp add: schedule_retry_def Let_def)
  then show thesis
  proof (rule with_client_apfst)
    assume "w' = w1" and "r = as_queue_error ''Failed to schedule the retry.'' (Inl not_connected)"
    then show thesis using r1
      by (intro that(1)) (simp_all add: as_queue_error_def redis_or_os_error_def not_connected_def)
  next
    fix r0
    assume "rd_zadd rd (retry_key q) [(ev_dump cd e, fl (total_seconds now + t))] (w_redis w1) = (r0, w_redis w')"
      and "r = as_queue_error ''Failed to schedule the retry.'' r0"
    then show thesis using r1 u by (intro that(2)[of r0]) simp_all
  qed
qed

lemma schedule_retry_held:
  assumes "schedule_retry rd cd q e t w = (r, w')"
  shows "held q w' = held q w"
  using assms
proof (rule schedule_retry_cases)
  fix r0 assume "rd_zadd rd (retry_key q) [(ev_dump cd e, fl (total_seconds (fst (utcnow w)) + t))] (w_redis w)
      = (r0, w_redis w')"
  from zadd_keeps[OF this] show ?thesis by (simp add: held_def)
qed (simp add: held_def)

text \<open>A scheduled event is parked under its JSON text with its due time.\<close>

lemma schedule_retry_parked:
  assumes "schedule_retry rd cd q e t w = (Inr (), w')"
  shows "parked q w' = (parked q w)(ev_dump cd e \<mapsto> fl (total_seconds (fst (utcnow w)) + t))"
  using assms
proof (rule schedule_retry_cases)
  fix r0
  assume z: "rd_zadd rd (retry_key q) [(ev_dump cd e, fl (total_seconds (fst (utcnow w)) + t))] (w_redis w)
      = (r0, w_redis w')"
    and r: "Inr () = as_queue_error ''Failed to schedule the retry.'' r0"
  from r have "r0 = Inr ()" by (cases r0) (simp_all add: as_queue_error_def)
  note zadd_zset[OF z[unfolded this], of "retry_key q"]
  then show ?thesis by (simp only: parked_def if_True refl simp_thms)
qed simp

text \<open>Only undecodable entries are acknowledged while a batch is decoded.\<close>

lemma decode_messages_held:
  "decode_messages rd cd q counts ms w = (r, w') \<Longrightarrow> held q w - undecodable cd ms \<subseteq> held q w'"
proof (induction ms arbitrary: w r w')
  case Nil
  then show ?case by simp
next
  case (Cons m ms)
  obtain i fs where m: "m = (i, fs)" by fastforce
  show ?case
  proof (cases "decode_one cd fs")
    case (Inl e)
    obtain r1 w1 where a: "ack rd q i w = (r1, w1)" by fastforce
    note h = ack_held[OF a] and mal = decode_one_error[OF Inl]
    have i: "undecodable cd (m # ms) = insert i (undecodable cd ms)" using Inl by (simp add: m)
    show ?thesis
    proof (cases r1)
      case (Inl e')
      with Cons.prems \<open>decode_one cd fs = Inl e\<close> a m mal have "w' = w1" by simp
      with h i show ?thesis by blast
    next
      case (Inr u)
      with Cons.prems \<open>decode_one cd fs = Inl e\<close> a m mal
      have "decode_messages rd cd q counts ms w1 = (r, w')" by simp
      from Cons.IH[OF this] h i show ?thesis by blast
    qed
  next
    case (Inr e)
    obtain r1 w1 where d: "decode_messages rd cd q counts ms w = (r1, w1)" by fastforce
    with Cons.prems Inr m have "w' = w1" by (auto split: sum.splits)
    with Cons.IH[OF d] Inr show ?thesis by (simp add: m)
  qed
qed

text \<open>The script pops exactly what it returns, and only what was due.\<close>

lemma pop_script:
  assumes "POP_DUE_RETRIES rd k now n r = (due, r')"
  shows "set due \<subseteq> {m. \<exists>x. zset k r m = Some x \<and> x \<le> now}" and "distinct due"
    and "zset k' r' = (if k' = k then (\<lambda>m. if m \<in> set due then None else zset k r m) else zset k' r)"
    and "outstanding s g r' = outstanding s g r"
    and "length due < n \<Longrightarrow> \<forall>m x. zset k r' m = Some x \<longrightarrow> now < x"
proof -
  have due: "due = rd_zrangebyscore rd k now 0 n r"
    using assms by (auto simp: POP_DUE_RETRIES_def Let_def split: if_splits)
  have r': "r' = (if due = [] then r else rd_zrem rd k due r)"
    using assms by (auto simp: POP_DUE_RETRIES_def Let_def split: if_splits)
  show "set due \<subseteq> {m. \<exists>x. zset k r m = Some x \<and> x \<le> now}" "distinct due"
    unfolding due by (rule zrange_first)+
  show z: "zset k' r' = (if k' = k then (\<lambda>m. if m \<in> set due then None else zset k r m) else zset k' r)" for k'
    by (simp add: r' zrem_zset)
  show "outstanding s g r' = outstanding s g r" by (simp add: r' zrem_keeps)
  assume "length due < n"
  then have "set due = {m. \<exists>x. zset k r m = Some x \<and> x \<le> now}"
    unfolding due by (rule zrange_complete)
  then show "\<forall>m x. zset k r' m = Some x \<longrightarrow> now < x" using z[of k] by (auto split: if_splits)
qed

lemma pop_due_retries_Inr:
  assumes "pop_due_retries rd cd q n w = (Inr es, w')"
  obtains due where "es = List.map_filter (ev_load cd) due"
    and "POP_DUE_RETRIES rd (retry_key q) (total_seconds (fst (utcnow w))) n (w_redis w) = (due, w_redis w')"
proof -
  obtain now w1 where u: "utcnow w = (now, w1)" by fastforce
  have "w_redis w1 = w_redis w" using utcnow_frame[OF u] by (simp add: same_outside_def)
  with assms u show thesis
    by (auto simp: pop_due_retries_def redis_call_state[symmetric] split: if_splits sum.splits prod.splits
        intro!: that dest!: redis_call_state[THEN iffD1] script_Inr)
qed

end

section \<open>The retry set\<close>

text \<open>
  C19. Popping the due retries is atomic and lossless: what is popped was due, each entry comes back
  once, everything else stays parked with its due time, no stream message is touched, and when fewer
  entries come back than the limit allows, nothing due is left.
\<close>

theorem pop_due_retries_exact:
  assumes "redis_server rd outstanding zset" and "pop_due_retries rd cd q n w = (Inr es, w')"
  shows "\<exists>due. es = List.map_filter (ev_load cd) due \<and> distinct due \<and>
    (\<forall>m \<in> set due. \<exists>x. zset (retry_key q) (w_redis w) m = Some x \<and> x \<le> total_seconds (fst (utcnow w))) \<and>
    zset (retry_key q) (w_redis w') =
      (\<lambda>m. if m \<in> set due then None else zset (retry_key q) (w_redis w) m) \<and>
    outstanding (queue_stream q) (queue_group q) (w_redis w') =
      outstanding (queue_stream q) (queue_group q) (w_redis w) \<and>
    (length due < n \<longrightarrow>
      (\<forall>m x. zset (retry_key q) (w_redis w') m = Some x \<longrightarrow> total_seconds (fst (utcnow w)) < x))"
proof -
  from assms(2) obtain due where es: "es = List.map_filter (ev_load cd) due"
    and p: "POP_DUE_RETRIES rd (retry_key q) (total_seconds (fst (utcnow w))) n (w_redis w) = (due, w_redis w')"
    by (rule redis_server.pop_due_retries_Inr[OF assms(1)])
  note f = redis_server.pop_script[OF assms(1) p]
  show ?thesis
  proof (intro exI[of _ due] conjI)
    show "\<forall>m \<in> set due. \<exists>x. zset (retry_key q) (w_redis w) m = Some x \<and> x \<le> total_seconds (fst (utcnow w))"
      using f(1) by blast
    show "zset (retry_key q) (w_redis w') =
        (\<lambda>m. if m \<in> set due then None else zset (retry_key q) (w_redis w) m)"
      using f(3)[of "retry_key q"] by simp
  qed (use es f in auto)
qed

definition sample_event :: event where
  "sample_event =
     \<lparr>ev_event_id = ''ev'', ev_event_type = DOCUMENT_PROCESSING_REQUESTED, ev_event_version = 1,
      ev_job_id = ''job'', ev_document_id = ''doc'', ev_storage_path = ''a1.txt'',
      ev_requested_document_type = None, ev_attempt = 0, ev_created_at = 0,
      ev_correlation_id = None\<rparr>"

definition sample_queue :: redis_queue where
  "sample_queue = \<lparr>rq_settings = default_settings, rq_client = True, rq_script = True\<rparr>"

definition parked_redis :: mem_redis where
  "parked_redis = empty_redis\<lparr>mr_zsets := (\<lambda>_. [(plain_dump sample_event, 5)])\<rparr>"

lemma total_seconds_10 [simp]: "total_seconds 10000000 = 10"
  using is_fl_of_int[of 10] by (simp add: total_seconds_def is_fl_def)

lemma pop_sample:
  "pop_due_retries mem_api plain_codec sample_queue 50 (sample_world parked_redis () () empty_db 10000000) =
     (Inr [sample_event],
      sample_world (parked_redis\<lparr>mr_zsets := (mr_zsets parked_redis)(retry_key sample_queue := [])\<rparr>) () ()
        empty_db 10000000)"
proof -
  have "plain_load (plain_dump sample_event) = Some sample_event"
    using plain_codec_ok by (simp add: codec_ok_def plain_codec_def)
  then show ?thesis
    by (simp add: pop_due_retries_def sample_queue_def redis_call_def mem_api_def POP_DUE_RETRIES_def
        mem_zrangebyscore_def mem_zrem_def parked_redis_def empty_redis_def Let_def
        as_queue_error_def List.map_filter_def plain_codec_def)
qed

lemma pop_due_retries_exact_witness:
  "\<exists>due. [sample_event] = List.map_filter (ev_load plain_codec) due \<and> distinct due \<and> length due < 50"
proof -
  have "plain_load (plain_dump sample_event) = Some sample_event"
    using plain_codec_ok by (simp add: codec_ok_def plain_codec_def)
  obtain due where "[sample_event] = List.map_filter (ev_load plain_codec) due" "distinct due"
    and m: "\<forall>m \<in> set due. \<exists>x. mem_zset (retry_key sample_queue) parked_redis m = Some x \<and> x \<le> 10"
    using pop_due_retries_exact[OF memory_redis.redis_server_axioms pop_sample] by auto
  moreover have "set due \<subseteq> {plain_dump sample_event}"
    using m by (auto simp: mem_zset_def parked_redis_def split: if_splits)
  then have "length due \<le> 1"
    using \<open>distinct due\<close> by (metis distinct_card card_mono finite.emptyI finite.insertI card.empty card_insert_disjoint empty_iff One_nat_def)
  ultimately show ?thesis by force
qed

section \<open>The wire format\<close>

lemma publish_decode_roundtrip_event:
  "decode_one plain_codec (to_stream_fields plain_codec sample_event) = Inr sample_event"
  using plain_codec_ok
  by (simp add: decode_one_def to_stream_fields_def codec_ok_def EVENT_VERSION_def)
    (simp add: sample_event_def)

text \<open>
  What a producer publishes reaches a consumer unchanged: the published fields decode to exactly
  the event, and once publishing returns an ID that entry is outstanding for the group, no other
  entry has been dropped, and only Redis has changed.
\<close>

lemma publish_decode_roundtrip:
  assumes "redis_server rd outstanding zset" and "codec_ok cd" and "ev_event_version e = EVENT_VERSION"
    and "publish rd cd q e w = (Inr i, w')"
  shows "decode_one cd (to_stream_fields cd e) = Inr e \<and>
    i \<in> outstanding (queue_stream q) (queue_group q) (w_redis w') \<and>
    outstanding (queue_stream q) (queue_group q) (w_redis w) \<subseteq>
      outstanding (queue_stream q) (queue_group q) (w_redis w') \<and> redis_only w w'"
  using assms(2,3) redis_server.publish_new[OF assms(1,4)] redis_server.publish_held[OF assms(1,4)]
    publish_frame[OF assms(4)]
  by (simp add: decode_one_def to_stream_fields_def codec_ok_def redis_server.held_def[OF assms(1)])

text \<open>
  Decoding a batch returns every decodable entry, in order, with its delivery count (1 when none
  is known), each of the supported version; only the undecodable entries are acknowledged.
\<close>

lemma decode_messages_exact:
  assumes "redis_server rd outstanding zset" and "decode_messages rd cd q counts ms w = (Inr ds, w')"
  shows "ds = List.map_filter (\<lambda>(i, fs). case decode_one cd fs of
        Inl _ \<Rightarrow> None
      | Inr e \<Rightarrow> Some \<lparr>de_message_id = i, de_event = e,
                       de_delivery_count = (case counts i of None \<Rightarrow> 1 | Some n \<Rightarrow> n)\<rparr>) ms \<and>
    (\<forall>d \<in> set ds. ev_event_version (de_event d) = EVENT_VERSION) \<and>
    outstanding (queue_stream q) (queue_group q) (w_redis w) - undecodable cd ms \<subseteq>
      outstanding (queue_stream q) (queue_group q) (w_redis w') \<and> redis_only w w'"
proof -
  let ?f = "\<lambda>(i, fs). case decode_one cd fs of
        Inl _ \<Rightarrow> None
      | Inr e \<Rightarrow> Some \<lparr>de_message_id = i, de_event = e,
                       de_delivery_count = (case counts i of None \<Rightarrow> 1 | Some n \<Rightarrow> n)\<rparr>"
  have ds: "decode_messages rd cd q counts ms w = (Inr ds, w') \<Longrightarrow> ds = List.map_filter ?f ms" for w ds w'
    by (induction rd cd q counts ms w arbitrary: ds w' rule: decode_messages.induct)
      (auto simp: List.map_filter_simps split: sum.splits prod.splits if_splits)
  have "\<forall>d \<in> set (List.map_filter ?f ms). ev_event_version (de_event d) = EVENT_VERSION"
    by (auto simp: List.map_filter_def decode_one_version split: sum.splits)
  with ds[OF assms(2)] redis_server.decode_messages_held[OF assms]
    decode_messages_frame[OF assms(2)]
  show ?thesis by (simp add: redis_server.held_def[OF assms(1)])
qed

lemma decode_sample:
  "decode_messages mem_api plain_codec sample_queue Map.empty
      [(''7'', []), (''8'', to_stream_fields plain_codec sample_event)]
      (sample_world empty_redis () () empty_db 0) =
    (Inr [\<lparr>de_message_id = ''8'', de_event = sample_event, de_delivery_count = 1\<rparr>],
     sample_world empty_redis () () empty_db 0)"
  using publish_decode_roundtrip_event
  by (simp add: decode_one_def[of _ "[]"] ack_def with_client_def sample_queue_def redis_call_def
      mem_api_def mem_xack_def empty_redis_def as_queue_error_def)

section \<open>Redelivery\<close>

text \<open>What a batch hands out: the decoded entry, under its ID and with its count.\<close>

lemma decode_messages_delivered:
  "decode_messages rd cd q counts ms w = (Inr ds, w') \<Longrightarrow> d \<in> set ds \<Longrightarrow>
     de_delivery_count d = (case counts (de_message_id d) of None \<Rightarrow> 1 | Some n \<Rightarrow> n) \<and>
     (\<exists>fs. (de_message_id d, fs) \<in> set ms \<and> decode_one cd fs = Inr (de_event d))"
  by (induction rd cd q counts ms w arbitrary: ds w' rule: decode_messages.induct)
    (auto split: sum.splits prod.splits if_splits, blast+)

text \<open>
  A reclaimed message reports how often it has been delivered including this delivery: one more
  than \<^verbatim>\<open>XPENDING\<close> counted for it, and never more entries are claimed than \<^verbatim>\<open>XPENDING\<close> listed.
\<close>

lemma claim_stale_counts:
  assumes "rq_client q"
    and "rd_xpending_range rd (queue_stream q) (queue_group q) (redis_read_count (rq_settings q))
        (pending_min_idle_ms (rq_settings q)) (w_redis w) = (Inr pending, r1)"
    and "distinct (map fst pending)"
    and "claim_stale rd cd q c w = (Inr ds, w')" and "d \<in> set ds" and "(de_message_id d, n) \<in> set pending"
  shows "de_delivery_count d = n + 1 \<and>
    (\<exists>claimed r2. rd_xclaim rd (queue_stream q) (queue_group q) c (pending_min_idle_ms (rq_settings q))
       (map fst pending) r1 = (Inr claimed, r2) \<and>
       (\<exists>fs. (de_message_id d, fs) \<in> set claimed \<and> decode_one cd fs = Inr (de_event d)))"
proof -
  have upd: "fold (\<lambda>(k, v). AList.update k v) ps xs = xs @ ps"
    if "distinct (map fst (xs @ ps))" for ps xs :: "(string \<times> int) list"
    using that
  proof (induction ps arbitrary: xs)
    case (Cons p ps)
    have new: "fst p \<notin> set (map fst xs) \<Longrightarrow> AList.update (fst p) (snd p) xs = xs @ [p]" for xs :: "(string \<times> int) list"
      by (induction xs) auto
    from Cons.prems have "AList.update (fst p) (snd p) xs = xs @ [p]" by (intro new) auto
    with Cons show ?case by (cases p) auto
  qed simp
  define counts where "counts = map (\<lambda>(i, n). (i, n + 1)) pending"
  have keys: "map fst counts = map fst pending" by (simp add: counts_def case_prod_beta comp_def)
  have dict: "dict_of counts = counts"
    using upd[of "[]" counts] assms(3) keys by (simp add: dict_of_def)
  have ne: "pending \<noteq> []" using assms(6) by auto
  obtain claimed r2 where x: "rd_xclaim rd (queue_stream q) (queue_group q) c
      (pending_min_idle_ms (rq_settings q)) (map fst pending) r1 = (claimed, r2)" by fastforce
  with assms(1,2,4) ne dict keys obtain cl where cl: "claimed = Inr cl"
    and d: "decode_messages rd cd q (map_of counts) cl (w\<lparr>w_redis := r2\<rparr>) = (Inr ds, w')"
    by (auto simp: claim_stale_def with_client_def redis_call_def Let_def as_queue_error_def
        counts_def[symmetric] split: sum.splits)
  have "(de_message_id d, n + 1) \<in> set counts" using assms(6) by (force simp: counts_def)
  then have "map_of counts (de_message_id d) = Some (n + 1)"
    using assms(3) keys by (intro map_of_is_SomeI) simp_all
  with decode_messages_delivered[OF d assms(5)] x cl show ?thesis by auto
qed

definition pending_redis :: mem_redis where
  "pending_redis = empty_redis\<lparr>mr_clock_ms := 100000,
     mr_entries := (\<lambda>_. [(''8'', to_stream_fields plain_codec sample_event)]), mr_groups := (\<lambda>_ _. Some
     \<lparr>grp_unread = [], grp_pending =
        [\<lparr>pe_id = ''8'', pe_fields = to_stream_fields plain_codec sample_event, pe_consumer = ''w0'',
          pe_delivered = 2, pe_since = 0\<rparr>]\<rparr>)\<rparr>"

section \<open>Connecting\<close>

text \<open>The state after \<open>k\<close> pings.\<close>

fun after_pings :: "'r redis_api \<Rightarrow> nat \<Rightarrow> 'r \<Rightarrow> 'r" where
  "after_pings rd 0 r = r"
| "after_pings rd (Suc k) r = after_pings rd k (snd (rd_ping rd r))"

definition unreachable_ping :: "'r redis_api \<Rightarrow> 'r \<Rightarrow> bool" where
  "unreachable_ping rd r \<longleftrightarrow>
     (case fst (rd_ping rd r) of
        Inl e \<Rightarrow> is_foreign_instance e REDIS_CONNECTION_ERROR \<or> is_foreign_instance e OS_ERROR
      | Inr _ \<Rightarrow> False)"

lemma connect_attempts_pings:
  assumes "\<forall>i < k. unreachable_ping rd (after_pings rd i (w_redis w))" and "k \<le> n"
  shows "connect_attempts rd n q w =
    connect_attempts rd (n - k) q (w\<lparr>w_redis := after_pings rd k (w_redis w)\<rparr>)"
  using assms
proof (induction k arbitrary: n w)
  case 0
  then show ?case by simp
next
  case (Suc k)
  then obtain m where n: "n = Suc m" by (cases n) auto
  obtain x r where p: "rd_ping rd (w_redis w) = (x, r)" by fastforce
  have "unreachable_ping rd (w_redis w)" using Suc.prems(1) by force
  then have step: "connect_attempts rd n q w = connect_attempts rd m q (w\<lparr>w_redis := r\<rparr>)"
    using p n by (auto simp: unreachable_ping_def redis_call_def split: sum.splits)
  have "\<forall>i < k. unreachable_ping rd (after_pings rd i (w_redis (w\<lparr>w_redis := r\<rparr>)))"
    using Suc.prems(1) p by (metis (mono_tags) Suc_less_eq after_pings.simps(2) snd_conv world.select_convs(2)
        world.surjective world.update_convs(2))
  from Suc.IH[OF this, of m] Suc.prems(2) n p step show ?case by simp
qed

text \<open>
  Connecting always stops: after \<open>k\<close> failed pings it succeeds at the next ping that is answered,
  if an attempt is left; and when all configured attempts fail it raises
  \<open>DependencyUnavailableError\<close> after exactly that many pings, still unconnected.
\<close>

lemma queue_connect_bounded:
  assumes "n = nat (redis_connect_max_attempts (rq_settings q))"
    and "\<forall>i < k. unreachable_ping rd (after_pings rd i (w_redis w))"
  shows "(k < n \<and> rd_ping rd (after_pings rd k (w_redis w)) = (Inr (), r) \<longrightarrow>
      queue_connect rd q w = (Inr (), q\<lparr>rq_client := True, rq_script := True\<rparr>, w\<lparr>w_redis := r\<rparr>)) \<and>
    (k = n \<longrightarrow> queue_connect rd q w =
      (Inl (redis_unreachable (rq_settings q)), q, w\<lparr>w_redis := after_pings rd n (w_redis w)\<rparr>))"
proof (intro conjI impI)
  assume k: "k < n \<and> rd_ping rd (after_pings rd k (w_redis w)) = (Inr (), r)"
  then obtain m where "n - k = Suc m" by (metis Suc_diff_Suc)
  with connect_attempts_pings[OF assms(2), of n q] k assms(1)
  show "queue_connect rd q w = (Inr (), q\<lparr>rq_client := True, rq_script := True\<rparr>, w\<lparr>w_redis := r\<rparr>)"
    by (simp add: queue_connect_def redis_call_def)
next
  assume "k = n"
  with connect_attempts_pings[OF assms(2), of n q] assms(1)
  show "queue_connect rd q w =
      (Inl (redis_unreachable (rq_settings q)), q, w\<lparr>w_redis := after_pings rd n (w_redis w)\<rparr>)"
    by (simp add: queue_connect_def)
qed

text \<open>A server that refuses its first two connections.\<close>

definition slow_api :: "nat redis_api" where
  "slow_api =
     (undefined :: nat redis_api)\<lparr>rd_ping := (\<lambda>n. (if n < 2
        then Inl (OtherExc [REDIS_CONNECTION_ERROR, REDIS_ERROR, ''builtins.Exception''] ''refused'')
        else Inr (), Suc n))\<rparr>"

lemma connects_at_the_third_ping:
  "queue_connect slow_api (new_queue default_settings) (sample_world 0 () () empty_db 0) =
     (Inr (), (new_queue default_settings)\<lparr>rq_client := True, rq_script := True\<rparr>,
      sample_world 3 () () empty_db 0)"
proof -
  have p: "rd_ping slow_api n = (if n < 2
      then Inl (OtherExc [REDIS_CONNECTION_ERROR, REDIS_ERROR, ''builtins.Exception''] ''refused'')
      else Inr (), Suc n)" for n
    by (simp add: slow_api_def)
  have a: "after_pings slow_api i m = m + i" for i m
    by (induction i arbitrary: m) (simp_all add: p)
  have "\<forall>i < 2. unreachable_ping slow_api (after_pings slow_api i 0)"
    by (simp add: unreachable_ping_def p a)
  then show ?thesis
    using queue_connect_bounded[of 30 "new_queue default_settings" 2 slow_api
        "sample_world 0 () () empty_db 0" 3]
    by (simp add: new_queue_def default_settings_def p a)
qed

end
