(* ===== verification/Utf8.thy ===== *)
theory Utf8
  imports Prelude
begin

text \<open>
  \<^verbatim>\<open>bytes.decode\<close> for the encodings the program uses: strict \<^verbatim>\<open>utf-8\<close> (no overlong forms, no
  surrogates, nothing above U+10FFFF), \<^verbatim>\<open>utf-8-sig\<close> and \<^verbatim>\<open>cp1252\<close>. \<open>None\<close> is
  \<^verbatim>\<open>UnicodeDecodeError\<close>. \<open>utf8_encode\<close> is \<^verbatim>\<open>str.encode("utf-8")\<close>.
\<close>

section \<open>UTF-8\<close>

definition trail :: "nat \<Rightarrow> nat \<Rightarrow> nat \<Rightarrow> bool" where
  "trail lo hi b \<longleftrightarrow> lo \<le> b \<and> b \<le> hi"

text \<open>The range of the second byte, which excludes overlong forms, surrogates and code points above U+10FFFF.\<close>

definition second3 :: "nat \<Rightarrow> nat \<Rightarrow> bool" where
  "second3 x b \<longleftrightarrow> trail (if x = 224 then 160 else 128) (if x = 237 then 159 else 191) b"

definition second4 :: "nat \<Rightarrow> nat \<Rightarrow> bool" where
  "second4 x b \<longleftrightarrow> trail (if x = 240 then 144 else 128) (if x = 244 then 143 else 191) b"

fun decode_nats :: "nat list \<Rightarrow> unicode option" where
  "decode_nats [] = Some []"
| "decode_nats (x # s) =
     (if x < 128 then map_option (Cons x) (decode_nats s)
         else if 194 \<le> x \<and> x \<le> 223 then
           (case s of
              b # t \<Rightarrow>
                if trail 128 191 b
                then map_option (Cons ((x - 192) * 64 + (b - 128))) (decode_nats t)
                else None
            | _ \<Rightarrow> None)
         else if 224 \<le> x \<and> x \<le> 239 then
           (case s of
              b # c # t \<Rightarrow>
                if second3 x b \<and> trail 128 191 c
                then map_option (Cons ((x - 224) * 4096 + (b - 128) * 64 + (c - 128)))
                       (decode_nats t)
                else None
            | _ \<Rightarrow> None)
         else if 240 \<le> x \<and> x \<le> 244 then
           (case s of
              b # c # d # t \<Rightarrow>
                if second4 x b \<and> trail 128 191 c \<and> trail 128 191 d
                then map_option (Cons ((x - 240) * 262144 + (b - 128) * 4096 +
                       (c - 128) * 64 + (d - 128))) (decode_nats t)
                else None
            | _ \<Rightarrow> None)
         else None)"

definition utf8_decode :: "bytes \<Rightarrow> unicode option" where
  "utf8_decode s = decode_nats (map unat s)"

text \<open>The code points UTF-8 can carry.\<close>

definition scalar :: "codepoint \<Rightarrow> bool" where
  "scalar n \<longleftrightarrow> n < 55296 \<or> 57344 \<le> n \<and> n \<le> 1114111"

definition encode_point :: "codepoint \<Rightarrow> nat list" where
  "encode_point n =
     (if n < 128 then [n]
      else if n < 2048 then [192 + n div 64, 128 + n mod 64]
      else if n < 65536 then [224 + n div 4096, 128 + n div 64 mod 64, 128 + n mod 64]
      else [240 + n div 262144, 128 + n div 4096 mod 64, 128 + n div 64 mod 64, 128 + n mod 64])"

definition utf8_encode :: "unicode \<Rightarrow> bytes" where
  "utf8_encode s = map word_of_nat (concat (map encode_point s))"

section \<open>Other encodings\<close>

text \<open>\<^verbatim>\<open>utf-8-sig\<close>: a byte-order mark at the start is dropped.\<close>

definition utf8_sig_decode :: "bytes \<Rightarrow> unicode option" where
  "utf8_sig_decode s = (if take 3 s = [239, 187, 191] then utf8_decode (drop 3 s) else utf8_decode s)"

text \<open>The range 0x80 to 0x9F of Windows-1252; 0 marks the five undefined bytes.\<close>

definition cp1252_high :: "codepoint list" where
  "cp1252_high =
     [8364, 0, 8218, 402, 8222, 8230, 8224, 8225, 710, 8240, 352, 8249, 338, 0, 381, 0,
      0, 8216, 8217, 8220, 8221, 8226, 8211, 8212, 732, 8482, 353, 8250, 339, 0, 382, 376]"

definition cp1252_point :: "byte \<Rightarrow> codepoint option" where
  "cp1252_point b =
     (let x = unat b
      in if x < 128 \<or> 160 \<le> x then Some x
         else (let y = cp1252_high ! (x - 128) in if y = 0 then None else Some y))"

definition cp1252_decode :: "bytes \<Rightarrow> unicode option" where
  "cp1252_decode s =
     (if list_all (\<lambda>b. cp1252_point b \<noteq> None) s then Some (map (the \<circ> cp1252_point) s) else None)"

section \<open>Round trips\<close>

lemma unat_byte: "n < 256 \<Longrightarrow> unat (word_of_nat n :: byte) = n"
  by (simp add: unat_of_nat take_bit_nat_eq_self_iff)

lemma div_digits:
  "n div 4096 * 4096 + n div 64 mod 64 * 64 + n mod 64 = (n :: nat)"
  "n div 262144 * 262144 + n div 4096 mod 64 * 4096 + n div 64 mod 64 * 64 + n mod 64 = n"
proof -
  have "n div 64 = n div 4096 * 64 + n div 64 mod 64" "n div 4096 = n div 262144 * 64 + n div 4096 mod 64"
    using div_mult_mod_eq[of "n div 64" 64] div_mult_mod_eq[of "n div 4096" 64]
    by (simp_all add: div_mult2_eq[symmetric])
  then show "n div 4096 * 4096 + n div 64 mod 64 * 64 + n mod 64 = n"
    and "n div 262144 * 262144 + n div 4096 mod 64 * 4096 + n div 64 mod 64 * 64 + n mod 64 = n"
    using div_mult_mod_eq[of n 64] by linarith+
qed

lemma mod64_le: "n mod 64 \<le> (63 :: nat)"
  using mod_less_divisor[of 64 n] by linarith

lemma decode_encode_point:
  assumes "scalar n"
  shows "decode_nats (encode_point n @ s) = map_option (Cons n) (decode_nats s)"
proof -
  note m = mod64_le[of n] mod64_le[of "n div 64"] mod64_le[of "n div 4096"]
  consider "n < 128" | "128 \<le> n" "n < 2048" | "2048 \<le> n" "n < 65536" | "65536 \<le> n" "n \<le> 1114111"
    using assms by (fastforce simp: scalar_def)
  then show ?thesis
  proof cases
    case 1
    then show ?thesis by (simp add: encode_point_def)
  next
    case 2
    then have "194 \<le> 192 + n div 64" "192 + n div 64 \<le> 223" by auto
    with 2 m show ?thesis by (simp add: encode_point_def trail_def)
  next
    case 3
    have hi: "224 + n div 4096 \<le> 239" using 3 by auto
    have sec: "second3 (224 + n div 4096) (128 + n div 64 mod 64)"
    proof -
      have "n div 4096 = 0 \<Longrightarrow> 32 \<le> n div 64 mod 64"
      proof -
        assume "n div 4096 = 0"
        then have "n < 4096" by (simp add: div_eq_0_iff)
        then have "n div 64 < 64" by auto
        moreover have "32 \<le> n div 64" using 3 by auto
        ultimately show ?thesis by simp
      qed
      moreover have "n div 64 mod 64 \<le> 31" if "n div 4096 = 13"
        using assms div_digits(1)[of n] m(1,2) unfolding that scalar_def by linarith
      ultimately show ?thesis using m by (simp add: second3_def trail_def)
    qed
    from 3 hi sec m div_digits(1)[of n] show ?thesis
      by (simp add: encode_point_def trail_def)
  next
    case 4
    have hi: "240 + n div 262144 \<le> 244" using 4 by auto
    have sec: "second4 (240 + n div 262144) (128 + n div 4096 mod 64)"
    proof -
      have "n div 262144 = 0 \<Longrightarrow> 16 \<le> n div 4096 mod 64"
      proof -
        assume "n div 262144 = 0"
        then have "n < 262144" by (simp add: div_eq_0_iff)
        then have "n div 4096 < 64" by auto
        moreover have "16 \<le> n div 4096" using 4 by auto
        ultimately show ?thesis by simp
      qed
      moreover have "n div 4096 mod 64 \<le> 15" if "n div 262144 = 4"
        using 4(2) div_digits(2)[of n] m unfolding that by linarith
      ultimately show ?thesis using m by (simp add: second4_def trail_def)
    qed
    from 4 hi sec m div_digits(2)[of n] show ?thesis
      by (simp add: encode_point_def trail_def)
  qed
qed

lemma encode_point_bytes: "scalar n \<Longrightarrow> x \<in> set (encode_point n) \<Longrightarrow> x < 256"
  using mod64_le[of n] mod64_le[of "n div 64"] mod64_le[of "n div 4096"]
  by (auto simp: encode_point_def scalar_def split: if_splits)

text \<open>Decoding undoes encoding, on every text UTF-8 can carry.\<close>

lemma utf8_decode_encode:
  assumes "\<forall>n \<in> set s. scalar n"
  shows "utf8_decode (utf8_encode s) = Some s"
proof -
  have "map unat (map word_of_nat ns :: bytes) = ns" if "\<forall>x \<in> set ns. x < 256" for ns
    using that by (simp add: map_idI unat_byte)
  moreover have "\<forall>x \<in> set (concat (map encode_point s)). x < 256"
    using assms encode_point_bytes by fastforce
  moreover have "decode_nats (concat (map encode_point s)) = Some s"
    using assms by (induction s) (simp_all add: decode_encode_point)
  ultimately show ?thesis by (simp add: utf8_decode_def utf8_encode_def)
qed

text \<open>Encoding undoes decoding: a byte string that decodes is the encoding of its text.\<close>

lemma digits2: "b < 64 \<Longrightarrow> (a * 64 + b) div 64 = (a :: nat) \<and> (a * 64 + b) mod 64 = b"
  by simp

lemma digits3:
  assumes "b < 64" and "c < (64 :: nat)" and "n = a * 4096 + b * 64 + c"
  shows "n div 4096 = a" and "n div 64 mod 64 = b" and "n mod 64 = c"
proof -
  have n: "n = (a * 64 + b) * 64 + c" using assms(3) by simp
  from digits2[OF assms(2), of "a * 64 + b"] have d: "n div 64 = a * 64 + b" "n mod 64 = c"
    by (auto simp: n)
  then show "n mod 64 = c" "n div 64 mod 64 = b" using digits2[OF assms(1), of a] by auto
  have "n div 4096 = n div 64 div 64" by (simp add: div_mult2_eq[symmetric])
  then show "n div 4096 = a" using d digits2[OF assms(1), of a] by simp
qed

lemma digits4:
  assumes "b < 64" and "c < 64" and "d < (64 :: nat)" and "n = a * 262144 + b * 4096 + c * 64 + d"
  shows "n div 262144 = a" and "n div 4096 mod 64 = b" and "n div 64 mod 64 = c" and "n mod 64 = d"
proof -
  have n: "n = (a * 64 + b) * 4096 + c * 64 + d" using assms(4) by simp
  note d3 = digits3[OF assms(2,3) n]
  show "n div 64 mod 64 = c" "n mod 64 = d" using d3 by auto
  show "n div 4096 mod 64 = b" using d3(1) digits2[OF assms(1), of a] by simp
  have "n div 262144 = n div 4096 div 64" by (simp add: div_mult2_eq[symmetric])
  then show "n div 262144 = a" using d3(1) digits2[OF assms(1), of a] by simp
qed

lemma encode_two:
  assumes "194 \<le> x" "x \<le> 223" "trail 128 191 b" and n: "n = (x - 192) * 64 + (b - 128)"
  shows "encode_point n = [x, b] \<and> scalar n"
proof -
  have b: "b - 128 < 64" "128 \<le> b" using assms(3) unfolding trail_def by linarith+
  have "128 \<le> n" "n < 2048" using assms b unfolding n by linarith+
  with digits2[OF b(1), of "x - 192", folded n] assms(1) b show ?thesis
    by (simp add: encode_point_def scalar_def)
qed

lemma encode_three:
  assumes "224 \<le> x" "x \<le> 239" "second3 x b" "trail 128 191 c"
    and n: "n = (x - 224) * 4096 + (b - 128) * 64 + (c - 128)"
  shows "encode_point n = [x, b, c] \<and> scalar n"
proof -
  have bc: "b - 128 < 64" "c - 128 < 64" "128 \<le> b" "128 \<le> c"
    using assms by (auto simp: trail_def second3_def split: if_splits)
  have lo: "2048 \<le> n"
    using assms(1,3) bc unfolding n by (cases "x = 224") (auto simp: second3_def trail_def)
  have hi: "n < 65536" using assms(2) bc unfolding n by linarith
  have sc: "scalar n"
  proof (cases "x = 237")
    case True
    with assms(3) have "b \<le> 159" by (simp add: second3_def trail_def)
    have "n < 55296" unfolding n True using \<open>b \<le> 159\<close> bc by linarith
    then show ?thesis by (simp add: scalar_def)
  next
    case False
    then have "x \<le> 236 \<or> 238 \<le> x" by auto
    with bc hi show ?thesis by (auto simp: scalar_def n)
  qed
  from digits3[OF bc(1,2) n] lo hi sc assms(1) bc show ?thesis
    by (simp add: encode_point_def)
qed

lemma encode_four:
  assumes "240 \<le> x" "x \<le> 244" "second4 x b" "trail 128 191 c" "trail 128 191 d"
    and n: "n = (x - 240) * 262144 + (b - 128) * 4096 + (c - 128) * 64 + (d - 128)"
  shows "encode_point n = [x, b, c, d] \<and> scalar n"
proof -
  have bc: "b - 128 < 64" "c - 128 < 64" "d - 128 < 64" "128 \<le> b" "128 \<le> c" "128 \<le> d"
    using assms by (auto simp: trail_def second4_def split: if_splits)
  have lo: "65536 \<le> n"
    using assms(1,3) bc unfolding n by (cases "x = 240") (auto simp: second4_def trail_def)
  have hi: "n \<le> 1114111"
    using assms(2,3) bc unfolding n by (cases "x = 244") (auto simp: second4_def trail_def)
  from digits4[OF bc(1,2,3) n] lo hi assms(1) bc show ?thesis
    by (simp add: encode_point_def scalar_def)
qed

lemma decode_nats_encode:
  "decode_nats ns = Some u \<Longrightarrow> concat (map encode_point u) = ns \<and> (\<forall>n \<in> set u. scalar n)"
proof (induction ns arbitrary: u rule: decode_nats.induct)
  case 1
  then show ?case by simp
next
  case (2 x s)
  consider "x < 128" | "194 \<le> x" "x \<le> 223" | "224 \<le> x" "x \<le> 239" | "240 \<le> x" "x \<le> 244"
    using "2.prems" by (auto split: if_splits)
  then show ?case
  proof cases
    case 1
    with "2.prems" "2.IH"(1) show ?thesis by (auto simp: encode_point_def scalar_def)
  next
    case 2
    with \<open>decode_nats (x # s) = Some u\<close> obtain b t v where s: "s = b # t" "trail 128 191 b"
      and v: "decode_nats t = Some v" and u: "u = ((x - 192) * 64 + (b - 128)) # v"
      by (auto split: list.splits if_splits)
    from 2 "2.IH"(2)[OF _ _ s(1,2) v] encode_two[OF 2 s(2) refl] s u show ?thesis by auto
  next
    case 3
    with \<open>decode_nats (x # s) = Some u\<close> obtain b c t v where s: "s = b # c # t" "second3 x b" "trail 128 191 c"
      and v: "decode_nats t = Some v"
      and u: "u = ((x - 224) * 4096 + (b - 128) * 64 + (c - 128)) # v"
      by (auto split: list.splits if_splits)
    from 3 "2.IH"(3)[OF _ _ _ s(1) refl _ v] encode_three[OF 3 s(2,3) refl] s u show ?thesis by auto
  next
    case 4
    with \<open>decode_nats (x # s) = Some u\<close> obtain b c d t v where s: "s = b # c # d # t"
        "second4 x b" "trail 128 191 c" "trail 128 191 d"
      and v: "decode_nats t = Some v"
      and u: "u = ((x - 240) * 262144 + (b - 128) * 4096 + (c - 128) * 64 + (d - 128)) # v"
      by (auto split: list.splits if_splits)
    from 4 "2.IH"(4)[OF _ _ _ _ s(1) refl refl _ v] encode_four[OF 4 s(2,3,4) refl] s u show ?thesis by auto
  qed
qed

lemma utf8_encode_decode:
  assumes "utf8_decode s = Some u"
  shows "utf8_encode u = s" and "\<forall>n \<in> set u. scalar n"
proof -
  have "concat (map encode_point u) = map unat s" and "\<forall>n \<in> set u. scalar n"
    using decode_nats_encode assms by (auto simp: utf8_decode_def)
  then show "utf8_encode u = s" and "\<forall>n \<in> set u. scalar n"
    by (simp_all add: utf8_encode_def comp_def)
qed

lemma utf8_decode_inj: "utf8_decode s = Some u \<Longrightarrow> utf8_decode t = Some u \<Longrightarrow> s = t"
  using utf8_encode_decode(1) by metis

end
