(* ===== verification/Sha256.thy ===== *)
theory Sha256
  imports Prelude
begin

text \<open>
  \<^verbatim>\<open>hashlib.sha256(data).hexdigest()\<close>, which \<^verbatim>\<open>file_validation.sha256_hex\<close> returns: SHA-256 on 32-bit
  words (FIPS 180-4), with the digest written in lower-case hexadecimal.
\<close>

unbundle bit_operations_syntax

type_synonym word32 = "32 word"

definition sha_constants :: "word32 list" where
  "sha_constants =
     [1116352408, 1899447441, 3049323471, 3921009573, 961987163, 1508970993, 2453635748,
      2870763221, 3624381080, 310598401, 607225278, 1426881987, 1925078388, 2162078206,
      2614888103, 3248222580, 3835390401, 4022224774, 264347078, 604807628, 770255983,
      1249150122, 1555081692, 1996064986, 2554220882, 2821834349, 2952996808, 3210313671,
      3336571891, 3584528711, 113926993, 338241895, 666307205, 773529912, 1294757372,
      1396182291, 1695183700, 1986661051, 2177026350, 2456956037, 2730485921, 2820302411,
      3259730800, 3345764771, 3516065817, 3600352804, 4094571909, 275423344, 430227734,
      506948616, 659060556, 883997877, 958139571, 1322822218, 1537002063, 1747873779,
      1955562222, 2024104815, 2227730452, 2361852424, 2428436474, 2756734187, 3204031479,
      3329325298]"

definition sha_initial :: "word32 list" where
  "sha_initial =
     [1779033703, 3144134277, 1013904242, 2773480762, 1359893119, 2600822924, 528734635,
      1541459225]"

definition big_endian :: "nat \<Rightarrow> nat \<Rightarrow> bytes" where
  "big_endian k n = map (\<lambda>i. word_of_nat (n div 256 ^ i mod 256)) (rev [0..<k])"

text \<open>The message, a one bit, zeros up to 56 modulo 64 bytes, and the bit length in 8 bytes.\<close>

definition sha_pad :: "bytes \<Rightarrow> bytes" where
  "sha_pad m = m @ [0x80] @ replicate ((119 - length m mod 64) mod 64) 0 @ big_endian 8 (8 * length m)"

fun words_of :: "bytes \<Rightarrow> word32 list" where
  "words_of (a # b # c # d # s) =
     word_of_nat (((unat a * 256 + unat b) * 256 + unat c) * 256 + unat d) # words_of s"
| "words_of _ = []"

definition small0 :: "word32 \<Rightarrow> word32" where
  "small0 x = word_rotr 7 x XOR word_rotr 18 x XOR drop_bit 3 x"

definition small1 :: "word32 \<Rightarrow> word32" where
  "small1 x = word_rotr 17 x XOR word_rotr 19 x XOR drop_bit 10 x"

definition big0 :: "word32 \<Rightarrow> word32" where
  "big0 x = word_rotr 2 x XOR word_rotr 13 x XOR word_rotr 22 x"

definition big1 :: "word32 \<Rightarrow> word32" where
  "big1 x = word_rotr 6 x XOR word_rotr 11 x XOR word_rotr 25 x"

text \<open>The message schedule, kept newest first.\<close>

fun schedule :: "nat \<Rightarrow> word32 list \<Rightarrow> word32 list" where
  "schedule 0 w = w"
| "schedule (Suc n) w = schedule n ((small1 (w ! 1) + w ! 6 + small0 (w ! 14) + w ! 15) # w)"

fun sha_round :: "word32 list \<Rightarrow> word32 \<times> word32 \<Rightarrow> word32 list" where
  "sha_round [a, b, c, d, e, f, g, h] (k, w) =
     (let t1 = h + big1 e + ((e AND f) XOR (NOT e AND g)) + k + w;
          t2 = big0 a + ((a AND b) XOR (a AND c) XOR (b AND c))
      in [t1 + t2, a, b, c, d + t1, e, f, g])"
| "sha_round s _ = s"

definition sha_block :: "word32 list \<Rightarrow> word32 list \<Rightarrow> word32 list" where
  "sha_block s block =
     map2 (+) s (foldl sha_round s (zip sha_constants (rev (schedule 48 (rev block)))))"

function sha_blocks :: "word32 list \<Rightarrow> word32 list \<Rightarrow> word32 list" where
  "sha_blocks s ws = (if length ws < 16 then s else sha_blocks (sha_block s (take 16 ws)) (drop 16 ws))"
  by pat_completeness auto
termination
  by (relation "measure (\<lambda>(s, ws). length ws)") auto

declare sha_blocks.simps [simp del]

definition hex_digit :: "nat \<Rightarrow> char" where
  "hex_digit n = ''0123456789abcdef'' ! n"

definition hex_byte :: "nat \<Rightarrow> string" where
  "hex_byte n = [hex_digit (n div 16 mod 16), hex_digit (n mod 16)]"

definition hex_word :: "word32 \<Rightarrow> string" where
  "hex_word w = concat (map (\<lambda>i. hex_byte (unat w div 256 ^ i mod 256)) [3, 2, 1, 0])"

definition sha256_hex :: "bytes \<Rightarrow> string" where
  "sha256_hex data = concat (map hex_word (sha_blocks sha_initial (words_of (sha_pad data))))"

section \<open>The digest has 64 characters\<close>

lemma length_sha_round [simp]: "length (sha_round s x) = length s"
  by (induction s x rule: sha_round.induct) (simp_all add: Let_def)

lemma length_sha_fold [simp]: "length (foldl sha_round s xs) = length s"
  by (induction xs arbitrary: s) auto

lemma length_sha_block [simp]: "length (sha_block s b) = length s"
  by (simp add: sha_block_def)

lemma length_sha_blocks [simp]: "length (sha_blocks s ws) = length s"
proof (induction s ws rule: sha_blocks.induct)
  case (1 s ws)
  then show ?case by (subst sha_blocks.simps) simp
qed

lemma length_sha256_hex [simp]: "length (sha256_hex data) = 64"
proof -
  have "length (concat (map hex_word ws)) = 8 * length ws" for ws
    by (induction ws) (simp_all add: hex_word_def hex_byte_def)
  then show ?thesis by (simp add: sha256_hex_def) (simp add: sha_initial_def)
qed

end
