(* ===== verification/Validation.thy ===== *)
theory Validation
  imports Settings Errors Utf8 Sha256 "HOL-Library.List_Lexorder" "HOL-Library.Char_ord"
begin

text \<open>
  \<^verbatim>\<open>app/services/file_validation.py\<close>: file-name sanitising and the checks every upload passes.

  A client's file name is \<open>unicode\<close>; what sanitising leaves is plain ASCII, a \<open>string\<close>. The Unicode
  decomposition tables behind \<^verbatim>\<open>unicodedata.normalize("NFKD", name)\<close> are data of the Unicode standard
  and not modelled: \<open>nfkd\<close> is an argument. \<^verbatim>\<open>PurePosixPath\<close> and \<^verbatim>\<open>PureWindowsPath\<close> are those of
  Python 3.12.
\<close>

section \<open>File names\<close>

text \<open>The parts of a path: split at the separator, without empty parts and single dots.\<close>

definition path_parts :: "'a \<Rightarrow> 'a \<Rightarrow> 'a list \<Rightarrow> 'a list list" where
  "path_parts sep dot s = filter (\<lambda>x. x \<noteq> [] \<and> x \<noteq> [dot]) (py_split sep s)"

definition last_part :: "'a list list \<Rightarrow> 'a list" where
  "last_part xs = (if xs = [] then [] else last xs)"

text \<open>\<^verbatim>\<open>PurePosixPath(s).name\<close> and the \<^verbatim>\<open>rel\<close> part of \<^verbatim>\<open>ntpath.splitroot\<close>.\<close>

definition posix_name :: "unicode \<Rightarrow> unicode" where
  "posix_name s = last_part (path_parts (ord_of (CHR ''/'')) (ord_of (CHR ''.'')) s)"

definition upper_ascii :: "codepoint \<Rightarrow> codepoint" where
  "upper_ascii n = (if 97 \<le> n \<and> n \<le> 122 then n - 32 else n)"

definition find_from :: "codepoint \<Rightarrow> nat \<Rightarrow> unicode \<Rightarrow> nat option" where
  "find_from c start s = map_option ((+) start) (py_find [c] (drop start s))"

definition windows_rel :: "unicode \<Rightarrow> unicode" where
  "windows_rel p =
     (let sep = 92; colon = 58 in
      if take 1 p = [sep] then
        (if take 1 (drop 1 p) = [sep] then
           (let start = (if map upper_ascii (take 8 p) = [92, 92, 63, 92, 85, 78, 67, 92] then 8 else 2)
            in (case find_from sep start p of
                  None \<Rightarrow> []
                | Some i \<Rightarrow>
                    (case find_from sep (i + 1) p of
                       None \<Rightarrow> []
                     | Some j \<Rightarrow> drop (j + 1) p)))
         else drop 1 p)
      else if take 1 (drop 1 p) = [colon] then
        (if take 1 (drop 2 p) = [sep] then drop 3 p else drop 2 p)
      else p)"

definition windows_name :: "unicode \<Rightarrow> unicode" where
  "windows_name s =
     last_part (path_parts 92 (ord_of (CHR ''.''))
       (windows_rel (map (\<lambda>n. if n = ord_of (CHR ''/'') then 92 else n) s)))"

definition MAX_FILENAME_LENGTH :: nat where
  "MAX_FILENAME_LENGTH = 200"

definition FALLBACK_FILENAME :: string where
  "FALLBACK_FILENAME = ''document''"

text \<open>The character classes of the two regular expressions, and the strip set.\<close>

definition safe_char :: "char \<Rightarrow> bool" where
  "safe_char c \<longleftrightarrow>
     (let n = ord_of c
      in 65 \<le> n \<and> n \<le> 90 \<or> 97 \<le> n \<and> n \<le> 122 \<or> 48 \<le> n \<and> n \<le> 57 \<or>
         c \<in> {CHR ''.'', CHR ''_'', CHR '' '', CHR ''-''})"

definition is_separator :: "char \<Rightarrow> bool" where
  "is_separator c \<longleftrightarrow> c \<in> {CHR ''-'', CHR ''_'', CHR '' ''}"

definition is_edge :: "char \<Rightarrow> bool" where
  "is_edge c \<longleftrightarrow> c \<in> {CHR '' '', CHR ''.'', CHR ''_''}"

text \<open>\<^verbatim>\<open>_UNSAFE_CHARS.sub("_", name)\<close> and \<^verbatim>\<open>_REPEATED_SEPARATORS.sub("_", name)\<close>.\<close>

definition replace_unsafe :: "string \<Rightarrow> string" where
  "replace_unsafe s = map (\<lambda>c. if safe_char c then c else CHR ''_'') s"

fun collapse_separators :: "string \<Rightarrow> string" where
  "collapse_separators [] = []"
| "collapse_separators (c # s) =
     (if is_separator c \<and> s \<noteq> [] \<and> is_separator (hd s)
      then CHR ''_'' # collapse_separators (dropWhile is_separator s)
      else c # collapse_separators s)"

text \<open>\<^verbatim>\<open>name.encode("ascii", "ignore").decode("ascii")\<close>.\<close>

definition ascii_only :: "unicode \<Rightarrow> string" where
  "ascii_only s = map char_of (filter (\<lambda>n. n < 128) s)"

definition shorten_filename :: "string \<Rightarrow> string" where
  "shorten_filename name =
     (if MAX_FILENAME_LENGTH < length name then
        (case py_rpartition (CHR ''.'') name of (stem, _, extension) \<Rightarrow>
           if stem \<noteq> [] \<and> length extension \<le> 10
           then take (MAX_FILENAME_LENGTH - length extension - 1) stem @ ''.'' @ extension
           else take MAX_FILENAME_LENGTH name)
      else name)"

definition sanitize_filename :: "(unicode \<Rightarrow> unicode) \<Rightarrow> unicode option \<Rightarrow> string" where
  "sanitize_filename nfkd filename =
     (case filename of
        None \<Rightarrow> FALLBACK_FILENAME
      | Some f \<Rightarrow>
          if f = [] then FALLBACK_FILENAME
          else
            let name = ascii_only (nfkd (windows_name (posix_name f)));
                name = strip_by is_edge (replace_unsafe name);
                name = collapse_separators name
            in if name = [] then FALLBACK_FILENAME else shorten_filename name)"

text \<open>\<^verbatim>\<open>PurePosixPath(filename).suffix.lower()\<close>: from the last dot, if it is inside the name.\<close>

definition suffix_of :: "string \<Rightarrow> string" where
  "suffix_of name =
     (case py_rpartition (CHR ''.'') name of (stem, dot, rest) \<Rightarrow>
        if dot \<noteq> [] \<and> stem \<noteq> [] \<and> rest \<noteq> [] then dot @ rest else [])"

definition extract_extension :: "string \<Rightarrow> string" where
  "extract_extension filename =
     lower (suffix_of (last_part (path_parts (CHR ''/'') (CHR ''.'') filename)))"

section \<open>Rejections\<close>

definition sorted_json :: "string set \<Rightarrow> json" where
  "sorted_json A = JList (map jstr (sorted_list_of_set A))"

definition validate_extension :: "string \<Rightarrow> settings \<Rightarrow> string result" where
  "validate_extension filename s =
     (let extension = extract_extension filename
      in if extension = [] then
           Inl (raise_app UnsupportedFileTypeError ''The uploaded file has no extension.''
             [(''allowed'', sorted_json (allowed_extensions s))])
         else if extension \<notin> allowed_extensions s then
           Inl (raise_app UnsupportedFileTypeError
             (''Files of type '' @ extension @ '' are not supported.'')
             [(''extension'', jstr extension), (''allowed'', sorted_json (allowed_extensions s))])
         else Inr extension)"

definition EXTENSION_CONTENT_TYPES :: "(string \<times> string list) list" where
  "EXTENSION_CONTENT_TYPES =
     [(''.pdf'', [''application/pdf'', ''application/x-pdf'']),
      (''.txt'', [''text/plain'', ''text/x-log'', ''text/markdown'']),
      (''.docx'', [''application/vnd.openxmlformats-officedocument.wordprocessingml.document'',
                   ''application/zip''])]"

definition GENERIC_CONTENT_TYPES :: "string set" where
  "GENERIC_CONTENT_TYPES = {''application/octet-stream'', []}"

text \<open>\<^verbatim>\<open>repr(s)\<close>: quoted, with a backslash before the quote and itself, and escapes for what does not print.\<close>

definition py_repr :: "string \<Rightarrow> string" where
  "py_repr s =
     (let quote = (if CHR 0x27 \<in> set s \<and> CHR 0x22 \<notin> set s then CHR 0x22 else CHR 0x27)
      in [quote] @
         concat (map (\<lambda>c. let n = ord_of c in
            if c = quote \<or> n = 92 then [char_of (92 :: nat), c]
            else if n = 9 then [char_of (92 :: nat), CHR ''t'']
            else if n = 10 then [char_of (92 :: nat), CHR ''n'']
            else if n = 13 then [char_of (92 :: nat), CHR ''r'']
            else if n < 32 \<or> 127 \<le> n \<and> n \<le> 160 \<or> n = 173
            then char_of (92 :: nat) # CHR ''x'' # hex_byte n
            else [c]) s) @ [quote])"

definition declared_type :: "string option \<Rightarrow> string" where
  "declared_type content_type =
     lower (py_strip (hd (py_split (CHR '';'') (case content_type of None \<Rightarrow> [] | Some c \<Rightarrow> c))))"

definition validate_content_type :: "string \<Rightarrow> string option \<Rightarrow> unit result" where
  "validate_content_type extension content_type =
     (let declared = declared_type content_type
      in if declared \<in> GENERIC_CONTENT_TYPES then Inr ()
         else
           let permitted = (case map_of EXTENSION_CONTENT_TYPES extension of None \<Rightarrow> [] | Some l \<Rightarrow> l)
           in if declared \<notin> set permitted then
                Inl (raise_app UnsupportedFileTypeError
                  (''Content type '' @ py_repr declared @ '' does not match the '' @ extension @
                     '' extension.'')
                  [(''content_type'', jstr declared), (''expected'', sorted_json (set permitted))])
              else Inr ())"

definition MAGIC_PREFIXES :: "(string \<times> bytes list) list" where
  "MAGIC_PREFIXES =
     [(''.pdf'', [[0x25, 0x50, 0x44, 0x46, 0x2D]]), (''.docx'', [[0x50, 0x4B, 3, 4]])]"

definition validate_magic_bytes :: "string \<Rightarrow> bytes \<Rightarrow> unit result" where
  "validate_magic_bytes extension data =
     (if extension = ''.txt'' then
        (if utf8_decode data = None then
           Inl (raise_app UnsupportedFileTypeError ''The .txt file is not valid UTF-8 text.''
             [(''extension'', jstr extension)])
         else Inr ())
      else
        (case map_of MAGIC_PREFIXES extension of
           None \<Rightarrow> Inr ()
         | Some signatures \<Rightarrow>
             if signatures \<noteq> [] \<and> \<not> list_ex (\<lambda>p. starts_with p data) signatures then
               Inl (raise_app UnsupportedFileTypeError
                 (''The file content does not look like a valid '' @ extension @ '' file.'')
                 [(''extension'', jstr extension)])
             else Inr ()))"

text \<open>
  \<^verbatim>\<open>str\<close> of a float that was rounded to two decimals, for sizes below \<open>10 ^ 16\<close> megabytes: the
  integer part, and the two decimals without a final zero, at least one.
\<close>

definition show_2dp :: "int \<Rightarrow> string" where
  "show_2dp cents =
     (let n = nat \<bar>cents\<bar>
      in (if cents < 0 then ''-'' else []) @ show_nat (n div 100) @ ''.'' @
         (if n mod 10 = 0 then show_nat (n mod 100 div 10)
          else show_nat (n mod 100 div 10) @ show_nat (n mod 10)))"

definition validate_size :: "int \<Rightarrow> settings \<Rightarrow> unit result" where
  "validate_size n s =
     (if n \<le> 0 then Inl (raise_app UnsupportedFileTypeError ''The uploaded file is empty.'' [])
      else if max_upload_bytes s < n then
        Inl (raise_app FileTooLargeError
          (''The file exceeds the '' @ show_2dp (round_even (max_upload_mb s * 100)) @ '' MB limit.'')
          [(''size_bytes'', JInt n), (''max_bytes'', JInt (max_upload_bytes s))])
      else Inr ())"

definition validate_upload ::
  "(unicode \<Rightarrow> unicode) \<Rightarrow> unicode option \<Rightarrow> string option \<Rightarrow> bytes \<Rightarrow> settings \<Rightarrow>
     (string \<times> string) result" where
  "validate_upload nfkd filename content_type data s =
     (let safe_name = sanitize_filename nfkd filename
      in (case validate_extension safe_name s of
            Inl e \<Rightarrow> Inl e
          | Inr extension \<Rightarrow>
              (case validate_content_type extension content_type of
                 Inl e \<Rightarrow> Inl e
               | Inr _ \<Rightarrow>
                   (case validate_size (int (length data)) s of
                      Inl e \<Rightarrow> Inl e
                    | Inr _ \<Rightarrow>
                        (case validate_magic_bytes extension data of
                           Inl e \<Rightarrow> Inl e
                         | Inr _ \<Rightarrow> Inr (safe_name, extension))))))"

end
