(* ===== verification/Storage.thy ===== *)
theory Storage
  imports Validation World
begin

text \<open>
  \<^verbatim>\<open>app/services/file_storage.py\<close>. A \<open>file_storage\<close> is the protocol \<^verbatim>\<open>FileStorage\<close>: four operations on
  the world, which the API and the worker use without knowing more. \<open>local_storage\<close> is the class
  \<^verbatim>\<open>LocalFileStorage\<close>, over the file-system calls \<open>fs\<close> of the operating system, which are an argument.
  An absolute path is the list of its components below the file system's base.
\<close>

section \<open>The file system\<close>

record 'f fs_api =
  fs_resolve :: "string list \<Rightarrow> 'f \<Rightarrow> string list result"
  fs_mkdir :: "string list \<Rightarrow> 'f \<Rightarrow> unit result \<times> 'f"
  fs_write :: "string list \<Rightarrow> bytes \<Rightarrow> 'f \<Rightarrow> unit result \<times> 'f"
  fs_read :: "string list \<Rightarrow> 'f \<Rightarrow> bytes result \<times> 'f"
  fs_unlink :: "string list \<Rightarrow> 'f \<Rightarrow> unit result \<times> 'f"
  fs_is_file :: "string list \<Rightarrow> 'f \<Rightarrow> bool result \<times> 'f"

definition FILE_NOT_FOUND :: string where
  "FILE_NOT_FOUND = ''builtins.FileNotFoundError''"

definition IO_ERROR :: string where
  "IO_ERROR = ''builtins.OSError''"

definition fs_call :: "('f \<Rightarrow> 'a \<times> 'f) \<Rightarrow> ('r, 'p, 'f) world \<Rightarrow> 'a \<times> ('r, 'p, 'f) world" where
  "fs_call g w = (case g (w_files w) of (x, f) \<Rightarrow> (x, w\<lparr>w_files := f\<rparr>))"

section \<open>The protocol\<close>

record ('r, 'p, 'f) file_storage =
  st_save :: "bytes \<Rightarrow> string \<Rightarrow> ('r, 'p, 'f) world \<Rightarrow> stored_file result \<times> ('r, 'p, 'f) world"
  st_read :: "string \<Rightarrow> ('r, 'p, 'f) world \<Rightarrow> bytes result \<times> ('r, 'p, 'f) world"
  st_delete :: "string \<Rightarrow> ('r, 'p, 'f) world \<Rightarrow> unit result \<times> ('r, 'p, 'f) world"
  st_exists :: "string \<Rightarrow> ('r, 'p, 'f) world \<Rightarrow> bool result \<times> ('r, 'p, 'f) world"

section \<open>Names\<close>

text \<open>\<^verbatim>\<open>f"{today:%Y/%m/%d}"\<close>: the proleptic Gregorian date of a time.\<close>

definition two_digits :: "int \<Rightarrow> string" where
  "two_digits n = (if n < 10 then ''0'' @ show_int n else show_int n)"

definition civil_date :: "time \<Rightarrow> int \<times> int \<times> int" where
  "civil_date t =
     (let z = t div (86400 * microseconds_per_second) + 719468;
          era = z div 146097;
          doe = z mod 146097;
          yoe = (doe - doe div 1460 + doe div 36524 - doe div 146096) div 365;
          doy = doe - (365 * yoe + yoe div 4 - yoe div 100);
          mp = (5 * doy + 2) div 153;
          d = doy - (153 * mp + 2) div 5 + 1;
          m = (if mp < 10 then mp + 3 else mp - 9)
      in (yoe + era * 400 + (if m \<le> 2 then 1 else 0), m, d))"

definition date_directory :: "time \<Rightarrow> string" where
  "date_directory t =
     (case civil_date t of (y, m, d) \<Rightarrow> show_int y @ ''/'' @ two_digits m @ ''/'' @ two_digits d)"

text \<open>\<^verbatim>\<open>Path(a) / b\<close> and the text of a relative path.\<close>

definition join_path :: "string \<Rightarrow> string \<Rightarrow> string" where
  "join_path a b = (if starts_with ''/'' b then b else a @ ''/'' @ b)"

definition components :: "string \<Rightarrow> string list" where
  "components = path_parts (CHR ''/'') (CHR ''.'')"

definition relative_text :: "string \<Rightarrow> string" where
  "relative_text p = (if starts_with ''/'' p then ''/'' else []) @ py_join ''/'' (components p)"

section \<open>LocalFileStorage\<close>

text \<open>
  \<^verbatim>\<open>_resolve\<close>: \<^verbatim>\<open>root / storage_path\<close> (an absolute key replaces the root), resolved by the file system,
  must be the base or have it among its parents.
\<close>

definition resolve_key :: "'f fs_api \<Rightarrow> string list \<Rightarrow> string \<Rightarrow> 'f \<Rightarrow> string list result" where
  "resolve_key fs base storage_path f =
     (case fs_resolve fs
        (if starts_with ''/'' storage_path then components storage_path
         else base @ components storage_path) f of
        Inl e \<Rightarrow> Inl e
      | Inr candidate \<Rightarrow>
          if candidate \<noteq> base \<and> \<not> strict_prefix base candidate then
            Inl (raise_app StoragePathError ''Resolved storage path lies outside the storage root.''
              [(''storage_path'', jstr storage_path)])
          else Inr candidate)"

text \<open>\<^verbatim>\<open>_write_bytes\<close>.\<close>

definition write_bytes :: "'f fs_api \<Rightarrow> string list \<Rightarrow> bytes \<Rightarrow> 'f \<Rightarrow> unit result \<times> 'f" where
  "write_bytes fs destination data f =
     (case fs_mkdir fs (butlast destination) f of
        (Inl e, f1) \<Rightarrow> (Inl e, f1)
      | (Inr _, f1) \<Rightarrow> fs_write fs destination data f1)"

definition storage_save ::
  "'f fs_api \<Rightarrow> string list \<Rightarrow> bytes \<Rightarrow> string \<Rightarrow> ('r, 'p, 'f) world \<Rightarrow>
     stored_file result \<times> ('r, 'p, 'f) world" where
  "storage_save fs base data extension w =
     (case uuid4 w of (u, w1) \<Rightarrow>
      case utcnow w1 of (today, w2) \<Rightarrow>
        let stored_filename = u @ extension;
            relative = relative_text (join_path (date_directory today) stored_filename)
        in (case resolve_key fs base relative (w_files w2) of
              Inl e \<Rightarrow> (Inl e, w2)
            | Inr destination \<Rightarrow>
                (case fs_call (write_bytes fs destination data) w2 of
                   (Inl e, w3) \<Rightarrow>
                     (Inl (if is_foreign_instance e IO_ERROR
                           then raise_app StorageError ''Failed to write the uploaded file to storage.''
                                  [(''storage_path'', jstr relative)]
                           else e), w3)
                 | (Inr _, w3) \<Rightarrow>
                     (Inr \<lparr>sf_stored_filename = stored_filename, sf_storage_path = relative,
                           sf_size = int (length data), sf_checksum = sha256_hex data\<rparr>, w3))))"

definition storage_read ::
  "'f fs_api \<Rightarrow> string list \<Rightarrow> string \<Rightarrow> ('r, 'p, 'f) world \<Rightarrow> bytes result \<times> ('r, 'p, 'f) world" where
  "storage_read fs base storage_path w =
     (case resolve_key fs base storage_path (w_files w) of
        Inl e \<Rightarrow> (Inl e, w)
      | Inr target \<Rightarrow>
          (case fs_call (fs_read fs target) w of
             (Inl e, w1) \<Rightarrow>
               (Inl (if is_foreign_instance e FILE_NOT_FOUND
                     then raise_app StoragePathError ''The stored file no longer exists.''
                            [(''storage_path'', jstr storage_path)]
                     else if is_foreign_instance e IO_ERROR
                     then raise_app StorageError ''Failed to read the stored file.''
                            [(''storage_path'', jstr storage_path)]
                     else e), w1)
           | (Inr data, w1) \<Rightarrow> (Inr data, w1)))"

definition storage_delete ::
  "'f fs_api \<Rightarrow> string list \<Rightarrow> string \<Rightarrow> ('r, 'p, 'f) world \<Rightarrow> unit result \<times> ('r, 'p, 'f) world" where
  "storage_delete fs base storage_path w =
     (case resolve_key fs base storage_path (w_files w) of
        Inl e \<Rightarrow> (Inl e, w)
      | Inr target \<Rightarrow>
          (case fs_call (fs_unlink fs target) w of
             (Inl e, w1) \<Rightarrow>
               (Inl (if is_foreign_instance e IO_ERROR
                     then raise_app StorageError ''Failed to delete the stored file.''
                            [(''storage_path'', jstr storage_path)]
                     else e), w1)
           | (Inr _, w1) \<Rightarrow> (Inr (), w1)))"

definition storage_exists ::
  "'f fs_api \<Rightarrow> string list \<Rightarrow> string \<Rightarrow> ('r, 'p, 'f) world \<Rightarrow> bool result \<times> ('r, 'p, 'f) world" where
  "storage_exists fs base storage_path w =
     (case resolve_key fs base storage_path (w_files w) of
        Inl e \<Rightarrow> (if is_app_instance e StoragePathError then (Inr False, w) else (Inl e, w))
      | Inr target \<Rightarrow> fs_call (fs_is_file fs target) w)"

definition local_storage :: "'f fs_api \<Rightarrow> string list \<Rightarrow> ('r, 'p, 'f) file_storage" where
  "local_storage fs base =
     \<lparr>st_save = storage_save fs base, st_read = storage_read fs base,
      st_delete = storage_delete fs base, st_exists = storage_exists fs base\<rparr>"

text \<open>\<^verbatim>\<open>get_file_storage\<close>: the process-wide instance; the first call also creates the root.\<close>

definition ensure_root :: "'f fs_api \<Rightarrow> string list \<Rightarrow> ('r, 'p, 'f) world \<Rightarrow> unit result \<times> ('r, 'p, 'f) world" where
  "ensure_root fs base w = fs_call (fs_mkdir fs base) w"

definition get_file_storage ::
  "'f fs_api \<Rightarrow> string list \<Rightarrow> ('r, 'p, 'f) file_storage option \<Rightarrow> ('r, 'p, 'f) world \<Rightarrow>
     ('r, 'p, 'f) file_storage result \<times> ('r, 'p, 'f) file_storage option \<times> ('r, 'p, 'f) world" where
  "get_file_storage fs base cached w =
     (case cached of
        Some st \<Rightarrow> (Inr st, cached, w)
      | None \<Rightarrow>
          (case ensure_root fs base w of
             (Inl e, w1) \<Rightarrow> (Inl e, None, w1)
           | (Inr _, w1) \<Rightarrow> (Inr (local_storage fs base), Some (local_storage fs base), w1)))"

definition reset_file_storage :: "('r, 'p, 'f) file_storage option \<Rightarrow> ('r, 'p, 'f) file_storage option" where
  "reset_file_storage cached = None"

text \<open>The storage is created once: until it is reset, every later call returns the same one and touches nothing.\<close>

lemma get_file_storage_once:
  assumes "get_file_storage fs base None w = (Inr st, cached, w1)"
  shows "get_file_storage fs' base' cached w2 = (Inr st, cached, w2)"
    and "get_file_storage fs base (reset_file_storage cached) w2 = get_file_storage fs base None w2"
  using assms by (auto simp: get_file_storage_def reset_file_storage_def split: sum.splits prod.splits)

section \<open>What a file system guarantees\<close>

locale file_system =
  fixes fs :: "'f fs_api" and content :: "'f \<Rightarrow> string list \<Rightarrow> bytes option"
  assumes mkdir_content: "fs_mkdir fs p f = (r, f') \<Longrightarrow> content f' = content f"
    and mkdir_resolve: "fs_mkdir fs p f = (r, f') \<Longrightarrow> fs_resolve fs k f' = fs_resolve fs k f"
    and write_content: "fs_write fs p d f = (Inr (), f') \<Longrightarrow> content f' = (content f)(p \<mapsto> d)"
    and write_other: "fs_write fs p d f = (r, f') \<Longrightarrow> q \<noteq> p \<Longrightarrow> content f' q = content f q"
    and write_resolve: "fs_write fs p d f = (r, f') \<Longrightarrow> fs_resolve fs k f' = fs_resolve fs k f"
    and read_content: "fs_read fs p f = (Inr b, f') \<Longrightarrow> content f p = Some b"
    and read_keeps: "fs_read fs p f = (x, f') \<Longrightarrow> f' = f"
    and unlink_other: "fs_unlink fs p f = (r, f') \<Longrightarrow> q \<noteq> p \<Longrightarrow> content f' q = content f q"
    and unlink_content: "fs_unlink fs p f = (Inr (), f') \<Longrightarrow> content f' p = None"
    and is_file_keeps: "fs_is_file fs p f = (y, f') \<Longrightarrow> f' = f"
begin

lemma write_bytes_content:
  assumes "write_bytes fs p d f = (Inr (), f')"
  shows "content f' = (content f)(p \<mapsto> d)"
proof -
  obtain x f1 where m: "fs_mkdir fs (butlast p) f = (x, f1)" by fastforce
  with assms have "fs_write fs p d f1 = (Inr (), f')" by (simp add: write_bytes_def split: sum.splits)
  from write_content[OF this] mkdir_content[OF m] show ?thesis by simp
qed

lemma write_bytes_keeps:
  assumes "write_bytes fs p d f = (r, f')"
  shows "q \<noteq> p \<Longrightarrow> content f' q = content f q" and "fs_resolve fs k f' = fs_resolve fs k f"
proof -
  obtain x f1 where m: "fs_mkdir fs (butlast p) f = (x, f1)" by fastforce
  have "f' = f1 \<or> fs_write fs p d f1 = (r, f')"
    using assms m by (cases x) (simp_all add: write_bytes_def)
  with mkdir_content[OF m] mkdir_resolve[OF m] write_other write_resolve
  show "q \<noteq> p \<Longrightarrow> content f' q = content f q" and "fs_resolve fs k f' = fs_resolve fs k f"
    by metis+
qed

end

section \<open>What a storage backend guarantees\<close>

text \<open>
  The contract behind the protocol, for any backend: \<open>object f k\<close> is what is stored under key \<open>k\<close>.
  Clients rely on reading back what was saved and on the storage leaving everything else alone.
\<close>

definition files_only :: "('r, 'p, 'f) world \<Rightarrow> ('r, 'p, 'f) world \<Rightarrow> bool" where
  "files_only w w' \<longleftrightarrow>
     w_db w' = w_db w \<and> w_redis w' = w_redis w \<and> w_provider w' = w_provider w \<and>
     w_others w' = w_others w \<and> w_faults w' = w_faults w \<and> w_randoms w' = w_randoms w"

lemma files_only_refl [simp]: "files_only w w"
  by (simp add: files_only_def)

locale storage_backend =
  fixes st :: "('r, 'p, 'f) file_storage" and object :: "'f \<Rightarrow> string \<Rightarrow> bytes option"
  assumes save_object: "st_save st data ext w = (Inr sf, w') \<Longrightarrow> object (w_files w') (sf_storage_path sf) = Some data"
    and save_meta: "st_save st data ext w = (Inr sf, w') \<Longrightarrow>
      sf_size sf = int (length data) \<and> sf_checksum sf = sha256_hex data"
    and save_frame: "st_save st data ext w = (res, w') \<Longrightarrow> files_only w w'"
    and read_object: "st_read st k w = (Inr data, w') \<Longrightarrow> object (w_files w) k = Some data"
    and read_frame: "st_read st k w = (b, w') \<Longrightarrow> w' = w"
    and delete_frame: "st_delete st k w = (u, w') \<Longrightarrow> files_only w w'"
    and exists_frame: "st_exists st k w = (x, w') \<Longrightarrow> w' = w"
begin

text \<open>What is saved is what is read, as long as the files are left alone in between.\<close>

lemma save_then_read:
  assumes "st_save st data ext w = (Inr sf, w1)" and "w_files w2 = w_files w1"
    and "st_read st (sf_storage_path sf) w2 = (Inr data', w3)"
  shows "data' = data"
  using save_object[OF assms(1)] read_object[OF assms(3)] assms(2) by simp

end

lemma files_only_steps: "uuid4 w = (u, w1) \<Longrightarrow> utcnow w1 = (t, w2) \<Longrightarrow> files_only w w2 \<and> w_files w2 = w_files w"
  by (auto simp: files_only_def same_outside_def dest!: uuid4_frame utcnow_frame)

lemma files_only_call: "files_only w w1 \<Longrightarrow> fs_call g w1 = (x, w2) \<Longrightarrow> files_only w w2"
  by (auto simp: fs_call_def files_only_def split: prod.splits)

text \<open>The object stored under a key: the content of the file the key resolves to.\<close>

definition key_object ::
  "'f fs_api \<Rightarrow> ('f \<Rightarrow> string list \<Rightarrow> bytes option) \<Rightarrow> string list \<Rightarrow> 'f \<Rightarrow> string \<Rightarrow> bytes option" where
  "key_object fs content base f k =
     (case resolve_key fs base k f of Inl _ \<Rightarrow> None | Inr p \<Rightarrow> content f p)"

text \<open>A save either fails before it writes, or is one write under the key it generated.\<close>

lemma storage_save_cases:
  assumes "storage_save fs base data ext w = (r, w')"
  obtains (unresolved) w2 e where "w_files w2 = w_files w" "files_only w w2" "r = Inl e" "w' = w2"
  | (written) k name w2 p x f' where "w_files w2 = w_files w" "files_only w w2"
      "resolve_key fs base k (w_files w) = Inr p" "write_bytes fs p data (w_files w) = (x, f')"
      "w' = w2\<lparr>w_files := f'\<rparr>"
      "\<forall>sf. r = Inr sf \<longrightarrow> x = Inr () \<and>
         sf = \<lparr>sf_stored_filename = name, sf_storage_path = k,
               sf_size = int (length data), sf_checksum = sha256_hex data\<rparr>"
proof -
  obtain u w1 where u: "uuid4 w = (u, w1)" by fastforce
  obtain today w2 where t: "utcnow w1 = (today, w2)" by fastforce
  note s = files_only_steps[OF u t]
  define k where "k = relative_text (join_path (date_directory today) (u @ ext))"
  have save: "storage_save fs base data ext w =
     (case resolve_key fs base k (w_files w) of
        Inl e \<Rightarrow> (Inl e, w2)
      | Inr p \<Rightarrow>
          (case fs_call (write_bytes fs p data) w2 of
             (Inl e, w3) \<Rightarrow>
               (Inl (if is_foreign_instance e IO_ERROR
                     then raise_app StorageError ''Failed to write the uploaded file to storage.''
                            [(''storage_path'', jstr k)]
                     else e), w3)
           | (Inr _, w3) \<Rightarrow>
               (Inr \<lparr>sf_stored_filename = u @ ext, sf_storage_path = k,
                     sf_size = int (length data), sf_checksum = sha256_hex data\<rparr>, w3)))"
    unfolding storage_save_def u t prod.case Let_def k_def[symmetric] using s by simp
  show thesis
  proof (cases "resolve_key fs base k (w_files w)")
    case (Inl e)
    with assms save s show thesis by (intro unresolved[of w2 e]) simp_all
  next
    case (Inr p)
    obtain x f' where x: "write_bytes fs p data (w_files w) = (x, f')" by fastforce
    have c: "fs_call (write_bytes fs p data) w2 = (x, w2\<lparr>w_files := f'\<rparr>)"
      using s x by (simp add: fs_call_def)
    have out: "w' = w2\<lparr>w_files := f'\<rparr> \<and> (\<forall>sf. r = Inr sf \<longrightarrow> x = Inr () \<and>
         sf = \<lparr>sf_stored_filename = u @ ext, sf_storage_path = k,
               sf_size = int (length data), sf_checksum = sha256_hex data\<rparr>)"
      using assms unfolding save Inr sum.case c by (cases x) auto
    show thesis
      by (rule written[OF _ _ Inr x]) (use s out in auto)
  qed
qed

end
