(* ===== verification/Upload_Properties.thy ===== *)
theory Upload_Properties
  imports Storage Samples
begin

text \<open>
  The properties of an upload's way to disk: sanitised names are harmless, accepted files are what
  they claim to be, rejections are the client's fault and never retried, and the local storage never
  leaves its root and gives back what it was given.
\<close>

section \<open>LocalFileStorage is a storage backend\<close>

locale local_files = file_system fs content for fs :: "'f fs_api" and content +
  fixes base :: "string list"
begin

lemma resolve_key_stable:
  "write_bytes fs p d f = (r, f') \<Longrightarrow> resolve_key fs base k f' = resolve_key fs base k f"
  using write_bytes_keeps(2) by (simp add: resolve_key_def)

lemma local_save_object:
  assumes "storage_save fs base data ext w = (Inr sf, w')"
  shows "key_object fs content base (w_files w') (sf_storage_path sf) = Some data \<and>
    sf_size sf = int (length data) \<and> sf_checksum sf = sha256_hex data"
  using assms
proof (cases rule: storage_save_cases)
  case (written k name w2 p x f')
  from written(6) have sf: "x = Inr ()" "sf_storage_path sf = k" "sf_size sf = int (length data)"
    "sf_checksum sf = sha256_hex data" by auto
  have "content f' p = Some data" using write_bytes_content written(4) sf(1) by simp
  with written(3) resolve_key_stable[OF written(4)] show ?thesis
    by (simp add: key_object_def written(5) sf)
qed simp

lemma local_save_frame:
  assumes "storage_save fs base data ext w = (r, w')"
  shows "files_only w w'"
  using assms
proof (cases rule: storage_save_cases)
  case (written k name w2 p x f')
  then show ?thesis by (simp add: files_only_def)
qed simp

lemma local_read:
  assumes "storage_read fs base k w = (r, w')"
  shows "w' = w" and "r = Inr data \<Longrightarrow> key_object fs content base (w_files w) k = Some data"
proof -
  have "w' = w \<and> (\<forall>data. r = Inr data \<longrightarrow> key_object fs content base (w_files w) k = Some data)"
  proof (cases "resolve_key fs base k (w_files w)")
    case (Inl e)
    with assms show ?thesis by (auto simp: storage_read_def)
  next
    case (Inr p)
    obtain x f' where x: "fs_read fs p (w_files w) = (x, f')" by fastforce
    have f: "f' = w_files w" using read_keeps[OF x] .
    show ?thesis
    proof (cases x)
      case (Inl e)
      with assms Inr x f show ?thesis by (auto simp: storage_read_def fs_call_def)
    next
      case (Inr b)
      with x have "content (w_files w) p = Some b" using read_content by simp
      with assms \<open>resolve_key fs base k (w_files w) = Inr p\<close> Inr x f show ?thesis
        by (auto simp: storage_read_def fs_call_def key_object_def)
    qed
  qed
  then show "w' = w" and "r = Inr data \<Longrightarrow> key_object fs content base (w_files w) k = Some data" by auto
qed

lemma local_delete_frame: "storage_delete fs base k w = (r, w') \<Longrightarrow> files_only w w'"
  by (auto simp: storage_delete_def fs_call_def files_only_def split: sum.splits prod.splits)

lemma local_exists_frame: "storage_exists fs base k w = (r, w') \<Longrightarrow> w' = w"
  by (auto simp: storage_exists_def fs_call_def split: sum.splits prod.splits if_splits
      dest: is_file_keeps)

text \<open>Nothing outside the root is touched, whatever the key is.\<close>

lemma resolve_key_inside: "resolve_key fs base k f = Inr p \<Longrightarrow> prefix base p"
  by (auto simp: resolve_key_def strict_prefix_def split: sum.splits if_splits)

lemma local_save_outside:
  assumes "storage_save fs base data ext w = (r, w')" and "\<not> prefix base q"
  shows "content (w_files w') q = content (w_files w) q"
  using assms(1)
proof (cases rule: storage_save_cases)
  case (written k name w2 p x f')
  have "q \<noteq> p" using resolve_key_inside[OF written(3)] assms(2) by auto
  from write_bytes_keeps(1)[OF written(4) this] show ?thesis by (simp add: written(5))
qed simp

lemma local_delete_outside:
  assumes "storage_delete fs base k w = (r, w')" and "\<not> prefix base q"
  shows "content (w_files w') q = content (w_files w) q"
proof (cases "resolve_key fs base k (w_files w)")
  case (Inl e)
  with assms show ?thesis by (simp add: storage_delete_def)
next
  case (Inr p)
  obtain x f' where x: "fs_unlink fs p (w_files w) = (x, f')" by fastforce
  have "q \<noteq> p" using resolve_key_inside[OF Inr] assms(2) by auto
  note unlink_other[OF x this]
  moreover have "w_files w' = f'"
    using assms(1) Inr x by (cases x) (auto simp: storage_delete_def fs_call_def)
  ultimately show ?thesis by simp
qed

lemma local_backend: "storage_backend (local_storage fs base) (key_object fs content base)"
  by unfold_locales
    (auto simp: local_storage_def dest: local_save_object local_save_frame local_read local_delete_frame
      local_exists_frame)

end

sublocale local_files \<subseteq> local: storage_backend "local_storage fs base" "key_object fs content base"
  by (rule local_backend)

section \<open>A file system in memory\<close>

type_synonym mem_fs = "string list \<Rightarrow> bytes option"

fun collapse_dots :: "string list \<Rightarrow> string list \<Rightarrow> string list" where
  "collapse_dots done [] = rev done"
| "collapse_dots done (x # xs) =
     (if x = ''..'' then collapse_dots (tl done) xs else collapse_dots (x # done) xs)"

definition file_not_found :: exc where
  "file_not_found = OtherExc [FILE_NOT_FOUND, IO_ERROR, ''builtins.Exception''] ''No such file''"

definition mem_files :: "mem_fs fs_api" where
  "mem_files =
     \<lparr>fs_resolve = (\<lambda>p f. Inr (collapse_dots [] p)), fs_mkdir = (\<lambda>p f. (Inr (), f)),
      fs_write = (\<lambda>p d f. (Inr (), f(p \<mapsto> d))),
      fs_read = (\<lambda>p f. (case f p of None \<Rightarrow> Inl file_not_found | Some d \<Rightarrow> Inr d, f)),
      fs_unlink = (\<lambda>p f. (Inr (), f(p := None))),
      fs_is_file = (\<lambda>p f. (Inr (f p \<noteq> None), f))\<rparr>"

interpretation memory_files: local_files mem_files "\<lambda>f. f" "[''srv'', ''uploads'']"
  by unfold_locales (auto simp: mem_files_def split: option.splits)

section \<open>Storage\<close>

text \<open>The path a key names before the file system resolves it, and the refusal of a key that leads outside.\<close>

definition named_path :: "string list \<Rightarrow> string \<Rightarrow> string list" where
  "named_path base k = (if starts_with ''/'' k then components k else base @ components k)"

definition outside_root :: "string \<Rightarrow> exc" where
  "outside_root k =
     raise_app StoragePathError ''Resolved storage path lies outside the storage root.'' [(''storage_path'', jstr k)]"

lemma outside_refused:
  assumes "fs_resolve fs (named_path base k) (w_files w) = Inr t" and "\<not> prefix base t"
  shows "storage_read fs base k w = (Inl (outside_root k), w)" and "storage_delete fs base k w = (Inl (outside_root k), w)"
    and "storage_exists fs base k w = (Inr False, w)"
proof -
  have "t \<noteq> base" "\<not> strict_prefix base t" using assms(2) by (auto simp: strict_prefix_def)
  then have "resolve_key fs base k (w_files w) = Inl (outside_root k)"
    using assms(1) by (simp add: resolve_key_def named_path_def outside_root_def)
  moreover have "is_app_instance (outside_root k) StoragePathError" by (simp add: outside_root_def is_subclass_refl)
  ultimately show "storage_read fs base k w = (Inl (outside_root k), w)"
    "storage_delete fs base k w = (Inl (outside_root k), w)" "storage_exists fs base k w = (Inr False, w)"
    by (simp_all add: storage_read_def storage_delete_def storage_exists_def)
qed

text \<open>
  C21. The local storage never leaves its root, whatever key it is given (absolute, with dots, or leading
  through links of the file system): saving and deleting change no file outside the root, reading changes
  nothing and what it returns is the content of the file inside the root the key resolves to; and when a key
  resolves to a path outside the root, reading and deleting raise \<open>StoragePathError\<close> and an existence check
  answers no, without the file system having been asked for anything but the resolution.
\<close>

theorem storage_confined:
  assumes "file_system fs content"
  shows "(storage_save fs base data ext w = (r1, w1) \<longrightarrow>
      (\<forall>q. \<not> prefix base q \<longrightarrow> content (w_files w1) q = content (w_files w) q)) \<and>
    (storage_delete fs base k w = (r2, w2) \<longrightarrow>
      (\<forall>q. \<not> prefix base q \<longrightarrow> content (w_files w2) q = content (w_files w) q)) \<and>
    (storage_read fs base k w = (r3, w3) \<longrightarrow> w3 = w \<and>
      (\<forall>b. r3 = Inr b \<longrightarrow> (\<exists>p. prefix base p \<and> fs_resolve fs (named_path base k) (w_files w) = Inr p \<and>
        content (w_files w) p = Some b))) \<and>
    (\<forall>t. fs_resolve fs (named_path base k) (w_files w) = Inr t \<longrightarrow> \<not> prefix base t \<longrightarrow>
      storage_read fs base k w = (Inl (outside_root k), w) \<and>
      storage_delete fs base k w = (Inl (outside_root k), w) \<and>
      storage_exists fs base k w = (Inr False, w))"
proof -
  have l: "local_files fs content" using assms(1) by (simp add: local_files_def)
  have "w3 = w \<and> (\<forall>b. r3 = Inr b \<longrightarrow> (\<exists>p. prefix base p \<and>
      fs_resolve fs (named_path base k) (w_files w) = Inr p \<and> content (w_files w) p = Some b))"
    if r: "storage_read fs base k w = (r3, w3)"
  proof (intro conjI allI impI)
    show "w3 = w" using local_files.local_read(1)[OF l r] .
    fix b assume "r3 = Inr b"
    from local_files.local_read(2)[OF l r this] obtain p
      where p: "resolve_key fs base k (w_files w) = Inr p" "content (w_files w) p = Some b"
      by (auto simp: key_object_def split: sum.splits)
    with local_files.resolve_key_inside[OF l p(1)]
    show "\<exists>p. prefix base p \<and> fs_resolve fs (named_path base k) (w_files w) = Inr p \<and> content (w_files w) p = Some b"
      by (auto simp: resolve_key_def named_path_def split: sum.splits if_splits)
  qed
  note read = this
  have refused: "\<forall>t. fs_resolve fs (named_path base k) (w_files w) = Inr t \<longrightarrow> \<not> prefix base t \<longrightarrow>
      storage_read fs base k w = (Inl (outside_root k), w) \<and>
      storage_delete fs base k w = (Inl (outside_root k), w) \<and>
      storage_exists fs base k w = (Inr False, w)"
    by (intro allI impI conjI) (erule (1) outside_refused)+
  show ?thesis
  proof (rule conjI, goal_cases)
    case 1
    then show ?case using local_files.local_save_outside[OF l] by blast
  next
    case 2
    show ?case
    proof (rule conjI, goal_cases)
      case 1
      then show ?case using local_files.local_delete_outside[OF l] by blast
    next
      case 2
      show ?case by (intro conjI impI read refused)
    qed
  qed
qed

lemma storage_confined_witness:
  "storage_read mem_files [''srv'', ''uploads''] ''../../etc/passwd''
      (sample_world () () [[''etc'', ''passwd''] \<mapsto> [120]] (sample_db queued_job) 0) =
    (Inl (outside_root ''../../etc/passwd''), sample_world () () [[''etc'', ''passwd''] \<mapsto> [120]] (sample_db queued_job) 0)"
proof -
  let ?w = "sample_world () () [[''etc'', ''passwd''] \<mapsto> [120]] (sample_db queued_job) 0 :: (unit, unit, mem_fs) world"
  have "fs_resolve mem_files (named_path [''srv'', ''uploads''] ''../../etc/passwd'') (w_files ?w) = Inr [''etc'', ''passwd'']"
    by (simp add: named_path_def mem_files_def components_def path_parts_def)
  moreover have "\<not> prefix [''srv'', ''uploads''] [''etc'', ''passwd'']" by simp
  ultimately show ?thesis
    using storage_confined[OF memory_files.file_system_axioms, of "[''srv'', ''uploads'']" _ _ ?w _ _ "''../../etc/passwd''"]
    by blast
qed

text \<open>
  C22. What is saved is what is read: after a save the key it returns gives back exactly the bytes of
  the upload, as long as the files have not been changed since, and the recorded size and SHA-256
  checksum are those of the bytes.
\<close>

theorem storage_roundtrip:
  assumes "file_system fs content" and "storage_save fs base data ext w = (Inr sf, w1)"
    and "w_files (w2 :: ('r, 'p, 'f) world) = w_files (w1 :: ('r, 'p, 'f) world)"
  shows "(storage_read fs base (sf_storage_path sf) w2 = (Inr data', w3) \<longrightarrow> data' = data) \<and>
    sf_size sf = int (length data) \<and> sf_checksum sf = sha256_hex data \<and> files_only w w1"
proof -
  have l: "local_files fs content" using assms(1) by (simp add: local_files_def)
  note b = local_files.local_backend[OF l, of base]
  have s: "st_save (local_storage fs base) data ext w = (Inr sf, w1)"
    using assms(2) by (simp add: local_storage_def)
  have "storage_read fs base (sf_storage_path sf) w2 = (Inr data', w3) \<longrightarrow> data' = data"
    using storage_backend.save_then_read[OF b s assms(3)] by (simp add: local_storage_def)
  then show ?thesis
    using storage_backend.save_meta[OF b s] storage_backend.save_frame[OF b s] by simp
qed

lemma date_sample: "date_directory 0 = ''1970/01/01''"
  by code_simp

lemma key_sample: "relative_text (join_path ''1970/01/01'' ''id0.txt'') = ''1970/01/01/id0.txt''"
  by code_simp

lemma resolve_sample:
  "resolve_key mem_files [''srv'', ''uploads''] ''1970/01/01/id0.txt'' f =
     Inr [''srv'', ''uploads'', ''1970'', ''01'', ''01'', ''id0.txt'']"
  by (simp add: resolve_key_def mem_files_def components_def path_parts_def strict_prefix_def)

definition saved_sample :: "(unit, unit, mem_fs) world" where
  "saved_sample =
     (sample_world () () [[''srv'', ''uploads'', ''1970'', ''01'', ''01'', ''id0.txt''] \<mapsto> [72, 105]]
        (sample_db queued_job) 0)\<lparr>w_uuid_next := 1\<rparr>"

lemma save_sample:
  "storage_save mem_files [''srv'', ''uploads''] [72, 105] ''.txt''
      (sample_world () () Map.empty (sample_db queued_job) 0) =
    (Inr \<lparr>sf_stored_filename = ''id0.txt'', sf_storage_path = ''1970/01/01/id0.txt'', sf_size = 2,
          sf_checksum = sha256_hex [72, 105]\<rparr>, saved_sample)"
  by (simp add: storage_save_def sample_world_def uuid4_def utcnow_def sample_uuid_def date_sample
      key_sample resolve_sample fs_call_def write_bytes_def saved_sample_def Let_def)
    (simp add: mem_files_def date_sample key_sample)

lemma storage_roundtrip_witness:
  "storage_read mem_files [''srv'', ''uploads''] ''1970/01/01/id0.txt'' saved_sample =
     (Inr [72, 105], saved_sample)"
proof -
  have "\<exists>d. storage_read mem_files [''srv'', ''uploads''] ''1970/01/01/id0.txt'' saved_sample = (Inr d, saved_sample)"
    by (simp add: storage_read_def resolve_sample fs_call_def)
      (simp add: mem_files_def saved_sample_def sample_world_def)
  then show ?thesis
    using storage_roundtrip[OF memory_files.file_system_axioms save_sample refl] by auto
qed

section \<open>File names\<close>

lemma set_collapse: "set (collapse_separators s) \<subseteq> set s \<union> {CHR ''_''}"
  by (induction s rule: collapse_separators.induct) (auto dest: set_dropWhileD)

lemma collapse_nonempty [simp]: "collapse_separators s = [] \<longleftrightarrow> s = []"
  by (cases s) auto

lemma hd_collapse: "s \<noteq> [] \<Longrightarrow> hd (collapse_separators s) = hd s \<or> hd (collapse_separators s) = CHR ''_''"
  by (cases s) auto

lemma safe_underscore [simp]: "safe_char (CHR ''_'')"
  by (simp add: safe_char_def)

lemma set_replace_unsafe: "set (replace_unsafe s) \<subseteq> {c. safe_char c}"
  by (auto simp: replace_unsafe_def)

lemma shorten_props:
  assumes "name \<noteq> []"
  shows "shorten_filename name \<noteq> []" and "length (shorten_filename name) \<le> MAX_FILENAME_LENGTH"
    and "set (shorten_filename name) \<subseteq> set name" and "hd (shorten_filename name) = hd name"
proof -
  obtain stem dot ext where r: "py_rpartition (CHR ''.'') name = (stem, dot, ext)"
    by (metis prod_cases3)
  note split = py_rpartition_concat[OF r]
  have "shorten_filename name \<noteq> [] \<and> length (shorten_filename name) \<le> MAX_FILENAME_LENGTH \<and>
    set (shorten_filename name) \<subseteq> set name \<and> hd (shorten_filename name) = hd name"
  proof (cases "MAX_FILENAME_LENGTH < length name \<and> stem \<noteq> [] \<and> length ext \<le> 10")
    case True
    then have dot: "dot = ''.''" using r by (auto simp: py_rpartition_def split: if_splits)
    have k: "0 < MAX_FILENAME_LENGTH - length ext - 1" using True by (simp add: MAX_FILENAME_LENGTH_def)
    have e: "shorten_filename name = take (MAX_FILENAME_LENGTH - length ext - 1) stem @ ''.'' @ ext"
      using True r by (simp add: shorten_filename_def)
    have "length (shorten_filename name) \<le> MAX_FILENAME_LENGTH"
      using k unfolding e by (simp add: MAX_FILENAME_LENGTH_def min_def) arith
    moreover have "hd (shorten_filename name) = hd name"
      using True k unfolding e by (subst split) (simp add: hd_append)
    moreover have "set (shorten_filename name) \<subseteq> set name"
      unfolding e by (subst split) (auto simp: dot dest: in_set_takeD)
    ultimately show ?thesis by (simp add: e)
  next
    case False
    have "shorten_filename name = take MAX_FILENAME_LENGTH name \<or>
        shorten_filename name = name \<and> length name \<le> MAX_FILENAME_LENGTH"
      using False r by (auto simp: shorten_filename_def)
    then show ?thesis
      using assms by (auto simp: MAX_FILENAME_LENGTH_def hd_take dest: in_set_takeD)
  qed
  then show "shorten_filename name \<noteq> []" "length (shorten_filename name) \<le> MAX_FILENAME_LENGTH"
    "set (shorten_filename name) \<subseteq> set name" "hd (shorten_filename name) = hd name" by auto
qed

text \<open>
  A file name is harmless: never empty, at most 200 characters, only letters, digits, dot, underscore,
  space and hyphen (so no path separator survives), and never starting with a dot or a space (so neither
  a hidden file nor a parent directory). A sanitised file name is harmless whatever the client sent and
  however Unicode normalises it.
\<close>

definition harmless_name :: "string \<Rightarrow> bool" where
  "harmless_name n \<longleftrightarrow> n \<noteq> [] \<and> length n \<le> 200 \<and>
     (\<forall>c \<in> set n. safe_char c \<and> c \<noteq> CHR ''/'' \<and> ord_of c \<noteq> 92) \<and> hd n \<notin> {CHR ''.'', CHR '' ''}"

lemma sanitized_filename_safe: "harmless_name (sanitize_filename nfkd f)"
proof -
  have fallback: "FALLBACK_FILENAME \<noteq> [] \<and> length FALLBACK_FILENAME \<le> 200 \<and>
      (\<forall>c \<in> set FALLBACK_FILENAME. safe_char c) \<and> hd FALLBACK_FILENAME \<notin> {CHR ''.'', CHR '' ''}"
    by (simp add: FALLBACK_FILENAME_def safe_char_def)
  have "sanitize_filename nfkd f \<noteq> [] \<and> length (sanitize_filename nfkd f) \<le> 200 \<and>
      (\<forall>c \<in> set (sanitize_filename nfkd f). safe_char c) \<and>
      hd (sanitize_filename nfkd f) \<notin> {CHR ''.'', CHR '' ''}"
  proof (cases f)
    case None
    with fallback show ?thesis by (simp add: sanitize_filename_def)
  next
    case (Some g)
    define a where "a = strip_by is_edge (replace_unsafe (ascii_only (nfkd (windows_name (posix_name g)))))"
    show ?thesis
    proof (cases "g = [] \<or> a = []")
      case True
      with fallback Some show ?thesis by (auto simp: sanitize_filename_def a_def Let_def)
    next
      case False
      have e: "sanitize_filename nfkd f = shorten_filename (collapse_separators a)"
        using Some False by (simp add: sanitize_filename_def a_def Let_def)
      have ne: "collapse_separators a \<noteq> []" using False by simp
      have safe: "set a \<subseteq> {c. safe_char c}"
        unfolding a_def using set_strip_by set_replace_unsafe by fastforce
      have "\<not> is_edge (hd a)"
        unfolding a_def by (rule strip_by_ends) (use False a_def in simp)
      then have "hd (collapse_separators a) \<notin> {CHR ''.'', CHR '' ''}"
        using hd_collapse[of a] False by (auto simp: is_edge_def)
      moreover have "set (collapse_separators a) \<subseteq> {c. safe_char c}"
        using set_collapse[of a] safe by auto
      ultimately show ?thesis
        using shorten_props[OF ne] unfolding e by (auto simp: MAX_FILENAME_LENGTH_def)
    qed
  qed
  moreover have "\<not> safe_char (CHR ''/'')" by (simp add: safe_char_def)
  moreover have "ord_of c \<noteq> 92" if "safe_char c" for c
    using that by (auto simp: safe_char_def Let_def)
  ultimately show ?thesis unfolding harmless_name_def by blast
qed

section \<open>Accepting and rejecting\<close>

lemma validate_upload_parts:
  assumes "validate_upload nfkd f ct data s = Inr (name, ext)"
  shows "name = sanitize_filename nfkd f" and "validate_extension name s = Inr ext"
    and "validate_content_type ext ct = Inr ()" and "validate_size (int (length data)) s = Inr ()"
    and "validate_magic_bytes ext data = Inr ()"
  using assms by (auto simp: validate_upload_def Let_def split: sum.splits)

definition client_rejection :: "exc \<Rightarrow> bool" where
  "client_rejection e \<longleftrightarrow>
     (\<exists>err. e = AppExc err \<and> err_class err \<in> {UnsupportedFileTypeError, FileTooLargeError})"

lemma client_rejectionI [simp]:
  "client_rejection (AppExc (mk_error UnsupportedFileTypeError m d))"
  "client_rejection (AppExc (mk_error FileTooLargeError m d))"
  by (simp_all add: client_rejection_def)

lemma validators_reject:
  "validate_extension n s = Inl e \<Longrightarrow> client_rejection e"
  "validate_content_type ext ct = Inl e \<Longrightarrow> client_rejection e"
  "validate_size k s = Inl e \<Longrightarrow> client_rejection e"
  "validate_magic_bytes ext data = Inl e \<Longrightarrow> client_rejection e"
  unfolding validate_extension_def validate_content_type_def validate_size_def validate_magic_bytes_def Let_def
  by (auto simp del: mk_error_class split: if_split_asm option.split_asm)

lemma validate_upload_rejects:
  assumes "validate_upload nfkd f ct data s = Inl e"
  shows "\<exists>ext. validate_extension (sanitize_filename nfkd f) s = Inl e \<or>
    validate_content_type ext ct = Inl e \<or> validate_size (int (length data)) s = Inl e \<or>
    validate_magic_bytes ext data = Inl e"
  using assms by (auto simp: validate_upload_def Let_def split: sum.splits)

text \<open>
  C20. An accepted upload is what it claims to be: its name is the sanitised one, a harmless file name
  of at most 200 characters without path separators, and carries the
  returned extension, which is allowed; it is not empty and within the limit; the declared type is
  generic or one of the extension's; and a text file is valid UTF-8, a PDF starts with its signature,
  a DOCX with the zip signature. Every rejection is a client error that is never retried.
\<close>

theorem validate_upload_sound:
  "(validate_upload nfkd f ct data s = Inr (name, ext) \<longrightarrow>
      name = sanitize_filename nfkd f \<and> harmless_name name \<and>
      ext = extract_extension name \<and> ext \<in> allowed_extensions s \<and>
      data \<noteq> [] \<and> int (length data) \<le> max_upload_bytes s \<and>
      (declared_type ct \<in> GENERIC_CONTENT_TYPES \<or>
       (\<exists>l. map_of EXTENSION_CONTENT_TYPES ext = Some l \<and> declared_type ct \<in> set l)) \<and>
      (ext = ''.txt'' \<longrightarrow> (\<exists>u. utf8_decode data = Some u \<and> utf8_encode u = data)) \<and>
      (ext = ''.pdf'' \<longrightarrow> take 5 data = [0x25, 0x50, 0x44, 0x46, 0x2D]) \<and>
      (ext = ''.docx'' \<longrightarrow> take 4 data = [0x50, 0x4B, 3, 4])) \<and>
   (validate_upload nfkd f ct data s = Inl e \<longrightarrow>
      (\<exists>err. e = AppExc err \<and> err_class err \<in> {UnsupportedFileTypeError, FileTooLargeError} \<and>
         http_status (err_class err) \<in> {413, 415} \<and> \<not> retryable (err_class err)))"
proof -
  have cls: "http_status UnsupportedFileTypeError = 415" "http_status FileTooLargeError = 413"
    "\<not> retryable UnsupportedFileTypeError" "\<not> retryable FileTooLargeError"
    by (simp_all add: http_status_def retryable_iff resolve.simps)
  have take_prefix: "starts_with p data \<Longrightarrow> take (length p) data = p" for p
    by (auto simp: starts_with_iff)
  have ok: "name = sanitize_filename nfkd f \<and> ext = extract_extension name \<and> ext \<in> allowed_extensions s \<and>
      data \<noteq> [] \<and> int (length data) \<le> max_upload_bytes s \<and>
      validate_content_type ext ct = Inr () \<and> validate_magic_bytes ext data = Inr ()"
    if "validate_upload nfkd f ct data s = Inr (name, ext)"
    using validate_upload_parts[OF that]
    by (simp add: validate_extension_def validate_size_def Let_def split: if_splits)
  have ct: "declared_type ct \<in> GENERIC_CONTENT_TYPES \<or>
       (\<exists>l. map_of EXTENSION_CONTENT_TYPES ext = Some l \<and> declared_type ct \<in> set l)"
    if "validate_content_type ext ct = Inr ()"
    using that
    by (cases "map_of EXTENSION_CONTENT_TYPES ext")
      (auto simp: validate_content_type_def Let_def split: if_splits)
  have mb: "(ext = ''.txt'' \<longrightarrow> (\<exists>u. utf8_decode data = Some u \<and> utf8_encode u = data)) \<and>
      (ext = ''.pdf'' \<longrightarrow> take 5 data = [0x25, 0x50, 0x44, 0x46, 0x2D]) \<and>
      (ext = ''.docx'' \<longrightarrow> take 4 data = [0x50, 0x4B, 3, 4])"
    if "validate_magic_bytes ext data = Inr ()"
    using that take_prefix[of "[0x25, 0x50, 0x44, 0x46, 0x2D]"] take_prefix[of "[0x50, 0x4B, 3, 4]"]
      utf8_encode_decode(1)
    by (auto simp: validate_magic_bytes_def MAGIC_PREFIXES_def eval_nat_numeral split: if_splits)
  have bad: "\<exists>err. e = AppExc err \<and> err_class err \<in> {UnsupportedFileTypeError, FileTooLargeError}"
    if "validate_upload nfkd f ct data s = Inl e"
    using validate_upload_rejects[OF that] validators_reject unfolding client_rejection_def by blast
  show ?thesis
  proof (intro conjI impI)
    assume "validate_upload nfkd f ct data s = Inl e"
    from bad[OF this] cls
    show "\<exists>err. e = AppExc err \<and> err_class err \<in> {UnsupportedFileTypeError, FileTooLargeError} \<and>
         http_status (err_class err) \<in> {413, 415} \<and> \<not> retryable (err_class err)" by auto
  qed (use ok ct mb sanitized_filename_safe in blast)+
qed

lemma accept_sample:
  "validate_upload (\<lambda>u. u) (Some (codes ''note.txt'')) (Some ''text/plain; charset=utf-8'') [72, 105]
     default_settings = Inr (''note.txt'', ''.txt'')"
proof -
  have 1: "sanitize_filename (\<lambda>u. u) (Some (codes ''note.txt'')) = ''note.txt''" by code_simp
  have 2: "extract_extension ''note.txt'' = ''.txt''" by code_simp
  have 3: "validate_content_type ''.txt'' (Some ''text/plain; charset=utf-8'') = Inr ()" by code_simp
  have 4: "utf8_decode [72, 105] = Some [72, 105]" by code_simp
  have "''.txt'' \<in> allowed_extensions default_settings" by (simp add: default_allowed_extensions)
  moreover have "validate_size (int (length [72, 105 :: byte])) default_settings = Inr ()"
    by (simp add: validate_size_def default_settings_def MB_def)
  ultimately show ?thesis
    by (simp add: validate_upload_def 1 2 3 4 validate_extension_def validate_magic_bytes_def Let_def)
qed

lemma validate_upload_sound_witness:
  "\<exists>u. utf8_decode [72, 105] = Some u \<and> utf8_encode u = [72, 105]"
  using validate_upload_sound[of "\<lambda>u. u" "Some (codes ''note.txt'')" "Some ''text/plain; charset=utf-8''"
      "[72, 105]" default_settings "''note.txt''" "''.txt''"] accept_sample by auto

end
