(* ===== verification/Retry_Policy.thy ===== *)
theory Retry_Policy
  imports Settings Errors
begin

text \<open>
  \<^verbatim>\<open>app/worker/retry_policy.py\<close>: which failures are retried, how long to wait, and the text stored
  for a failure. The random number of the jitter is an argument (the value \<^verbatim>\<open>Random.random()\<close>
  returns, in \<open>[0, 1)\<close>); the arithmetic is that of floats, rounding included.
\<close>

section \<open>Classification\<close>

definition retryable_exceptions :: "string list" where
  "retryable_exceptions =
     [''builtins.ConnectionError'', ''builtins.TimeoutError'', ''sqlalchemy.exc.OperationalError'',
      ''sqlalchemy.exc.DisconnectionError'', ''sqlalchemy.exc.DBAPIError'']"

fun is_retryable :: "exc \<Rightarrow> bool" where
  "is_retryable (AppExc e) = retryable (err_class e)"
| "is_retryable (OtherExc mro t) = list_ex (\<lambda>c. is_foreign_instance (OtherExc mro t) c) retryable_exceptions"

definition should_retry :: "exc \<Rightarrow> int \<Rightarrow> int \<Rightarrow> bool" where
  "should_retry error retry_count budget \<longleftrightarrow> is_retryable error \<and> retry_count < budget"

fun describe :: "exc \<Rightarrow> string" where
  "describe (AppExc e) = error_code (err_class e) @ '': '' @ err_message e"
| "describe (OtherExc mro t) = type_name mro @ '': '' @ t"

section \<open>Delay\<close>

definition overflow_error :: exc where
  "overflow_error =
     OtherExc [''builtins.OverflowError'', ''builtins.ArithmeticError'', ''builtins.Exception'']
              ''int too large to convert to float''"

text \<open>\<^verbatim>\<open>random.Random.uniform(a, b)\<close>: \<^verbatim>\<open>a + (b - a) * self.random()\<close>.\<close>

definition uniform :: "py_float \<Rightarrow> py_float \<Rightarrow> py_float \<Rightarrow> py_float" where
  "uniform a b u = fl (a + fl (fl (b - a) * u))"

text \<open>\<^verbatim>\<open>float(2**exponent)\<close> raises \<^verbatim>\<open>OverflowError\<close> from exponent 1024 on.\<close>

definition float_pow2 :: "int \<Rightarrow> py_float result" where
  "float_pow2 exponent = (if 1024 \<le> exponent then Inl overflow_error else Inr (pow2 exponent))"

definition compute_delay :: "int \<Rightarrow> settings \<Rightarrow> py_float \<Rightarrow> py_float result" where
  "compute_delay attempt s u =
     (case float_pow2 (max 0 attempt) of
        Inl e \<Rightarrow> Inl e
      | Inr p \<Rightarrow>
          let raw = fl (retry_base_delay_seconds s * p);
              capped = min raw (retry_max_delay_seconds s)
          in if retry_jitter_ratio s \<le> 0 then Inr capped
             else
               let spread = fl (capped * retry_jitter_ratio s);
                   jittered = fl (capped + uniform (- spread) spread u)
               in Inr (max 0 jittered))"

section \<open>Lemmas\<close>

lemma is_retryable_foreign:
  "is_retryable (OtherExc mro t) \<longleftrightarrow> (\<exists>c \<in> set retryable_exceptions. c \<in> set mro)"
  by (simp add: list_ex_iff)

lemma uniform_bounds:
  assumes "is_fl s" "0 \<le> s" "0 \<le> u" "u \<le> 1"
  shows "- s \<le> uniform (- s) s u" and "uniform (- s) s u \<le> s"
proof -
  have two: "fl (s - - s) = 2 * s" using is_fl_double[OF assms(1)] by (simp add: is_fl_def)
  have "2 * s * u \<le> 2 * s" using mult_left_mono[OF assms(4), of "2 * s"] assms(2) by simp
  then have up: "fl (2 * s * u) \<le> 2 * s" by (rule fl_le_float) (rule is_fl_double[OF assms(1)])
  have lo: "0 \<le> fl (2 * s * u)" using assms by (intro fl_nonneg) simp
  have ms: "is_fl (- s)" using assms(1) by (simp add: is_fl_minus)
  show "- s \<le> uniform (- s) s u"
    unfolding uniform_def two by (rule float_le_fl[OF _ ms]) (use lo in simp)
  show "uniform (- s) s u \<le> s"
    unfolding uniform_def two by (rule fl_le_float[OF _ assms(1)]) (use up in simp)
qed

text \<open>The settings a delay makes sense for: durations that are floats and not negative.\<close>

definition delay_settings :: "settings \<Rightarrow> bool" where
  "delay_settings s \<longleftrightarrow>
     0 \<le> retry_base_delay_seconds s \<and> 0 \<le> retry_max_delay_seconds s \<and>
     is_fl (retry_max_delay_seconds s) \<and> 0 \<le> retry_jitter_ratio s \<and> retry_jitter_ratio s \<le> 1"

lemma capped_delay_bounds:
  assumes "delay_settings s"
  shows "0 \<le> min (fl (retry_base_delay_seconds s * pow2 k)) (retry_max_delay_seconds s)"
    and "min (fl (retry_base_delay_seconds s * pow2 k)) (retry_max_delay_seconds s) \<le> retry_max_delay_seconds s"
    and "is_fl (min (fl (retry_base_delay_seconds s * pow2 k)) (retry_max_delay_seconds s))"
  using assms fl_nonneg[of "retry_base_delay_seconds s * pow2 k"] is_fl_fl[of "retry_base_delay_seconds s * pow2 k"]
  by (auto simp: delay_settings_def min_def)

lemma jitter_bounds:
  assumes c: "is_fl c" "0 \<le> c" and r: "0 \<le> r" "r \<le> 1" and u: "0 \<le> u" "u \<le> 1"
  shows "fl (c + uniform (- fl (c * r)) (fl (c * r)) u) \<in> {0 .. 2 * c}"
proof -
  have "c * r \<le> c" using mult_left_mono[OF r(2) c(2)] by simp
  then have sp: "fl (c * r) \<le> c" using c(1) by (rule fl_le_float)
  have sp0: "0 \<le> fl (c * r)" using c(2) r(1) by (intro fl_nonneg) simp
  note b = uniform_bounds[OF is_fl_fl sp0 u]
  have "fl (c + uniform (- fl (c * r)) (fl (c * r)) u) \<le> 2 * c"
    using b(2) sp by (intro fl_le_float is_fl_double c(1)) simp
  moreover have "0 \<le> fl (c + uniform (- fl (c * r)) (fl (c * r)) u)"
    using b(1) sp by (intro fl_nonneg) linarith
  ultimately show ?thesis by simp
qed

text \<open>Total and bounded below 1024 completed attempts.\<close>

lemma compute_delay_bounds:
  assumes "delay_settings s" and "attempt < 1024" and "0 \<le> u" and "u \<le> 1"
  shows "\<exists>x. compute_delay attempt s u = Inr x \<and> 0 \<le> x \<and> x \<le> 2 * retry_max_delay_seconds s"
proof -
  let ?c = "min (fl (retry_base_delay_seconds s * pow2 (max 0 attempt))) (retry_max_delay_seconds s)"
  note c = capped_delay_bounds[OF assms(1), of "max 0 attempt"]
  have p: "float_pow2 (max 0 attempt) = Inr (pow2 (max 0 attempt))"
    using assms(2) by (simp add: float_pow2_def)
  show ?thesis
  proof (cases "retry_jitter_ratio s \<le> 0")
    case True
    have "?c \<le> 2 * retry_max_delay_seconds s"
      using assms(1) unfolding delay_settings_def by linarith
    with True c(1) show ?thesis by (simp add: compute_delay_def p Let_def)
  next
    case False
    have "fl (?c + uniform (- fl (?c * retry_jitter_ratio s)) (fl (?c * retry_jitter_ratio s)) u)
        \<in> {0 .. 2 * ?c}"
      by (rule jitter_bounds) (use c assms in \<open>auto simp: delay_settings_def\<close>)
    moreover have "2 * ?c \<le> 2 * retry_max_delay_seconds s" by simp
    ultimately show ?thesis using False
      by (simp add: compute_delay_def p Let_def) linarith?
  qed
qed

lemma default_delay_settings: "delay_settings default_settings"
proof -
  have "is_fl 60" using is_fl_of_int[of 60] by simp
  moreover have "0 \<le> fl (2 / 10)" "fl (2 / 10) \<le> 1"
    using is_fl_of_int[of 1] by (auto intro: fl_nonneg fl_le_float)
  ultimately show ?thesis by (simp add: delay_settings_def default_settings_def)
qed

text \<open>Without jitter no rounding happens, because scaling a float by a power of two is exact.\<close>

lemma compute_delay_exponential:
  assumes "retry_jitter_ratio s \<le> 0" and "is_fl (retry_base_delay_seconds s)" and "n < 1024"
  shows "compute_delay (int n) s u =
    Inr (min (retry_base_delay_seconds s * 2 ^ n) (retry_max_delay_seconds s))"
proof -
  have "fl (retry_base_delay_seconds s * pow2 (int n)) = retry_base_delay_seconds s * pow2 (int n)"
    using is_fl_scale[OF assms(2), of "int n"] by (simp add: is_fl_def)
  with assms show ?thesis
    by (simp add: compute_delay_def float_pow2_def pow2_nat Let_def)
qed

text \<open>Backoff never shrinks from one attempt to the next (before jitter).\<close>

lemma capped_delay_mono:
  assumes "0 \<le> retry_base_delay_seconds s" and "k \<le> m"
  shows "min (fl (retry_base_delay_seconds s * pow2 k)) (retry_max_delay_seconds s)
      \<le> min (fl (retry_base_delay_seconds s * pow2 m)) (retry_max_delay_seconds s)"
proof -
  have "retry_base_delay_seconds s * pow2 k \<le> retry_base_delay_seconds s * pow2 m"
    using assms by (intro mult_left_mono pow2_mono)
  then show ?thesis using fl_mono by (meson min.mono order_refl)
qed

text \<open>
  C29. The delay before the next attempt: below 1024 completed attempts it is a number, never negative
  and at most twice the configured maximum, whatever the random number is; without jitter it is
  exactly the base delay doubled once per completed attempt and capped, with no rounding error; from
  1024 attempts on the computation raises \<^verbatim>\<open>OverflowError\<close> before the cap is applied.
\<close>

theorem compute_delay_correct:
  assumes "delay_settings s" and "is_fl (retry_base_delay_seconds s)" and "0 \<le> attempt" and "0 \<le> u" and "u \<le> 1"
  shows "if attempt < 1024 then
      (\<exists>x. compute_delay attempt s u = Inr x \<and> 0 \<le> x \<and> x \<le> 2 * retry_max_delay_seconds s \<and>
         (retry_jitter_ratio s = 0 \<longrightarrow>
            x = min (retry_base_delay_seconds s * 2 ^ nat attempt) (retry_max_delay_seconds s)))
    else compute_delay attempt s u = Inl overflow_error"
proof (cases "attempt < 1024")
  case True
  obtain x where "compute_delay attempt s u = Inr x" "0 \<le> x" "x \<le> 2 * retry_max_delay_seconds s"
    using compute_delay_bounds[OF assms(1) True assms(4,5)] by blast
  moreover have "retry_jitter_ratio s = 0 \<Longrightarrow> compute_delay attempt s u =
      Inr (min (retry_base_delay_seconds s * 2 ^ nat attempt) (retry_max_delay_seconds s))"
    using compute_delay_exponential[of s "nat attempt" u] assms(2,3) True by simp
  ultimately show ?thesis using True by simp
next
  case False
  with assms(3) show ?thesis by (simp add: compute_delay_def float_pow2_def)
qed

lemma compute_delay_correct_witness:
  "(\<exists>x. compute_delay 3 default_settings (1 / 2) = Inr x \<and> 0 \<le> x \<and> x \<le> 120) \<and>
     compute_delay 1024 default_settings (1 / 2) = Inl overflow_error"
proof -
  have b: "is_fl (retry_base_delay_seconds default_settings)"
    using is_fl_of_int[of 2] by (simp add: default_settings_def)
  have m: "retry_max_delay_seconds default_settings = 60" by (simp add: default_settings_def)
  show ?thesis
    using compute_delay_correct[OF default_delay_settings b, of 3 "1 / 2"]
      compute_delay_correct[OF default_delay_settings b, of 1024 "1 / 2"] by (auto simp: m)
qed

end
