(* ===== verification/Text_Extraction.thy ===== *)
theory Text_Extraction
  imports Upload_Properties
begin

text \<open>
  \<^verbatim>\<open>app/services/text_extraction.py\<close>: turning the bytes of a stored file into normalised text. The
  PDF and DOCX parsers are third-party packages: \<open>parsers\<close> holds what they return (the text of each
  page, or \<open>None\<close> where \<^verbatim>\<open>extract_text()\<close> gives none; the texts of paragraphs and of table cells) or
  the exception they raise.
\<close>

record parsers =
  pdf_pages :: "bytes \<Rightarrow> unicode option list result"
  docx_paragraphs :: "bytes \<Rightarrow> (unicode list \<times> unicode list) result"

definition any_instance :: "exc \<Rightarrow> string list \<Rightarrow> bool" where
  "any_instance e names \<longleftrightarrow> list_ex (is_foreign_instance e) names"

definition PDF_ERRORS :: "string list" where
  "PDF_ERRORS = [''pypdf.errors.PyPdfError'', ''builtins.ValueError'', ''builtins.OSError'']"

definition DOCX_ERRORS :: "string list" where
  "DOCX_ERRORS =
     [''docx.opc.exceptions.OpcError'', ''zipfile.BadZipFile'', ''builtins.ValueError'',
      ''builtins.KeyError'', ''builtins.OSError'']"

definition newline :: codepoint where
  "newline = 10"

definition extract_pdf :: "parsers \<Rightarrow> bytes \<Rightarrow> unicode result" where
  "extract_pdf ps data =
     (case pdf_pages ps data of
        Inl e \<Rightarrow>
          Inl (if any_instance e PDF_ERRORS
               then raise_app TextExtractionError ''The PDF could not be parsed.''
                      [(''format'', jstr ''pdf'')]
               else e)
      | Inr pages \<Rightarrow>
          Inr (py_join [newline, newline] (map (\<lambda>p. case p of None \<Rightarrow> [] | Some t \<Rightarrow> t) pages)))"

definition extract_docx :: "parsers \<Rightarrow> bytes \<Rightarrow> unicode result" where
  "extract_docx ps data =
     (case docx_paragraphs ps data of
        Inl e \<Rightarrow>
          Inl (if any_instance e DOCX_ERRORS
               then raise_app TextExtractionError ''The DOCX file could not be parsed.''
                      [(''format'', jstr ''docx'')]
               else e)
      | Inr (paragraphs, cells) \<Rightarrow>
          Inr (py_join [newline] (paragraphs @ filter (\<lambda>t. t \<noteq> []) cells)))"

text \<open>The encodings tried in order.\<close>

definition TEXT_ENCODINGS :: "(string \<times> (bytes \<Rightarrow> unicode option)) list" where
  "TEXT_ENCODINGS = [(''utf-8-sig'', utf8_sig_decode), (''cp1252'', cp1252_decode)]"

fun try_encodings :: "(string \<times> (bytes \<Rightarrow> unicode option)) list \<Rightarrow> bytes \<Rightarrow> unicode option" where
  "try_encodings [] data = None"
| "try_encodings ((name, decode) # rest) data =
     (case decode data of Some t \<Rightarrow> Some t | None \<Rightarrow> try_encodings rest data)"

definition extract_txt :: "bytes \<Rightarrow> unicode result" where
  "extract_txt data =
     (case try_encodings TEXT_ENCODINGS data of
        Some t \<Rightarrow> Inr t
      | None \<Rightarrow>
          Inl (raise_app TextExtractionError ''The text file is not in a supported encoding.''
            [(''tried'', JList (map (\<lambda>(name, d). jstr name) TEXT_ENCODINGS))]))"

definition EXTRACTORS :: "parsers \<Rightarrow> (string \<times> (bytes \<Rightarrow> unicode result)) list" where
  "EXTRACTORS ps =
     [(''.pdf'', extract_pdf ps), (''.docx'', extract_docx ps), (''.txt'', extract_txt)]"

section \<open>Normalising\<close>

text \<open>\<^verbatim>\<open>text.replace("\\r\\n", "\\n").replace("\\r", "\\n")\<close>.\<close>

fun unify_newlines :: "unicode \<Rightarrow> unicode" where
  "unify_newlines [] = []"
| "unify_newlines (c # s) =
     (if c = 13 then newline # unify_newlines (if s \<noteq> [] \<and> hd s = newline then tl s else s)
      else c # unify_newlines s)"

text \<open>The loop over the lines: \<open>blank_run\<close> is the length of the current run of blank lines.\<close>

fun collapse_lines :: "nat \<Rightarrow> unicode list \<Rightarrow> unicode list" where
  "collapse_lines blank_run [] = []"
| "collapse_lines blank_run (line # lines) =
     (if line \<noteq> [] then line # collapse_lines 0 lines
      else if blank_run + 1 = 1 then [] # collapse_lines (blank_run + 1) lines
      else collapse_lines (blank_run + 1) lines)"

definition normalise :: "unicode \<Rightarrow> unicode" where
  "normalise text =
     (let lines = map (rstrip_by is_space) (py_split newline (unify_newlines text))
      in strip_by is_space (py_join [newline] (collapse_lines 0 lines)))"

definition extract_text :: "parsers \<Rightarrow> bytes \<Rightarrow> string \<Rightarrow> unicode result" where
  "extract_text ps data extension =
     (case map_of (EXTRACTORS ps) (lower extension) of
        None \<Rightarrow>
          Inl (raise_app UnsupportedFileTypeError
            (''No text extractor is registered for '' @ extension @ ''.'')
            [(''extension'', jstr extension)])
      | Some extractor \<Rightarrow>
          (case extractor data of
             Inl e \<Rightarrow> Inl e
           | Inr raw \<Rightarrow>
               let text = normalise raw
               in if text = [] then
                    Inl (raise_app EmptyDocumentError
                      (''The document contains no extractable text. Scanned or image-only '' @
                       ''documents require OCR, which this pipeline does not perform.'')
                      [(''extension'', jstr extension)])
                  else Inr text))"

definition truncate :: "unicode \<Rightarrow> int \<Rightarrow> unicode \<times> bool" where
  "truncate text max_chars =
     (if int (length text) \<le> max_chars then (text, False) else (take (nat max_chars) text, True))"

section \<open>Lemmas\<close>

text \<open>The definitions that evaluate \<open>normalise\<close> on a concrete text.\<close>

lemmas normalise_evals =
  normalise_def strip_by_def rstrip_by_def lstrip_by_def is_space_def newline_def Let_def

lemma unify_newlines_no_cr: "13 \<notin> set (unify_newlines s)"
  by (induction s rule: unify_newlines.induct) (auto simp: newline_def)

text \<open>Two blank lines never meet.\<close>

fun no_double_blank :: "unicode list \<Rightarrow> bool" where
  "no_double_blank (a # b # ls) \<longleftrightarrow> \<not> (a = [] \<and> b = []) \<and> no_double_blank (b # ls)"
| "no_double_blank _ \<longleftrightarrow> True"

lemma collapse_lines_no_double:
  "no_double_blank (collapse_lines n ls) \<and>
     (0 < n \<longrightarrow> collapse_lines n ls = [] \<or> hd (collapse_lines n ls) \<noteq> [])"
proof (induction n ls rule: collapse_lines.induct)
  case (1 n)
  then show ?case by simp
next
  case (2 n l ls)
  have cons: "no_double_blank (a # xs) \<longleftrightarrow> no_double_blank xs \<and> (xs \<noteq> [] \<longrightarrow> \<not> (a = [] \<and> hd xs = []))" for a xs
    by (cases xs) auto
  from 2 show ?case by (auto simp: cons)
qed

lemma set_collapse_lines: "set (collapse_lines n ls) \<subseteq> set ls"
  by (induction n ls rule: collapse_lines.induct) auto

lemma no_double_blank_append: "no_double_blank (a @ b) \<Longrightarrow> no_double_blank a \<and> no_double_blank b"
  by (induction a rule: no_double_blank.induct) (cases b; auto)+

lemma newline_space [simp]: "is_space newline"
  by (simp add: is_space_def newline_def)

lemma py_split_append_sep: "py_split c (a @ c # b) = py_split c a @ py_split c b"
proof (induction a)
  case Nil
  then show ?case by simp
next
  case (Cons x xs)
  then show ?case by (auto split: list.splits)
qed

lemma no_triple_newline:
  assumes "no_double_blank ls" and "\<And>l. l \<in> set ls \<Longrightarrow> newline \<notin> set l"
  shows "py_join [newline] ls \<noteq> a @ [newline, newline, newline] @ b"
proof
  assume j: "py_join [newline] ls = a @ [newline, newline, newline] @ b"
  then have "ls \<noteq> []" by auto
  then have "ls = py_split newline (a @ newline # newline # newline # b)"
    using py_split_join[of ls newline] assms(2) j by simp
  also have "\<dots> = py_split newline a @ [] # [] # py_split newline b"
    by (simp add: py_split_append_sep)
  finally have "no_double_blank (py_split newline a @ [] # [] # py_split newline b)"
    using assms(1) by simp
  then have "no_double_blank ([] # [] # py_split newline b)" using no_double_blank_append by blast
  then show False by simp
qed

lemma normalise_lines:
  "\<exists>ls a b. py_join [newline] ls = a @ normalise t @ b \<and> no_double_blank ls \<and>
     (\<forall>l \<in> set ls. newline \<notin> set l \<and> set l \<subseteq> set (unify_newlines t))"
proof -
  define ls where "ls = collapse_lines 0 (map (rstrip_by is_space) (py_split newline (unify_newlines t)))"
  have "\<forall>l \<in> set ls. newline \<notin> set l \<and> set l \<subseteq> set (unify_newlines t)"
  proof
    fix l assume "l \<in> set ls"
    then obtain k where k: "k \<in> set (py_split newline (unify_newlines t))" and l: "l = rstrip_by is_space k"
      using set_collapse_lines unfolding ls_def by fastforce
    have "set l \<subseteq> set k" unfolding l by (rule set_rstrip_by)
    with py_split_no_sep[OF k] py_split_set[OF k]
    show "newline \<notin> set l \<and> set l \<subseteq> set (unify_newlines t)" by auto
  qed
  moreover obtain a where "py_join [newline] ls = a @ lstrip_by is_space (py_join [newline] ls)"
    using lstrip_by_suffix by blast
  moreover obtain b where "lstrip_by is_space (py_join [newline] ls) =
      rstrip_by is_space (lstrip_by is_space (py_join [newline] ls)) @ b"
    using rstrip_by_prefix by blast
  moreover have "normalise t = rstrip_by is_space (lstrip_by is_space (py_join [newline] ls))"
    by (simp add: normalise_def ls_def strip_by_def Let_def)
  ultimately show ?thesis
    using collapse_lines_no_double[of 0] unfolding ls_def by metis
qed

text \<open>
  Normalised text is clean: no carriage return survives, no two blank lines follow each other
  (never three newlines in a row), and it neither starts nor ends with white space.
\<close>

lemma normalise_clean:
  "13 \<notin> set (normalise t) \<and> normalise t \<noteq> a @ [newline, newline, newline] @ b \<and>
   (normalise t \<noteq> [] \<longrightarrow> \<not> is_space (hd (normalise t)) \<and> \<not> is_space (last (normalise t)))"
proof -
  obtain ls pre post where ls: "py_join [newline] ls = pre @ normalise t @ post" "no_double_blank ls"
    "\<forall>l \<in> set ls. newline \<notin> set l \<and> set l \<subseteq> set (unify_newlines t)"
    using normalise_lines by blast
  have join: "set (py_join [newline] xs) \<subseteq> {newline} \<union> \<Union> (set ` set xs)" for xs
    by (induction xs rule: induct_list012) auto
  have "set (normalise t) \<subseteq> set (py_join [newline] ls)" by (auto simp: ls(1))
  then have "set (normalise t) \<subseteq> {newline} \<union> set (unify_newlines t)"
    using join[of ls] ls(3) by fastforce
  then have "13 \<notin> set (normalise t)"
    using unify_newlines_no_cr by (auto simp: newline_def)
  moreover have "normalise t \<noteq> a @ [newline, newline, newline] @ b"
    using no_triple_newline[OF ls(2), of "pre @ a" "b @ post"] ls(1,3) by auto
  moreover have "normalise t \<noteq> [] \<Longrightarrow> \<not> is_space (hd (normalise t)) \<and> \<not> is_space (last (normalise t))"
    unfolding normalise_def Let_def using strip_by_ends by blast
  ultimately show ?thesis by blast
qed

text \<open>A UTF-8 byte-order mark decodes to U+FEFF.\<close>

lemma utf8_sig_of_utf8:
  assumes "utf8_decode data = Some u"
  shows "\<exists>v. utf8_sig_decode data = Some v \<and> (v = u \<or> u = 65279 # v)"
proof (cases "take 3 data = [239, 187, 191]")
  case True
  then have "data = [239, 187, 191] @ drop 3 data" by (metis append_take_drop_id)
  then obtain r where data: "data = 239 # 187 # 191 # r" by auto
  have "utf8_decode data = map_option (Cons 65279) (utf8_decode r)"
    by (simp add: data utf8_decode_def second3_def trail_def)
  with assms obtain v where "utf8_decode r = Some v" "u = 65279 # v" by auto
  moreover have "utf8_sig_decode data = utf8_decode r"
    by (simp add: data utf8_sig_decode_def numeral_3_eq_3)
  ultimately show ?thesis by simp
next
  case False
  with assms show ?thesis by (simp add: utf8_sig_decode_def)
qed

text \<open>
  C23. The Windows-1252 fallback of the extractor is unreachable through the API: every text file the
  upload validation accepts is UTF-8, so extraction decodes it as \<^verbatim>\<open>utf-8-sig\<close>, losing nothing but a
  leading byte-order mark.
\<close>

theorem accepted_text_is_utf8:
  assumes "validate_upload nfkd f ct data s = Inr (name, ''.txt'')"
  shows "\<exists>u v. utf8_encode u = data \<and> extract_txt data = Inr v \<and> utf8_sig_decode data = Some v \<and>
    (v = u \<or> u = 65279 # v)"
proof -
  obtain u where u: "utf8_decode data = Some u"
    using validate_upload_parts[OF assms] by (auto simp: validate_magic_bytes_def split: if_splits)
  from utf8_sig_of_utf8[OF u] obtain v where "utf8_sig_decode data = Some v" "v = u \<or> u = 65279 # v" by blast
  with utf8_encode_decode(1)[OF u] show ?thesis
    by (auto simp: extract_txt_def TEXT_ENCODINGS_def)
qed

lemma accepted_text_is_utf8_witness:
  "\<exists>v. extract_txt [72, 105] = Inr v"
  using accepted_text_is_utf8[OF accept_sample] by blast

text \<open>A text that was extracted is normalised; a blank one is an error.\<close>

definition cleaned :: "string \<Rightarrow> unicode \<Rightarrow> unicode result" where
  "cleaned ext raw =
     (if normalise raw = [] then
        Inl (raise_app EmptyDocumentError
          (''The document contains no extractable text. Scanned or image-only '' @
           ''documents require OCR, which this pipeline does not perform.'')
          [(''extension'', jstr ext)])
      else Inr (normalise raw))"

lemma extract_text_by_extension:
  "extract_text ps data ''.pdf'' = (case extract_pdf ps data of Inl e \<Rightarrow> Inl e | Inr raw \<Rightarrow> cleaned ''.pdf'' raw)"
  "extract_text ps data ''.docx'' = (case extract_docx ps data of Inl e \<Rightarrow> Inl e | Inr raw \<Rightarrow> cleaned ''.docx'' raw)"
  "extract_text ps data ''.txt'' = (case extract_txt data of Inl e \<Rightarrow> Inl e | Inr raw \<Rightarrow> cleaned ''.txt'' raw)"
  by (simp_all add: extract_text_def EXTRACTORS_def lower_def lower_char_def cleaned_def Let_def split: sum.split)

definition fails_for_good :: "exc \<Rightarrow> bool" where
  "fails_for_good e \<longleftrightarrow>
     (case e of
        AppExc err \<Rightarrow> err_class err \<in> {TextExtractionError, EmptyDocumentError} \<and> \<not> retryable (err_class err)
      | OtherExc mro t \<Rightarrow> False)"

lemma fails_for_good_raise [simp]:
  "fails_for_good (raise_app TextExtractionError m d)" "fails_for_good (raise_app EmptyDocumentError m d)"
  by (simp_all add: fails_for_good_def retryable_iff)

lemma cleaned_Inl: "cleaned ext raw = Inl e \<Longrightarrow> fails_for_good e"
  by (auto simp: cleaned_def split: if_splits)

lemma cleaned_Inr:
  "cleaned ext raw = Inr t \<Longrightarrow> t \<noteq> [] \<and> 13 \<notin> set t \<and> (\<forall>a b. t \<noteq> a @ [newline, newline, newline] @ b) \<and>
     \<not> is_space (hd t) \<and> \<not> is_space (last t)"
  using normalise_clean[of raw] by (auto simp: cleaned_def split: if_splits)

lemma cleaned_no_triple: "cleaned ext raw \<noteq> Inr (a @ newline # newline # newline # b)"
  using cleaned_Inr[of ext raw "a @ newline # newline # newline # b"] by force

text \<open>
  C24. What extraction gives for the three extensions the API accepts, whatever the parsers do. A success is
  clean text: not empty, without carriage returns, without two blank lines in a row, without white space at its
  ends. A failure is a non-retryable application error, with one exception: an error of the PDF or DOCX parser
  that is of none of the classes the module catches leaves it as it is (the parsers' documentation does not
  promise that there are no others). A parser error of a caught class becomes a \<open>TextExtractionError\<close>, and a
  text file fails only with an application error.
\<close>

theorem extract_text_total:
  assumes "ext \<in> {''.pdf'', ''.docx'', ''.txt''}"
  shows "(case extract_text ps data ext of
       Inr t \<Rightarrow> t \<noteq> [] \<and> 13 \<notin> set t \<and> (\<forall>a b. t \<noteq> a @ [newline, newline, newline] @ b) \<and>
         \<not> is_space (hd t) \<and> \<not> is_space (last t)
     | Inl e \<Rightarrow>
         fails_for_good e \<or>
         ext = ''.pdf'' \<and> pdf_pages ps data = Inl e \<and> \<not> any_instance e PDF_ERRORS \<or>
         ext = ''.docx'' \<and> docx_paragraphs ps data = Inl e \<and> \<not> any_instance e DOCX_ERRORS) \<and>
    (ext = ''.pdf'' \<and> pdf_pages ps data = Inl x \<longrightarrow>
       extract_text ps data ext = Inl (if any_instance x PDF_ERRORS
         then raise_app TextExtractionError ''The PDF could not be parsed.'' [(''format'', jstr ''pdf'')] else x)) \<and>
    (ext = ''.docx'' \<and> docx_paragraphs ps data = Inl x \<longrightarrow>
       extract_text ps data ext = Inl (if any_instance x DOCX_ERRORS
         then raise_app TextExtractionError ''The DOCX file could not be parsed.'' [(''format'', jstr ''docx'')] else x))"
proof -
  consider "ext = ''.pdf''" | "ext = ''.docx''" | "ext = ''.txt''" using assms by blast
  then show ?thesis
  proof cases
    case 1
    then show ?thesis
      by (cases "pdf_pages ps data") (auto simp: extract_text_by_extension extract_pdf_def cleaned_no_triple dest: cleaned_Inl cleaned_Inr
        split: sum.split)
  next
    case 2
    then show ?thesis
      by (cases "docx_paragraphs ps data") (auto simp: extract_text_by_extension extract_docx_def cleaned_no_triple dest: cleaned_Inl cleaned_Inr
        split: sum.split)
  next
    case 3
    then show ?thesis
      by (cases "try_encodings TEXT_ENCODINGS data") (auto simp: extract_text_by_extension extract_txt_def cleaned_no_triple dest: cleaned_Inl cleaned_Inr
        split: sum.split)
  qed
qed

definition sample_parsers :: parsers where
  "sample_parsers = \<lparr>pdf_pages = (\<lambda>d. Inr [Some (codes ''Page one''), None]), docx_paragraphs = (\<lambda>d. Inr ([], []))\<rparr>"

lemma extract_text_total_witness:
  "extract_text (sample_parsers\<lparr>pdf_pages := (\<lambda>d. Inl (OtherExc [''pypdf.errors.DependencyError'', ''builtins.Exception''] ''AES''))\<rparr>)
     [] ''.pdf'' = Inl (OtherExc [''pypdf.errors.DependencyError'', ''builtins.Exception''] ''AES'')"
  using extract_text_total[of "''.pdf''" "sample_parsers\<lparr>pdf_pages := (\<lambda>d. Inl (OtherExc [''pypdf.errors.DependencyError'',
      ''builtins.Exception''] ''AES''))\<rparr>" "[]" "OtherExc [''pypdf.errors.DependencyError'', ''builtins.Exception''] ''AES''"]
  by (simp add: any_instance_def PDF_ERRORS_def)

text \<open>Truncation keeps a prefix within the budget and says whether anything was cut.\<close>

lemma truncate_spec:
  assumes "0 \<le> n"
  shows "prefix (fst (truncate t n)) t" and "int (length (fst (truncate t n))) \<le> n"
    and "snd (truncate t n) \<longleftrightarrow> fst (truncate t n) \<noteq> t"
  using assms by (auto simp: truncate_def take_is_prefix)

end
