(* ===== verification/Schemas.thy ===== *)
theory Schemas
  imports Enums Errors
begin

text \<open>
  \<^verbatim>\<open>app/schemas/extraction.py\<close>: the four extraction schemas and the classification schema, as data.
  Checking a value against a schema is done by pydantic, which is not in the repository; the language
  model code takes it as an argument. \<open>conforms\<close> says which JSON values have the declared fields with
  the declared types, all required, nullable ones possibly null.
\<close>

datatype field_type =
    FStr | FFloat | FDate | FUnit | FDocumentType
  | FNullable field_type
  | FList field_type
  | FModel "(string \<times> field_type) list"

type_synonym schema = "(string \<times> field_type) list"

section \<open>The schemas\<close>

definition InvoiceLineItem :: schema where
  "InvoiceLineItem =
     [(''description'', FNullable FStr), (''quantity'', FNullable FFloat),
      (''unit_price'', FNullable FFloat), (''amount'', FNullable FFloat)]"

definition InvoiceExtraction :: schema where
  "InvoiceExtraction =
     [(''vendor_name'', FNullable FStr), (''invoice_number'', FNullable FStr),
      (''invoice_date'', FNullable FDate), (''due_date'', FNullable FDate),
      (''currency'', FNullable FStr), (''subtotal'', FNullable FFloat), (''tax'', FNullable FFloat),
      (''total'', FNullable FFloat), (''line_items'', FList (FModel InvoiceLineItem)),
      (''confidence_score'', FUnit)]"

definition EducationEntry :: schema where
  "EducationEntry =
     [(''institution'', FNullable FStr), (''degree'', FNullable FStr),
      (''field_of_study'', FNullable FStr), (''start_date'', FNullable FStr),
      (''end_date'', FNullable FStr)]"

definition ExperienceEntry :: schema where
  "ExperienceEntry =
     [(''company'', FNullable FStr), (''title'', FNullable FStr), (''start_date'', FNullable FStr),
      (''end_date'', FNullable FStr), (''description'', FNullable FStr)]"

definition ResumeExtraction :: schema where
  "ResumeExtraction =
     [(''candidate_name'', FNullable FStr), (''email'', FNullable FStr), (''phone'', FNullable FStr),
      (''location'', FNullable FStr), (''summary'', FNullable FStr), (''skills'', FList FStr),
      (''education'', FList (FModel EducationEntry)),
      (''experience'', FList (FModel ExperienceEntry)),
      (''total_years_of_experience'', FNullable FFloat), (''confidence_score'', FUnit)]"

definition SupportTicketExtraction :: schema where
  "SupportTicketExtraction =
     [(''subject'', FNullable FStr), (''customer_name'', FNullable FStr),
      (''customer_email'', FNullable FStr), (''category'', FNullable FStr),
      (''priority'', FNullable FStr), (''summary'', FNullable FStr),
      (''requested_action'', FNullable FStr), (''sentiment'', FNullable FStr),
      (''confidence_score'', FUnit)]"

definition GenericDocumentExtraction :: schema where
  "GenericDocumentExtraction =
     [(''title'', FNullable FStr), (''document_type'', FNullable FStr), (''summary'', FNullable FStr),
      (''key_entities'', FList FStr), (''important_dates'', FList FStr),
      (''action_items'', FList FStr), (''confidence_score'', FUnit)]"

definition DocumentClassification :: schema where
  "DocumentClassification = [(''document_type'', FDocumentType), (''confidence_score'', FUnit)]"

fun SCHEMA_REGISTRY :: "document_type \<Rightarrow> schema" where
  "SCHEMA_REGISTRY INVOICE = InvoiceExtraction"
| "SCHEMA_REGISTRY RESUME = ResumeExtraction"
| "SCHEMA_REGISTRY SUPPORT_TICKET = SupportTicketExtraction"
| "SCHEMA_REGISTRY GENERIC = GenericDocumentExtraction"

lemmas schema_defs =
  InvoiceLineItem_def InvoiceExtraction_def EducationEntry_def ExperienceEntry_def
  ResumeExtraction_def SupportTicketExtraction_def GenericDocumentExtraction_def
  DocumentClassification_def

section \<open>Conforming values\<close>

definition is_digit :: "codepoint \<Rightarrow> bool" where
  "is_digit n \<longleftrightarrow> 48 \<le> n \<and> n \<le> 57"

definition digits_value :: "unicode \<Rightarrow> nat" where
  "digits_value ds = foldl (\<lambda>n d. n * 10 + (d - 48)) 0 ds"

definition days_in_month :: "nat \<Rightarrow> nat \<Rightarrow> nat" where
  "days_in_month y m =
     (if m = 2 then (if y mod 4 = 0 \<and> (y mod 100 \<noteq> 0 \<or> y mod 400 = 0) then 29 else 28)
      else if m \<in> {4, 6, 9, 11} then 30 else 31)"

text \<open>A calendar date in its ISO form, \<^verbatim>\<open>YYYY-MM-DD\<close>.\<close>

definition iso_date :: "unicode \<Rightarrow> bool" where
  "iso_date s \<longleftrightarrow>
     length s = 10 \<and> s ! 4 = 45 \<and> s ! 7 = 45 \<and>
     list_all is_digit (take 4 s) \<and> list_all is_digit (take 2 (drop 5 s)) \<and>
     list_all is_digit (drop 8 s) \<and>
     (let y = digits_value (take 4 s); m = digits_value (take 2 (drop 5 s)); d = digits_value (drop 8 s)
      in 1 \<le> y \<and> 1 \<le> m \<and> m \<le> 12 \<and> 1 \<le> d \<and> d \<le> days_in_month y m)"

fun conforms :: "field_type \<Rightarrow> json \<Rightarrow> bool"
  and conforms_fields :: "schema \<Rightarrow> (string \<times> json) list \<Rightarrow> bool" where
  "conforms FStr v = (case v of JStr _ \<Rightarrow> True | _ \<Rightarrow> False)"
| "conforms FFloat v = (case v of JFloat _ \<Rightarrow> True | _ \<Rightarrow> False)"
| "conforms FDate v = (case v of JStr s \<Rightarrow> iso_date s | _ \<Rightarrow> False)"
| "conforms FUnit v = (case v of JFloat x \<Rightarrow> 0 \<le> x \<and> x \<le> 1 | _ \<Rightarrow> False)"
| "conforms FDocumentType v =
     (case v of JStr s \<Rightarrow> list_ex (\<lambda>t. codes (document_type_value t) = s) Enum.enum | _ \<Rightarrow> False)"
| "conforms (FNullable t) v = (v = JNull \<or> conforms t v)"
| "conforms (FList t) v = (case v of JList vs \<Rightarrow> \<forall>x \<in> set vs. conforms t x | _ \<Rightarrow> False)"
| "conforms (FModel fs) v = (case v of JObj kvs \<Rightarrow> conforms_fields fs kvs | _ \<Rightarrow> False)"
| "conforms_fields [] kvs = (kvs = [])"
| "conforms_fields ((n, t) # fs) kvs =
     (case kvs of [] \<Rightarrow> False | (k, v) # rest \<Rightarrow> k = n \<and> conforms t v \<and> conforms_fields fs rest)"

text \<open>The value of a key of a JSON object.\<close>

definition json_get :: "string \<Rightarrow> json \<Rightarrow> json option" where
  "json_get k v = (case v of JObj kvs \<Rightarrow> map_of kvs k | _ \<Rightarrow> None)"

end
