(* ===== verification/Llm.thy ===== *)
theory Llm
  imports Schemas Settings World Text_Extraction
begin

text \<open>
  \<^verbatim>\<open>app/llm\<close>: the provider interface, the deterministic fake, the OpenAI provider and the choice
  between them. A provider is a record of its two operations over a state of its own; document text
  is \<open>unicode\<close>. Arguments stand for code outside the repository: the OpenAI client (\<open>oc\<close>), pydantic's
  validation (\<open>pyd\<close>) and Unicode's lower-casing table (\<open>ulower\<close>).
\<close>

section \<open>The interface (base.py)\<close>

record extraction_output =
  eo_document_type :: document_type
  eo_data :: json
  eo_model_provider :: string
  eo_model_name :: string
  eo_prompt_version :: string
  eo_input_tokens :: "int option"
  eo_output_tokens :: "int option"
  eo_confidence_score :: "py_float option"

record classification_output =
  co_document_type :: document_type
  co_input_tokens :: "int option"
  co_output_tokens :: "int option"
  co_confidence_score :: "py_float option"

definition total_tokens :: "extraction_output \<Rightarrow> int option" where
  "total_tokens e =
     (case (eo_input_tokens e, eo_output_tokens e) of
        (Some i, Some n) \<Rightarrow> Some (i + n)
      | _ \<Rightarrow> None)"

record 'p provider =
  lp_classify :: "unicode \<Rightarrow> 'p \<Rightarrow> classification_output result \<times> 'p"
  lp_extract :: "unicode \<Rightarrow> document_type \<Rightarrow> 'p \<Rightarrow> extraction_output result \<times> 'p"
  lp_aclose :: "'p \<Rightarrow> unit result \<times> 'p"

definition provider_call :: "('p \<Rightarrow> 'a \<times> 'p) \<Rightarrow> ('r, 'p, 'f) world \<Rightarrow> 'a \<times> ('r, 'p, 'f) world" where
  "provider_call f w = (case f (w_provider w) of (x, p) \<Rightarrow> (x, w\<lparr>w_provider := p\<rparr>))"

lemma provider_call_frame [frame]:
  "provider_call f w = (x, w') \<Longrightarrow> w_db w' = w_db w \<and> w_redis w' = w_redis w \<and> w_files w' = w_files w \<and>
     w_others w' = w_others w \<and> w_faults w' = w_faults w"
  by (auto simp: provider_call_def split: prod.splits)

text \<open>pydantic: \<^verbatim>\<open>model_validate\<close> and \<^verbatim>\<open>model_validate_json\<close>; an instance is identified with its JSON dump.\<close>

record pydantic =
  pyd_validate :: "schema \<Rightarrow> json \<Rightarrow> json option"
  pyd_validate_json :: "schema \<Rightarrow> unicode \<Rightarrow> json option"

section \<open>FakeLLMProvider (base.py)\<close>

record fake_state =
  fk_failures :: "exc list"
  fk_calls :: int

definition new_fake :: fake_state where
  "new_fake = \<lparr>fk_failures = [], fk_calls = 0\<rparr>"

definition FAKE_MODEL :: string where "FAKE_MODEL = ''fake-extractor-1''"
definition FAKE_PROMPT_VERSION :: string where "FAKE_PROMPT_VERSION = ''fake-v1''"

definition maybe_fail :: "fake_state \<Rightarrow> unit result \<times> fake_state" where
  "maybe_fail f =
     (let f1 = f\<lparr>fk_calls := fk_calls f + 1\<rparr>
      in (case fk_failures f1 of
            [] \<Rightarrow> (Inr (), f1)
          | e # es \<Rightarrow> (Inl e, f1\<lparr>fk_failures := es\<rparr>)))"

definition FAKE_TYPE_HINTS :: "(document_type \<times> string list) list" where
  "FAKE_TYPE_HINTS =
     [(INVOICE, [''invoice'', ''vendor'', ''amount due'', ''subtotal'']),
      (RESUME, [''resume'', ''curriculum vitae'', ''work experience'', ''education'']),
      (SUPPORT_TICKET, [''ticket'', ''support request'', ''customer reported''])]"

fun first_hint :: "(document_type \<times> string list) list \<Rightarrow> unicode \<Rightarrow> document_type" where
  "first_hint [] lowered = GENERIC"
| "first_hint ((t, hints) # rest) lowered =
     (if list_ex (\<lambda>h. py_in (codes h) lowered) hints then t else first_hint rest lowered)"

definition guess_type :: "(unicode \<Rightarrow> unicode) \<Rightarrow> unicode \<Rightarrow> document_type" where
  "guess_type ulower text = first_hint FAKE_TYPE_HINTS (ulower text)"

text \<open>\<^verbatim>\<open>str.splitlines()[0]\<close>: \<open>None\<close> is the \<^verbatim>\<open>IndexError\<close> of an empty text.\<close>

definition line_break :: "codepoint \<Rightarrow> bool" where
  "line_break n \<longleftrightarrow> n \<in> {10, 11, 12, 13, 28, 29, 30, 133, 8232, 8233}"

definition first_line :: "unicode \<Rightarrow> unicode option" where
  "first_line s = (if s = [] then None else Some (takeWhile (\<lambda>n. \<not> line_break n) s))"

definition index_error :: exc where
  "index_error =
     OtherExc [''builtins.IndexError'', ''builtins.LookupError'', ''builtins.Exception'']
              ''list index out of range''"

definition find_after ::
  "(unicode \<Rightarrow> unicode) \<Rightarrow> unicode \<Rightarrow> string \<Rightarrow> unicode option result" where
  "find_after ulower text marker =
     (case py_find (codes (lower marker)) (ulower text) of
        None \<Rightarrow> Inr None
      | Some i \<Rightarrow>
          (case first_line (drop (i + length marker) text) of
             None \<Rightarrow> Inl index_error
           | Some line \<Rightarrow>
               let remainder = strip_by is_space line
               in Inr (if remainder = [] then None else Some remainder)))"

text \<open>\<^verbatim>\<open>" ".join(text.split())[:200] or None\<close>.\<close>

fun split_spaces :: "unicode \<Rightarrow> unicode list" where
  "split_spaces [] = []"
| "split_spaces (c # s) =
     (if is_space c then split_spaces s
      else (c # takeWhile (\<lambda>x. \<not> is_space x) s) # split_spaces (dropWhile (\<lambda>x. \<not> is_space x) s))"

definition snippet :: "unicode \<Rightarrow> json" where
  "snippet text =
     (let s = take 200 (py_join [32] (split_spaces text)) in if s = [] then JNull else JStr s)"

text \<open>Dates are written in the ISO form they are dumped in.\<close>

definition fake_invoice :: "unicode option \<Rightarrow> json" where
  "fake_invoice vendor =
     JObj [(''vendor_name'', case vendor of None \<Rightarrow> jstr ''Example Vendor'' | Some v \<Rightarrow> JStr v),
           (''invoice_number'', jstr ''INV-1001''), (''invoice_date'', jstr ''2026-01-15''),
           (''due_date'', jstr ''2026-02-15''), (''currency'', jstr ''USD''),
           (''subtotal'', JFloat 100), (''tax'', JFloat 8), (''total'', JFloat 108),
           (''line_items'', JList
              [JObj [(''description'', jstr ''Professional services''), (''quantity'', JFloat 1),
                     (''unit_price'', JFloat 100), (''amount'', JFloat 100)]]),
           (''confidence_score'', JFloat (3 / 4))]"

definition fake_resume :: "unicode \<Rightarrow> json" where
  "fake_resume text =
     JObj [(''candidate_name'', jstr ''Alex Example''), (''email'', jstr ''alex@example.com''),
           (''phone'', JNull), (''location'', JNull), (''summary'', snippet text),
           (''skills'', JList [jstr ''python'', jstr ''sql'']),
           (''education'', JList
              [JObj [(''institution'', jstr ''Example University''), (''degree'', jstr ''BSc''),
                     (''field_of_study'', jstr ''Computer Science''), (''start_date'', jstr ''2018''),
                     (''end_date'', jstr ''2022'')]]),
           (''experience'', JList
              [JObj [(''company'', jstr ''Example Corp''), (''title'', jstr ''Engineer''),
                     (''start_date'', jstr ''2022''), (''end_date'', JNull),
                     (''description'', snippet text)]]),
           (''total_years_of_experience'', JFloat 3), (''confidence_score'', JFloat (3 / 4))]"

definition fake_ticket :: "unicode \<Rightarrow> json" where
  "fake_ticket text =
     JObj [(''subject'', snippet text), (''customer_name'', jstr ''Casey Customer''),
           (''customer_email'', jstr ''casey@example.com''), (''category'', jstr ''billing''),
           (''priority'', jstr ''medium''), (''summary'', snippet text),
           (''requested_action'', jstr ''Investigate and reply''), (''sentiment'', jstr ''neutral''),
           (''confidence_score'', JFloat (3 / 4))]"

definition fake_generic :: "unicode \<Rightarrow> json" where
  "fake_generic text =
     JObj [(''title'', snippet text), (''document_type'', jstr ''memo''), (''summary'', snippet text),
           (''key_entities'', JList [jstr ''Example Org'']), (''important_dates'', JList []),
           (''action_items'', JList []), (''confidence_score'', JFloat (3 / 4))]"

definition fake_payload :: "(unicode \<Rightarrow> unicode) \<Rightarrow> document_type \<Rightarrow> unicode \<Rightarrow> json result" where
  "fake_payload ulower t text =
     (case t of
        INVOICE \<Rightarrow>
          (case find_after ulower text ''vendor:'' of
             Inl e \<Rightarrow> Inl e
           | Inr vendor \<Rightarrow> Inr (fake_invoice vendor))
      | RESUME \<Rightarrow> Inr (fake_resume text)
      | SUPPORT_TICKET \<Rightarrow> Inr (fake_ticket text)
      | GENERIC \<Rightarrow> Inr (fake_generic text))"

definition validation_error :: exc where
  "validation_error =
     OtherExc [''pydantic_core.ValidationError'', ''builtins.ValueError'', ''builtins.Exception'']
              ''validation error''"

definition key_error :: exc where
  "key_error =
     OtherExc [''builtins.KeyError'', ''builtins.LookupError'', ''builtins.Exception''] ''confidence_score''"

definition type_error :: exc where
  "type_error = OtherExc [''builtins.TypeError'', ''builtins.Exception''] ''not a number''"

text \<open>\<^verbatim>\<open>float(x)\<close> of a JSON number; a \<^verbatim>\<open>bool\<close> is an \<^verbatim>\<open>int\<close> in Python.\<close>

definition json_float :: "json \<Rightarrow> py_float option" where
  "json_float v =
     (case v of
        JInt i \<Rightarrow> Some (fl (of_int i))
      | JFloat x \<Rightarrow> Some x
      | JBool b \<Rightarrow> Some (if b then 1 else 0)
      | _ \<Rightarrow> None)"

definition fake_classify ::
  "(unicode \<Rightarrow> unicode) \<Rightarrow> unicode \<Rightarrow> fake_state \<Rightarrow> classification_output result \<times> fake_state" where
  "fake_classify ulower text f =
     (case maybe_fail f of
        (Inl e, f1) \<Rightarrow> (Inl e, f1)
      | (Inr _, f1) \<Rightarrow>
          (Inr \<lparr>co_document_type = guess_type ulower text,
                co_input_tokens = Some (int (length text) div 4), co_output_tokens = Some 4,
                co_confidence_score = Some (fl (9 / 10))\<rparr>, f1))"

definition fake_extract ::
  "(unicode \<Rightarrow> unicode) \<Rightarrow> pydantic \<Rightarrow> unicode \<Rightarrow> document_type \<Rightarrow> fake_state \<Rightarrow>
     extraction_output result \<times> fake_state" where
  "fake_extract ulower pyd text t f =
     (case maybe_fail f of
        (Inl e, f1) \<Rightarrow> (Inl e, f1)
      | (Inr _, f1) \<Rightarrow>
          (case fake_payload ulower t text of
             Inl e \<Rightarrow> (Inl e, f1)
           | Inr raw \<Rightarrow>
               (case pyd_validate pyd (SCHEMA_REGISTRY t) raw of
                  None \<Rightarrow> (Inl validation_error, f1)
                | Some payload \<Rightarrow>
                    (case json_get ''confidence_score'' payload of
                       None \<Rightarrow> (Inl key_error, f1)
                     | Some c \<Rightarrow>
                         (case json_float c of
                            None \<Rightarrow> (Inl type_error, f1)
                          | Some x \<Rightarrow>
                              (Inr \<lparr>eo_document_type = t, eo_data = payload,
                                    eo_model_provider = ''fake'', eo_model_name = FAKE_MODEL,
                                    eo_prompt_version = FAKE_PROMPT_VERSION,
                                    eo_input_tokens = Some (int (length text) div 4),
                                    eo_output_tokens = Some 32, eo_confidence_score = Some x\<rparr>, f1))))))"

definition fake_provider :: "(unicode \<Rightarrow> unicode) \<Rightarrow> pydantic \<Rightarrow> fake_state provider" where
  "fake_provider ulower pyd =
     \<lparr>lp_classify = fake_classify ulower, lp_extract = fake_extract ulower pyd,
      lp_aclose = Pair (Inr ())\<rparr>"

section \<open>Prompts (prompts.py)\<close>

datatype chat_role = SystemRole | UserRole | AssistantRole

type_synonym chat_message = "chat_role \<times> unicode"

definition PROMPT_VERSION :: string where "PROMPT_VERSION = ''v1''"

definition nl :: string where "nl = [char_of (10 :: nat)]"

definition EXTRACT_SYSTEM :: string where
  "EXTRACT_SYSTEM =
     ''You extract structured data from documents.'' @ nl @ nl @
     ''Rules:'' @ nl @
     ''- Extract only facts the document supports.'' @ nl @
     ''- Return null for any field that is absent or unclear. Never invent values.'' @ nl @
     ''- Return every field in the schema; use null rather than omitting a key.'' @ nl @
     ''- confidence_score is your self-reported confidence on a 0 to 1 scale. It is a '' @
     ''hint, not a calibrated probability.'' @ nl"

definition CLASSIFY_SYSTEM :: string where
  "CLASSIFY_SYSTEM =
     ''You classify a document into exactly one of these types: invoice, resume, '' @
     ''support_ticket, generic.'' @ nl @ nl @
     ''Rules:'' @ nl @
     ''- Choose the single best match from the document content.'' @ nl @
     ''- Use generic when none of the other types clearly apply.'' @ nl @
     ''- confidence_score is your self-reported confidence on a 0 to 1 scale.'' @ nl"

fun PROMPT_TYPE_HINTS :: "document_type \<Rightarrow> string" where
  "PROMPT_TYPE_HINTS INVOICE =
     ''This document is an invoice. Extract vendor, amounts, dates and line items.''"
| "PROMPT_TYPE_HINTS RESUME =
     ''This document is a resume or CV. Extract the candidate, skills, education and experience.''"
| "PROMPT_TYPE_HINTS SUPPORT_TICKET =
     ''This document is a support ticket. Extract the subject, customer, '' @
     ''priority, sentiment and requested action.''"
| "PROMPT_TYPE_HINTS GENERIC =
     ''Extract a title, short summary, key entities, important dates and action items.''"

definition fenced :: "unicode \<Rightarrow> unicode" where
  "fenced text = codes (nl @ nl @ ''---'' @ nl) @ text @ codes (nl @ ''---'')"

definition classification_messages :: "unicode \<Rightarrow> chat_message list" where
  "classification_messages text =
     [(SystemRole, codes CLASSIFY_SYSTEM),
      (UserRole, codes ''Classify the following document.'' @ fenced text)]"

definition extraction_messages :: "unicode \<Rightarrow> document_type \<Rightarrow> chat_message list" where
  "extraction_messages text t =
     [(SystemRole, codes EXTRACT_SYSTEM),
      (UserRole, codes (PROMPT_TYPE_HINTS t @ nl @ nl @ ''Document type: '' @ document_type_value t) @
         fenced text)]"

definition repair_user_message :: string where
  "repair_user_message =
     ''Your previous response did not satisfy the schema. Return a corrected '' @
     ''JSON object that matches the schema exactly. Use null for missing '' @
     ''fields. Do not invent values.''"

section \<open>OpenAIProvider (openai\_provider.py)\<close>

text \<open>
  What \<^verbatim>\<open>chat.completions.parse\<close> returns, as far as it is looked at: each choice's refusal, parsed value
  (an instance of a schema class or something else) and content, and the token usage. The SDK's
  exceptions are foreign ones; \<open>oc_status\<close> is their attribute \<^verbatim>\<open>status_code\<close>.
\<close>

datatype parsed_value = Instance schema json | Raw json

record completion_message =
  cm_refusal :: "unicode option"
  cm_parsed :: "parsed_value option"
  cm_content :: "unicode option"

record token_usage =
  us_prompt_tokens :: "int option"
  us_completion_tokens :: "int option"

record completion =
  cp_choices :: "completion_message list"
  cp_usage :: "token_usage option"

record 'c openai_client =
  oc_parse :: "string \<Rightarrow> chat_message list \<Rightarrow> schema \<Rightarrow> py_float \<Rightarrow> 'c \<Rightarrow> completion result \<times> 'c"
  oc_close :: "'c \<Rightarrow> unit result \<times> 'c"
  oc_status :: "exc \<Rightarrow> int option"

record openai_provider =
  op_model :: string
  op_temperature :: py_float

definition new_openai_provider :: "settings \<Rightarrow> openai_provider result" where
  "new_openai_provider s =
     (case openai_api_key s of
        None \<Rightarrow>
          Inl (raise_app LLMAuthenticationError ''OPENAI_API_KEY is not set.''
            [(''provider'', jstr ''openai'')])
      | Some _ \<Rightarrow> Inr \<lparr>op_model = openai_model s, op_temperature = llm_temperature s\<rparr>)"

definition usage_input :: "token_usage option \<Rightarrow> int option" where
  "usage_input u = (case u of None \<Rightarrow> None | Some v \<Rightarrow> us_prompt_tokens v)"

definition usage_output :: "token_usage option \<Rightarrow> int option" where
  "usage_output u = (case u of None \<Rightarrow> None | Some v \<Rightarrow> us_completion_tokens v)"

definition truthy_text :: "unicode option \<Rightarrow> bool" where
  "truthy_text t = (case t of None \<Rightarrow> False | Some s \<Rightarrow> s \<noteq> [])"

definition parsed_model :: "pydantic \<Rightarrow> completion \<Rightarrow> schema \<Rightarrow> json option" where
  "parsed_model pyd c response_format =
     (case cp_choices c of
        [] \<Rightarrow> None
      | message # _ \<Rightarrow>
          if truthy_text (cm_refusal message) then None
          else
            (case cm_parsed message of
               Some (Instance cls v) \<Rightarrow>
                 if cls = response_format then Some v else None
             | Some (Raw v) \<Rightarrow> pyd_validate pyd response_format v
             | None \<Rightarrow>
                 (case cm_content message of
                    None \<Rightarrow> None
                  | Some content \<Rightarrow>
                      if content = [] then None
                      else pyd_validate_json pyd response_format content)))"

definition assistant_text :: "completion \<Rightarrow> unicode" where
  "assistant_text c =
     (case cp_choices c of
        [] \<Rightarrow> []
      | message # _ \<Rightarrow>
          if truthy_text (cm_content message) then the (cm_content message)
          else (case cm_refusal message of None \<Rightarrow> [] | Some r \<Rightarrow> r))"

text \<open>The application error an SDK failure is translated into.\<close>

definition status_json :: "int option \<Rightarrow> json" where
  "status_json status = (case status of None \<Rightarrow> JNull | Some n \<Rightarrow> JInt n)"

definition map_openai_error :: "'c openai_client \<Rightarrow> exc \<Rightarrow> exc" where
  "map_openai_error oc error =
     (if is_foreign_instance error ''openai.RateLimitError'' then
        raise_app LLMRateLimitError ''The language model provider rate-limited the request.''
          [(''provider'', jstr ''openai'')]
      else if is_foreign_instance error ''openai.APITimeoutError'' then
        raise_app LLMTimeoutError ''The language model request timed out.''
          [(''provider'', jstr ''openai'')]
      else if is_foreign_instance error ''openai.AuthenticationError'' then
        raise_app LLMAuthenticationError
          ''The language model provider rejected the API credentials.''
          [(''provider'', jstr ''openai'')]
      else if is_foreign_instance error ''openai.APIConnectionError'' then
        raise_app LLMProviderError ''Could not reach the language model provider.''
          [(''provider'', jstr ''openai'')]
      else
        let status = oc_status oc error
        in if status = Some 429 then
             raise_app LLMRateLimitError ''The language model provider rate-limited the request.''
               [(''provider'', jstr ''openai''), (''status_code'', status_json status)]
           else if status = Some 401 \<or> status = Some 403 then
             raise_app LLMAuthenticationError
               ''The language model provider rejected the API credentials.''
               [(''provider'', jstr ''openai''), (''status_code'', status_json status)]
           else
             raise_app LLMProviderError ''The language model provider returned an error.''
               [(''provider'', jstr ''openai''), (''status_code'', status_json status)])"

definition exc_type_name :: "exc \<Rightarrow> string" where
  "exc_type_name e = (case e of OtherExc mro t \<Rightarrow> type_name mro | AppExc _ \<Rightarrow> [])"

definition complete ::
  "'c openai_client \<Rightarrow> openai_provider \<Rightarrow> chat_message list \<Rightarrow> schema \<Rightarrow> string \<Rightarrow> 'c \<Rightarrow>
     completion result \<times> 'c" where
  "complete oc op messages response_format operation c =
     (case oc_parse oc (op_model op) messages response_format (op_temperature op) c of
        (Inr x, c1) \<Rightarrow> (Inr x, c1)
      | (Inl e, c1) \<Rightarrow>
          (Inl (if is_foreign_instance e ''openai.LengthFinishReasonError''
                   \<or> is_foreign_instance e ''openai.ContentFilterFinishReasonError''
                then raise_app LLMResponseValidationError
                       ''The language model stopped before producing a valid response.''
                       [(''operation'', jstr operation), (''reason'', jstr (exc_type_name e))]
                else if is_foreign_instance e ''openai.APIError'' then map_openai_error oc e
                else e), c1))"

text \<open>\<^verbatim>\<open>_parse\<close>: one call, and one more asking for a repair if the first response is unusable.\<close>

definition parse ::
  "'c openai_client \<Rightarrow> pydantic \<Rightarrow> openai_provider \<Rightarrow> chat_message list \<Rightarrow> schema \<Rightarrow> string \<Rightarrow> 'c \<Rightarrow>
     (json \<times> token_usage option) result \<times> 'c" where
  "parse oc pyd op messages response_format operation c =
     (case complete oc op messages response_format operation c of
        (Inl e, c1) \<Rightarrow> (Inl e, c1)
      | (Inr first, c1) \<Rightarrow>
          (case parsed_model pyd first response_format of
             Some parsed \<Rightarrow> (Inr (parsed, cp_usage first), c1)
           | None \<Rightarrow>
               (case complete oc op
                  (messages @ [(AssistantRole, assistant_text first),
                               (UserRole, codes repair_user_message)])
                  response_format operation c1 of
                  (Inl e, c2) \<Rightarrow> (Inl e, c2)
                | (Inr repaired, c2) \<Rightarrow>
                    (case parsed_model pyd repaired response_format of
                       Some parsed \<Rightarrow> (Inr (parsed, cp_usage repaired), c2)
                     | None \<Rightarrow>
                         (Inl (raise_app LLMResponseValidationError
                            (''The language model returned a response that failed schema validation '' @
                             ''after one repair attempt.'')
                            [(''operation'', jstr operation), (''model'', jstr (op_model op))]), c2)))))"

definition openai_classify ::
  "'c openai_client \<Rightarrow> pydantic \<Rightarrow> openai_provider \<Rightarrow> unicode \<Rightarrow> 'c \<Rightarrow>
     classification_output result \<times> 'c" where
  "openai_classify oc pyd op text c =
     (case parse oc pyd op (classification_messages text) DocumentClassification ''classify'' c of
        (Inl e, c1) \<Rightarrow> (Inl e, c1)
      | (Inr (parsed, usage), c1) \<Rightarrow>
          (case json_get ''document_type'' parsed of
             Some (JStr s) \<Rightarrow>
               (case document_type_of_value (map char_of s) of
                  None \<Rightarrow> (Inl validation_error, c1)
                | Some t \<Rightarrow>
                    (Inr \<lparr>co_document_type = t, co_input_tokens = usage_input usage,
                          co_output_tokens = usage_output usage,
                          co_confidence_score =
                            (case json_get ''confidence_score'' parsed of
                               None \<Rightarrow> None
                             | Some v \<Rightarrow> json_float v)\<rparr>, c1))
           | _ \<Rightarrow> (Inl validation_error, c1)))"

definition openai_extract ::
  "'c openai_client \<Rightarrow> pydantic \<Rightarrow> openai_provider \<Rightarrow> unicode \<Rightarrow> document_type \<Rightarrow> 'c \<Rightarrow>
     extraction_output result \<times> 'c" where
  "openai_extract oc pyd op text t c =
     (case parse oc pyd op (extraction_messages text t) (SCHEMA_REGISTRY t) ''extract'' c of
        (Inl e, c1) \<Rightarrow> (Inl e, c1)
      | (Inr (payload, usage), c1) \<Rightarrow>
          (Inr \<lparr>eo_document_type = t, eo_data = payload, eo_model_provider = ''openai'',
                eo_model_name = op_model op, eo_prompt_version = PROMPT_VERSION,
                eo_input_tokens = usage_input usage, eo_output_tokens = usage_output usage,
                eo_confidence_score =
                  (case json_get ''confidence_score'' payload of
                     None \<Rightarrow> None
                   | Some v \<Rightarrow> json_float v)\<rparr>, c1))"

definition openai_llm :: "'c openai_client \<Rightarrow> pydantic \<Rightarrow> openai_provider \<Rightarrow> 'c provider" where
  "openai_llm oc pyd op =
     \<lparr>lp_classify = openai_classify oc pyd op, lp_extract = openai_extract oc pyd op,
      lp_aclose = oc_close oc\<rparr>"

section \<open>Choosing the provider (factory.py)\<close>

datatype provider_choice = UseFake | UseOpenAI openai_provider

definition build_provider :: "settings \<Rightarrow> provider_choice result" where
  "build_provider s =
     (case llm_provider s of
        FAKE \<Rightarrow> Inr UseFake
      | OPENAI \<Rightarrow>
          if openai_api_key s = None \<or> openai_api_key s = Some [] then
            Inl (raise_app LLMConfigurationError
              (''LLM_PROVIDER is '' @ py_quote ''openai'' @ '' but OPENAI_API_KEY is not set. '' @
               ''Set the key, or set LLM_PROVIDER=fake to run without one.'')
              [(''provider'', jstr (llm_provider_value (llm_provider s)))])
          else
            (case new_openai_provider s of
               Inl e \<Rightarrow> Inl e
             | Inr op \<Rightarrow> Inr (UseOpenAI op)))"

end
