(* ===== verification/Processor.thy ===== *)
theory Processor
  imports Protocol Retry_Policy Queue Storage Text_Extraction Llm
begin

text \<open>
  \<^verbatim>\<open>app/worker/processor.py\<close>: one delivered event from claim to outcome. The state is the world; the
  record holds the collaborators the constructor takes.

  \<open>pr_expired_read\<close> stands for SQLAlchemy's behaviour when an attribute of an instance expired by a
  rollback is read outside a greenlet: \<open>None\<close> if the read succeeds, otherwise the exception it raises
  (\<^verbatim>\<open>MissingGreenlet\<close> with the asyncio extension).
\<close>

datatype processing_outcome =
  OutCompleted | OutSkipped | OutRetryScheduled | OutFailed | OutDeadLettered

fun outcome_value :: "processing_outcome \<Rightarrow> string" where
  "outcome_value OutCompleted = ''completed''"
| "outcome_value OutSkipped = ''skipped''"
| "outcome_value OutRetryScheduled = ''retry_scheduled''"
| "outcome_value OutFailed = ''failed''"
| "outcome_value OutDeadLettered = ''dead_lettered''"

record ('r, 'p, 'f) processor =
  pr_storage :: "('r, 'p, 'f) file_storage"
  pr_redis :: "'r redis_api"
  pr_codec :: event_codec
  pr_queue :: redis_queue
  pr_provider :: "'p provider"
  pr_parsers :: parsers
  pr_settings :: settings
  pr_consumer_name :: string
  pr_expired_read :: "exc option"

definition INTEGRITY_ERROR :: string where
  "INTEGRITY_ERROR = ''sqlalchemy.exc.IntegrityError''"

definition no_document :: exc where
  "no_document =
     OtherExc [''builtins.AttributeError'', ''builtins.Exception'']
              (py_quote ''NoneType'' @ '' object has no attribute '' @ py_quote ''stored_filename'')"

section \<open>Persisting a result\<close>

definition new_result ::
  "uuid \<Rightarrow> time \<Rightarrow> uuid \<Rightarrow> extraction_output \<Rightarrow> unicode \<Rightarrow> extraction_result" where
  "new_result rid now jid output stored_text =
     \<lparr>res_id = rid, res_job_id = jid, res_detected_document_type = eo_document_type output,
      res_extracted_data = eo_data output, res_raw_text = Some stored_text,
      res_model_provider = eo_model_provider output, res_model_name = eo_model_name output,
      res_prompt_version = eo_prompt_version output, res_input_tokens = eo_input_tokens output,
      res_output_tokens = eo_output_tokens output,
      res_confidence_score = eo_confidence_score output, res_created_at = now\<rparr>"

definition persist ::
  "('r, 'p, 'f) processor \<Rightarrow> extraction_output \<Rightarrow> unicode \<Rightarrow> session \<Rightarrow> ('r, 'p, 'f) world \<Rightarrow>
     unit result \<times> session \<times> ('r, 'p, 'f) world" where
  "persist p output raw_text s w =
     (let stored_text = fst (Text_Extraction.truncate raw_text (raw_text_store_max_chars (pr_settings p)))
      in (case uuid4 w of (rid, w1) \<Rightarrow>
          case utcnow w1 of (now, w2) \<Rightarrow>
            let s1 = session_add (new_result rid now (job_id (sess_job s)) output stored_text) s
            in (case mark_completed False s1 w2 of
                  (Inl e, s2, w3) \<Rightarrow> (Inl e, s2, w3)
                | (Inr _, s2, w3) \<Rightarrow>
                    (case session_commit s2 w3 of
                       (Inr _, s3, w4) \<Rightarrow> (Inr (), s3, w4)
                     | (Inl e, s3, w4) \<Rightarrow>
                         if is_foreign_instance e INTEGRITY_ERROR then
                           (case session_rollback s3 w4 of
                              (Inl e', s4, w5) \<Rightarrow> (Inl e', s4, w5)
                            | (Inr _, s4, w5) \<Rightarrow>
                                (case pr_expired_read p of
                                   None \<Rightarrow> (Inr (), s4, w5)
                                 | Some e' \<Rightarrow> (Inl e', s4, w5)))
                         else (Inl e, s3, w4)))))"

section \<open>Extraction\<close>

definition resolve_type ::
  "('r, 'p, 'f) processor \<Rightarrow> event \<Rightarrow> unicode \<Rightarrow> ('r, 'p, 'f) world \<Rightarrow>
     document_type result \<times> ('r, 'p, 'f) world" where
  "resolve_type p e text w =
     (case ev_requested_document_type e of
        Some t \<Rightarrow> (Inr t, w)
      | None \<Rightarrow>
          let sample = fst (Text_Extraction.truncate text (classification_max_chars (pr_settings p)))
          in (case provider_call (lp_classify (pr_provider p) sample) w of
                (Inl e, w1) \<Rightarrow> (Inl e, w1)
              | (Inr c, w1) \<Rightarrow> (Inr (co_document_type c), w1)))"

text \<open>Everything before the result is stored: the type-specific output and the full text.\<close>

definition produce ::
  "('r, 'p, 'f) processor \<Rightarrow> session \<Rightarrow> event \<Rightarrow> ('r, 'p, 'f) world \<Rightarrow>
     (extraction_output \<times> unicode) result \<times> ('r, 'p, 'f) world" where
  "produce p s e w =
     (case st_read (pr_storage p) (ev_storage_path e) w of
        (Inl x, w1) \<Rightarrow> (Inl x, w1)
      | (Inr data, w1) \<Rightarrow>
          (case sess_document s of
             None \<Rightarrow> (Inl no_document, w1)
           | Some doc \<Rightarrow>
               (case extract_text (pr_parsers p) data
                  (suffix_of (last_part (path_parts (CHR ''/'') (CHR ''.'') (doc_stored_filename doc)))) of
                  Inl x \<Rightarrow> (Inl x, w1)
                | Inr text \<Rightarrow>
                    let model_input = fst (Text_Extraction.truncate text (llm_max_input_chars (pr_settings p)))
                    in (case resolve_type p e model_input w1 of
                          (Inl x, w2) \<Rightarrow> (Inl x, w2)
                        | (Inr t, w2) \<Rightarrow>
                            (case provider_call (lp_extract (pr_provider p) model_input t) w2 of
                               (Inl x, w3) \<Rightarrow> (Inl x, w3)
                             | (Inr output, w3) \<Rightarrow> (Inr (output, text), w3))))))"

definition run ::
  "('r, 'p, 'f) processor \<Rightarrow> session \<Rightarrow> event \<Rightarrow> ('r, 'p, 'f) world \<Rightarrow>
     processing_outcome result \<times> session \<times> ('r, 'p, 'f) world" where
  "run p s e w =
     (case produce p s e w of
        (Inl x, w1) \<Rightarrow> (Inl x, s, w1)
      | (Inr (output, text), w1) \<Rightarrow>
          (case persist p output text s w1 of
             (Inl x, s2, w2) \<Rightarrow> (Inl x, s2, w2)
           | (Inr _, s2, w2) \<Rightarrow> (Inr OutCompleted, s2, w2)))"

section \<open>Failures\<close>

definition fail_job ::
  "string \<Rightarrow> session \<Rightarrow> ('r, 'p, 'f) world \<Rightarrow> processing_outcome result \<times> ('r, 'p, 'f) world" where
  "fail_job message s w =
     (case mark_failed message True s w of
        (Inl x, s1, w1) \<Rightarrow> (Inl x, w1)
      | (Inr _, s1, w1) \<Rightarrow> (Inr OutFailed, w1))"

definition handle_failure ::
  "('r, 'p, 'f) processor \<Rightarrow> session \<Rightarrow> event \<Rightarrow> exc \<Rightarrow> ('r, 'p, 'f) world \<Rightarrow>
     processing_outcome result \<times> ('r, 'p, 'f) world" where
  "handle_failure p s e error w =
     (case session_rollback s w of
        (Inl x, s1, w1) \<Rightarrow> (Inl x, w1)
      | (Inr _, s1, w1) \<Rightarrow>
          (case session_refresh s1 w1 of
             (Inl x, s2, w2) \<Rightarrow> (Inl x, w2)
           | (Inr _, s2, w2) \<Rightarrow>
               let job = sess_job s2; message = describe error
               in if should_retry error (job_retry_count job) (job_max_retries job) then
                    (case random01 w2 of (u, w3) \<Rightarrow>
                       (case compute_delay (job_retry_count job) (pr_settings p) u of
                          Inl x \<Rightarrow> (Inl x, w3)
                        | Inr delay \<Rightarrow>
                            (case next_attempt e w3 of (e', w4) \<Rightarrow>
                               (case schedule_retry (pr_redis p) (pr_codec p) (pr_queue p) e' delay w4 of
                                  (Inl x, w5) \<Rightarrow>
                                    if is_app_instance x QueueError
                                    then fail_job (message @ '' (retry could not be scheduled)'') s2 w5
                                    else (Inl x, w5)
                                | (Inr _, w5) \<Rightarrow>
                                    (case mark_retrying message True s2 w5 of
                                       (Inl x, s3, w6) \<Rightarrow> (Inl x, w6)
                                     | (Inr _, s3, w6) \<Rightarrow> (Inr OutRetryScheduled, w6))))))
                  else fail_job message s2 w2))"

section \<open>One event\<close>

definition redelivered_message :: "int \<Rightarrow> string" where
  "redelivered_message n =
     ''Message redelivered '' @ show_int n @ '' times without completing; failed permanently.''"

definition process ::
  "('r, 'p, 'f) processor \<Rightarrow> delivered_event \<Rightarrow> ('r, 'p, 'f) world \<Rightarrow>
     processing_outcome result \<times> ('r, 'p, 'f) world" where
  "process p delivered w =
     (let e = de_event delivered
      in (case claim_job (ev_job_id e) (pr_consumer_name p) (stale_processing_seconds (pr_settings p)) w of
            (Inl x, w1) \<Rightarrow> (Inl x, w1)
          | (Inr None, w1) \<Rightarrow> (Inr OutSkipped, w1)
          | (Inr (Some s), w1) \<Rightarrow>
              if max_delivery_count (pr_settings p) < de_delivery_count delivered then
                (case mark_failed (redelivered_message (de_delivery_count delivered)) True s w1 of
                   (Inl x, s2, w2) \<Rightarrow> (Inl x, w2)
                 | (Inr _, s2, w2) \<Rightarrow> (Inr OutDeadLettered, w2))
              else
                (case run p s e w1 of
                   (Inr outcome, s2, w2) \<Rightarrow> (Inr outcome, w2)
                 | (Inl error, s2, w2) \<Rightarrow> handle_failure p s2 e error w2)))"

section \<open>What the steps leave alone\<close>

text \<open>Everything but the database of a world, as far as the database can tell.\<close>

definition same_db :: "('r, 'p, 'f) world \<Rightarrow> ('r, 'p, 'f) world \<Rightarrow> bool" where
  "same_db w w' \<longleftrightarrow> w_db w' = w_db w \<and> w_others w' = w_others w \<and> w_faults w' = w_faults w \<and> w_uuid w' = w_uuid w"

lemma same_db_refl [simp]: "same_db w w"
  by (simp add: same_db_def)

lemma same_db_trans: "same_db u v \<Longrightarrow> same_db v w \<Longrightarrow> same_db u w"
  by (simp add: same_db_def)

lemma same_db_steps [intro]:
  "utcnow w = (t, w') \<Longrightarrow> same_db w w'"
  "uuid4 w = (i, w') \<Longrightarrow> same_db w w'"
  "random01 w = (x, w') \<Longrightarrow> same_db w w'"
  "provider_call f w = (y, w') \<Longrightarrow> same_db w w'"
  "next_attempt e w = (e', w') \<Longrightarrow> same_db w w'"
  "redis_only w w' \<Longrightarrow> same_db w w'"
  by (auto simp: same_db_def same_outside_def redis_only_def random01_def provider_call_def
      dest!: utcnow_frame uuid4_frame next_attempt_frame split: list.splits prod.splits)

end
