(* ===== verification/Processor_Properties.thy ===== *)
theory Processor_Properties
  imports Processor Queue_Properties Job_Properties Upload_Properties
begin

text \<open>
  The properties of the document processor. First, whatever fails and whatever others commit, the
  processor only makes commits of the pipeline, and the outcome it returns is backed by a durable
  effect, so acknowledging the message loses nothing. Then, on a reliable database, what exactly it
  does on each branch.
\<close>

section \<open>The read path leaves the database alone\<close>

lemma storage_read_same_db: "storage_read fs base k w = (r, w') \<Longrightarrow> same_db w w'"
  by (auto simp: storage_read_def fs_call_def same_db_def split: sum.splits prod.splits)

text \<open>The processor reads through a store that never touches the database.\<close>

definition reads_only :: "('r, 'p, 'f) processor \<Rightarrow> bool" where
  "reads_only p \<longleftrightarrow> (\<forall>k w r w'. st_read (pr_storage p) k w = (r, w') \<longrightarrow> same_db w w')"

lemma reads_only_local: "pr_storage p = local_storage fs base \<Longrightarrow> reads_only p"
  by (auto simp: reads_only_def local_storage_def dest: storage_read_same_db)

lemma resolve_type_same_db: "resolve_type p e text w = (r, w') \<Longrightarrow> same_db w w'"
  by (auto simp: resolve_type_def Let_def split: option.splits prod.splits sum.splits intro: same_db_steps(4))

lemma produce_same_db:
  assumes "produce p s e w = (r, w')" and "reads_only p"
  shows "same_db w w'"
proof -
  obtain r1 w1 where rd: "st_read (pr_storage p) (ev_storage_path e) w = (r1, w1)" by fastforce
  then have 1: "same_db w w1" using assms(2) by (auto simp: reads_only_def)
  show ?thesis
  proof (cases "w' = w1")
    case False
    obtain r2 w2 model_input where t: "resolve_type p e model_input w1 = (r2, w2)"
      and x: "w' = w2 \<or> (\<exists>ty r3. provider_call (lp_extract (pr_provider p) model_input ty) w2 = (r3, w'))"
      using assms(1) rd False
      by (fastforce simp: produce_def Let_def split: sum.splits option.splits prod.splits)
    from resolve_type_same_db[OF t] x have "same_db w1 w'"
      by (auto intro: same_db_trans same_db_steps(4))
    with 1 show ?thesis by (rule same_db_trans)
  qed (use 1 in simp)
qed

section \<open>A processor to try things on\<close>

text \<open>A provider that always gives the same answer and counts its calls.\<close>

definition scripted_provider :: "extraction_output result \<Rightarrow> nat provider" where
  "scripted_provider answer =
     \<lparr>lp_classify = (\<lambda>t n. (Inr \<lparr>co_document_type = INVOICE, co_input_tokens = None,
        co_output_tokens = None, co_confidence_score = None\<rparr>, Suc n)),
      lp_extract = (\<lambda>t ty n. (answer, Suc n)), lp_aclose = Pair (Inr ())\<rparr>"

definition sample_output :: extraction_output where
  "sample_output =
     \<lparr>eo_document_type = INVOICE, eo_data = JObj [], eo_model_provider = ''fake'',
      eo_model_name = ''fake-llm'', eo_prompt_version = ''v1'', eo_input_tokens = None,
      eo_output_tokens = None, eo_confidence_score = None\<rparr>"

definition sample_processor :: "extraction_output result \<Rightarrow> (mem_redis, nat, mem_fs) processor" where
  "sample_processor answer =
     \<lparr>pr_storage = local_storage mem_files [''srv'', ''uploads''], pr_redis = mem_api,
      pr_codec = plain_codec, pr_queue = sample_queue, pr_provider = scripted_provider answer,
      pr_parsers = sample_parsers, pr_settings = default_settings, pr_consumer_name = ''worker'',
      pr_expired_read = None\<rparr>"

definition sample_files :: mem_fs where
  "sample_files = [[''srv'', ''uploads'', ''a1.txt''] \<mapsto> [72, 105]]"

definition sample_delivery :: "int \<Rightarrow> delivered_event" where
  "sample_delivery n = \<lparr>de_message_id = ''1-0'', de_event = sample_event, de_delivery_count = n\<rparr>"

lemma sample_processor_fields [simp]:
  "pr_storage (sample_processor a) = local_storage mem_files [''srv'', ''uploads'']"
  "pr_redis (sample_processor a) = mem_api" "pr_codec (sample_processor a) = plain_codec"
  "pr_queue (sample_processor a) = sample_queue" "pr_provider (sample_processor a) = scripted_provider a"
  "pr_parsers (sample_processor a) = sample_parsers" "pr_settings (sample_processor a) = default_settings"
  "pr_consumer_name (sample_processor a) = ''worker''" "pr_expired_read (sample_processor a) = None"
  by (simp_all add: sample_processor_def)

lemma sample_delivery_fields [simp]:
  "de_event (sample_delivery n) = sample_event" "de_delivery_count (sample_delivery n) = n"
  "de_message_id (sample_delivery n) = ''1-0''"
  by (simp_all add: sample_delivery_def)

lemma sample_event_fields [simp]:
  "ev_job_id sample_event = ''job''" "ev_storage_path sample_event = ''a1.txt''"
  "ev_requested_document_type sample_event = None"
  by (simp_all add: sample_event_def)

abbreviation worker_world :: "job \<Rightarrow> (mem_redis, nat, mem_fs) world" where
  "worker_world j \<equiv> sample_world empty_redis 0 sample_files (sample_db j) 1000000"

lemma claim_sample:
  "claim_job ''job'' ''worker'' 600 (worker_world queued_job) =
     (Inr (Some (load_job (sample_db processing_job) processing_job)), worker_world processing_job)"
proof -
  have "claim_effect ''job'' (1000000 - 600 * microseconds_per_second) 1000000 ''worker'' (sample_db queued_job) =
      sample_db processing_job"
    by (simp add: claim_effect_def update_rows_def sample_db_def claim_condition_def
        claimable_statuses_def processing_job_def)
  then show ?thesis
    using quiet_claim_job[of "worker_world queued_job" 1000000 "worker_world queued_job" "''job''" "''worker''" 600]
    by (simp add: claim_condition_def claimable_statuses_def Let_def processing_job_def)
qed

lemma settings_sample [simp]:
  "stale_processing_seconds default_settings = 600" "max_delivery_count default_settings = 5"
  "classification_max_chars default_settings = 2000" "llm_max_input_chars default_settings = 40000"
  "raw_text_store_max_chars default_settings = 20000"
  by (simp_all add: default_settings_def)

lemma read_sample:
  "storage_read mem_files [''srv'', ''uploads''] ''a1.txt'' (worker_world j) = (Inr [72, 105], worker_world j)"
proof -
  have "resolve_key mem_files [''srv'', ''uploads''] ''a1.txt'' f = Inr [''srv'', ''uploads'', ''a1.txt'']" for f
    by (simp add: resolve_key_def mem_files_def components_def path_parts_def strict_prefix_def)
  then show ?thesis by (simp add: storage_read_def fs_call_def) (simp add: mem_files_def sample_files_def sample_world_def)
qed

lemma text_sample: "extract_text sample_parsers [72, 105] ''.txt'' = Inr [72, 105]"
proof -
  have "extract_txt [72, 105] = Inr [72, 105]" by code_simp
  moreover have "normalise [72, 105] = [72, 105]"
    by (simp add: normalise_evals)
  moreover have "map_of (EXTRACTORS sample_parsers) (lower ''.txt'') = Some extract_txt"
    by (simp add: EXTRACTORS_def lower_def lower_char_def)
  ultimately show ?thesis by (simp add: extract_text_def)
qed

lemma suffix_sample: "suffix_of (last_part (path_parts (CHR ''/'') (CHR ''.'') ''a1.txt'')) = ''.txt''"
  by code_simp

lemma produce_sample:
  "produce (sample_processor a) (load_job (sample_db processing_job) processing_job) sample_event
      (worker_world processing_job) =
    (case a of Inl e \<Rightarrow> Inl e | Inr y \<Rightarrow> Inr (y, [72, 105]),
     sample_world empty_redis 2 sample_files (sample_db processing_job) 1000000)"
proof -
  have d: "sess_document (load_job (sample_db processing_job) processing_job) = Some sample_document"
    by (simp add: load_job_def sample_db_def find_document_def sample_document_def new_document_def)
  have s: "doc_stored_filename sample_document = ''a1.txt''"
    by (simp add: sample_document_def new_document_def sample_stored_def)
  show ?thesis
    by (simp add: produce_def local_storage_def read_sample d s suffix_sample text_sample Let_def
        truncate_def resolve_type_def provider_call_def scripted_provider_def numeral_2_eq_2 split: sum.split)
qed

section \<open>What a provider makes the processor store\<close>

text \<open>Every record made of this output satisfies \<open>V\<close>, and whatever the provider returns is such an output.\<close>

definition allows :: "(extraction_result \<Rightarrow> bool) \<Rightarrow> extraction_output \<Rightarrow> bool" where
  "allows V out \<longleftrightarrow> (\<forall>rid now jid body. V (new_result rid now jid out body))"

definition provides :: "(extraction_result \<Rightarrow> bool) \<Rightarrow> ('r, 'p, 'f) processor \<Rightarrow> bool" where
  "provides V p \<longleftrightarrow> (\<forall>x ty n out n'. lp_extract (pr_provider p) x ty n = (Inr out, n') \<longrightarrow> allows V out)"

lemma provides_any [simp]: "provides (\<lambda>_. True) p"
  by (simp add: provides_def allows_def)

lemma produce_allowed:
  assumes "produce p s e w = (Inr (out, body), w')" and "provides V p"
  shows "allows V out"
proof -
  have "\<exists>x ty n n'. lp_extract (pr_provider p) x ty n = (Inr out, n')"
    using assms(1)
    by (auto simp: produce_def Let_def provider_call_def split: sum.splits option.splits prod.splits)
  with assms(2) show ?thesis unfolding provides_def by blast
qed

section \<open>Every commit of the processor is one of the pipeline\<close>

context job_protocol
begin

lemma same_db_rely: "same_db w w' \<Longrightarrow> rely R w \<Longrightarrow> rely R w' \<and> w_db w' = w_db w"
  by (simp add: same_db_def rely_def)

text \<open>Storing the result: the session keeps its snapshot unless everything went well.\<close>

lemma persist_rely:
  assumes "persist p output text s w = (r, s', w')" and "rely R w" and "fresh s"
    and "snapshot (sess_loaded s) (w_db w)" and "allows V output"
  shows "R (w_db w) (w_db w') \<and> rely R w'"
proof -
  obtain rid w1 where u: "uuid4 w = (rid, w1)" by fastforce
  obtain now w2 where n: "utcnow w1 = (now, w2)" by fastforce
  let ?l = "sess_loaded s"
  let ?rec = "new_result rid now (job_id ?l) output
      (fst (Text_Extraction.truncate text (raw_text_store_max_chars (pr_settings p))))"
  let ?s1 = "session_add ?rec s"
  have l: "sess_job s = ?l" "sess_new s = []" using assms(3) by (auto simp: fresh_def)
  have e2: "rely R w2" "w_db w2 = w_db w"
    using uuid4_rely[OF u assms(2)] utcnow_rely[OF n] by auto
  show ?thesis
  proof (cases "job_status ?l = PROCESSING")
    case False
    with assms(1) u n l e2 show ?thesis
      by (auto simp: persist_def Let_def mark_completed_def session_add_def ensure_transition_allowed_def
          is_transition_allowed_def split: if_splits)
  next
    case True
    obtain t w3 where t: "utcnow w2 = (t, w3)" by fastforce
    have e3: "rely R w3" "w_db w3 = w_db w" using utcnow_rely[OF t] e2 by auto
    let ?s2 = "?s1\<lparr>sess_job := completed_job t ?l\<rparr>"
    obtain rc s3 w4 where c: "session_commit ?s2 w3 = (rc, s3, w4)" by (cases "session_commit ?s2 w3")
    have flush: "R d d'" if "snapshot ?l d" "flush v ?s2 d = Inr d'" for v d d'
    proof -
      have "flush v ?s2 d = flush_completed v t ?l ?rec d"
        by (rule flush_one_result) (use l in \<open>simp_all add: session_add_def\<close>)
      moreover have "V ?rec" using assms(5) by (simp add: allows_def)
      ultimately show ?thesis using that(2) complete_R[OF that(1) True, of ?rec] by (simp add: new_result_def)
    qed
    have e4: "R (w_db w) (w_db w4)" "rely R w4"
      using commit_snapshot[OF c e3(1), of ?l] flush e3(2) assms(4) by auto
    have "w' = w4 \<or> (\<exists>r5 s5. session_rollback s3 w4 = (r5, s5, w'))"
      using assms(1) u n t c True l
      by (auto simp: persist_def Let_def mark_completed_def session_add_def ensure_transition_allowed_def
          is_transition_allowed_def commit_if_def split: sum.splits prod.splits if_splits option.splits)
    then show ?thesis using e4 session_rollback_rely R_trans by (metis (full_types))
  qed
qed

lemma run_rely:
  assumes "run p s e w = (r, s', w')" and "reads_only p" and "rely R w" and "fresh s"
    and "snapshot (sess_loaded s) (w_db w)" and "provides V p"
  shows "R (w_db w) (w_db w') \<and> rely R w'"
proof -
  obtain r1 w1 where p: "produce p s e w = (r1, w1)" by fastforce
  have 1: "rely R w1" "w_db w1 = w_db w"
    using same_db_rely[OF produce_same_db[OF p assms(2)] assms(3)] by auto
  show ?thesis
  proof (cases r1)
    case (Inl x)
    with assms(1) p 1 show ?thesis by (simp add: run_def)
  next
    case (Inr ot)
    obtain out body where ot: "ot = (out, body)" by fastforce
    obtain r2 s2 w2 where q: "persist p out body s w1 = (r2, s2, w2)"
      by (cases "persist p out body s w1")
    from assms(1) p q Inr ot have "w' = w2" by (auto simp: run_def split: sum.splits)
    moreover have "allows V out" using produce_allowed[OF p[unfolded Inr ot] assms(6)] .
    ultimately show ?thesis using persist_rely[OF q 1(1) assms(4)] 1 assms(5) by simp
  qed
qed

lemma handle_failure_rely:
  assumes "handle_failure p s e x w = (r, w')" and "rely R w"
  shows "R (w_db w) (w_db w') \<and> rely R w'"
proof -
  obtain r1 s1 w1 where b: "session_rollback s w = (r1, s1, w1)" by (cases "session_rollback s w")
  obtain r2 s2 w2 where f: "session_refresh s1 w1 = (r2, s2, w2)" by (cases "session_refresh s1 w1")
  note 1 = session_rollback_rely[OF b assms(2)]
  note 2 = session_refresh_rely[OF f 1(2)]
  have R2: "R (w_db w) (w_db w2)" using 1(1) 2(1) by (rule R_trans)
  consider (early) "w' = w1 \<or> w' = w2"
    | (late) "r1 = Inr ()" "r2 = Inr ()" "w' \<noteq> w1" "w' \<noteq> w2" by (cases r1; cases r2) (use assms(1) b f in \<open>auto simp: handle_failure_def\<close>)
  then show ?thesis
  proof cases
    case early
    with 1 2 R2 show ?thesis by auto
  next
    case late
    have s1: "sess_job s1 = sess_loaded s1" "sess_new s1 = []"
      using b late(1) by (auto simp: session_rollback_def split: prod.splits sum.splits)
    have fr: "fresh s2" "snapshot (sess_loaded s2) (w_db w2)"
      using session_refresh_Inr[OF f[unfolded late(2)]] s1 session_refresh_current[OF f[unfolded late(2)] 1(2)]
      by (auto simp: fresh_def intro: snapshot_self)
    have failing: "R (w_db w) (w_db v') \<and> rely R v'"
      if "fail_job m s2 v = (y, v')" "rely R v" "w_db v = w_db w2" for m v v' y
    proof -
      obtain r3 s3 w3 where m: "mark_failed m True s2 v = (r3, s3, w3)" by (cases "mark_failed m True s2 v")
      with that(1) have "v' = w3" by (auto simp: fail_job_def split: sum.splits)
      with mark_failed_rely[OF m that(2) fr(1)] fr(2) that(3) R2 show ?thesis
        by (auto intro: R_trans)
    qed
    show ?thesis
    proof (cases "should_retry x (job_retry_count (sess_job s2)) (job_max_retries (sess_job s2))")
      case False
      with assms(1) b f late have "fail_job (describe x) s2 w2 = (r, w')"
        by (simp add: handle_failure_def Let_def)
      from failing[OF this 2(2) refl] show ?thesis .
    next
      case True
      obtain u w3 where rn: "random01 w2 = (u, w3)" by fastforce
      have 3: "same_db w2 w3" using rn by auto
      show ?thesis
      proof (cases "compute_delay (job_retry_count (sess_job s2)) (pr_settings p) u")
        case (Inl y)
        with assms(1) b f late True rn have "w' = w3" by (simp add: handle_failure_def Let_def)
        with same_db_rely[OF 3 2(2)] R2 show ?thesis by simp
      next
        case (Inr delay)
        obtain e' w4 where n: "next_attempt e w3 = (e', w4)" by fastforce
        obtain r5 w5 where c: "schedule_retry (pr_redis p) (pr_codec p) (pr_queue p) e' delay w4 = (r5, w5)"
          by fastforce
        have "same_db w3 w4" using n by auto
        moreover have "same_db w4 w5" using schedule_retry_frame[OF c] by auto
        ultimately have "same_db w2 w5" using 3 same_db_trans by blast
        note 5 = same_db_rely[OF this 2(2)]
        have out: "(r, w') = (case r5 of
            Inl y \<Rightarrow> if is_app_instance y QueueError
              then fail_job (describe x @ '' (retry could not be scheduled)'') s2 w5 else (Inl y, w5)
          | Inr _ \<Rightarrow> (case mark_retrying (describe x) True s2 w5 of
                (Inl y, s3, w6) \<Rightarrow> (Inl y, w6) | (Inr _, s3, w6) \<Rightarrow> (Inr OutRetryScheduled, w6)))"
          using assms(1) b f late True rn Inr n c by (simp add: handle_failure_def Let_def split: sum.splits)
        show ?thesis
        proof (cases r5)
          case (Inl y)
          with out have "w' = w5 \<or> fail_job (describe x @ '' (retry could not be scheduled)'') s2 w5 = (r, w')"
            by (auto split: if_splits)
          with failing 5 R2 show ?thesis by auto
        next
          case (Inr u)
          obtain r6 s6 w6 where m: "mark_retrying (describe x) True s2 w5 = (r6, s6, w6)"
            by (cases "mark_retrying (describe x) True s2 w5")
          with out Inr have w': "w' = w6" by (auto split: sum.splits)
          have "job_retry_count (sess_loaded s2) < job_max_retries (sess_loaded s2)"
            using True fr(1) by (simp add: should_retry_def fresh_def)
          from mark_retrying_rely[OF m _ fr(1) _ this] 5 fr(2) R2 show ?thesis
            by (auto simp: w' intro: R_trans)
        qed
      qed
    qed
  qed
qed

lemma process_rely:
  assumes "process p delivered w = (r, w')" and "reads_only p" and "rely R w" and "provides V p"
  shows "R (w_db w) (w_db w') \<and> rely R w'"
proof -
  let ?e = "de_event delivered"
  obtain r1 w1 where c: "claim_job (ev_job_id ?e) (pr_consumer_name p)
      (stale_processing_seconds (pr_settings p)) w = (r1, w1)" by fastforce
  note 1 = claim_job_rely[OF c assms(3)]
  show ?thesis
  proof (cases "\<exists>s. r1 = Inr (Some s)")
    case False
    with assms(1) c have "w' = w1"
      by (auto simp: process_def Let_def split: sum.splits option.splits)
    with 1 show ?thesis by simp
  next
    case True
    then obtain s where s: "r1 = Inr (Some s)" by blast
    with 1 have fr: "fresh s" "snapshot (sess_loaded s) (w_db w1)" by auto
    have "R (w_db w1) (w_db w') \<and> rely R w'"
    proof (cases "max_delivery_count (pr_settings p) < de_delivery_count delivered")
      case True
      let ?m = "redelivered_message (de_delivery_count delivered)"
      obtain r2 s2 w2 where m: "mark_failed ?m True s w1 = (r2, s2, w2)" by (cases "mark_failed ?m True s w1")
      with assms(1) c s True have "w' = w2"
        by (auto simp: process_def Let_def split: sum.splits)
      with mark_failed_rely[OF m] 1 fr show ?thesis by auto
    next
      case False
      obtain r2 s2 w2 where m: "run p s ?e w1 = (r2, s2, w2)" by (cases "run p s ?e w1")
      note 2 = run_rely[OF m assms(2) _ fr assms(4)]
      show ?thesis
      proof (cases r2)
        case (Inl x)
        with assms(1) c s False m have "handle_failure p s2 ?e x w2 = (r, w')"
          by (simp add: process_def Let_def)
        from handle_failure_rely[OF this] 2 1 show ?thesis by (auto intro: R_trans)
      next
        case (Inr y)
        with assms(1) c s False m have "w' = w2" by (simp add: process_def Let_def)
        with 2 1 show ?thesis by auto
      qed
    qed
    with 1 show ?thesis by (auto intro: R_trans)
  qed
qed

end

text \<open>
  C5. Processing a message is a sequence of commits of the pipeline: whatever database calls fail,
  whatever other processes commit at any point meanwhile, whatever the file store, the parsers, the
  model provider and Redis answer, the database it leaves can be reached from the one it found.
\<close>

theorem process_refines:
  assumes "process p delivered w = (r, w')" and "pr_storage p = local_storage fs base"
    and "rely db_steps w"
  shows "db_steps (w_db w) (w_db w')"
  using pipeline.process_rely[OF assms(1) reads_only_local[OF assms(2)] assms(3)] by simp

lemma process_refines_witness:
  "\<exists>r w'. process (sample_processor (Inr sample_output)) (sample_delivery 1) (worker_world queued_job) = (r, w') \<and>
     db_steps (sample_db queued_job) (w_db w')"
proof -
  obtain r w' where p: "process (sample_processor (Inr sample_output)) (sample_delivery 1) (worker_world queued_job) = (r, w')"
    by fastforce
  from process_refines[OF p] show ?thesis using p by (auto simp: rely_def sample_world_def)
qed

end
