(* ===== verification/Processor_Outcomes.thy ===== *)
theory Processor_Outcomes
  imports Processor_Properties
begin

text \<open>
  What an outcome of the processor means for the database and the queue: the worker acknowledges the
  message on every outcome, so each one must be backed by something durable.
\<close>

section \<open>Integrity errors come from constraints\<close>

text \<open>The faults a call may be given do not pose as violated constraints.\<close>

definition faults_ok :: "('r, 'p, 'f) world \<Rightarrow> bool" where
  "faults_ok w \<longleftrightarrow> (\<forall>e. FailBefore e \<in> set (w_faults w) \<or> FailAfter e \<in> set (w_faults w) \<longrightarrow>
     \<not> is_foreign_instance e INTEGRITY_ERROR)"

lemma next_fault_ok:
  "next_fault w = (x, w') \<Longrightarrow> faults_ok w \<Longrightarrow> faults_ok w'"
  "next_fault w = (FailBefore e, w') \<Longrightarrow> faults_ok w \<Longrightarrow> \<not> is_foreign_instance e INTEGRITY_ERROR"
  "next_fault w = (FailAfter e, w') \<Longrightarrow> faults_ok w \<Longrightarrow> \<not> is_foreign_instance e INTEGRITY_ERROR"
  by (auto simp: next_fault_def faults_ok_def split: list.splits)

lemma faults_ok_interfere [simp]: "faults_ok (interfere w) = faults_ok w"
  by (simp add: interfere_def faults_ok_def split: list.split)

lemma faults_ok_db [simp]: "faults_ok (w\<lparr>w_db := d\<rparr>) = faults_ok w"
  by (simp add: faults_ok_def)

lemma faults_ok_utcnow: "utcnow w = (t, w') \<Longrightarrow> faults_ok w \<Longrightarrow> faults_ok w'"
  by (auto simp: faults_ok_def dest: utcnow_frame)

lemma faults_ok_same_db: "same_db w w' \<Longrightarrow> faults_ok w \<Longrightarrow> faults_ok w'"
  by (simp add: same_db_def faults_ok_def)

lemma faults_ok_db_read: "db_read f w = (r, w') \<Longrightarrow> faults_ok w \<Longrightarrow> faults_ok w'"
  using next_fault_ok(1)[of "interfere w"]
  by (auto simp: db_read_def split: prod.splits fault.splits)

lemma faults_ok_commit_locked: "commit_locked f w = (r, w') \<Longrightarrow> faults_ok w \<Longrightarrow> faults_ok w'"
  using next_fault_ok(1)[of w]
  by (auto simp: commit_locked_def split: prod.splits fault.splits)

lemma faults_ok_claim_job:
  assumes "claim_job jid c stale w = (r, w')" and "faults_ok w"
  shows "faults_ok w'"
proof -
  obtain now w1 where u: "utcnow w = (now, w1)" by fastforce
  let ?cut = "now - stale * microseconds_per_second"
  obtain r2 w2 where q: "db_read (claim_query jid ?cut c) w1 = (r2, w2)" by fastforce
  obtain r3 w3 where k: "commit_locked (claim_effect jid ?cut now c) w2 = (r3, w3)" by fastforce
  obtain r4 w4 where g: "get_job jid w3 = (r4, w4)" by fastforce
  obtain r5 w5 where n: "db_read (\<lambda>_. Inr ()) w2 = (r5 :: unit result, w5)" by fastforce
  have "w' = w2 \<or> w' = w3 \<or> w' = w4 \<or> w' = w5"
    using assms(1) u q k g n by (auto simp: claim_job_def Let_def split: sum.splits option.splits prod.splits)
  moreover have "faults_ok w2"
    using faults_ok_utcnow[OF u assms(2)] faults_ok_db_read[OF q] by blast
  moreover from this have "faults_ok w5" using faults_ok_db_read[OF n] by blast
  moreover from \<open>faults_ok w2\<close> have "faults_ok w3" using faults_ok_commit_locked[OF k] by blast
  moreover from this have "faults_ok w4" using g faults_ok_db_read unfolding get_job_def by blast
  ultimately show ?thesis by auto
qed

text \<open>A refused commit: a fault, or the error the flush raised on the database it found.\<close>

lemma db_write_Inl:
  assumes "db_write f w = (Inl e, w')" and "faults_ok w" and "is_foreign_instance e INTEGRITY_ERROR"
  shows "f (w_db w') = Inl e"
proof -
  obtain x v where v: "next_fault (interfere w) = (x, v)" by fastforce
  have "faults_ok (interfere w)" using assms(2) by simp
  note n = next_fault_ok[OF _ this] v
  show ?thesis using assms(1,3) n by (auto simp: db_write_def split: fault.splits sum.splits)
qed

lemma flush_integrity:
  assumes "flush t s d = Inl e" and "is_foreign_instance e INTEGRITY_ERROR" and "sess_new s = [r]"
    and "sess_job s \<noteq> sess_loaded s" and "res_job_id r = job_id (sess_loaded s)"
    and "same_keys (sess_loaded s) (sess_job s)"
  shows "res_job_id r \<in> res_job_id ` set (db_results d) \<or> res_id r \<in> res_id ` set (db_results d)"
proof -
  from assms(1-3) obtain d1 where f: "flush_job t (sess_loaded s) (sess_job s) d = Inr d1"
    and i: "insert_result r d1 = Inl e"
    by (auto simp: flush_def flush_job_same_keys[OF assms(6)] stale_data_error_def data_error_def INTEGRITY_ERROR_def
        split: sum.splits if_splits)
  have d1: "db_results d1 = db_results d" and row: "find_job (job_id (sess_loaded s)) d1 \<noteq> None"
    using f assms(4) find_job_flush[OF f, of "job_id (sess_loaded s)"]
    by (auto simp: flush_job_same_keys[OF assms(6)] split: if_splits)
  from row obtain j where "find_job (job_id (sess_loaded s)) d1 = Some j" by blast
  from find_job_Some[OF this] have "job_id (sess_loaded s) \<in> job_id ` set (db_jobs d1)" by (metis imageI)
  with i d1 assms(5) show ?thesis
    using assms(2) by (auto simp: insert_result_def data_error_def INTEGRITY_ERROR_def split: if_splits)
qed

section \<open>What a successful call leaves behind\<close>

lemma session_commit_Inr:
  assumes "session_commit s w = (Inr u, s', w')" and "rely db_steps w"
  obtains t d where "db_steps (w_db w) d" and "flush t s d = Inr (w_db w')"
  using pipeline.session_commit_rely[OF assms] by (metis (full_types) unit.exhaust)

lemma flush_fresh_status:
  assumes "flush_job t l c d = Inr d'" and "job_status c \<noteq> job_status l"
  shows "\<exists>j. find_job (job_id l) d' = Some j \<and> job_status j = job_status c"
proof -
  have "c \<noteq> l" using assms(2) by blast
  moreover from this assms(1) obtain r where "find_job (job_id l) d = Some r"
    by (auto simp: flush_job_def split: if_splits)
  ultimately show ?thesis
    using find_job_Some[of "job_id l" d r] assms(2) by (simp add: find_job_flush[OF assms(1)] pick_def)
qed

lemma mark_failed_Inr:
  assumes "mark_failed m True s w = (Inr u, s', w')" and "rely db_steps w" and "fresh s"
  shows "\<exists>j. find_job (job_id (sess_loaded s)) (w_db w') = Some j \<and> job_status j = FAILED"
proof -
  obtain now w1 where u: "utcnow w = (now, w1)" by fastforce
  have act: "is_active (job_status (sess_loaded s))"
    and c: "session_commit (s\<lparr>sess_job := failed_job now m (sess_job s)\<rparr>) w1 = (Inr u, s', w')"
    using assms(1,3) u
    by (auto simp: mark_failed_def fresh_def commit_if_def ensure_transition_allowed_def
        is_transition_allowed_def split: if_splits)
  from pipeline.utcnow_rely[OF u assms(2)] have "rely db_steps w1" by simp
  from session_commit_Inr[OF c this] obtain t d where
    "flush t (s\<lparr>sess_job := failed_job now m (sess_job s)\<rparr>) d = Inr (w_db w')" by blast
  then have "flush_job t (sess_loaded s) (failed_job now m (sess_job s)) d = Inr (w_db w')"
    using assms(3) by (simp add: fresh_def)
  moreover have "job_status (sess_loaded s) \<noteq> FAILED" using act by (auto simp: is_active_def status_sets)
  ultimately show ?thesis using flush_fresh_status by fastforce
qed

lemma mark_retrying_Inr:
  assumes "mark_retrying m True s w = (Inr u, s', w')" and "rely db_steps w" and "fresh s"
  shows "\<exists>j. find_job (job_id (sess_loaded s)) (w_db w') = Some j \<and> job_status j = RETRYING"
proof -
  have act: "job_status (sess_loaded s) = PROCESSING"
    and c: "session_commit (s\<lparr>sess_job := retrying_job m (sess_job s)\<rparr>) w = (Inr u, s', w')"
    using assms(1,3)
    by (auto simp: mark_retrying_def fresh_def commit_if_def ensure_transition_allowed_def
        is_transition_allowed_def split: if_splits)
  from session_commit_Inr[OF c assms(2)] obtain t d where
    "flush t (s\<lparr>sess_job := retrying_job m (sess_job s)\<rparr>) d = Inr (w_db w')" by blast
  then have "flush_job t (sess_loaded s) (retrying_job m (sess_job s)) d = Inr (w_db w')"
    using assms(3) by (simp add: fresh_def)
  then show ?thesis using flush_fresh_status act by fastforce
qed

lemma find_result_mem: "i \<in> res_job_id ` set (db_results d) \<longleftrightarrow> find_result i d \<noteq> None"
  by (auto simp: find_result_def find_None_iff)

lemma find_result_steps:
  assumes "db_steps d d'"
  shows "res_job_id ` set (db_results d) \<subseteq> res_job_id ` set (db_results d')"
    and "res_id ` set (db_results d) \<subseteq> res_id ` set (db_results d')"
  using extends_steps[OF assms] by (auto simp: extends_db_def prefix_def)

text \<open>
  Storing a result succeeds: the job has a result, or the identifier drawn for it is the primary key of the
  result of another job.
\<close>

definition uuid_collision :: "uuid \<Rightarrow> uuid \<Rightarrow> db \<Rightarrow> bool" where
  "uuid_collision rid jid d \<longleftrightarrow> (\<exists>r \<in> set (db_results d). res_id r = rid \<and> res_job_id r \<noteq> jid)"

lemma result_or_collision:
  "i \<in> res_job_id ` set (db_results d) \<or> rid \<in> res_id ` set (db_results d) \<Longrightarrow>
     find_result i d \<noteq> None \<or> uuid_collision rid i d"
  unfolding uuid_collision_def find_result_mem[symmetric] by (auto simp: image_iff)

lemma persist_Inr:
  assumes "persist p out body s w = (Inr u, s', w')" and "rely db_steps w" and "fresh s" and "faults_ok w"
  shows "find_result (job_id (sess_loaded s)) (w_db w') \<noteq> None \<or>
    uuid_collision (fst (uuid4 w)) (job_id (sess_loaded s)) (w_db w')"
proof -
  obtain rid w1 where u: "uuid4 w = (rid, w1)" by fastforce
  obtain now w2 where n: "utcnow w1 = (now, w2)" by fastforce
  obtain t w3 where t: "utcnow w2 = (t, w3)" by fastforce
  let ?l = "sess_loaded s"
  let ?rec = "new_result rid now (job_id ?l) out
      (fst (Text_Extraction.truncate body (raw_text_store_max_chars (pr_settings p))))"
  let ?s2 = "(session_add ?rec s)\<lparr>sess_job := completed_job t ?l\<rparr>"
  obtain rc s3 w4 where c: "session_commit ?s2 w3 = (rc, s3, w4)" by (cases "session_commit ?s2 w3")
  have l: "sess_job s = ?l" "sess_new s = []" using assms(3) by (auto simp: fresh_def)
  have st: "job_status ?l = PROCESSING"
    using assms(1) u n l by (auto simp: persist_def Let_def mark_completed_def session_add_def
        ensure_transition_allowed_def is_transition_allowed_def split: if_splits)
  have "rely db_steps w1" using pipeline.uuid4_rely[OF u assms(2)] by simp
  then have r3: "rely db_steps w3" using pipeline.utcnow_rely[OF n] pipeline.utcnow_rely[OF t] by blast
  have new: "sess_new ?s2 = [?rec]" "sess_loaded ?s2 = ?l" "res_job_id ?rec = job_id ?l" "res_id ?rec = rid"
    by (simp_all add: session_add_def l new_result_def)
  have fl: "flush v ?s2 d = flush_completed v t ?l ?rec d" for v d
    by (rule flush_one_result) (simp_all add: session_add_def l)
  consider (stored) v where "rc = Inr v" "w' = w4"
    | (duplicate) e s4 where "rc = Inl e" "is_foreign_instance e INTEGRITY_ERROR"
        "session_rollback s3 w4 = (Inr (), s4, w')"
    using assms(1) u n t c st l
    by (auto simp: persist_def Let_def mark_completed_def session_add_def ensure_transition_allowed_def
        is_transition_allowed_def commit_if_def split: sum.splits prod.splits if_splits option.splits)
  then show ?thesis
  proof cases
    case stored
    obtain v d where "flush_completed v t ?l ?rec d = Inr (w_db w4)"
      using session_commit_Inr[OF c[unfolded stored(1)] r3] fl by metis
    then have "res_job_id ?rec \<in> res_job_id ` set (db_results (w_db w4))"
      by (auto elim!: flush_completed_cases simp: insert_result_Inr)
    with stored(2) new(3) show ?thesis by (simp add: find_result_mem)
  next
    case duplicate
    obtain v w5 where v: "utcnow w3 = (v, w5)" by fastforce
    have "faults_ok w5" using assms(4) faults_ok_same_db same_db_steps(1,2) u n t v by metis
    moreover have "db_write (flush v ?s2) w5 = (Inl e, w4)"
      using c v duplicate(1) by (auto simp: session_commit_def split: prod.splits sum.splits)
    ultimately have "flush v ?s2 (w_db w4) = Inl e" using duplicate(2) db_write_Inl by blast
    moreover have "sess_job ?s2 \<noteq> sess_loaded ?s2"
    proof -
      have "job_status (completed_job t ?l) \<noteq> job_status ?l" using st by simp
      then have "completed_job t ?l \<noteq> ?l" by metis
      then show ?thesis by (simp add: session_add_def)
    qed
    ultimately have "job_id ?l \<in> res_job_id ` set (db_results (w_db w4)) \<or> rid \<in> res_id ` set (db_results (w_db w4))"
      using flush_integrity[of v ?s2 "w_db w4" e ?rec] duplicate(2) new by (simp add: session_add_def)
    moreover have "db_steps (w_db w4) (w_db w')"
      using pipeline.session_rollback_rely[OF duplicate(3)] pipeline.session_commit_rely[OF c r3] by metis
    ultimately have "job_id ?l \<in> res_job_id ` set (db_results (w_db w')) \<or> rid \<in> res_id ` set (db_results (w_db w'))"
      using find_result_steps[of "w_db w4" "w_db w'"] by blast
    from result_or_collision[OF this] u show ?thesis by simp
  qed
qed

section \<open>Every outcome is durable\<close>

lemma claim_job_None:
  assumes "claim_job jid c stale w = (Inr None, w')" and "rely db_steps w"
  shows "\<exists>d. db_steps (w_db w) d \<and> db_steps d (w_db w') \<and>
    (\<forall>j \<in> set (db_jobs d). \<not> claim_condition jid (fst (utcnow w) - stale * microseconds_per_second) j)"
proof -
  obtain now w1 where u: "utcnow w = (now, w1)" by fastforce
  let ?f = "claim_query jid (now - stale * microseconds_per_second) c"
  obtain r2 w2 where q: "db_read ?f w1 = (r2, w2)" by fastforce
  obtain r3 w3 where n: "db_read (\<lambda>_. Inr ()) w2 = (r3 :: unit result, w3)" by fastforce
  have r2: "r2 = Inr None" "w' = w3"
    using assms(1) u q n by (auto simp: claim_job_def Let_def split: sum.splits option.splits prod.splits)
  note 1 = pipeline.utcnow_rely[OF u assms(2)]
  from 1 have "rely db_steps w1" by blast
  note 2 = pipeline.db_read_rely[OF q this]
  have "?f (w_db w2) = Inr None" using 2(3)[OF r2(1)] .
  then have "\<forall>j \<in> set (db_jobs (w_db w2)). \<not> claim_condition jid (now - stale * microseconds_per_second) j"
    by (auto simp: claim_query_def Let_def scalar_one_or_none_def filter_empty_conv split: list.splits if_splits)
  with 1 2 pipeline.db_read_rely(1)[OF n 2(2)] r2 u show ?thesis by (intro exI[of _ "w_db w2"]) auto
qed

text \<open>What a failure that was handled leaves behind.\<close>

definition has_status :: "uuid \<Rightarrow> job_status \<Rightarrow> db \<Rightarrow> bool" where
  "has_status i s d \<longleftrightarrow> (case find_job i d of None \<Rightarrow> False | Some j \<Rightarrow> job_status j = s)"

lemma has_statusI: "\<exists>j. find_job i d = Some j \<and> job_status j = s \<Longrightarrow> has_status i s d"
  by (auto simp: has_status_def)

text \<open>An event whose next attempt is parked in the retry set.\<close>

definition retry_parked ::
  "(string \<Rightarrow> 'r \<Rightarrow> string \<Rightarrow> py_float option) \<Rightarrow> ('r, 'p, 'f) processor \<Rightarrow> event \<Rightarrow> 'r \<Rightarrow> bool" where
  "retry_parked zset p e r \<longleftrightarrow>
     (\<exists>v :: ('r, 'p, 'f) world. zset (retry_key (pr_queue p)) r (ev_dump (pr_codec p) (fst (next_attempt e v))) \<noteq> None)"

lemma fail_job_Inr:
  assumes "fail_job m s w = (Inr out, w')" and "rely db_steps w" and "fresh s"
  shows "out = OutFailed \<and> has_status (job_id (sess_loaded s)) FAILED (w_db w')"
proof -
  obtain r s' w1 where m: "mark_failed m True s w = (r, s', w1)" by (cases "mark_failed m True s w")
  with assms(1) obtain u where "r = Inr u" "w' = w1" "out = OutFailed"
    by (auto simp: fail_job_def split: sum.splits)
  with mark_failed_Inr[of m s w u s' w1] m assms show ?thesis by (auto intro: has_statusI)
qed

lemma handle_failure_Inr:
  assumes "handle_failure p s e x w = (Inr out, w')" and "rely db_steps w"
    and "redis_server (pr_redis p) outstanding zset"
  shows "out = OutFailed \<and> has_status (job_id (sess_loaded s)) FAILED (w_db w') \<or>
    out = OutRetryScheduled \<and> has_status (job_id (sess_loaded s)) RETRYING (w_db w') \<and>
    retry_parked zset p e (w_redis w')"
proof -
  obtain r1 s1 w1 where b: "session_rollback s w = (r1, s1, w1)" by (cases "session_rollback s w")
  obtain r2 s2 w2 where f: "session_refresh s1 w1 = (r2, s2, w2)" by (cases "session_refresh s1 w1")
  from assms(1) b f have ok: "r1 = Inr ()" "r2 = Inr ()"
    by (auto simp: handle_failure_def split: sum.splits)
  note 1 = pipeline.session_rollback_rely[OF b assms(2)]
  note 2 = pipeline.session_refresh_rely[OF f 1(2)]
  have s1: "sess_loaded s1 = sess_loaded s" "sess_new s1 = []"
    using b ok(1) by (auto simp: session_rollback_def split: prod.splits sum.splits)
  have fr: "fresh s2" and id: "job_id (sess_loaded s2) = job_id (sess_loaded s)"
    using session_refresh_Inr[OF f[unfolded ok(2)]] s1
      find_job_Some[OF pipeline.session_refresh_current[OF f[unfolded ok(2)] 1(2)]]
    by (auto simp: fresh_def)
  let ?failed = "out = OutFailed \<and> has_status (job_id (sess_loaded s)) FAILED (w_db w')"
  show ?thesis
  proof (cases "should_retry x (job_retry_count (sess_job s2)) (job_max_retries (sess_job s2))")
    case False
    with assms(1) b f ok have "fail_job (describe x) s2 w2 = (Inr out, w')"
      by (simp add: handle_failure_def Let_def)
    from fail_job_Inr[OF this 2(2) fr] show ?thesis by (simp add: id)
  next
    case True
    obtain u w3 where rn: "random01 w2 = (u, w3)" by fastforce
    from assms(1) b f ok True rn obtain delay where d: "compute_delay (job_retry_count (sess_job s2)) (pr_settings p) u = Inr delay"
      by (auto simp: handle_failure_def Let_def split: sum.splits)
    obtain e' w4 where n: "next_attempt e w3 = (e', w4)" by fastforce
    obtain r5 w5 where c: "schedule_retry (pr_redis p) (pr_codec p) (pr_queue p) e' delay w4 = (r5, w5)"
      by fastforce
    have "same_db w2 w3" "same_db w3 w4" "same_db w4 w5" using rn n schedule_retry_frame[OF c] by auto
    then have "same_db w2 w5" using same_db_trans by blast
    with 2(2) have r5: "rely db_steps w5" by (simp add: same_db_def rely_def)
    show ?thesis
    proof (cases r5)
      case (Inl y)
      with assms(1) b f ok True rn d n c
      have "fail_job (describe x @ '' (retry could not be scheduled)'') s2 w5 = (Inr out, w')"
        by (auto simp: handle_failure_def Let_def split: if_splits)
      from fail_job_Inr[OF this r5 fr] show ?thesis by (simp add: id)
    next
      case (Inr v)
      obtain r6 s6 w6 where m: "mark_retrying (describe x) True s2 w5 = (r6, s6, w6)"
        by (cases "mark_retrying (describe x) True s2 w5")
      from assms(1) b f ok True rn d n c Inr m obtain v' where out: "r6 = Inr v'" "w' = w6" "out = OutRetryScheduled"
        by (auto simp: handle_failure_def Let_def split: sum.splits)
      have "w_redis w6 = w_redis w5" using mark_frame(2)[OF m] by (simp add: same_outside_def)
      moreover have "zset (retry_key (pr_queue p)) (w_redis w5) (ev_dump (pr_codec p) e') \<noteq> None"
        using redis_server.schedule_retry_parked[OF assms(3), of "pr_codec p" "pr_queue p" e' delay w4 w5] c Inr
        by (simp add: redis_server.parked_def[OF assms(3)])
      ultimately have "retry_parked zset p e (w_redis w')"
        unfolding retry_parked_def out(2) by (intro exI[of _ w3]) (simp add: n)
      with mark_retrying_Inr[OF m[unfolded out(1)] r5 fr] out id show ?thesis
        by (auto intro!: has_statusI)
    qed
  qed
qed

lemma commit_keeps_loaded: "session_commit s w = (Inl x, s', w') \<Longrightarrow> s' = s"
  by (auto simp: session_commit_def split: prod.splits sum.splits)

lemma rollback_keeps_loaded: "session_rollback s w = (r, s', w') \<Longrightarrow> sess_loaded s' = sess_loaded s"
  by (auto simp: session_rollback_def split: prod.splits sum.splits)

lemma persist_Inl_loaded:
  assumes "persist p out body s w = (Inl x, s', w')"
  shows "sess_loaded s' = sess_loaded s"
proof -
  obtain rid w1 where u: "uuid4 w = (rid, w1)" by fastforce
  obtain now w2 where n: "utcnow w1 = (now, w2)" by fastforce
  let ?s1 = "session_add (new_result rid now (job_id (sess_job s)) out
      (fst (Text_Extraction.truncate body (raw_text_store_max_chars (pr_settings p))))) s"
  obtain r2 s2 w3 where m: "mark_completed False ?s1 w2 = (r2, s2, w3)"
    by (cases "mark_completed False ?s1 w2")
  have s2: "sess_loaded s2 = sess_loaded s"
    using m by (auto simp: mark_completed_def commit_if_def session_add_def split: prod.splits sum.splits)
  obtain r3 s3 w4 where c: "session_commit s2 w3 = (r3, s3, w4)" by (cases "session_commit s2 w3")
  obtain r4 s4 w5 where b: "session_rollback s3 w4 = (r4, s4, w5)" by (cases "session_rollback s3 w4")
  have "s' = s2 \<or> (\<exists>e. r3 = Inl e) \<and> (s' = s3 \<or> s' = s4)"
    using assms u n m c b by (auto simp: persist_def Let_def split: sum.splits if_splits option.splits)
  with s2 c rollback_keeps_loaded[OF b] show ?thesis by (auto dest: commit_keeps_loaded)
qed

lemma run_Inl_loaded: "run p s e w = (Inl x, s', w') \<Longrightarrow> sess_loaded s' = sess_loaded s"
  by (auto simp: run_def dest: persist_Inl_loaded split: prod.splits sum.splits)

section \<open>The identifier drawn for a result\<close>

text \<open>Nothing before the result is stored draws a UUID.\<close>

definition same_draw :: "('r, 'p, 'f) world \<Rightarrow> ('r, 'p, 'f) world \<Rightarrow> bool" where
  "same_draw w w' \<longleftrightarrow> w_uuid w' = w_uuid w \<and> w_uuid_next w' = w_uuid_next w"

lemma same_draw_refl [simp]: "same_draw w w"
  by (simp add: same_draw_def)

lemma same_draw_trans [trans]: "same_draw u v \<Longrightarrow> same_draw v w \<Longrightarrow> same_draw u w"
  by (simp add: same_draw_def)

lemma same_draw_next: "same_draw w w' \<Longrightarrow> fst (uuid4 w') = fst (uuid4 w)"
  by (simp add: same_draw_def uuid4_def)

lemma same_draw_steps:
  "utcnow w = (t, w') \<Longrightarrow> same_draw w w'"
  "db_read f w = (r, w') \<Longrightarrow> same_draw w w'"
  "commit_locked g w = (c, w') \<Longrightarrow> same_draw w w'"
  "provider_call h w = (y, w') \<Longrightarrow> same_draw w w'"
  "fs_call k w = (z, w') \<Longrightarrow> same_draw w w'"
  by (auto simp: same_draw_def utcnow_def db_read_def commit_locked_def provider_call_def fs_call_def interfere_def
      next_fault_def split: list.splits prod.splits fault.splits)

lemma claim_job_same_draw:
  assumes "claim_job jid c stale w = (r, w')"
  shows "same_draw w w'"
proof -
  obtain now w1 where u: "utcnow w = (now, w1)" by fastforce
  let ?cut = "now - stale * microseconds_per_second"
  obtain r2 w2 where q: "db_read (claim_query jid ?cut c) w1 = (r2, w2)" by fastforce
  obtain r3 w3 where k: "commit_locked (claim_effect jid ?cut now c) w2 = (r3, w3)" by fastforce
  obtain r4 w4 where g: "get_job jid w3 = (r4, w4)" by fastforce
  obtain r5 w5 where n: "db_read (\<lambda>_. Inr ()) w2 = (r5 :: unit result, w5)" by fastforce
  have "w' \<in> {w2, w3, w4, w5}"
    using assms u q k g n by (auto simp: claim_job_def Let_def split: sum.splits option.splits prod.splits)
  moreover have 2: "same_draw w w2" using same_draw_trans[OF same_draw_steps(1)[OF u] same_draw_steps(2)[OF q]] .
  moreover have 3: "same_draw w w3" using same_draw_trans[OF 2 same_draw_steps(3)[OF k]] .
  moreover have "same_draw w w4" using same_draw_trans[OF 3 same_draw_steps(2)[OF g[unfolded get_job_def]]] .
  moreover have "same_draw w w5" using same_draw_trans[OF 2 same_draw_steps(2)[OF n]] .
  ultimately show ?thesis by blast
qed

lemma produce_same_draw:
  assumes "produce p s e w = (r, w')" and "pr_storage p = local_storage fs base"
  shows "same_draw w w'"
proof -
  have read: "same_draw v v'" if "st_read (pr_storage p) k v = (b, v')" for k v b v'
    using that assms(2) by (auto simp: local_storage_def storage_read_def dest: same_draw_steps(5) split: sum.splits prod.splits)
  have ty: "same_draw v v'" if "resolve_type p e body v = (b, v')" for body v b v'
    using that by (auto simp: resolve_type_def Let_def dest: same_draw_steps(4) split: option.splits prod.splits sum.splits)
  obtain r1 w1 where rd: "st_read (pr_storage p) (ev_storage_path e) w = (r1, w1)" by fastforce
  show ?thesis
  proof (cases "w' = w1")
    case False
    obtain r2 w2 model_input where t: "resolve_type p e model_input w1 = (r2, w2)"
      and x: "w' = w2 \<or> (\<exists>ty r3. provider_call (lp_extract (pr_provider p) model_input ty) w2 = (r3, w'))"
      using assms rd False
      by (fastforce simp: produce_def Let_def split: sum.splits option.splits prod.splits)
    have "same_draw w w2" using same_draw_trans[OF read[OF rd] ty[OF t]] .
    with x show ?thesis by (auto intro: same_draw_trans[OF _ same_draw_steps(4)])
  qed (use read[OF rd] in simp)
qed

section \<open>What stands behind an outcome\<close>

text \<open>
  Why a job is left alone: there is no such job, it has failed, it is completed and has its result, or it is
  in processing under a claim that is not older than the cut-off.
\<close>

definition left_alone :: "uuid \<Rightarrow> time \<Rightarrow> db \<Rightarrow> bool" where
  "left_alone i cutoff d \<longleftrightarrow>
     (case find_job i d of
        None \<Rightarrow> True
      | Some j \<Rightarrow> job_status j = FAILED \<or> job_status j = COMPLETED \<and> find_result i d \<noteq> None \<or>
          job_status j = PROCESSING \<and> (case job_started_at j of None \<Rightarrow> True | Some t \<Rightarrow> cutoff \<le> t))"

lemma left_aloneI:
  assumes "\<forall>j \<in> set (db_jobs d). \<not> claim_condition i cutoff j" and "pipeline_inv d"
  shows "left_alone i cutoff d"
proof (cases "find_job i d")
  case (Some j)
  note j = find_job_Some[OF Some]
  then have "\<not> claim_condition i cutoff j" "job_inv d j" using assms by (auto simp: pipeline_inv_def)
  with j Some show ?thesis
    by (cases "job_status j")
      (auto simp: left_alone_def claim_condition_def claimable_statuses_def job_inv_def split: option.splits)
qed (simp add: left_alone_def)

definition settled ::
  "(string \<Rightarrow> 'r \<Rightarrow> string \<Rightarrow> py_float option) \<Rightarrow> ('r, 'p, 'f) processor \<Rightarrow> event \<Rightarrow> ('r, 'p, 'f) world \<Rightarrow>
     processing_outcome \<Rightarrow> ('r, 'p, 'f) world \<Rightarrow> bool" where
  "settled zset p e w out w' \<longleftrightarrow>
     (case out of
        OutCompleted \<Rightarrow> find_result (ev_job_id e) (w_db w') \<noteq> None \<or>
          uuid_collision (fst (uuid4 w)) (ev_job_id e) (w_db w')
      | OutFailed \<Rightarrow> has_status (ev_job_id e) FAILED (w_db w')
      | OutDeadLettered \<Rightarrow> has_status (ev_job_id e) FAILED (w_db w')
      | OutRetryScheduled \<Rightarrow> has_status (ev_job_id e) RETRYING (w_db w') \<and> retry_parked zset p e (w_redis w')
      | OutSkipped \<Rightarrow> (\<exists>d. db_steps (w_db w) d \<and> db_steps d (w_db w') \<and>
          left_alone (ev_job_id e)
            (fst (utcnow w) - stale_processing_seconds (pr_settings p) * microseconds_per_second) d))"

lemma process_settled:
  assumes "process p delivered w = (Inr out, w')" and "pr_storage p = local_storage fs base"
    and "rely db_steps w" and "faults_ok w" and "out = OutSkipped \<Longrightarrow> pipeline_inv (w_db w)"
    and "redis_server (pr_redis p) outstanding zset"
  shows "settled zset p (de_event delivered) w out w'"
proof -
  let ?e = "de_event delivered"
  obtain r1 w1 where c: "claim_job (ev_job_id ?e) (pr_consumer_name p)
      (stale_processing_seconds (pr_settings p)) w = (r1, w1)" by fastforce
  note 1 = pipeline.claim_job_rely[OF c assms(3)]
  from assms(1) c consider (skip) "r1 = Inr None" "out = OutSkipped" "w' = w1"
    | (claimed) s where "r1 = Inr (Some s)"
    by (auto simp: process_def Let_def split: sum.splits option.splits)
  then show ?thesis
  proof cases
    case skip
    from claim_job_None[OF c[unfolded skip(1)] assms(3)] obtain d where "db_steps (w_db w) d" "db_steps d (w_db w1)"
      "\<forall>j \<in> set (db_jobs d). \<not> claim_condition (ev_job_id ?e)
         (fst (utcnow w) - stale_processing_seconds (pr_settings p) * microseconds_per_second) j" by blast
    with left_aloneI pipeline_inv_steps[OF _ assms(5)[OF skip(2)]] skip show ?thesis by (auto simp: settled_def)
  next
    case (claimed s)
    with 1 have fr: "fresh s" "job_id (sess_loaded s) = ev_job_id ?e" and r1: "rely db_steps w1"
      and sn: "snapshot (sess_loaded s) (w_db w1)" by auto
    show ?thesis
    proof (cases "max_delivery_count (pr_settings p) < de_delivery_count delivered")
      case True
      let ?m = "redelivered_message (de_delivery_count delivered)"
      obtain r2 s2 w2 where m: "mark_failed ?m True s w1 = (r2, s2, w2)" by (cases "mark_failed ?m True s w1")
      with assms(1) c claimed True obtain u where "r2 = Inr u" "w' = w2" "out = OutDeadLettered"
        by (auto simp: process_def Let_def split: sum.splits)
      with mark_failed_Inr[of ?m s w1 u s2 w2] m r1 fr show ?thesis by (auto simp: settled_def intro: has_statusI)
    next
      case False
      obtain r2 s2 w2 where m: "run p s ?e w1 = (r2, s2, w2)" by (cases "run p s ?e w1")
      show ?thesis
      proof (cases r2)
        case (Inl x)
        with assms(1) c claimed False m have h: "handle_failure p s2 ?e x w2 = (Inr out, w')"
          by (simp add: process_def Let_def)
        have "rely db_steps w2"
          using pipeline.run_rely[OF m reads_only_local[OF assms(2)] r1 fr(1) sn] by simp
        from handle_failure_Inr[OF h this assms(6)] run_Inl_loaded[OF m[unfolded Inl]] fr(2)
        show ?thesis by (auto simp: settled_def)
      next
        case (Inr y)
        with assms(1) c claimed False m have y: "out = y" "w' = w2" by (simp_all add: process_def Let_def)
        obtain r3 w3 where g: "produce p s ?e w1 = (r3, w3)" by fastforce
        with m Inr obtain o' body s4 where q: "persist p o' body s w3 = (Inr (), s4, w2)" and "y = OutCompleted"
          by (auto simp: run_def split: sum.splits prod.splits)
        have sd: "same_db w1 w3" using produce_same_db[OF g reads_only_local[OF assms(2)]] .
        have "faults_ok w3"
          using faults_ok_same_db[OF sd] faults_ok_claim_job[OF c assms(4)] by blast
        moreover have "rely db_steps w3" using sd r1 by (simp add: same_db_def rely_def)
        moreover have "fst (uuid4 w3) = fst (uuid4 w)"
          using same_draw_next same_draw_trans[OF claim_job_same_draw[OF c] produce_same_draw[OF g assms(2)]] by blast
        ultimately show ?thesis
          using persist_Inr[OF q _ fr(1)] fr(2) y \<open>y = OutCompleted\<close> by (auto simp: settled_def)
      qed
    qed
  qed
qed

text \<open>
  C3. Every outcome is safe to acknowledge, whatever fails and whatever others commit at the same time. When
  processing returns, \<open>COMPLETED\<close> means that the job has its result in the database (as long as the UUID drawn
  for the result is not that of another job's result), \<open>FAILED\<close> and \<open>DEAD_LETTERED\<close> mean that the row says
  failed, \<open>RETRY_SCHEDULED\<close> means that the row says retrying and the next attempt is parked in Redis.
  \<open>SKIPPED\<close> means that at some moment meanwhile the job did not exist, had failed, was completed with its
  result, or was in processing under a claim not older than \<^verbatim>\<open>stale_processing_seconds\<close>: only in this last
  case does the acknowledged message leave a job that is neither finished nor scheduled.
\<close>

theorem outcome_is_durable:
  assumes "process p delivered w = (Inr out, w')" and "pr_storage p = local_storage fs base"
    and "rely db_steps w" and "faults_ok w" and "pipeline_inv (w_db w)"
    and "redis_server (pr_redis p) outstanding zset"
    and "\<forall>r \<in> set (db_results (w_db w')). res_id r = fst (uuid4 w) \<longrightarrow> res_job_id r = ev_job_id (de_event delivered)"
  shows "case out of
      OutCompleted \<Rightarrow> find_result (ev_job_id (de_event delivered)) (w_db w') \<noteq> None
    | OutFailed \<Rightarrow> has_status (ev_job_id (de_event delivered)) FAILED (w_db w')
    | OutDeadLettered \<Rightarrow> has_status (ev_job_id (de_event delivered)) FAILED (w_db w')
    | OutRetryScheduled \<Rightarrow> has_status (ev_job_id (de_event delivered)) RETRYING (w_db w') \<and>
        retry_parked zset p (de_event delivered) (w_redis w')
    | OutSkipped \<Rightarrow> (\<exists>d. db_steps (w_db w) d \<and> db_steps d (w_db w') \<and>
        (case find_job (ev_job_id (de_event delivered)) d of
           None \<Rightarrow> True
         | Some j \<Rightarrow> job_status j = FAILED \<or>
             job_status j = COMPLETED \<and> find_result (ev_job_id (de_event delivered)) d \<noteq> None \<or>
             job_status j = PROCESSING \<and>
               (case job_started_at j of
                  None \<Rightarrow> True
                | Some t \<Rightarrow> fst (utcnow w) - stale_processing_seconds (pr_settings p) * microseconds_per_second \<le> t)))"
  using process_settled[OF assms(1-6)] assms(7)
  by (cases out) (simp_all add: settled_def uuid_collision_def left_alone_def, blast)

abbreviation dead_job :: job where
  "dead_job \<equiv> failed_job 5 ''boom'' processing_job"

lemma dead_job_inv: "pipeline_inv (sample_db dead_job)"
  by (simp add: pipeline_inv_def job_inv_def error_bounded_def db_ok_def sample_defs failed_job_def truncate_error_def
      MAX_ERROR_MESSAGE_CHARS_def)

lemma outcome_is_durable_witness:
  "\<exists>w'. process (sample_processor (Inr sample_output)) (sample_delivery 9) (worker_world dead_job) = (Inr OutSkipped, w') \<and>
     (\<exists>d. db_steps (sample_db dead_job) d \<and> db_steps d (w_db w'))"
proof -
  let ?w = "worker_world dead_job"
  have "process (sample_processor (Inr sample_output)) (sample_delivery 9) ?w = (Inr OutSkipped, ?w)"
    using quiet_claim_job[of ?w 1000000 ?w "''job''" "''worker''" 600]
    by (simp add: process_def Let_def claim_condition_def claimable_statuses_def)
  from outcome_is_durable[OF this _ _ _ _ _, of mem_files "[''srv'', ''uploads'']" mem_outstanding mem_zset] this
  show ?thesis
    using memory_redis.redis_server_axioms dead_job_inv
    by (auto simp: rely_def faults_ok_def sample_world_def sample_db_def)
qed

end
