(* ===== verification/Processor_Branches.thy ===== *)
theory Processor_Branches
  imports Processor_Outcomes
begin

text \<open>
  The branches of the processor on a reliable database nobody else writes to: success, a failure that
  is retried, a failure that is final, a message delivered too often.
\<close>

section \<open>The job service on a current session\<close>

text \<open>A row that holds \<open>c\<close>, apart from the time of the update, which the database layer sets.\<close>

definition row_is :: "db \<Rightarrow> job \<Rightarrow> bool" where
  "row_is d c \<longleftrightarrow> (\<exists>t. find_job (job_id c) d = Some (c\<lparr>job_updated_at := t\<rparr>))"

lemma row_is_current:
  assumes "row_is d c" and "job_id c = i"
  shows "\<exists>j. find_job i d = Some j \<and> job_status j = job_status c \<and> job_retry_count j = job_retry_count c \<and>
    job_error_message j = job_error_message c"
  using assms by (auto simp: row_is_def)

lemma quiet_claimed:
  assumes "quiet w" and "db_ok (w_db w)" and "claim_job jid c stale w = (Inr (Some s), w1)"
  shows "quiet w1" and "current s (w_db w1)" and "same_outside w w1" and "db_ok (w_db w1)"
    and "job_id (sess_loaded s) = jid" and "job_status (sess_loaded s) = PROCESSING"
    and "db_results (w_db w1) = db_results (w_db w)"
    and "\<exists>j. find_job jid (w_db w) = Some j \<and> job_retry_count (sess_loaded s) = job_retry_count j \<and>
      job_max_retries (sess_loaded s) = job_max_retries j"
proof -
  obtain now w0 where u: "utcnow w = (now, w0)" by fastforce
  let ?cut = "now - stale * microseconds_per_second"
  from assms(3) quiet_claim_job[OF assms(1,2) u, of jid c stale]
  obtain j where j: "find_job jid (w_db w) = Some j" "claim_condition jid ?cut j"
    and s: "s = load_job (claim_effect jid ?cut now c (w_db w)) (claim_values now c j)"
    and w1: "w1 = w0\<lparr>w_db := claim_effect jid ?cut now c (w_db w)\<rparr>"
    by (auto simp: Let_def split: option.splits if_splits)
  show "quiet w1" using quiet_utcnow[OF assms(1) u] by (simp add: w1)
  show "same_outside w w1" using utcnow_frame[OF u] by (simp add: w1 same_outside_def)
  show "db_ok (w_db w1)" using assms(2) by (simp add: w1 claim_effect_db_ok)
  have id: "job_id j = jid" using j(1) find_job_Some by blast
  show "current s (w_db w1)"
    using j by (simp add: current_def s load_job_def w1 find_job_claim_effect id)
  show "job_id (sess_loaded s) = jid" "job_status (sess_loaded s) = PROCESSING"
    by (simp_all add: s load_job_def id claim_values_def)
  show "db_results (w_db w1) = db_results (w_db w)" by (simp add: w1 claim_effect_def)
  show "\<exists>j. find_job jid (w_db w) = Some j \<and> job_retry_count (sess_loaded s) = job_retry_count j \<and>
      job_max_retries (sess_loaded s) = job_max_retries j"
    using j(1) by (simp add: s load_job_def claim_values_def)
qed

lemma quiet_commit_change:
  assumes "quiet w" and "current s (w_db w)" and "same_keys (sess_loaded s) c"
    and "job_status c \<noteq> job_status (sess_loaded s)"
  shows "\<exists>w'. session_commit (s\<lparr>sess_job := c\<rparr>) w = (Inr (), s\<lparr>sess_job := c, sess_loaded := c\<rparr>, w') \<and>
    row_is (w_db w') c \<and> quiet w' \<and> same_outside w w' \<and> db_results (w_db w') = db_results (w_db w)"
proof -
  obtain now w1 where u: "utcnow w = (now, w1)" by fastforce
  have l: "fresh s" "find_job (job_id (sess_loaded s)) (w_db w) = Some (sess_loaded s)"
    using assms(2) by (auto simp: current_def)
  have "c \<noteq> sess_loaded s" using assms(4) by blast
  note c = quiet_commit_current[OF assms(1) l refl assms(3) this u]
  have "job_id c = job_id (sess_loaded s)" using assms(3) by (simp add: same_keys_def)
  then show ?thesis unfolding c using l assms(1,3) u
    by (auto simp: row_is_def find_job_update_rows flush_row_loaded same_outside_def
        dest: utcnow_frame quiet_utcnow)
qed

lemma quiet_mark_failed:
  assumes "quiet w" and "current s (w_db w)" and "is_active (job_status (sess_loaded s))"
  shows "\<exists>s' t w'. mark_failed m True s w = (Inr (), s', w') \<and> row_is (w_db w') (failed_job t m (sess_loaded s)) \<and>
    quiet w' \<and> same_outside w w' \<and> db_results (w_db w') = db_results (w_db w)"
proof -
  obtain t w1 where u: "utcnow w = (t, w1)" by fastforce
  have w1: "quiet w1" "w_db w1 = w_db w" "same_outside w w1"
    using quiet_utcnow[OF assms(1) u] utcnow_frame[OF u] by auto
  have l: "sess_job s = sess_loaded s" using assms(2) by (simp add: current_def fresh_def)
  have "job_status (sess_loaded s) \<noteq> FAILED" using assms(3) by (auto simp: is_active_def status_sets)
  then have "FAILED \<noteq> job_status (sess_loaded s)" by simp
  from quiet_commit_change[of w1 s "failed_job t m (sess_loaded s)"] w1 assms(2) this
  obtain w' where "session_commit (s\<lparr>sess_job := failed_job t m (sess_loaded s)\<rparr>) w1 =
      (Inr (), s\<lparr>sess_job := failed_job t m (sess_loaded s), sess_loaded := failed_job t m (sess_loaded s)\<rparr>, w')"
    "row_is (w_db w') (failed_job t m (sess_loaded s))" "quiet w'" "same_outside w1 w'"
    "db_results (w_db w') = db_results (w_db w)" by auto
  with w1 u l assms(3) show ?thesis
    by (auto simp: mark_failed_def commit_if_def ensure_transition_allowed_def is_transition_allowed_def
        intro: same_outside_trans)
qed

lemma quiet_mark_retrying:
  assumes "quiet w" and "current s (w_db w)" and "job_status (sess_loaded s) = PROCESSING"
  shows "\<exists>s' w'. mark_retrying m True s w = (Inr (), s', w') \<and> row_is (w_db w') (retrying_job m (sess_loaded s)) \<and>
    quiet w' \<and> same_outside w w' \<and> db_results (w_db w') = db_results (w_db w)"
proof -
  have l: "sess_job s = sess_loaded s" using assms(2) by (simp add: current_def fresh_def)
  from quiet_commit_change[OF assms(1,2), of "retrying_job m (sess_loaded s)"] assms(3) l show ?thesis
    by (auto simp: mark_retrying_def commit_if_def ensure_transition_allowed_def is_transition_allowed_def)
qed

lemma quiet_recover:
  assumes "quiet w" and "find_job (job_id (sess_loaded s)) (w_db w) = Some j"
  shows "\<exists>s1 s2. session_rollback s w = (Inr (), s1, w) \<and> session_refresh s1 w = (Inr (), s2, w) \<and>
    current s2 (w_db w) \<and> sess_loaded s2 = j"
  using assms find_job_Some[OF assms(2)]
  by (simp add: session_rollback_def session_refresh_def current_def fresh_def)

lemma quiet_same_db: "same_db w w' \<Longrightarrow> quiet w \<Longrightarrow> quiet w'"
  by (simp add: same_db_def quiet_def)

text \<open>What the processor does once extraction has failed.\<close>

lemma process_failed:
  assumes "quiet w" and "db_ok (w_db w)" and "reads_only p"
    and "claim_job (ev_job_id (de_event m)) (pr_consumer_name p)
      (stale_processing_seconds (pr_settings p)) w = (Inr (Some s), w1)"
    and "de_delivery_count m \<le> max_delivery_count (pr_settings p)"
    and "produce p s (de_event m) w1 = (Inl x, w2)"
  obtains s2 where "current s2 (w_db w2)" and "sess_loaded s2 = sess_loaded s" and "quiet w2"
    and "w_db w2 = w_db w1" and "db_results (w_db w2) = db_results (w_db w)"
    and "process p m w =
      (let message = describe x
       in if should_retry x (job_retry_count (sess_loaded s)) (job_max_retries (sess_loaded s)) then
            (case random01 w2 of (u, w3) \<Rightarrow>
               (case compute_delay (job_retry_count (sess_loaded s)) (pr_settings p) u of
                  Inl x \<Rightarrow> (Inl x, w3)
                | Inr delay \<Rightarrow>
                    (case next_attempt (de_event m) w3 of (e', w4) \<Rightarrow>
                       (case schedule_retry (pr_redis p) (pr_codec p) (pr_queue p) e' delay w4 of
                          (Inl x, w5) \<Rightarrow>
                            if is_app_instance x QueueError
                            then fail_job (message @ '' (retry could not be scheduled)'') s2 w5
                            else (Inl x, w5)
                        | (Inr _, w5) \<Rightarrow>
                            (case mark_retrying message True s2 w5 of
                               (Inl x, s3, w6) \<Rightarrow> (Inl x, w6)
                             | (Inr _, s3, w6) \<Rightarrow> (Inr OutRetryScheduled, w6))))))
          else fail_job message s2 w2)"
proof -
  note c = quiet_claimed[OF assms(1,2,4)]
  have sd: "same_db w1 w2" using produce_same_db[OF assms(6,3)] .
  then have q: "quiet w2" "w_db w2 = w_db w1" using quiet_same_db c(1) by (auto simp: same_db_def)
  have "find_job (job_id (sess_loaded s)) (w_db w2) = Some (sess_loaded s)"
    using c(2) q(2) by (simp add: current_def)
  from quiet_recover[OF q(1) this] obtain s1 s2 where r: "session_rollback s w2 = (Inr (), s1, w2)"
    "session_refresh s1 w2 = (Inr (), s2, w2)" "current s2 (w_db w2)" "sess_loaded s2 = sess_loaded s" by blast
  have j: "sess_job s2 = sess_loaded s" using r(3,4) by (simp add: current_def fresh_def)
  show thesis
  proof (rule that)
    show "process p m w =
      (let message = describe x
       in if should_retry x (job_retry_count (sess_loaded s)) (job_max_retries (sess_loaded s)) then
            (case random01 w2 of (u, w3) \<Rightarrow>
               (case compute_delay (job_retry_count (sess_loaded s)) (pr_settings p) u of
                  Inl x \<Rightarrow> (Inl x, w3)
                | Inr delay \<Rightarrow>
                    (case next_attempt (de_event m) w3 of (e', w4) \<Rightarrow>
                       (case schedule_retry (pr_redis p) (pr_codec p) (pr_queue p) e' delay w4 of
                          (Inl x, w5) \<Rightarrow>
                            if is_app_instance x QueueError
                            then fail_job (message @ '' (retry could not be scheduled)'') s2 w5
                            else (Inl x, w5)
                        | (Inr _, w5) \<Rightarrow>
                            (case mark_retrying message True s2 w5 of
                               (Inl x, s3, w6) \<Rightarrow> (Inl x, w6)
                             | (Inr _, s3, w6) \<Rightarrow> (Inr OutRetryScheduled, w6))))))
          else fail_job message s2 w2)"
      using assms(5)
      by (simp add: process_def Let_def assms(4) run_def assms(6) handle_failure_def r(1,2) j)
  qed (use r q c in auto)
qed

lemma quiet_fail_job:
  assumes "quiet w" and "current s (w_db w)" and "job_status (sess_loaded s) = PROCESSING"
  shows "\<exists>t w'. fail_job m s w = (Inr OutFailed, w') \<and> row_is (w_db w') (failed_job t m (sess_loaded s)) \<and>
    quiet w' \<and> same_outside w w' \<and> db_results (w_db w') = db_results (w_db w)"
proof -
  have "is_active (job_status (sess_loaded s))" using assms(3) by (simp add: is_active_def status_sets)
  from quiet_mark_failed[OF assms(1,2) this, of m] show ?thesis by (fastforce simp: fail_job_def)
qed

lemma quiet_permanent:
  assumes "quiet w" and "db_ok (w_db w)" and "pr_storage p = local_storage fs base"
    and "claim_job (ev_job_id (de_event m)) (pr_consumer_name p)
      (stale_processing_seconds (pr_settings p)) w = (Inr (Some s), w1)"
    and "de_delivery_count m \<le> max_delivery_count (pr_settings p)"
    and "produce p s (de_event m) w1 = (Inl x, w2)"
    and "\<not> should_retry x (job_retry_count (sess_loaded s)) (job_max_retries (sess_loaded s))"
  shows "\<exists>t w'. process p m w = (Inr OutFailed, w') \<and>
    row_is (w_db w') (failed_job t (describe x) (sess_loaded s)) \<and>
    db_results (w_db w') = db_results (w_db w) \<and> w_redis w' = w_redis w2 \<and>
    quiet w' \<and> w_files w' = w_files w2"
proof -
  obtain s2 where s2: "current s2 (w_db w2)" "sess_loaded s2 = sess_loaded s" "quiet w2"
      "db_results (w_db w2) = db_results (w_db w)" "process p m w = fail_job (describe x) s2 w2"
    using assms(7) by (auto intro: process_failed[OF assms(1,2) reads_only_local[OF assms(3)] assms(4-6)])
  have "job_status (sess_loaded s2) = PROCESSING" using quiet_claimed(6)[OF assms(1,2,4)] s2(2) by simp
  from quiet_fail_job[OF s2(3,1) this, of "describe x"] s2 show ?thesis by (auto simp: same_outside_def)
qed

text \<open>
  C13. A permanent failure: when reading, parsing or extracting raises an error that is not retryable,
  or the retry budget is used up, processing returns \<open>FAILED\<close>, the row is failed with the described
  error (truncated), no result is written and nothing is put into Redis.
\<close>

theorem permanent_failure:
  assumes "quiet w" and "db_ok (w_db w)" and "pr_storage p = local_storage fs base"
    and "claim_job (ev_job_id (de_event m)) (pr_consumer_name p)
      (stale_processing_seconds (pr_settings p)) w = (Inr (Some s), w1)"
    and "de_delivery_count m \<le> max_delivery_count (pr_settings p)"
    and "produce p s (de_event m) w1 = (Inl x, w2)"
    and "\<not> should_retry x (job_retry_count (sess_loaded s)) (job_max_retries (sess_loaded s))"
  shows "\<exists>t w'. process p m w = (Inr OutFailed, w') \<and>
    row_is (w_db w') (failed_job t (describe x) (sess_loaded s)) \<and>
    db_results (w_db w') = db_results (w_db w) \<and> w_redis w' = w_redis w2"
  using quiet_permanent[OF assms] by blast

lemma sample_results: "db_results (sample_db j) = []"
  by (simp add: sample_db_def)

definition sample_session :: session where
  "sample_session = load_job (sample_db processing_job) processing_job"

lemma sample_session_fields [simp]:
  "sess_loaded sample_session = processing_job"
  by (simp add: sample_session_def load_job_def)

lemma claim_run:
  "claim_job (ev_job_id (de_event (sample_delivery n))) (pr_consumer_name (sample_processor a))
     (stale_processing_seconds (pr_settings (sample_processor a))) (worker_world queued_job) =
   (Inr (Some sample_session), worker_world processing_job)"
  by (simp add: claim_sample sample_session_def)

lemma produce_run:
  "produce (sample_processor (Inl e)) sample_session (de_event (sample_delivery n)) (worker_world processing_job) =
     (Inl e, sample_world empty_redis 2 sample_files (sample_db processing_job) 1000000)"
  "produce (sample_processor (Inr y)) sample_session (de_event (sample_delivery n)) (worker_world processing_job) =
     (Inr (y, [72, 105]), sample_world empty_redis 2 sample_files (sample_db processing_job) 1000000)"
  by (simp_all add: produce_sample sample_session_def)

lemma permanent_failure_witness:
  "\<exists>t w'. process (sample_processor (Inl no_document)) (sample_delivery 1) (worker_world queued_job) =
     (Inr OutFailed, w') \<and> row_is (w_db w') (failed_job t (describe no_document) processing_job)"
proof -
  have "\<not> should_retry no_document n k" for n k
    by (simp add: should_retry_def no_document_def retryable_exceptions_def)
  with permanent_failure[OF _ _ _ claim_run[of 1 "Inl no_document"] _ produce_run(1), where fs = mem_files and base = "[''srv'', ''uploads'']"]
  show ?thesis by auto
qed

lemma quiet_transient:
  assumes "quiet w" and "db_ok (w_db w)" and "pr_storage p = local_storage fs base"
    and "claim_job (ev_job_id (de_event m)) (pr_consumer_name p)
      (stale_processing_seconds (pr_settings p)) w = (Inr (Some s), w1)"
    and "de_delivery_count m \<le> max_delivery_count (pr_settings p)"
    and "produce p s (de_event m) w1 = (Inl x, w2)"
    and "should_retry x (job_retry_count (sess_loaded s)) (job_max_retries (sess_loaded s))"
    and "random01 w2 = (u, w3)"
    and "compute_delay (job_retry_count (sess_loaded s)) (pr_settings p) u = Inr delay"
    and "next_attempt (de_event m) w3 = (e', w4)"
    and "schedule_retry (pr_redis p) (pr_codec p) (pr_queue p) e' delay w4 = (r, w5)"
  shows "case r of
      Inr _ \<Rightarrow> (\<exists>w'. process p m w = (Inr OutRetryScheduled, w') \<and>
        row_is (w_db w') (retrying_job (describe x) (sess_loaded s)) \<and> w_redis w' = w_redis w5 \<and>
        quiet w' \<and> w_files w' = w_files w5 \<and> db_results (w_db w') = db_results (w_db w))
    | Inl y \<Rightarrow> if is_app_instance y QueueError then
        (\<exists>t w'. process p m w = (Inr OutFailed, w') \<and> row_is (w_db w')
           (failed_job t (describe x @ '' (retry could not be scheduled)'') (sess_loaded s)))
      else process p m w = (Inl y, w5)"
proof -
  obtain s2 where s2: "current s2 (w_db w2)" "sess_loaded s2 = sess_loaded s" "quiet w2"
      "db_results (w_db w2) = db_results (w_db w)"
    and eq: "process p m w = (case r of
        Inl y \<Rightarrow> if is_app_instance y QueueError
          then fail_job (describe x @ '' (retry could not be scheduled)'') s2 w5 else (Inl y, w5)
      | Inr _ \<Rightarrow> (case mark_retrying (describe x) True s2 w5 of
            (Inl y, s3, w6) \<Rightarrow> (Inl y, w6) | (Inr _, s3, w6) \<Rightarrow> (Inr OutRetryScheduled, w6)))"
    by (rule process_failed[OF assms(1,2) reads_only_local[OF assms(3)] assms(4-6)])
      (use assms(7-11) in \<open>simp add: Let_def split: sum.splits\<close>)
  have "same_db w2 w3" "same_db w3 w4" "same_db w4 w5"
    using assms(8,10) schedule_retry_frame[OF assms(11)] by auto
  then have "same_db w2 w5" using same_db_trans by blast
  with s2 have w5: "quiet w5" "current s2 (w_db w5)" "w_db w5 = w_db w2" using quiet_same_db by (auto simp: same_db_def)
  have pr: "job_status (sess_loaded s2) = PROCESSING" using quiet_claimed(6)[OF assms(1,2,4)] s2(2) by simp
  show ?thesis
  proof (cases r)
    case (Inr v)
    from quiet_mark_retrying[OF w5(1,2) pr, of "describe x"] eq Inr s2(2,4) w5(3) show ?thesis
      by (auto simp: same_outside_def)
  next
    case (Inl y)
    from quiet_fail_job[OF w5(1,2) pr, of "describe x @ '' (retry could not be scheduled)''"] eq Inl s2(2)
    show ?thesis by auto
  qed
qed

text \<open>
  C10. A transient failure with budget left: the next attempt is scheduled first. If Redis takes it,
  processing returns \<open>RETRY_SCHEDULED\<close> and the row is retrying, its retry count one higher. If Redis
  refuses it, the job is failed for good, with a message that says so, instead of waiting for a retry
  nothing will deliver.
\<close>

theorem transient_failure:
  assumes "quiet w" and "db_ok (w_db w)" and "pr_storage p = local_storage fs base"
    and "claim_job (ev_job_id (de_event m)) (pr_consumer_name p)
      (stale_processing_seconds (pr_settings p)) w = (Inr (Some s), w1)"
    and "de_delivery_count m \<le> max_delivery_count (pr_settings p)"
    and "produce p s (de_event m) w1 = (Inl x, w2)"
    and "should_retry x (job_retry_count (sess_loaded s)) (job_max_retries (sess_loaded s))"
    and "random01 w2 = (u, w3)"
    and "compute_delay (job_retry_count (sess_loaded s)) (pr_settings p) u = Inr delay"
    and "next_attempt (de_event m) w3 = (e', w4)"
    and "schedule_retry (pr_redis p) (pr_codec p) (pr_queue p) e' delay w4 = (r, w5)"
  shows "case r of
      Inr _ \<Rightarrow> (\<exists>w'. process p m w = (Inr OutRetryScheduled, w') \<and>
        row_is (w_db w') (retrying_job (describe x) (sess_loaded s)) \<and> w_redis w' = w_redis w5)
    | Inl y \<Rightarrow> if is_app_instance y QueueError then
        (\<exists>t w'. process p m w = (Inr OutFailed, w') \<and> row_is (w_db w')
           (failed_job t (describe x @ '' (retry could not be scheduled)'') (sess_loaded s)))
      else process p m w = (Inl y, w5)"
  using quiet_transient[OF assms] by (auto split: sum.splits)

text \<open>The provider times out; the retry is scheduled in Redis.\<close>

definition provider_timeout :: exc where
  "provider_timeout = OtherExc [''builtins.TimeoutError'', ''builtins.Exception''] ''timed out''"

lemma transient_failure_witness:
  "\<exists>w'. process (sample_processor (Inl provider_timeout)) (sample_delivery 1) (worker_world queued_job) =
     (Inr OutRetryScheduled, w') \<and> row_is (w_db w') (retrying_job (describe provider_timeout) processing_job)"
proof -
  let ?w2 = "sample_world empty_redis (2 :: nat) sample_files (sample_db processing_job) 1000000"
  have rnd: "random01 ?w2 = (0, ?w2)" by (simp add: random01_def sample_world_def)
  obtain delay where d: "compute_delay 0 default_settings 0 = Inr delay"
    by (cases "compute_delay 0 default_settings 0") (simp_all add: compute_delay_def float_pow2_def Let_def split: if_splits)
  obtain e' w4 where n: "next_attempt sample_event ?w2 = (e', w4)" by fastforce
  obtain r w5 where c: "schedule_retry mem_api plain_codec sample_queue e' delay w4 = (r, w5)" by fastforce
  then have r: "r = Inr ()"
    by (auto simp: schedule_retry_def with_client_def sample_queue_def redis_call_def mem_api_def
        mem_zadd_def as_queue_error_def Let_def split: prod.splits)
  have retry: "should_retry provider_timeout 0 3"
    by (simp add: should_retry_def provider_timeout_def retryable_exceptions_def)
  note t = transient_failure[OF _ _ _ claim_run[of 1 "Inl provider_timeout"] _ produce_run(1),
      where fs = mem_files and base = "[''srv'', ''uploads'']"]
  have "case r of
      Inr _ \<Rightarrow> (\<exists>w'. process (sample_processor (Inl provider_timeout)) (sample_delivery 1) (worker_world queued_job) =
        (Inr OutRetryScheduled, w') \<and> row_is (w_db w') (retrying_job (describe provider_timeout) processing_job) \<and>
        w_redis w' = w_redis w5)
    | Inl y \<Rightarrow> True"
    using t[of 0 ?w2 delay e' w4 r w5] rnd d n c r retry by simp
  with r show ?thesis by auto
qed

section \<open>Success\<close>

text \<open>The declared constraints survive every commit, whatever else the database holds.\<close>

lemma db_step_ok:
  assumes "db_step d d'" and "db_ok d"
  shows "db_ok d'"
  using assms
proof cases
  case create
  with assms(2) show ?thesis by (auto simp: insert_document_and_job_Inr db_ok_def new_job_def)
qed (use assms(2) in \<open>auto intro: claim_effect_db_ok flush_job_db_ok insert_result_db_ok
      elim!: flush_completed_cases\<close>)

lemma quiet_flush_completed:
  assumes "find_job (job_id l) d = Some l" and "job_status l = PROCESSING" and "res_job_id r = job_id l"
    and "find_result (job_id l) d = None" and "res_id r \<notin> res_id ` set (db_results d)" and "result_fits r"
  shows "\<exists>d'. flush_completed v t l r d = Inr d' \<and> row_is d' (completed_job t l) \<and>
    db_results d' = db_results d @ [r]"
proof -
  let ?d = "d\<lparr>db_jobs := update_rows (\<lambda>x. job_id x = job_id l) (flush_row v l (completed_job t l)) (db_jobs d)\<rparr>"
  have "job_status (completed_job t l) \<noteq> job_status l" using assms(2) by simp
  then have ne: "completed_job t l \<noteq> l" by metis
  have row: "find_job (job_id l) ?d = Some ((completed_job t l)\<lparr>job_updated_at := v\<rparr>)"
    using assms(1) by (simp add: find_job_update_rows flush_row_loaded)
  from find_job_Some[OF row] have "job_id l \<in> job_id ` set (db_jobs ?d)"
    by (metis image_eqI)
  moreover have "job_id l \<notin> res_job_id ` set (db_results d)"
    using assms(4) by (simp add: find_result_mem)
  ultimately have "insert_result r ?d = Inr (?d\<lparr>db_results := db_results d @ [r]\<rparr>)"
    using assms(3,5,6) by (simp add: insert_result_def)
  moreover have "flush_job v l (completed_job t l) d = Inr ?d" using ne assms(1) by (simp add: flush_job_same_keys)
  ultimately show ?thesis using row by (auto simp: flush_completed_def row_is_def)
qed

text \<open>
  What the provider returns fits its columns: the names are short enough, no text contains what PostgreSQL
  refuses, the token counts are integers of 32 bits. A result is storable when the text kept with it
  is, too.
\<close>

definition output_fits :: "extraction_output \<Rightarrow> bool" where
  "output_fits out \<longleftrightarrow>
     length (eo_model_provider out) \<le> 64 \<and> length (eo_model_name out) \<le> 128 \<and> length (eo_prompt_version out) \<le> 32 \<and>
     pg_text (codes (eo_model_provider out)) \<and> pg_text (codes (eo_model_name out)) \<and>
     pg_text (codes (eo_prompt_version out)) \<and> pg_json (eo_data out) \<and>
     pg_integer (eo_input_tokens out) \<and> pg_integer (eo_output_tokens out)"

definition storable :: "('r, 'p, 'f) processor \<Rightarrow> extraction_output \<Rightarrow> unicode \<Rightarrow> bool" where
  "storable p out body \<longleftrightarrow> output_fits out \<and>
     pg_text (fst (Text_Extraction.truncate body (raw_text_store_max_chars (pr_settings p))))"

lemma pg_text_truncate: "pg_text t \<Longrightarrow> pg_text (fst (Text_Extraction.truncate t n))"
  by (auto simp: pg_text_def list_all_iff Text_Extraction.truncate_def dest: in_set_takeD)

lemma quiet_persist:
  assumes "quiet w" and "current s (w_db w)" and "job_status (sess_loaded s) = PROCESSING"
    and "find_result (job_id (sess_loaded s)) (w_db w) = None"
    and "fst (uuid4 w) \<notin> res_id ` set (db_results (w_db w))" and "storable p out body"
  shows "\<exists>s' now t w'. persist p out body s w = (Inr (), s', w') \<and>
    row_is (w_db w') (completed_job t (sess_loaded s)) \<and> quiet w' \<and> same_outside w w' \<and>
    db_results (w_db w') = db_results (w_db w) @
      [new_result (fst (uuid4 w)) now (job_id (sess_loaded s)) out
         (fst (Text_Extraction.truncate body (raw_text_store_max_chars (pr_settings p))))]"
proof -
  obtain rid w1 where u: "uuid4 w = (rid, w1)" by fastforce
  obtain now w2 where n: "utcnow w1 = (now, w2)" by fastforce
  obtain t w3 where t: "utcnow w2 = (t, w3)" by fastforce
  obtain v w4 where v: "utcnow w3 = (v, w4)" by fastforce
  let ?l = "sess_loaded s"
  let ?rec = "new_result rid now (job_id ?l) out
      (fst (Text_Extraction.truncate body (raw_text_store_max_chars (pr_settings p))))"
  let ?s2 = "(session_add ?rec s)\<lparr>sess_job := completed_job t ?l\<rparr>"
  have l: "sess_job s = ?l" "sess_new s = []" "find_job (job_id ?l) (w_db w) = Some ?l"
    using assms(2) by (auto simp: current_def fresh_def)
  have sd: "same_db w w4" using u n t v same_db_steps(1,2) same_db_trans by metis
  then have q: "quiet w4" "w_db w4 = w_db w" using quiet_same_db assms(1) by (auto simp: same_db_def)
  have so: "same_outside w w4"
    using uuid4_frame[OF u] utcnow_frame[OF n] utcnow_frame[OF t] utcnow_frame[OF v]
    by (auto intro: same_outside_trans)
  obtain d' where d': "flush_completed v t ?l ?rec (w_db w) = Inr d'" "row_is d' (completed_job t ?l)"
      "db_results d' = db_results (w_db w) @ [?rec]"
    using quiet_flush_completed[OF l(3) assms(3) _ assms(4), of ?rec v t] assms(5,6) u
    by (auto simp: new_result_def result_fits_def storable_def output_fits_def)
  have fl: "flush v ?s2 d = flush_completed v t ?l ?rec d" for d
    by (rule flush_one_result) (simp_all add: session_add_def l)
  have "session_commit ?s2 w3 = (Inr (), ?s2\<lparr>sess_loaded := sess_job ?s2, sess_new := []\<rparr>, w4\<lparr>w_db := d'\<rparr>)"
    using q d'(1) by (simp add: session_commit_def v fl)
  moreover have "mark_completed False (session_add ?rec s) w2 = (Inr (), ?s2, w3)"
    using assms(3) t l(1)
    by (simp add: mark_completed_def commit_if_def session_add_def ensure_transition_allowed_def
        is_transition_allowed_def)
  ultimately have "persist p out body s w = (Inr (), ?s2\<lparr>sess_loaded := sess_job ?s2, sess_new := []\<rparr>, w4\<lparr>w_db := d'\<rparr>)"
    using u n l(1) by (simp add: persist_def Let_def)
  moreover have "same_outside w (w4\<lparr>w_db := d'\<rparr>)" using so by (simp add: same_outside_def)
  ultimately show ?thesis using d'(2,3) q(1) u by (intro exI[of _ now] exI[of _ t] exI) auto
qed

text \<open>A message for a job that is done is acknowledged without any effect.\<close>

lemma quiet_skip:
  assumes "quiet w" and "db_ok (w_db w)" and "utcnow w = (now, w')"
    and "\<And>j. find_job (ev_job_id (de_event m)) (w_db w) = Some j \<Longrightarrow> is_terminal (job_status j)"
  shows "process p m w = (Inr OutSkipped, w')"
proof -
  have "\<not> claim_condition (ev_job_id (de_event m)) t j"
    if "find_job (ev_job_id (de_event m)) (w_db w) = Some j" for j t
    using assms(4)[OF that] by (auto simp: claim_condition_def is_terminal_def status_sets)
  with quiet_claim_job[OF assms(1-3)] show ?thesis
    by (simp add: process_def Let_def split: option.split)
qed

lemma quiet_success:
  assumes "quiet w" and "db_ok (w_db w)" and "pr_storage p = local_storage fs base"
    and "claim_job (ev_job_id (de_event m)) (pr_consumer_name p)
      (stale_processing_seconds (pr_settings p)) w = (Inr (Some s), w1)"
    and "de_delivery_count m \<le> max_delivery_count (pr_settings p)"
    and "produce p s (de_event m) w1 = (Inr (out, body), w2)"
    and "find_result (ev_job_id (de_event m)) (w_db w) = None"
    and "fst (uuid4 w2) \<notin> res_id ` set (db_results (w_db w))" and "storable p out body"
  shows "\<exists>now t w'. process p m w = (Inr OutCompleted, w') \<and>
    row_is (w_db w') (completed_job t (sess_loaded s)) \<and>
    db_results (w_db w') = db_results (w_db w) @
      [new_result (fst (uuid4 w2)) now (ev_job_id (de_event m)) out
         (fst (Text_Extraction.truncate body (raw_text_store_max_chars (pr_settings p))))] \<and>
    w_redis w' = w_redis w2 \<and> w_files w' = w_files w2 \<and> quiet w' \<and> db_steps (w_db w) (w_db w')"
proof -
  note c = quiet_claimed[OF assms(1,2,4)]
  have sd: "same_db w1 w2" using produce_same_db[OF assms(6) reads_only_local[OF assms(3)]] .
  then have q: "quiet w2" "w_db w2 = w_db w1" using quiet_same_db c(1) by (auto simp: same_db_def)
  have "find_result (job_id (sess_loaded s)) (w_db w2) = None"
    using assms(7) c(5,7) q(2) by (simp add: find_result_def)
  from quiet_persist[OF q(1) _ c(6) this, of p out body] c(2,7) q(2) assms(8,9)
  obtain s' now t w' where ps: "persist p out body s w2 = (Inr (), s', w')"
    and row: "row_is (w_db w') (completed_job t (sess_loaded s))"
    and qw': "quiet w'" and so: "same_outside w2 w'"
    and rs: "db_results (w_db w') = db_results (w_db w) @
      [new_result (fst (uuid4 w2)) now (job_id (sess_loaded s)) out
         (fst (Text_Extraction.truncate body (raw_text_store_max_chars (pr_settings p))))]" by auto
  have pr: "process p m w = (Inr OutCompleted, w')"
    using assms(4-6) ps by (simp add: process_def Let_def run_def)
  have "db_steps (w_db w) (w_db w')"
    using pipeline.process_rely[OF pr reads_only_local[OF assms(3)]] assms(1)
    by (simp add: quiet_def rely_def)
  with pr row rs so qw' c(5) show ?thesis
    by (intro exI[of _ now] exI[of _ t] exI[of _ w']) (auto simp: same_outside_def)
qed

text \<open>
  C9. Success: when the text is extracted and the provider answers (with a result that can be stored), processing returns \<open>COMPLETED\<close>; one
  commit makes the row completed and adds exactly one result, holding what the provider returned and
  the text up to its storage limit, and Redis is not touched. Delivering any message for this job
  again, to any worker, is skipped and changes nothing but the clock: the effect happens once.
\<close>

theorem process_success:
  assumes "quiet w" and "db_ok (w_db w)" and "pr_storage p = local_storage fs base"
    and "claim_job (ev_job_id (de_event m)) (pr_consumer_name p)
      (stale_processing_seconds (pr_settings p)) w = (Inr (Some s), w1)"
    and "de_delivery_count m \<le> max_delivery_count (pr_settings p)"
    and "produce p s (de_event m) w1 = (Inr (out, body), w2)"
    and "find_result (ev_job_id (de_event m)) (w_db w) = None"
    and "fst (uuid4 w2) \<notin> res_id ` set (db_results (w_db w))" and "storable p out body"
  shows "\<exists>now t w'. process p m w = (Inr OutCompleted, w') \<and>
    row_is (w_db w') (completed_job t (sess_loaded s)) \<and>
    db_results (w_db w') = db_results (w_db w) @
      [new_result (fst (uuid4 w2)) now (ev_job_id (de_event m)) out
         (fst (Text_Extraction.truncate body (raw_text_store_max_chars (pr_settings p))))] \<and>
    w_redis w' = w_redis w2 \<and> w_files w' = w_files w2 \<and>
    (\<forall>p' m'. ev_job_id (de_event m') = ev_job_id (de_event m) \<longrightarrow>
       process p' m' w' = (Inr OutSkipped, snd (utcnow w')) \<and> w_db (snd (utcnow w')) = w_db w')"
proof -
  obtain now t w' where pr: "process p m w = (Inr OutCompleted, w')"
    and row: "row_is (w_db w') (completed_job t (sess_loaded s))"
    and rs: "db_results (w_db w') = db_results (w_db w) @
      [new_result (fst (uuid4 w2)) now (ev_job_id (de_event m)) out
         (fst (Text_Extraction.truncate body (raw_text_store_max_chars (pr_settings p))))]"
    and so: "w_redis w' = w_redis w2" "w_files w' = w_files w2"
    and qw': "quiet w'" and steps: "db_steps (w_db w) (w_db w')"
    using quiet_success[OF assms] by blast
  have ok: "db_ok (w_db w')"
    using steps assms(2) by (induction rule: rtranclp_induct) (auto intro: db_step_ok)
  have "is_terminal (job_status j)" if "find_job (ev_job_id (de_event m)) (w_db w') = Some j" for j
    using row_is_current[OF row, of "ev_job_id (de_event m)"] quiet_claimed(5)[OF assms(1,2,4)] that
    by (auto simp: is_terminal_def status_sets)
  then have "process p' m' w' = (Inr OutSkipped, snd (utcnow w')) \<and> w_db (snd (utcnow w')) = w_db w'"
    if "ev_job_id (de_event m') = ev_job_id (de_event m)" for p' m'
    using quiet_skip[OF qw' ok, of "fst (utcnow w')" "snd (utcnow w')" m' p']
      utcnow_frame[of w' "fst (utcnow w')" "snd (utcnow w')"] that by auto
  with pr row rs so show ?thesis by blast
qed

lemma pg_text_note [simp]: "pg_text [72, 105]"
  by (simp add: pg_text_def)

lemma sample_output_fits: "output_fits sample_output"
  by (simp add: output_fits_def sample_output_def pg_integer_def)

lemma sample_storable: "storable p sample_output [72, 105]"
  by (simp add: storable_def sample_output_fits pg_text_truncate)

lemma process_success_witness:
  "\<exists>w'. process (sample_processor (Inr sample_output)) (sample_delivery 1) (worker_world queued_job) =
     (Inr OutCompleted, w') \<and> length (db_results (w_db w')) = 1"
  using process_success[OF _ _ _ claim_run[of 1 "Inr sample_output"] _ produce_run(2),
      where fs = mem_files and base = "[''srv'', ''uploads'']"]
  by (auto simp: sample_results find_result_def sample_storable)

text \<open>
  C14. A message that has been delivered too often is not worked on again: the job is claimed and failed
  with the number of deliveries in its error, without reading the file or calling the model.
\<close>

theorem dead_letter:
  assumes "quiet w" and "db_ok (w_db w)"
    and "claim_job (ev_job_id (de_event m)) (pr_consumer_name p)
      (stale_processing_seconds (pr_settings p)) w = (Inr (Some s), w1)"
    and "max_delivery_count (pr_settings p) < de_delivery_count m"
  shows "\<exists>t w'. process p m w = (Inr OutDeadLettered, w') \<and>
    row_is (w_db w') (failed_job t (redelivered_message (de_delivery_count m)) (sess_loaded s)) \<and>
    db_results (w_db w') = db_results (w_db w) \<and> same_outside w w'"
proof -
  note c = quiet_claimed[OF assms(1-3)]
  have "is_active (job_status (sess_loaded s))" using c(6) by (simp add: is_active_def status_sets)
  from quiet_mark_failed[OF c(1,2) this, of "redelivered_message (de_delivery_count m)"] assms(3,4) c(3,7)
  show ?thesis by (fastforce simp: process_def Let_def intro: same_outside_trans)
qed

lemma dead_letter_witness:
  "\<exists>t w'. process (sample_processor (Inr sample_output)) (sample_delivery 6) (worker_world queued_job) =
     (Inr OutDeadLettered, w') \<and> row_is (w_db w') (failed_job t (redelivered_message 6) processing_job)"
  using dead_letter[OF _ _ claim_run[of 6 "Inr sample_output"]] by auto

end
