(* ===== verification/Database.thy ===== *)
theory Database
  imports Session Settings
begin

text \<open>
  \<^verbatim>\<open>app/db/session.py\<close>: the cached engine and session factory, the wait for PostgreSQL at start-up, the
  readiness probe and the session of one request. A call of the driver that only talks to the server
  (a connection test, closing the pool) is a \<open>db_read\<close> without a result: it may fail, and others may
  act before it.
\<close>

section \<open>Engine and session factory\<close>

text \<open>What \<^verbatim>\<open>create_async_engine\<close> is given.\<close>

record engine =
  eng_url :: string
  eng_echo :: bool
  eng_pool_size :: int
  eng_max_overflow :: int
  eng_pool_pre_ping :: bool

text \<open>The session factory: the engine it is bound to and its two options.\<close>

record session_factory =
  sf_bind :: engine
  sf_expire_on_commit :: bool
  sf_autoflush :: bool

text \<open>The two module variables.\<close>

record engine_cache =
  ec_engine :: "engine option"
  ec_sessionmaker :: "session_factory option"

definition no_engine :: engine_cache where
  "no_engine = \<lparr>ec_engine = None, ec_sessionmaker = None\<rparr>"

definition get_engine :: "settings \<Rightarrow> engine_cache \<Rightarrow> engine \<times> engine_cache" where
  "get_engine s c =
     (case ec_engine c of
        Some e \<Rightarrow> (e, c)
      | None \<Rightarrow>
          let e = \<lparr>eng_url = database_url s, eng_echo = db_echo s, eng_pool_size = db_pool_size s,
                   eng_max_overflow = db_max_overflow s, eng_pool_pre_ping = True\<rparr>
          in (e, c\<lparr>ec_engine := Some e\<rparr>))"

definition get_sessionmaker :: "settings \<Rightarrow> engine_cache \<Rightarrow> session_factory \<times> engine_cache" where
  "get_sessionmaker s c =
     (case ec_sessionmaker c of
        Some f \<Rightarrow> (f, c)
      | None \<Rightarrow>
          (case get_engine s c of (e, c') \<Rightarrow>
             let f = \<lparr>sf_bind = e, sf_expire_on_commit = False, sf_autoflush = False\<rparr>
             in (f, c'\<lparr>ec_sessionmaker := Some f\<rparr>)))"

text \<open>An error while the pool is closed propagates before the variables are reset.\<close>

definition dispose_engine ::
  "engine_cache \<Rightarrow> ('r, 'p, 'f) world \<Rightarrow> unit result \<times> engine_cache \<times> ('r, 'p, 'f) world" where
  "dispose_engine c w =
     (case ec_engine c of
        None \<Rightarrow> (Inr (), no_engine, w)
      | Some e \<Rightarrow>
          (case db_read (\<lambda>_. Inr ()) w of
             (Inl x, w') \<Rightarrow> (Inl x, c, w')
           | (Inr _, w') \<Rightarrow> (Inr (), no_engine, w')))"

section \<open>Start-up and readiness\<close>

definition SQLALCHEMY_ERROR :: string where
  "SQLALCHEMY_ERROR = ''sqlalchemy.exc.SQLAlchemyError''"

definition unreachable_error :: "exc \<Rightarrow> bool" where
  "unreachable_error e \<longleftrightarrow> is_foreign_instance e SQLALCHEMY_ERROR \<or> is_foreign_instance e ''builtins.OSError''"

definition select_1 :: "('r, 'p, 'f) world \<Rightarrow> unit result \<times> ('r, 'p, 'f) world" where
  "select_1 = db_read (\<lambda>_. Inr ())"

definition database_unreachable :: "settings \<Rightarrow> exc" where
  "database_unreachable s =
     raise_app DependencyUnavailableError
       (''PostgreSQL unreachable after '' @ show_int (db_connect_max_attempts s) @ '' attempts'')
       [(''dependency'', jstr ''postgresql'')]"

text \<open>The loop over the attempts, \<open>n\<close> being left. Waiting between two attempts changes nothing.\<close>

fun database_attempts ::
  "settings \<Rightarrow> nat \<Rightarrow> ('r, 'p, 'f) world \<Rightarrow> unit result \<times> ('r, 'p, 'f) world" where
  "database_attempts s 0 w = (Inl (database_unreachable s), w)"
| "database_attempts s (Suc n) w =
     (case select_1 w of
        (Inl e, w') \<Rightarrow> if unreachable_error e then database_attempts s n w' else (Inl e, w')
      | (Inr _, w') \<Rightarrow> (Inr (), w'))"

definition wait_for_database ::
  "settings \<Rightarrow> ('r, 'p, 'f) world \<Rightarrow> unit result \<times> ('r, 'p, 'f) world" where
  "wait_for_database s w = database_attempts s (nat (db_connect_max_attempts s)) w"

definition check_database :: "('r, 'p, 'f) world \<Rightarrow> bool result \<times> ('r, 'p, 'f) world" where
  "check_database w =
     (case select_1 w of
        (Inl e, w') \<Rightarrow> if unreachable_error e then (Inr False, w') else (Inl e, w')
      | (Inr _, w') \<Rightarrow> (Inr True, w'))"

section \<open>The session of one request\<close>

text \<open>
  \<^verbatim>\<open>get_session\<close> around the body of a request whose session is left in \<open>s\<close>: an exception rolls the
  session back and propagates, unless the rollback raises itself. Nothing is committed.
\<close>

definition leave_session ::
  "'a result \<times> session option \<times> ('r, 'p, 'f) world \<Rightarrow> 'a result \<times> ('r, 'p, 'f) world" where
  "leave_session out =
     (case out of
        (Inr x, s, w) \<Rightarrow> (Inr x, w)
      | (Inl e, None, w) \<Rightarrow>
          (case db_read (\<lambda>_. Inr ()) w of (Inl e', w') \<Rightarrow> (Inl e', w') | (Inr (), w') \<Rightarrow> (Inl e, w'))
      | (Inl e, Some s, w) \<Rightarrow>
          (case session_rollback s w of (Inl e', _, w') \<Rightarrow> (Inl e', w') | (Inr _, _, w') \<Rightarrow> (Inl e, w')))"

section \<open>Lemmas\<close>

lemma get_engine_cached:
  assumes "get_engine s c = (e, c')"
  shows "get_engine s' c' = (e, c')"
  using assms by (auto simp: get_engine_def Let_def split: option.splits)

lemma get_sessionmaker_cached:
  assumes "get_sessionmaker s c = (f, c')"
  shows "get_sessionmaker s' c' = (f, c')"
  using assms by (auto simp: get_sessionmaker_def Let_def split: option.splits prod.splits)

text \<open>The probe gives an answer for every failure of the driver.\<close>

lemma check_database_total:
  assumes "check_database w = (Inl e, w')"
  shows "\<not> unreachable_error e"
  using assms by (auto simp: check_database_def split: prod.splits sum.splits if_splits)

text \<open>Every attempt consumes one fault; the wait succeeds at the first one that does not fail.\<close>

lemma database_attempts_faults:
  assumes "w_faults w = map FailBefore es @ fs" and "\<forall>e \<in> set es. unreachable_error e"
    and "w_others w = []" and "length es \<le> n"
  shows "database_attempts s n w = database_attempts s (n - length es) (w\<lparr>w_faults := fs\<rparr>)"
  using assms
proof (induction es arbitrary: n w)
  case Nil
  then have "w\<lparr>w_faults := fs\<rparr> = w" by (cases w) simp
  then show ?case by simp
next
  case (Cons e es)
  then obtain m where n: "n = Suc m" by (cases n) auto
  have "select_1 w = (Inl e, w\<lparr>w_faults := map FailBefore es @ fs\<rparr>)"
    using Cons.prems(1,3) by (simp add: select_1_def db_read_def interfere_def next_fault_def)
  moreover have "unreachable_error e" using Cons.prems(2) by simp
  ultimately show ?case
    using Cons.IH[of "w\<lparr>w_faults := map FailBefore es @ fs\<rparr>" m] Cons.prems(2-4) n by simp
qed

end
