(* ===== verification/Worker.thy ===== *)
theory Worker
  imports Processor Database
begin

text \<open>
  \<^verbatim>\<open>app/worker/consumer.py\<close>, \<^verbatim>\<open>recovery.py\<close> and \<^verbatim>\<open>main.py\<close>: the consumer loop, the two sweepers, and the
  start and stop of a worker process.

  A loop runs until the shutdown event is set. What \<^verbatim>\<open>shutdown.is_set()\<close> answers is decided from
  outside, so a loop takes the list of the answers it will get, one for each time it asks; when the
  list is used up the loop is still running (\<open>Running\<close>). Pauses (\<^verbatim>\<open>_sleep_or_stop\<close>) change nothing.
  Exceptions that are not an \<^verbatim>\<open>Exception\<close> (cancellation) are not modelled.
\<close>

section \<open>The consumer (consumer.py)\<close>

definition ERROR_BACKOFF_SECONDS :: nat where
  "ERROR_BACKOFF_SECONDS = 2"

text \<open>The host name, the process identifier and the hexadecimal digits of a fresh UUID.\<close>

definition build_consumer_name :: "string \<Rightarrow> int \<Rightarrow> string \<Rightarrow> string" where
  "build_consumer_name hostname pid uuid_hex =
     ''worker-'' @ hostname @ ''-'' @ show_int pid @ ''-'' @ take 6 uuid_hex"

record ('r, 'p, 'f) stream_consumer =
  sc_queue :: redis_queue
  sc_processor :: "('r, 'p, 'f) processor"
  sc_settings :: settings
  sc_consumer_name :: string
  sc_processed :: int

definition new_consumer ::
  "redis_queue \<Rightarrow> ('r, 'p, 'f) processor \<Rightarrow> settings \<Rightarrow> string \<Rightarrow> ('r, 'p, 'f) stream_consumer" where
  "new_consumer q p s name =
     \<lparr>sc_queue = q, sc_processor = p, sc_settings = s, sc_consumer_name = name, sc_processed = 0\<rparr>"

text \<open>One event: \<open>Inr None\<close> when processing raised and the entry is left unacknowledged.\<close>

definition handle ::
  "('r, 'p, 'f) stream_consumer \<Rightarrow> delivered_event \<Rightarrow> ('r, 'p, 'f) world \<Rightarrow>
     processing_outcome option result \<times> ('r, 'p, 'f) stream_consumer \<times> ('r, 'p, 'f) world" where
  "handle c d w =
     (case process (sc_processor c) d w of
        (Inl e, w1) \<Rightarrow> (Inr None, c, w1)
      | (Inr outcome, w1) \<Rightarrow>
          (case ack (pr_redis (sc_processor c)) (sc_queue c) (de_message_id d) w1 of
             (Inl e, w2) \<Rightarrow> (Inl e, c, w2)
           | (Inr _, w2) \<Rightarrow> (Inr (Some outcome), c\<lparr>sc_processed := sc_processed c + 1\<rparr>, w2)))"

fun handle_all ::
  "('r, 'p, 'f) stream_consumer \<Rightarrow> delivered_event list \<Rightarrow> ('r, 'p, 'f) world \<Rightarrow>
     unit result \<times> ('r, 'p, 'f) stream_consumer \<times> ('r, 'p, 'f) world" where
  "handle_all c [] w = (Inr (), c, w)"
| "handle_all c (d # ds) w =
     (case handle c d w of
        (Inl e, c1, w1) \<Rightarrow> (Inl e, c1, w1)
      | (Inr _, c1, w1) \<Rightarrow> handle_all c1 ds w1)"

text \<open>The body of the loop.\<close>

definition consume ::
  "('r, 'p, 'f) stream_consumer \<Rightarrow> ('r, 'p, 'f) world \<Rightarrow>
     unit result \<times> ('r, 'p, 'f) stream_consumer \<times> ('r, 'p, 'f) world" where
  "consume c w =
     (case queue_read (pr_redis (sc_processor c)) (pr_codec (sc_processor c)) (sc_queue c)
        (sc_consumer_name c) w of
        (Inl e, w1) \<Rightarrow> if is_app_instance e QueueError then (Inr (), c, w1) else (Inl e, c, w1)
      | (Inr delivered, w1) \<Rightarrow> handle_all c delivered w1)"

datatype loop_end = Stopped | Raised exc | Running

fun consumer_run ::
  "bool list \<Rightarrow> ('r, 'p, 'f) stream_consumer \<Rightarrow> ('r, 'p, 'f) world \<Rightarrow>
     loop_end \<times> ('r, 'p, 'f) stream_consumer \<times> ('r, 'p, 'f) world" where
  "consumer_run [] c w = (Running, c, w)"
| "consumer_run (stop # answers) c w =
     (if stop then (Stopped, c, w)
      else
        (case consume c w of
           (Inl e, c1, w1) \<Rightarrow> (Raised e, c1, w1)
         | (Inr _, c1, w1) \<Rightarrow> consumer_run answers c1 w1))"

section \<open>Pending recovery (recovery.py)\<close>

definition recover ::
  "('r, 'p, 'f) stream_consumer \<Rightarrow> ('r, 'p, 'f) world \<Rightarrow>
     unit result \<times> ('r, 'p, 'f) stream_consumer \<times> ('r, 'p, 'f) world" where
  "recover c w =
     (case claim_stale (pr_redis (sc_processor c)) (pr_codec (sc_processor c)) (sc_queue c)
        (sc_consumer_name c) w of
        (Inl e, w1) \<Rightarrow> if is_app_instance e QueueError then (Inr (), c, w1) else (Inl e, c, w1)
      | (Inr stale, w1) \<Rightarrow> handle_all c stale w1)"

text \<open>Each round asks twice, before and after the pause.\<close>

fun run_pending_recovery ::
  "bool list \<Rightarrow> ('r, 'p, 'f) stream_consumer \<Rightarrow> ('r, 'p, 'f) world \<Rightarrow>
     loop_end \<times> ('r, 'p, 'f) stream_consumer \<times> ('r, 'p, 'f) world" where
  "run_pending_recovery [] c w = (Running, c, w)"
| "run_pending_recovery [stop] c w = (if stop then Stopped else Running, c, w)"
| "run_pending_recovery (stop # stop' # answers) c w =
     (if stop \<or> stop' then (Stopped, c, w)
      else
        (case recover c w of
           (Inl e, c1, w1) \<Rightarrow> (Raised e, c1, w1)
         | (Inr _, c1, w1) \<Rightarrow> run_pending_recovery answers c1 w1))"

section \<open>Retry scheduling (recovery.py)\<close>

fun publish_all ::
  "'r redis_api \<Rightarrow> event_codec \<Rightarrow> redis_queue \<Rightarrow> event list \<Rightarrow> ('r, 'p, 'f) world \<Rightarrow>
     unit result \<times> ('r, 'p, 'f) world" where
  "publish_all rd cd q [] w = (Inr (), w)"
| "publish_all rd cd q (e # es) w =
     (case publish rd cd q e w of
        (Inl x, w1) \<Rightarrow> (Inl x, w1)
      | (Inr _, w1) \<Rightarrow> publish_all rd cd q es w1)"

text \<open>The default of \<^verbatim>\<open>pop_due_retries(limit=...)\<close>.\<close>

definition RETRY_BATCH :: nat where
  "RETRY_BATCH = 50"

definition sweep_retries ::
  "'r redis_api \<Rightarrow> event_codec \<Rightarrow> redis_queue \<Rightarrow> ('r, 'p, 'f) world \<Rightarrow> unit result \<times> ('r, 'p, 'f) world" where
  "sweep_retries rd cd q w =
     (let out = (case pop_due_retries rd cd q RETRY_BATCH w of
            (Inl e, w1) \<Rightarrow> (Inl e, w1)
          | (Inr due, w1) \<Rightarrow> publish_all rd cd q due w1)
      in (case out of
            (Inl e, w2) \<Rightarrow> if is_app_instance e QueueError then (Inr (), w2) else (Inl e, w2)
          | (Inr _, w2) \<Rightarrow> (Inr (), w2)))"

fun run_retry_scheduler ::
  "'r redis_api \<Rightarrow> event_codec \<Rightarrow> redis_queue \<Rightarrow> bool list \<Rightarrow> ('r, 'p, 'f) world \<Rightarrow>
     loop_end \<times> ('r, 'p, 'f) world" where
  "run_retry_scheduler rd cd q [] w = (Running, w)"
| "run_retry_scheduler rd cd q [stop] w = (if stop then Stopped else Running, w)"
| "run_retry_scheduler rd cd q (stop # stop' # answers) w =
     (if stop \<or> stop' then (Stopped, w)
      else
        (case sweep_retries rd cd q w of
           (Inl e, w1) \<Rightarrow> (Raised e, w1)
         | (Inr _, w1) \<Rightarrow> run_retry_scheduler rd cd q answers w1))"

section \<open>The process (main.py)\<close>

text \<open>The instances the process creates once.\<close>

record ('r, 'p, 'f) instances =
  in_engine :: engine_cache
  in_queue :: "redis_queue option"
  in_storage :: "('r, 'p, 'f) file_storage option"

text \<open>What the process finds around it; \<open>we_provider\<close> turns the choice of the factory into the provider.\<close>

record ('r, 'p, 'f) worker_env =
  we_redis :: "'r redis_api"
  we_codec :: event_codec
  we_fs :: "'f fs_api"
  we_base :: "string list"
  we_provider :: "provider_choice \<Rightarrow> 'p provider"
  we_parsers :: parsers
  we_expired_read :: "exc option"
  we_hostname :: string
  we_pid :: int
  we_hex :: string

definition shutdown_all ::
  "'p provider \<Rightarrow> ('r, 'p, 'f) instances \<Rightarrow> ('r, 'p, 'f) world \<Rightarrow> ('r, 'p, 'f) instances \<times> ('r, 'p, 'f) world" where
  "shutdown_all provider i w =
     (case provider_call (lp_aclose provider) w of (_, w1) \<Rightarrow>
        let i1 = i\<lparr>in_queue := map_option queue_close (in_queue i)\<rparr>
        in (case dispose_engine (in_engine i1) w1 of (_, c, w2) \<Rightarrow> (i1\<lparr>in_engine := c\<rparr>, w2)))"

text \<open>\<^verbatim>\<open>_install_signal_handlers\<close>; \<open>add\<close> is the exception \<^verbatim>\<open>loop.add_signal_handler\<close> raises for a signal, if it does.\<close>

definition NOT_IMPLEMENTED :: string where
  "NOT_IMPLEMENTED = ''builtins.NotImplementedError''"

fun install_handlers :: "(string \<Rightarrow> exc option) \<Rightarrow> string list \<Rightarrow> string list result" where
  "install_handlers add [] = Inr []"
| "install_handlers add (sg # sgs) =
     (case add sg of
        Some e \<Rightarrow> if is_foreign_instance e NOT_IMPLEMENTED then install_handlers add sgs else Inl e
      | None \<Rightarrow> (case install_handlers add sgs of Inl e \<Rightarrow> Inl e | Inr hs \<Rightarrow> Inr (sg # hs)))"

definition install_signal_handlers :: "(string \<Rightarrow> exc option) \<Rightarrow> string list result" where
  "install_signal_handlers add = install_handlers add [''SIGINT'', ''SIGTERM'']"

text \<open>
  \<^verbatim>\<open>asyncio.TaskGroup\<close> over the three loops. What happens while it waits is a list: a signal arrives, or one
  of the loops has its turn. A turn is one check of the shutdown event and, if it is not set, one round of the
  loop; for the sweepers it starts where the pause ends (the check before the pause would have ended
  the loop in the same state). A signal with a handler sets the event, which is never cleared. A loop
  that raises ends the group: the others are cancelled and the group raises. \<open>None\<close>: still waiting.
\<close>

datatype loop_name = ConsumerLoop | RecoveryLoop | SchedulerLoop

datatype happening = Turn loop_name | Signal string

definition take_turn ::
  "loop_name \<Rightarrow> bool \<Rightarrow> ('r, 'p, 'f) stream_consumer \<Rightarrow> ('r, 'p, 'f) world \<Rightarrow>
     loop_end \<times> ('r, 'p, 'f) stream_consumer \<times> ('r, 'p, 'f) world" where
  "take_turn l stop c w =
     (case l of
        ConsumerLoop \<Rightarrow> consumer_run [stop] c w
      | RecoveryLoop \<Rightarrow> run_pending_recovery [False, stop] c w
      | SchedulerLoop \<Rightarrow>
          (case run_retry_scheduler (pr_redis (sc_processor c)) (pr_codec (sc_processor c)) (sc_queue c)
             [False, stop] w of (r, w1) \<Rightarrow> (r, c, w1)))"

fun task_group ::
  "string list \<Rightarrow> happening list \<Rightarrow> bool \<Rightarrow> loop_name list \<Rightarrow> ('r, 'p, 'f) stream_consumer \<Rightarrow>
     ('r, 'p, 'f) world \<Rightarrow> exc list option \<times> ('r, 'p, 'f) stream_consumer \<times> ('r, 'p, 'f) world" where
  "task_group handlers xs stop [] c w = (Some [], c, w)"
| "task_group handlers [] stop (l # ls) c w = (None, c, w)"
| "task_group handlers (Signal sg # xs) stop (l # ls) c w =
     task_group handlers xs (stop \<or> sg \<in> set handlers) (l # ls) c w"
| "task_group handlers (Turn t # xs) stop (l # ls) c w =
     (if t \<notin> set (l # ls) then task_group handlers xs stop (l # ls) c w
      else
        (case take_turn t stop c w of
           (Stopped, c1, w1) \<Rightarrow> task_group handlers xs stop (removeAll t (l # ls)) c1 w1
         | (Running, c1, w1) \<Rightarrow> task_group handlers xs stop (l # ls) c1 w1
         | (Raised e, c1, w1) \<Rightarrow> (Some [e], c1, w1)))"

definition exception_group :: exc where
  "exception_group =
     OtherExc [''builtins.ExceptionGroup'', ''builtins.BaseExceptionGroup'', ''builtins.Exception'']
       ''unhandled errors in a TaskGroup''"

text \<open>Everything up to \<open>worker.ready\<close>: the dependencies, and the consumer the loops share.\<close>

definition worker_start ::
  "('r, 'p, 'f) worker_env \<Rightarrow> settings \<Rightarrow> ('r, 'p, 'f) instances \<Rightarrow> ('r, 'p, 'f) world \<Rightarrow>
     (('r, 'p, 'f) stream_consumer \<times> 'p provider) result \<times> ('r, 'p, 'f) instances \<times> ('r, 'p, 'f) world" where
  "worker_start env s i w =
     (let name = build_consumer_name (we_hostname env) (we_pid env) (we_hex env);
          i0 = i\<lparr>in_engine := snd (get_engine s (in_engine i))\<rparr>
      in (case wait_for_database s w of
            (Inl e, w1) \<Rightarrow> (Inl e, i0, w1)
          | (Inr _, w1) \<Rightarrow>
              (case get_queue s (in_queue i0) of (q, cq) \<Rightarrow>
                 (case queue_connect (we_redis env) q w1 of
                    (Inl e, q1, w2) \<Rightarrow> (Inl e, i0\<lparr>in_queue := Some q1\<rparr>, w2)
                  | (Inr _, q1, w2) \<Rightarrow>
                      let i1 = i0\<lparr>in_queue := Some q1\<rparr>
                      in (case ensure_group (we_redis env) q1 w2 of
                            (Inl e, w3) \<Rightarrow> (Inl e, i1, w3)
                          | (Inr _, w3) \<Rightarrow>
                              (case build_provider s of
                                 Inl e \<Rightarrow> (Inl e, i1, w3)
                               | Inr choice \<Rightarrow>
                                   let provider = we_provider env choice;
                                       i2 = i1\<lparr>in_engine := snd (get_sessionmaker s (in_engine i1))\<rparr>
                                   in (case get_file_storage (we_fs env) (we_base env) (in_storage i2) w3 of
                                         (Inl e, st, w4) \<Rightarrow> (Inl e, i2\<lparr>in_storage := st\<rparr>, w4)
                                       | (Inr storage, st, w4) \<Rightarrow>
                                           let p = \<lparr>pr_storage = storage, pr_redis = we_redis env,
                                                    pr_codec = we_codec env, pr_queue = q1,
                                                    pr_provider = provider, pr_parsers = we_parsers env,
                                                    pr_settings = s, pr_consumer_name = name,
                                                    pr_expired_read = we_expired_read env\<rparr>
                                           in (Inr (new_consumer q1 p s name, provider),
                                               i2\<lparr>in_storage := st\<rparr>, w4))))))))"

definition run_worker ::
  "('r, 'p, 'f) worker_env \<Rightarrow> settings \<Rightarrow> string list \<Rightarrow> happening list \<Rightarrow>
     ('r, 'p, 'f) instances \<Rightarrow> ('r, 'p, 'f) world \<Rightarrow> unit result option \<times> ('r, 'p, 'f) instances \<times> ('r, 'p, 'f) world" where
  "run_worker env s handlers xs i w =
     (case worker_start env s i w of
        (Inl e, i1, w1) \<Rightarrow> (Some (Inl e), i1, w1)
      | (Inr (c, provider), i1, w1) \<Rightarrow>
          (case task_group handlers xs False [ConsumerLoop, RecoveryLoop, SchedulerLoop] c w1 of
             (None, c1, w2) \<Rightarrow> (None, i1, w2)
           | (Some errors, c1, w2) \<Rightarrow>
               (case shutdown_all provider i1 w2 of
                  (i2, w3) \<Rightarrow> (Some (if errors = [] then Inr () else Inl exception_group), i2, w3))))"

text \<open>The exit code; an error that is not an \<^verbatim>\<open>AppError\<close> escapes from \<^verbatim>\<open>main\<close>.\<close>

definition worker_main ::
  "('r, 'p, 'f) worker_env \<Rightarrow> settings \<Rightarrow> (string \<Rightarrow> exc option) \<Rightarrow> happening list \<Rightarrow>
     ('r, 'p, 'f) instances \<Rightarrow> ('r, 'p, 'f) world \<Rightarrow> int result option \<times> ('r, 'p, 'f) instances \<times> ('r, 'p, 'f) world" where
  "worker_main env s add xs i w =
     (case install_signal_handlers add of
        Inl e \<Rightarrow> (Some (Inl e), i, w)
      | Inr handlers \<Rightarrow>
          (case run_worker env s handlers xs i w of
             (None, i', w') \<Rightarrow> (None, i', w')
           | (Some (Inl e), i', w') \<Rightarrow> (Some (if is_app_instance e AppError then Inr 1 else Inl e), i', w')
           | (Some (Inr _), i', w') \<Rightarrow> (Some (Inr 0), i', w')))"

end
