(* ===== verification/Redis_Stream.thy ===== *)
theory Redis_Stream
  imports Redis
begin

text \<open>
  What a stream holds: the entry behind each message, which no command the program uses changes or removes
  (it neither trims nor deletes), and which is what reading and claiming hand out.
\<close>

section \<open>The entries of a stream\<close>

text \<open>A command keeps the invariant of the server and every entry.\<close>

definition stream_grows :: "('r \<Rightarrow> bool) \<Rightarrow> (string \<Rightarrow> 'r \<Rightarrow> string \<Rightarrow> fields option) \<Rightarrow> 'r \<Rightarrow> 'r \<Rightarrow> bool" where
  "stream_grows intact entry r r' \<longleftrightarrow>
     (intact r \<longrightarrow> intact r' \<and> (\<forall>s m fs. entry s r m = Some fs \<longrightarrow> entry s r' m = Some fs))"

lemma stream_grows_refl [simp, intro]: "stream_grows intact entry r r"
  by (simp add: stream_grows_def)

lemma stream_grows_trans [trans]:
  "stream_grows intact entry r r' \<Longrightarrow> stream_grows intact entry r' r'' \<Longrightarrow> stream_grows intact entry r r''"
  by (simp add: stream_grows_def)

locale redis_stream = redis_server rd outstanding zset
  for rd :: "'r redis_api" and outstanding :: "string \<Rightarrow> string \<Rightarrow> 'r \<Rightarrow> string set"
    and zset :: "string \<Rightarrow> 'r \<Rightarrow> string \<Rightarrow> py_float option" +
  fixes intact :: "'r \<Rightarrow> bool" and entry :: "string \<Rightarrow> 'r \<Rightarrow> string \<Rightarrow> fields option"
  assumes xadd_grows: "rd_xadd rd s f r = (x, r') \<Longrightarrow> stream_grows intact entry r r'"
    and xreadgroup_grows: "rd_xreadgroup rd s g c n b r = (y, r') \<Longrightarrow> stream_grows intact entry r r'"
    and xpending_grows: "rd_xpending_range rd s g n idle r = (z, r') \<Longrightarrow> stream_grows intact entry r r'"
    and xclaim_grows: "rd_xclaim rd s g c idle ids r = (cl, r') \<Longrightarrow> stream_grows intact entry r r'"
    and xack_grows: "rd_xack rd s g i r = (u, r') \<Longrightarrow> stream_grows intact entry r r'"
    and zadd_grows: "rd_zadd rd k pairs r = (v, r') \<Longrightarrow> stream_grows intact entry r r'"
    and zrem_grows: "stream_grows intact entry r (rd_zrem rd k ms r)"
    and outstanding_entry: "intact r \<Longrightarrow> m \<in> outstanding s g r \<Longrightarrow> entry s r m \<noteq> None"
    and xreadgroup_entry: "intact r \<Longrightarrow> rd_xreadgroup rd s g c n b r = (Inr rows, r') \<Longrightarrow>
      (s', msgs) \<in> set rows \<Longrightarrow> (m, fs) \<in> set msgs \<Longrightarrow> entry s r m = Some fs"
    and xclaim_entry: "intact r \<Longrightarrow> rd_xclaim rd s g c idle ids r = (Inr msgs, r') \<Longrightarrow>
      (m, fs) \<in> set msgs \<Longrightarrow> entry s r m = Some fs"

text \<open>How a server is looked at: what is outstanding, the retry sets, its invariant, the entries.\<close>

record 'r server_view =
  sv_outstanding :: "string \<Rightarrow> string \<Rightarrow> 'r \<Rightarrow> string set"
  sv_zset :: "string \<Rightarrow> 'r \<Rightarrow> string \<Rightarrow> py_float option"
  sv_intact :: "'r \<Rightarrow> bool"
  sv_entry :: "string \<Rightarrow> 'r \<Rightarrow> string \<Rightarrow> fields option"

abbreviation viewed :: "'r redis_api \<Rightarrow> 'r server_view \<Rightarrow> bool" where
  "viewed rd V \<equiv> redis_stream rd (sv_outstanding V) (sv_zset V) (sv_intact V) (sv_entry V)"

section \<open>The in-memory server\<close>

text \<open>
  Entries have different IDs, the IDs still to come are unused, and what a group has not read or not
  acknowledged is an entry of the stream.
\<close>

definition mem_intact :: "mem_redis \<Rightarrow> bool" where
  "mem_intact r \<longleftrightarrow>
     (\<forall>s. distinct (map fst (mr_entries r s)) \<and>
       (\<forall>k \<ge> mr_counter r. show_nat k @ ''-0'' \<notin> fst ` set (mr_entries r s)) \<and>
       (\<forall>g grp. mr_groups r s g = Some grp \<longrightarrow>
          set (grp_unread grp) \<union> (\<lambda>p. (pe_id p, pe_fields p)) ` set (grp_pending grp) \<subseteq> set (mr_entries r s)))"

definition mem_entry :: "string \<Rightarrow> mem_redis \<Rightarrow> string \<Rightarrow> fields option" where
  "mem_entry s r = map_of (mr_entries r s)"

lemma mem_entry_iff: "mem_intact r \<Longrightarrow> mem_entry s r m = Some fs \<longleftrightarrow> (m, fs) \<in> set (mr_entries r s)"
  by (simp add: mem_intact_def mem_entry_def)

text \<open>A change of one group that holds only entries of the stream.\<close>

lemma mem_grows_group:
  assumes "mr_groups r s g = Some grp"
    and "set (grp_unread grp') \<subseteq> set (grp_unread grp) \<union> (\<lambda>p. (pe_id p, pe_fields p)) ` set (grp_pending grp)"
    and "(\<lambda>p. (pe_id p, pe_fields p)) ` set (grp_pending grp') \<subseteq>
      set (grp_unread grp) \<union> (\<lambda>p. (pe_id p, pe_fields p)) ` set (grp_pending grp)"
  shows "stream_grows mem_intact mem_entry r (set_group s g grp' r)"
  unfolding stream_grows_def
proof (intro impI conjI allI)
  assume i: "mem_intact r"
  then have "set (grp_unread grp) \<union> (\<lambda>p. (pe_id p, pe_fields p)) ` set (grp_pending grp) \<subseteq> set (mr_entries r s)"
    using assms(1) unfolding mem_intact_def by blast
  with assms(2,3) have "set (grp_unread grp') \<union> (\<lambda>p. (pe_id p, pe_fields p)) ` set (grp_pending grp') \<subseteq> set (mr_entries r s)"
    by blast
  with i show "mem_intact (set_group s g grp' r)" unfolding mem_intact_def set_group_def by auto
qed (simp add: mem_entry_def set_group_def)

lemma mem_grows_zsets: "stream_grows mem_intact mem_entry r (r\<lparr>mr_zsets := z\<rparr>)"
  by (simp add: stream_grows_def mem_intact_def mem_entry_def)

lemma mem_xadd_grows:
  assumes "mem_xadd s f r = (x, r')"
  shows "stream_grows mem_intact mem_entry r r'"
  unfolding stream_grows_def
proof (intro impI conjI allI)
  assume i: "mem_intact r"
  let ?i = "show_nat (mr_counter r) @ ''-0''"
  have new: "?i \<notin> fst ` set (mr_entries r t)" for t using i by (simp add: mem_intact_def)
  have r': "mr_counter r' = Suc (mr_counter r)"
    "mr_entries r' = (mr_entries r)(s := mr_entries r s @ [(?i, f)])"
    "mr_groups r' = (mr_groups r)(s := (\<lambda>g. map_option (\<lambda>grp. grp\<lparr>grp_unread := grp_unread grp @ [(?i, f)]\<rparr>) (mr_groups r s g)))"
    using assms by (auto simp: mem_xadd_def Let_def)
  show "mem_intact r'"
    unfolding mem_intact_def
  proof (intro allI conjI impI)
    fix t
    show "distinct (map fst (mr_entries r' t))" using i new[of s] by (simp add: r' mem_intact_def)
    show "show_nat k @ ''-0'' \<notin> fst ` set (mr_entries r' t)" if "mr_counter r' \<le> k" for k
    proof -
      have "k \<noteq> mr_counter r" "mr_counter r \<le> k" using that by (simp_all add: r')
      then have "show_nat k @ ''-0'' \<noteq> ?i" by (auto dest: show_nat_inj)
      then show ?thesis using i \<open>mr_counter r \<le> k\<close> by (auto simp: r' mem_intact_def)
    qed
    show "set (grp_unread grp) \<union> (\<lambda>p. (pe_id p, pe_fields p)) ` set (grp_pending grp) \<subseteq> set (mr_entries r' t)"
      if g: "mr_groups r' t g = Some grp" for g grp
    proof (cases "t = s")
      case True
      with g obtain old where old: "mr_groups r s g = Some old" and grp: "grp = old\<lparr>grp_unread := grp_unread old @ [(?i, f)]\<rparr>"
        by (auto simp: r')
      have "set (grp_unread old) \<union> (\<lambda>p. (pe_id p, pe_fields p)) ` set (grp_pending old) \<subseteq> set (mr_entries r s)"
        using i old unfolding mem_intact_def by blast
      then show ?thesis by (auto simp: True r' grp)
    next
      case False
      then show ?thesis using i g unfolding mem_intact_def by (simp add: r')
    qed
  qed
  fix t m fs assume "mem_entry t r m = Some fs"
  then show "mem_entry t r' m = Some fs" by (cases "t = s") (simp_all add: mem_entry_def r')
qed

lemma mem_xreadgroup_grows: "mem_xreadgroup s g c n b r = (y, r') \<Longrightarrow> stream_grows mem_intact mem_entry r r'"
  by (auto simp: mem_xreadgroup_def Let_def split: option.splits if_splits
      intro!: mem_grows_group dest!: in_set_takeD dest: in_set_dropD)

lemma mem_xclaim_grows: "mem_xclaim s g c idle ids r = (cl, r') \<Longrightarrow> stream_grows mem_intact mem_entry r r'"
  by (auto simp: mem_xclaim_def Let_def split: option.splits intro!: mem_grows_group)

lemma mem_xack_grows: "mem_xack s g i r = (u, r') \<Longrightarrow> stream_grows mem_intact mem_entry r r'"
  by (auto simp: mem_xack_def split: option.splits intro!: mem_grows_group)

lemma mem_group_entries:
  assumes "mem_intact r" and "mr_groups r s g = Some grp"
  shows "(m, fs) \<in> set (grp_unread grp) \<Longrightarrow> mem_entry s r m = Some fs"
    and "p \<in> set (grp_pending grp) \<Longrightarrow> mem_entry s r (pe_id p) = Some (pe_fields p)"
proof -
  have "set (grp_unread grp) \<union> (\<lambda>p. (pe_id p, pe_fields p)) ` set (grp_pending grp) \<subseteq> set (mr_entries r s)"
    using assms unfolding mem_intact_def by blast
  then show "(m, fs) \<in> set (grp_unread grp) \<Longrightarrow> mem_entry s r m = Some fs"
    and "p \<in> set (grp_pending grp) \<Longrightarrow> mem_entry s r (pe_id p) = Some (pe_fields p)"
    by (auto simp: mem_entry_iff[OF assms(1)])
qed

lemma mem_outstanding_entry:
  assumes "mem_intact r" and "m \<in> mem_outstanding s g r"
  shows "mem_entry s r m \<noteq> None"
proof (cases "mr_groups r s g")
  case None
  with assms(2) show ?thesis
    by (auto simp: mem_outstanding_def mem_entry_def map_of_eq_None_iff simp del: not_None_eq)
next
  case (Some grp)
  with assms(2) mem_group_entries[OF assms(1) Some] show ?thesis
    by (fastforce simp: mem_outstanding_def)
qed

lemma mem_xreadgroup_entry:
  assumes "mem_intact r" and "mem_xreadgroup s g c n b r = (Inr rows, r')" and "(s', msgs) \<in> set rows"
    and "(m, fs) \<in> set msgs"
  shows "mem_entry s r m = Some fs"
proof -
  obtain grp where grp: "mr_groups r s g = Some grp"
    using assms(2,3) by (auto simp: mem_xreadgroup_def split: option.splits)
  have "(m, fs) \<in> set (grp_unread grp)"
    using assms(2-4) grp by (auto simp: mem_xreadgroup_def Let_def split: if_splits dest: in_set_takeD)
  then show ?thesis by (rule mem_group_entries(1)[OF assms(1) grp])
qed

lemma mem_xclaim_entry:
  assumes "mem_intact r" and "mem_xclaim s g c idle ids r = (Inr msgs, r')" and "(m, fs) \<in> set msgs"
  shows "mem_entry s r m = Some fs"
proof -
  obtain grp where grp: "mr_groups r s g = Some grp"
    using assms(2) by (auto simp: mem_xclaim_def split: option.splits)
  then show ?thesis
    using assms(2,3) mem_group_entries(2)[OF assms(1) grp] by (auto simp: mem_xclaim_def Let_def)
qed

definition mem_view :: "mem_redis server_view" where
  "mem_view = \<lparr>sv_outstanding = mem_outstanding, sv_zset = mem_zset, sv_intact = mem_intact, sv_entry = mem_entry\<rparr>"

interpretation memory_stream: redis_stream mem_api mem_outstanding mem_zset mem_intact mem_entry
proof (unfold_locales, goal_cases)
  case 1 then show ?case using mem_xadd_grows by (simp add: mem_api_def)
next
  case 2 then show ?case using mem_xreadgroup_grows by (simp add: mem_api_def)
next
  case 3 then show ?case by (auto simp: mem_api_def mem_xpending_range_def split: option.splits)
next
  case 4 then show ?case using mem_xclaim_grows by (simp add: mem_api_def)
next
  case 5 then show ?case using mem_xack_grows by (simp add: mem_api_def)
next
  case 6 then show ?case using mem_grows_zsets by (auto simp: mem_api_def mem_zadd_def)
next
  case 7 then show ?case using mem_grows_zsets by (simp add: mem_api_def mem_zrem_def)
next
  case 8 then show ?case by (rule mem_outstanding_entry)
next
  case 9 then show ?case using mem_xreadgroup_entry by (simp add: mem_api_def)
next
  case 10 then show ?case using mem_xclaim_entry by (simp add: mem_api_def)
qed

lemma mem_viewed: "viewed mem_api mem_view"
  using memory_stream.redis_stream_axioms by (simp add: mem_view_def)

end
