(* ===== verification/Processor_Frame.thy ===== *)
theory Processor_Frame
  imports Processor_Outcomes
begin

text \<open>
  What processing a message leaves alone. A relation between worlds that every elementary step of the
  processor satisfies (a call to the database, the clock, a fresh identifier, a random number, a call
  to the provider, reading a file, scheduling a retry) is satisfied by the whole of \<open>process\<close>. The
  locale proves this once; it is used for the outstanding messages of the queue and for the faults
  still to come.
\<close>

locale process_frame =
  fixes Q :: "('r, 'p, 'f) world \<Rightarrow> ('r, 'p, 'f) world \<Rightarrow> bool" and p :: "('r, 'p, 'f) processor"
  assumes Q_refl [simp, intro]: "Q w w"
    and Q_trans [trans]: "Q u v \<Longrightarrow> Q v w \<Longrightarrow> Q u w"
    and Q_interfere: "Q w (interfere w)"
    and Q_fault: "next_fault w = (x, w') \<Longrightarrow> Q w w'"
    and Q_db: "Q w (w\<lparr>w_db := d\<rparr>)"
    and Q_now: "utcnow w = (t, w') \<Longrightarrow> Q w w'"
    and Q_uuid: "uuid4 w = (i, w') \<Longrightarrow> Q w w'"
    and Q_random: "random01 w = (rn, w') \<Longrightarrow> Q w w'"
    and Q_provider: "Q w (w\<lparr>w_provider := y\<rparr>)"
    and Q_read: "st_read (pr_storage p) k w = (b, w') \<Longrightarrow> Q w w'"
    and Q_schedule: "schedule_retry (pr_redis p) (pr_codec p) (pr_queue p) e delay w = (z, w') \<Longrightarrow> Q w w'"
begin

lemma db_read_Q: "db_read f w = (r, w') \<Longrightarrow> Q w w'"
  using Q_interfere Q_trans
  by (auto simp: db_read_def dest!: Q_fault split: prod.splits fault.splits)

lemma db_write_Q: "db_write f w = (r, w') \<Longrightarrow> Q w w'"
proof -
  assume a: "db_write f w = (r, w')"
  obtain x v where v: "next_fault (interfere w) = (x, v)" by fastforce
  have "w' = v \<or> (\<exists>d. w' = v\<lparr>w_db := d\<rparr>)"
    using a v by (auto simp: db_write_def split: fault.splits sum.splits)
  with Q_trans[OF Q_interfere Q_fault[OF v]] Q_db Q_trans show ?thesis by blast
qed

lemma commit_locked_Q: "commit_locked f w = (r, w') \<Longrightarrow> Q w w'"
  using Q_db Q_trans
  by (auto simp: commit_locked_def dest!: Q_fault split: prod.splits fault.splits)

lemma provider_call_Q: "provider_call f w = (r, w') \<Longrightarrow> Q w w'"
  using Q_provider by (auto simp: provider_call_def split: prod.splits)

lemma session_Q:
  "session_commit s w = (r, s', w') \<Longrightarrow> Q w w'"
  "session_rollback s w = (r, s', w') \<Longrightarrow> Q w w'"
  "session_refresh s w = (r, s', w') \<Longrightarrow> Q w w'"
  by (auto simp: session_commit_def session_rollback_def session_refresh_def
      dest!: Q_now db_write_Q db_read_Q intro: Q_trans split: prod.splits sum.splits)

lemma mark_Q:
  "mark_completed c s w = (r, s', w') \<Longrightarrow> Q w w'"
  "mark_retrying m c s w = (r, s', w') \<Longrightarrow> Q w w'"
  "mark_failed m c s w = (r, s', w') \<Longrightarrow> Q w w'"
  by (auto simp: mark_defs commit_if_def dest!: Q_now session_Q(1) intro: Q_trans
      split: prod.splits sum.splits if_splits)

lemma claim_Q:
  assumes "claim_job jid c stale w = (r, w')"
  shows "Q w w'"
proof -
  obtain now w1 where u: "utcnow w = (now, w1)" by fastforce
  let ?cut = "now - stale * microseconds_per_second"
  obtain r2 w2 where q: "db_read (claim_query jid ?cut c) w1 = (r2, w2)" by fastforce
  obtain r3 w3 where k: "commit_locked (claim_effect jid ?cut now c) w2 = (r3, w3)" by fastforce
  obtain r4 w4 where g: "get_job jid w3 = (r4, w4)" by fastforce
  obtain r5 w5 where n: "db_read (\<lambda>_. Inr ()) w2 = (r5 :: unit result, w5)" by fastforce
  have "w' = w2 \<or> w' = w3 \<or> w' = w4 \<or> w' = w5"
    using assms u q k g n by (auto simp: claim_job_def Let_def split: sum.splits option.splits prod.splits)
  moreover have 2: "Q w w2" using Q_trans[OF Q_now[OF u] db_read_Q[OF q]] .
  moreover have 3: "Q w w3" using Q_trans[OF 2 commit_locked_Q[OF k]] .
  moreover have "Q w w4" using Q_trans[OF 3 db_read_Q[OF g[unfolded get_job_def]]] .
  moreover have "Q w w5" using Q_trans[OF 2 db_read_Q[OF n]] .
  ultimately show ?thesis by blast
qed

lemma resolve_type_Q: "resolve_type p e body w = (r, w') \<Longrightarrow> Q w w'"
  by (auto simp: resolve_type_def Let_def dest: provider_call_Q split: option.splits prod.splits sum.splits)

lemma produce_Q:
  assumes "produce p s e w = (r, w')"
  shows "Q w w'"
proof -
  obtain r1 w1 where rd: "st_read (pr_storage p) (ev_storage_path e) w = (r1, w1)" by fastforce
  show ?thesis
  proof (cases "w' = w1")
    case False
    obtain r2 w2 model_input where t: "resolve_type p e model_input w1 = (r2, w2)"
      and x: "w' = w2 \<or> (\<exists>ty r3. provider_call (lp_extract (pr_provider p) model_input ty) w2 = (r3, w'))"
      using assms rd False
      by (fastforce simp: produce_def Let_def split: sum.splits option.splits prod.splits)
    have "Q w w2" using Q_trans[OF Q_read[OF rd] resolve_type_Q[OF t]] .
    with x show ?thesis by (auto intro: Q_trans[OF _ provider_call_Q])
  qed (use Q_read[OF rd] in simp)
qed

lemma persist_Q:
  assumes "persist p out body s w = (r, s', w')"
  shows "Q w w'"
proof -
  obtain rid w1 where u: "uuid4 w = (rid, w1)" by fastforce
  obtain now w2 where n: "utcnow w1 = (now, w2)" by fastforce
  let ?s1 = "session_add (new_result rid now (job_id (sess_job s)) out
      (fst (Text_Extraction.truncate body (raw_text_store_max_chars (pr_settings p))))) s"
  obtain r2 s2 w3 where m: "mark_completed False ?s1 w2 = (r2, s2, w3)" by (cases "mark_completed False ?s1 w2")
  obtain r3 s3 w4 where c: "session_commit s2 w3 = (r3, s3, w4)" by (cases "session_commit s2 w3")
  obtain r4 s4 w5 where b: "session_rollback s3 w4 = (r4, s4, w5)" by (cases "session_rollback s3 w4")
  have "w' = w3 \<or> w' = w4 \<or> w' = w5"
    using assms u n m c b by (auto simp: persist_def Let_def split: sum.splits if_splits option.splits)
  moreover have 3: "Q w w3" using Q_trans[OF Q_trans[OF Q_uuid[OF u] Q_now[OF n]] mark_Q(1)[OF m]] .
  moreover have 4: "Q w w4" using Q_trans[OF 3 session_Q(1)[OF c]] .
  moreover have "Q w w5" using Q_trans[OF 4 session_Q(2)[OF b]] .
  ultimately show ?thesis by blast
qed

lemma run_Q:
  assumes "run p s e w = (r, s', w')"
  shows "Q w w'"
proof -
  obtain r1 w1 where p: "produce p s e w = (r1, w1)" by fastforce
  with assms have "w' = w1 \<or> (\<exists>out body r2 s2. persist p out body s w1 = (r2, s2, w'))"
    by (auto simp: run_def split: sum.splits prod.splits)
  with produce_Q[OF p] show ?thesis using persist_Q Q_trans by blast
qed

lemma fail_job_Q: "fail_job m s w = (r, w') \<Longrightarrow> Q w w'"
  by (auto simp: fail_job_def dest: mark_Q(3) split: prod.splits sum.splits)

lemma handle_failure_Q:
  assumes "handle_failure p s e x w = (r, w')"
  shows "Q w w'"
proof -
  obtain r1 s1 w1 where b: "session_rollback s w = (r1, s1, w1)" by (cases "session_rollback s w")
  obtain r2 s2 w2 where f: "session_refresh s1 w1 = (r2, s2, w2)" by (cases "session_refresh s1 w1")
  obtain u w3 where rn: "random01 w2 = (u, w3)" by fastforce
  obtain e' w4 where n: "next_attempt e w3 = (e', w4)" by fastforce
  define delay where "delay = (case compute_delay (job_retry_count (sess_job s2)) (pr_settings p) u of
      Inr d \<Rightarrow> d | Inl _ \<Rightarrow> 0)"
  obtain r5 w5 where c: "schedule_retry (pr_redis p) (pr_codec p) (pr_queue p) e' delay w4 = (r5, w5)" by fastforce
  obtain y w6 where a: "fail_job (describe x) s2 w2 = (y, w6)" by fastforce
  obtain y' w7 where a': "fail_job (describe x @ '' (retry could not be scheduled)'') s2 w5 = (y', w7)" by fastforce
  obtain r8 s8 w8 where m: "mark_retrying (describe x) True s2 w5 = (r8, s8, w8)"
    by (cases "mark_retrying (describe x) True s2 w5")
  have "w' \<in> {w1, w2, w3, w5, w6, w7, w8}"
  proof (cases "r1 = Inr () \<and> r2 = Inr ()")
    case False
    with assms b f show ?thesis by (cases r1; cases r2) (auto simp: handle_failure_def)
  next
    case True
    note s = assms b f rn n c a a' m True
    show ?thesis
    proof (cases "compute_delay (job_retry_count (sess_job s2)) (pr_settings p) u")
      case (Inl z)
      with s show ?thesis by (simp add: handle_failure_def Let_def split: if_splits)
    next
      case (Inr z)
      with s show ?thesis
        by (cases r5; cases r8) (simp_all add: handle_failure_def Let_def delay_def split: if_splits)
    qed
  qed
  moreover have 1: "Q w w1" using session_Q(2)[OF b] .
  moreover have 2: "Q w w2" using Q_trans[OF 1 session_Q(3)[OF f]] .
  moreover have 3: "Q w w3" using Q_trans[OF 2 Q_random[OF rn]] .
  moreover have "Q w3 w4"
  proof -
    obtain i v where i: "uuid4 w3 = (i, v)" by fastforce
    obtain t v' where t: "utcnow v = (t, v')" by fastforce
    have "w4 = v'" using n i t by (simp add: next_attempt_def)
    with Q_trans[OF Q_uuid[OF i] Q_now[OF t]] show ?thesis by simp
  qed
  with 3 have 5: "Q w w5" using Q_schedule[OF c] Q_trans by blast
  moreover have "Q w w6" using Q_trans[OF 2 fail_job_Q[OF a]] .
  moreover have "Q w w7" using Q_trans[OF 5 fail_job_Q[OF a']] .
  moreover have "Q w w8" using Q_trans[OF 5 mark_Q(2)[OF m]] .
  ultimately show ?thesis by blast
qed

lemma process_Q:
  assumes "process p d w = (r, w')"
  shows "Q w w'"
proof -
  let ?e = "de_event d"
  obtain r1 w1 where c: "claim_job (ev_job_id ?e) (pr_consumer_name p)
      (stale_processing_seconds (pr_settings p)) w = (r1, w1)" by fastforce
  note 1 = claim_Q[OF c]
  show ?thesis
  proof (cases "\<exists>s. r1 = Inr (Some s)")
    case False
    with assms c have "w' = w1" by (auto simp: process_def Let_def split: sum.splits option.splits)
    with 1 show ?thesis by simp
  next
    case True
    then obtain s where s: "r1 = Inr (Some s)" by blast
    obtain r2 s2 w2 where m: "run p s ?e w1 = (r2, s2, w2)" by (cases "run p s ?e w1")
    let ?m = "redelivered_message (de_delivery_count d)"
    obtain r3 s3 w3 where k: "mark_failed ?m True s w1 = (r3, s3, w3)" by (cases "mark_failed ?m True s w1")
    show ?thesis
    proof (cases "max_delivery_count (pr_settings p) < de_delivery_count d")
      case True
      with assms c s k have "w' = w3" by (simp add: process_def Let_def split: sum.splits)
      with Q_trans[OF 1 mark_Q(3)[OF k]] show ?thesis by simp
    next
      case False
      with assms c s m have "w' = w2 \<or> (\<exists>x. handle_failure p s2 ?e x w2 = (r, w'))"
        by (auto simp: process_def Let_def split: sum.splits)
      with Q_trans[OF 1 run_Q[OF m]] show ?thesis using handle_failure_Q Q_trans by blast
    qed
  qed
qed

end

section \<open>The instances\<close>

lemma local_read_cases:
  assumes "storage_read fs base k w = (r, w')"
  obtains f where "w' = w\<lparr>w_files := f\<rparr>"
proof (cases "w' = w")
  case True
  then have "w' = w\<lparr>w_files := w_files w\<rparr>" by simp
  then show thesis by (rule that)
next
  case False
  with assms that show thesis
    by (auto simp: storage_read_def fs_call_def split: sum.splits prod.splits)
qed

text \<open>The faults still to come are some of those that were to come.\<close>

interpretation coming_faults: process_frame
  "\<lambda>w w'. set (w_faults w') \<subseteq> set (w_faults w)" "p\<lparr>pr_storage := local_storage fs base\<rparr>" for p fs base
proof (unfold_locales, goal_cases)
  case (4 w x w')
  then show ?case by (auto simp: next_fault_def split: list.splits)
next
  case (10 k w b w')
  then have "storage_read fs base k w = (b, w')" by (simp add: local_storage_def)
  then show ?case by (rule local_read_cases) simp
next
  case (11 e delay w z w')
  then show ?case using schedule_retry_frame by (fastforce simp: redis_only_def)
qed (auto simp: interfere_def dest: utcnow_frame uuid4_frame random01_frame split: list.split)

text \<open>Processing acknowledges nothing: the messages outstanding stay the same.\<close>

lemma outstanding_frame:
  assumes "redis_server (pr_redis p) outstanding zset" and "pr_storage p = local_storage fs base"
  shows "process_frame (\<lambda>w w'. outstanding st g (w_redis w') = outstanding st g (w_redis w)) p"
proof (unfold_locales, goal_cases)
  case (10 k w b w')
  then have "storage_read fs base k w = (b, w')" using assms(2) by (simp add: local_storage_def)
  then show ?case by (rule local_read_cases) simp
next
  case (11 e delay w z w')
  then show ?case
  proof (rule redis_server.schedule_retry_cases[OF assms(1)])
    fix r0 assume "rd_zadd (pr_redis p) (retry_key (pr_queue p))
        [(ev_dump (pr_codec p) e, fl (total_seconds (fst (utcnow w)) + delay))] (w_redis w) = (r0, w_redis w')"
    from redis_server.zadd_keeps[OF assms(1) this] show ?thesis .
  qed simp
qed (auto simp: interfere_def same_outside_def
    dest: utcnow_frame uuid4_frame random01_frame next_fault_frame split: list.split)

interpretation memory_outstanding: process_frame
  "\<lambda>w w'. mem_outstanding st g (w_redis w') = mem_outstanding st g (w_redis w)"
  "p\<lparr>pr_storage := local_storage fs base, pr_redis := mem_api\<rparr>" for p fs base st g
  by (rule outstanding_frame) (auto intro: memory_redis.redis_server_axioms)

lemma process_outstanding:
  assumes "process p d w = (r, w')" and "redis_server (pr_redis p) outstanding zset"
    and "pr_storage p = local_storage fs base"
  shows "outstanding s g (w_redis w') = outstanding s g (w_redis w)"
  using process_frame.process_Q[OF outstanding_frame[OF assms(2,3)] assms(1)] .

lemma process_faults_ok:
  assumes "process p d w = (r, w')" and "pr_storage p = local_storage fs base" and "faults_ok w"
  shows "faults_ok w'"
proof -
  have "p = p\<lparr>pr_storage := local_storage fs base\<rparr>" using assms(2) by simp
  with coming_faults.process_Q[of fs base p d w r w'] assms(1,3) show ?thesis
    by (auto simp: faults_ok_def)
qed

end
