(* ===== verification/Queue_Stream.thy ===== *)
theory Queue_Stream
  imports Redis_Stream Processor_Frame
begin

text \<open>
  The queue over the entries of its stream: no operation of the queue changes an entry, what a read or a claim
  hands to the worker is the decoded entry under its ID, and a message that leaves the group while a batch is
  decoded is one whose entry does not decode.
\<close>

lemma decode_entries_delivered:
  "decode_entries rd cd q rows w = (Inr ds, w') \<Longrightarrow> d \<in> set ds \<Longrightarrow>
     \<exists>s ms fs. (s, ms) \<in> set rows \<and> (de_message_id d, fs) \<in> set ms \<and> decode_one cd fs = Inr (de_event d)"
proof (induction rows arbitrary: w ds)
  case (Cons row rows)
  obtain s ms where row: "row = (s, ms)" by fastforce
  with Cons.prems(1) obtain ds1 w1 ds2 where 1: "decode_messages rd cd q Map.empty ms w = (Inr ds1, w1)"
    and 2: "decode_entries rd cd q rows w1 = (Inr ds2, w')" and ds: "ds = ds1 @ ds2"
    by (auto split: sum.splits prod.splits)
  from Cons.prems(2) ds consider "d \<in> set ds1" | "d \<in> set ds2" by auto
  then show ?case
  proof cases
    case 1
    with decode_messages_delivered[OF \<open>decode_messages rd cd q Map.empty ms w = (Inr ds1, w1)\<close>] row
    show ?thesis by (intro exI[of _ s] exI[of _ ms]) (auto simp: 1)
  next
    case d: 2
    from Cons.IH[OF 2 d] show ?thesis by auto
  qed
qed simp

lemma undecodable_iff: "m \<in> undecodable cd ms \<longleftrightarrow> (\<exists>fs e. (m, fs) \<in> set ms \<and> decode_one cd fs = Inl e)"
proof (induction ms)
  case (Cons x ms)
  then show ?case by (cases x; cases "decode_one cd (snd x)") auto
qed simp

section \<open>No operation of the queue changes an entry\<close>

context redis_stream
begin

abbreviation grows :: "('r, 'p, 'f) world \<Rightarrow> ('r, 'p, 'f) world \<Rightarrow> bool" where
  "grows w w' \<equiv> stream_grows intact entry (w_redis w) (w_redis w')"

lemma ack_grows: "ack rd q i w = (r, w') \<Longrightarrow> grows w w'"
  unfolding ack_def by (erule with_client_apfst) (auto dest: xack_grows)

lemma publish_grows: "publish rd cd q e w = (r, w') \<Longrightarrow> grows w w'"
  unfolding publish_def by (erule with_client_apfst) (auto dest: xadd_grows)

lemma schedule_retry_grows: "schedule_retry rd cd q e t w = (r, w') \<Longrightarrow> grows w w'"
  by (erule schedule_retry_cases) (auto dest: zadd_grows)

lemma decode_messages_grows: "decode_messages rd cd q counts ms w = (r, w') \<Longrightarrow> grows w w'"
proof (induction ms arbitrary: w r w')
  case (Cons m ms)
  obtain i fs where m: "m = (i, fs)" by fastforce
  obtain r1 w1 where a: "ack rd q i w = (r1, w1)" by fastforce
  obtain r2 w2 where d: "decode_messages rd cd q counts ms w = (r2, w2)" by fastforce
  have "w' = w \<or> w' = w1 \<or> decode_messages rd cd q counts ms w1 = (r, w') \<or> w' = w2"
    using Cons.prems a d by (auto simp: m split: sum.splits if_splits)
  then show ?case
  proof (elim disjE)
    assume "decode_messages rd cd q counts ms w1 = (r, w')"
    from stream_grows_trans[OF ack_grows[OF a] Cons.IH[OF this]] show ?thesis .
  qed (use ack_grows[OF a] Cons.IH[OF d] in simp_all)
qed simp

lemma decode_entries_grows: "decode_entries rd cd q rows w = (r, w') \<Longrightarrow> grows w w'"
proof (induction rows arbitrary: w r w')
  case (Cons row rows)
  obtain s ms where row: "row = (s, ms)" by fastforce
  obtain r1 w1 where d: "decode_messages rd cd q Map.empty ms w = (r1, w1)" by fastforce
  obtain r2 w2 where e: "decode_entries rd cd q rows w1 = (r2, w2)" by fastforce
  have "w' = w1 \<or> w' = w2" using Cons.prems d e row by (auto split: sum.splits)
  with decode_messages_grows[OF d] stream_grows_trans[OF decode_messages_grows[OF d] Cons.IH[OF e]]
  show ?case by auto
qed simp

lemma pop_due_retries_grows:
  assumes "pop_due_retries rd cd q n w = (r, w')"
  shows "grows w w'"
proof -
  obtain now w1 where u: "utcnow w = (now, w1)" by fastforce
  have r1: "w_redis w1 = w_redis w" using utcnow_frame[OF u] by (simp add: same_outside_def)
  let ?body = "POP_DUE_RETRIES rd (retry_key q) (total_seconds now) n"
  obtain x r2 where x: "rd_script rd ?body (w_redis w) = (x, r2)" by fastforce
  have "r2 = w_redis w \<or> r2 = snd (?body (w_redis w))"
    using x script_Inr script_Inl by (cases x) (auto, metis snd_conv)
  moreover have "stream_grows intact entry (w_redis w) (snd (?body (w_redis w)))"
    by (simp add: POP_DUE_RETRIES_def Let_def zrem_grows)
  moreover have "w_redis w' = w_redis w \<or> w_redis w' = r2"
    using assms u x r1 by (auto simp: pop_due_retries_def redis_call_def split: if_splits sum.splits)
  ultimately show ?thesis by (elim disjE) simp_all
qed

lemma decode_entries_held:
  "decode_entries rd cd q rows w = (r, w') \<Longrightarrow>
     held q w - (\<Union>(s, ms) \<in> set rows. undecodable cd ms) \<subseteq> held q w'"
proof (induction rows arbitrary: w r w')
  case Nil
  then show ?case by simp
next
  case (Cons row rows)
  obtain s ms where row: "row = (s, ms)" by fastforce
  obtain r1 w1 where d: "decode_messages rd cd q Map.empty ms w = (r1, w1)" by fastforce
  note 1 = decode_messages_held[OF d]
  obtain r2 w2 where e: "decode_entries rd cd q rows w1 = (r2, w2)" by fastforce
  have "w' = w1 \<or> w' = w2" using Cons.prems d e row by (auto split: sum.splits)
  with 1 Cons.IH[OF e] show ?case by (auto simp: row)
qed

section \<open>What a read and a claim hand out\<close>

text \<open>A delivery of an entry of the stream, and a message whose entry does not decode.\<close>

definition delivery_of :: "event_codec \<Rightarrow> redis_queue \<Rightarrow> 'r \<Rightarrow> delivered_event \<Rightarrow> bool" where
  "delivery_of cd q r d \<longleftrightarrow>
     (\<exists>fs. entry (queue_stream q) r (de_message_id d) = Some fs \<and> decode_one cd fs = Inr (de_event d))"

definition malformed :: "event_codec \<Rightarrow> redis_queue \<Rightarrow> 'r \<Rightarrow> string \<Rightarrow> bool" where
  "malformed cd q r m \<longleftrightarrow> (\<exists>fs e. entry (queue_stream q) r m = Some fs \<and> decode_one cd fs = Inl e)"

lemma delivery_of_grows: "delivery_of cd q r d \<Longrightarrow> intact r \<Longrightarrow> stream_grows intact entry r r' \<Longrightarrow> delivery_of cd q r' d"
  by (auto simp: delivery_of_def stream_grows_def)

lemma queue_read_entries:
  assumes "queue_read rd cd q c w = (r, w')"
  shows "grows w w'"
    and "intact (w_redis w) \<Longrightarrow> m \<in> held q w \<Longrightarrow> m \<in> held q w' \<or> malformed cd q (w_redis w) m"
    and "intact (w_redis w) \<Longrightarrow> r = Inr ds \<Longrightarrow> d \<in> set ds \<Longrightarrow> delivery_of cd q (w_redis w) d"
proof -
  let ?f = "rd_xreadgroup rd (queue_stream q) (queue_group q) c
           (redis_read_count (rq_settings q)) (redis_block_ms (rq_settings q))"
  obtain r0 w1 where a: "with_client q ?f w = (r0, w1)" by fastforce
  from a have h: "held q w1 = held q w"
    by (rule with_client_state) (auto simp: held_def dest: xreadgroup_keeps)
  from a have g1: "grows w w1" by (rule with_client_state) (auto dest: xreadgroup_grows)
  show "grows w w'"
    using assms a g1 by (auto simp: queue_read_def as_queue_error_def split: sum.splits
        dest!: decode_entries_grows intro: stream_grows_trans)
  show "m \<in> held q w' \<or> malformed cd q (w_redis w) m" if i: "intact (w_redis w)" and m: "m \<in> held q w"
  proof (cases r0)
    case (Inl e)
    with assms a h m show ?thesis by (simp add: queue_read_def as_queue_error_def)
  next
    case (Inr rows)
    with assms(1) a have d: "decode_entries rd cd q rows w1 = (r, w')"
      by (simp add: queue_read_def as_queue_error_def)
    from a Inr obtain rs where x: "?f (w_redis w) = (Inr rows, rs)" by (auto elim: with_client_state)
    show ?thesis
    proof (cases "m \<in> held q w'")
      case False
      with decode_entries_held[OF d] m h obtain s ms where "(s, ms) \<in> set rows" "m \<in> undecodable cd ms"
        by blast
      with xreadgroup_entry[OF i x] show ?thesis unfolding malformed_def undecodable_iff by blast
    qed simp
  qed
  show "delivery_of cd q (w_redis w) d" if i: "intact (w_redis w)" and ds: "r = Inr ds" "d \<in> set ds"
  proof -
    from assms a ds(1) obtain rows where r0: "r0 = Inr rows" and d: "decode_entries rd cd q rows w1 = (Inr ds, w')"
      by (auto simp: queue_read_def as_queue_error_def split: sum.splits if_splits)
    from a r0 obtain rs where x: "?f (w_redis w) = (Inr rows, rs)" by (auto elim: with_client_state)
    from decode_entries_delivered[OF d ds(2)] xreadgroup_entry[OF i x] show ?thesis
      unfolding delivery_of_def by blast
  qed
qed

lemma claim_stale_entries:
  assumes "claim_stale rd cd q c w = (r, w')"
  shows "grows w w'"
    and "intact (w_redis w) \<Longrightarrow> m \<in> held q w \<Longrightarrow> m \<in> held q w' \<or> malformed cd q (w_redis w) m"
    and "intact (w_redis w) \<Longrightarrow> r = Inr ds \<Longrightarrow> d \<in> set ds \<Longrightarrow> delivery_of cd q (w_redis w') d"
proof -
  let ?f = "rd_xpending_range rd (queue_stream q) (queue_group q) (redis_read_count (rq_settings q))
               (pending_min_idle_ms (rq_settings q))"
  obtain r1 w1 where a: "with_client q ?f w = (r1, w1)" by fastforce
  from a have h1: "held q w1 = held q w"
    by (rule with_client_state) (auto simp: held_def dest: xpending_keeps)
  from a have g1: "grows w w1" by (rule with_client_state) (auto dest: xpending_grows)
  define counts where "counts = dict_of (map (\<lambda>(i, n). (i, n + 1)) (case r1 of Inr pending \<Rightarrow> pending | Inl _ \<Rightarrow> []))"
  let ?g = "rd_xclaim rd (queue_stream q) (queue_group q) c (pending_min_idle_ms (rq_settings q)) (map fst counts)"
  obtain r2 w2 where b: "with_client q ?g w1 = (r2, w2)" by fastforce
  from b have h2: "held q w2 = held q w1"
    by (rule with_client_state) (auto simp: held_def dest: xclaim_keeps)
  from b have "grows w1 w2" by (rule with_client_state) (auto dest: xclaim_grows)
  with g1 have g2: "grows w w2" by (rule stream_grows_trans)
  consider (nothing) "w' = w1" "\<forall>ds. r = Inr ds \<longrightarrow> ds = []"
    | (refused) e where "w' = w2" "r = Inl e"
    | (claimed) claimed where "r2 = Inr claimed" "decode_messages rd cd q (map_of counts) claimed w2 = (r, w')"
    using assms a b
    by (cases r1; cases r2) (auto simp: claim_stale_def Let_def counts_def as_queue_error_def split: if_splits)
  note cases = this
  show "grows w w'"
  proof (rule cases)
    fix claimed assume "decode_messages rd cd q (map_of counts) claimed w2 = (r, w')"
    from stream_grows_trans[OF g2 decode_messages_grows[OF this]] show ?thesis .
  qed (use g1 g2 in simp_all)
  show "m \<in> held q w' \<or> malformed cd q (w_redis w) m" if i: "intact (w_redis w)" and m: "m \<in> held q w"
  proof (rule cases)
    fix claimed assume r2: "r2 = Inr claimed" and d: "decode_messages rd cd q (map_of counts) claimed w2 = (r, w')"
    show ?thesis
    proof (cases "m \<in> held q w'")
      case False
      with decode_messages_held[OF d] m h1 h2 have "m \<in> undecodable cd claimed" by blast
      then obtain fs e where fs: "(m, fs) \<in> set claimed" "decode_one cd fs = Inl e" unfolding undecodable_iff by blast
      from b r2 obtain rs where x: "?g (w_redis w1) = (Inr claimed, rs)" by (auto elim: with_client_state)
      have "intact (w_redis w1)" using i g1 by (simp add: stream_grows_def)
      from xclaim_entry[OF this x fs(1)] have e1: "entry (queue_stream q) (w_redis w1) m = Some fs" .
      from outstanding_entry[OF i] m obtain fs' where "entry (queue_stream q) (w_redis w) m = Some fs'"
        by (fastforce simp: held_def)
      with e1 g1 i fs(2) show ?thesis by (auto simp: malformed_def stream_grows_def)
    qed simp
  qed (use m h1 h2 in simp_all)
  show "delivery_of cd q (w_redis w') d" if i: "intact (w_redis w)" and ds: "r = Inr ds" "d \<in> set ds"
  proof (rule cases)
    fix claimed assume r2: "r2 = Inr claimed" and dm: "decode_messages rd cd q (map_of counts) claimed w2 = (r, w')"
    from decode_messages_delivered[OF dm[unfolded ds(1)] ds(2)] obtain fs
      where fs: "(de_message_id d, fs) \<in> set claimed" "decode_one cd fs = Inr (de_event d)" by blast
    from b r2 obtain rs where x: "?g (w_redis w1) = (Inr claimed, rs)" by (auto elim: with_client_state)
    have i1: "intact (w_redis w1)" using i g1 by (simp add: stream_grows_def)
    have "entry (queue_stream q) (w_redis w1) (de_message_id d) = Some fs" using xclaim_entry[OF i1 x fs(1)] .
    then have "delivery_of cd q (w_redis w1) d" using fs(2) by (simp add: delivery_of_def)
    moreover have "grows w1 w'" using \<open>grows w1 w2\<close> decode_messages_grows[OF dm] by (rule stream_grows_trans)
    ultimately show ?thesis using i1 by (blast intro: delivery_of_grows)
  qed (use ds in auto)
qed

text \<open>Processing changes no entry.\<close>

lemma process_grows:
  assumes "process p d w = (r, w')" and "pr_storage p = local_storage fs base" and "pr_redis p = rd"
  shows "grows w w'"
proof -
  have "process_frame grows p"
  proof (unfold_locales, goal_cases)
    case (2 u v w)
    then show ?case by (rule stream_grows_trans)
  next
    case (10 k w b w')
    then have "storage_read fs base k w = (b, w')" using assms(2) by (simp add: local_storage_def)
    then show ?case by (rule local_read_cases) simp
  next
    case (11 e delay w z w')
    then show ?case using schedule_retry_grows assms(3) by blast
  qed (auto simp: interfere_def same_outside_def
      dest: utcnow_frame uuid4_frame random01_frame next_fault_frame split: list.split)
  from process_frame.process_Q[OF this assms(1)] show ?thesis .
qed

end

end
