(* ===== verification/Worker_Properties.thy ===== *)
theory Worker_Properties
  imports Worker Queue_Stream Processor_Branches
begin

text \<open>
  The properties of the worker: a message leaves the consumer group's hands only when its processing
  has a durable outcome or when it cannot be decoded, whatever rounds of the three loops interleave;
  a loop survives every failure of processing and stops when asked; and what is lost when publishing
  a due retry fails.
\<close>

section \<open>The operations of a round\<close>

context redis_server
begin

lemma pop_due_retries_held:
  assumes "pop_due_retries rd cd q n w = (r, w')"
  shows "held q' w' = held q' w"
proof -
  obtain now w1 where u: "utcnow w = (now, w1)" by fastforce
  have r1: "w_redis w1 = w_redis w" using utcnow_frame[OF u] by (simp add: same_outside_def)
  let ?body = "POP_DUE_RETRIES rd (retry_key q) (total_seconds now) n"
  obtain x r2 where x: "rd_script rd ?body (w_redis w) = (x, r2)" by fastforce
  have "r2 = w_redis w \<or> r2 = snd (?body (w_redis w))"
    using x script_Inr script_Inl by (cases x) (auto, metis snd_conv)
  moreover have "outstanding s g (snd (?body (w_redis w))) = outstanding s g (w_redis w)" for s g
    using pop_script(4)[of "retry_key q" "total_seconds now" n "w_redis w"] by (metis prod.collapse)
  moreover have "w_redis w' = w_redis w \<or> w_redis w' = r2"
    using assms u x r1 by (auto simp: pop_due_retries_def redis_call_def split: if_splits sum.splits)
  ultimately show ?thesis unfolding held_def by (elim disjE) (simp_all only:)
qed

lemma publish_all_held: "publish_all rd cd q es w = (r, w') \<Longrightarrow> held q w \<subseteq> held q w'"
proof (induction es arbitrary: w)
  case (Cons e es)
  obtain r1 w1 where p: "publish rd cd q e w = (r1, w1)" by fastforce
  with Cons.prems have "w' = w1 \<or> publish_all rd cd q es w1 = (r, w')" by (auto split: sum.splits)
  then show ?case
  proof
    assume "publish_all rd cd q es w1 = (r, w')"
    from Cons.IH[OF this] publish_held[OF p] show ?thesis by simp
  qed (use publish_held[OF p] in simp)
qed simp

end

context redis_stream
begin

lemma publish_all_grows: "publish_all rd cd q es w = (r, w') \<Longrightarrow> grows w w'"
proof (induction es arbitrary: w)
  case (Cons e es)
  obtain r1 w1 where p: "publish rd cd q e w = (r1, w1)" by fastforce
  with Cons.prems have "w' = w1 \<or> publish_all rd cd q es w1 = (r, w')" by (auto split: sum.splits)
  then show ?case
  proof
    assume "publish_all rd cd q es w1 = (r, w')"
    from stream_grows_trans[OF publish_grows[OF p] Cons.IH[OF this]] show ?thesis .
  qed (use publish_grows[OF p] in simp)
qed simp

end

lemma redis_only_same_db: "redis_only w w' \<Longrightarrow> same_db w w'"
  by (simp add: redis_only_def same_db_def)

lemma pop_frame: "pop_due_retries rd cd q n w = (r, w') \<Longrightarrow> redis_only w w'"
  by (auto simp: pop_due_retries_def redis_call_def redis_only_def split: if_splits sum.splits prod.splits
      dest!: redis_only_utcnow)

lemma publish_all_frame: "publish_all rd cd q es w = (r, w') \<Longrightarrow> redis_only w w'"
proof (induction es arbitrary: w)
  case (Cons e es)
  obtain r1 w1 where p: "publish rd cd q e w = (r1, w1)" by fastforce
  with Cons.prems have "w' = w1 \<or> publish_all rd cd q es w1 = (r, w')" by (auto split: sum.splits)
  with Cons.IH[of w1] publish_frame[OF p] redis_only_trans show ?case by blast
qed simp

lemma queue_read_frame: "queue_read rd cd q c w = (r, w') \<Longrightarrow> redis_only w w'"
  by (auto simp: queue_read_def split: prod.splits sum.splits
      dest!: with_client_frame decode_entries_frame intro: redis_only_trans)

lemma claim_stale_frame:
  assumes "claim_stale rd cd q c w = (r, w')"
  shows "redis_only w w'"
proof -
  let ?f = "rd_xpending_range rd (queue_stream q) (queue_group q) (redis_read_count (rq_settings q))
               (pending_min_idle_ms (rq_settings q))"
  obtain r1 w1 where a: "with_client q ?f w = (r1, w1)" by fastforce
  note 1 = with_client_frame[OF a]
  define counts where "counts = dict_of (map (\<lambda>(i, n). (i, n + 1)) (case r1 of Inr pending \<Rightarrow> pending | Inl _ \<Rightarrow> []))"
  let ?g = "rd_xclaim rd (queue_stream q) (queue_group q) c (pending_min_idle_ms (rq_settings q)) (map fst counts)"
  obtain r2 w2 where b: "with_client q ?g w1 = (r2, w2)" by fastforce
  note 2 = redis_only_trans[OF 1 with_client_frame[OF b]]
  have "w' = w1 \<or> w' = w2 \<or> (\<exists>claimed. decode_messages rd cd q (map_of counts) claimed w2 = (r, w'))"
    using assms a b by (cases r1; cases r2) (auto simp: claim_stale_def Let_def counts_def split: if_splits)
  with 1 2 show ?thesis using decode_messages_frame redis_only_trans by blast
qed

section \<open>Where outstanding messages go\<close>

text \<open>
  What a worker hands to the processor, as a log: each delivery with the world in which processing starts. The
  worker itself decides nothing by it.
\<close>

fun handed ::
  "('r, 'p, 'f) stream_consumer \<Rightarrow> delivered_event list \<Rightarrow> ('r, 'p, 'f) world \<Rightarrow>
     (delivered_event \<times> ('r, 'p, 'f) world) list" where
  "handed c [] w = []"
| "handed c (d # ds) w =
     (d, w) # (case handle c d w of (Inl _, _, _) \<Rightarrow> [] | (Inr _, c1, w1) \<Rightarrow> handed c1 ds w1)"

definition consumed ::
  "('r, 'p, 'f) stream_consumer \<Rightarrow> ('r, 'p, 'f) world \<Rightarrow> (delivered_event \<times> ('r, 'p, 'f) world) list" where
  "consumed c w =
     (case queue_read (pr_redis (sc_processor c)) (pr_codec (sc_processor c)) (sc_queue c) (sc_consumer_name c) w of
        (Inl _, w1) \<Rightarrow> []
      | (Inr ds, w1) \<Rightarrow> handed c ds w1)"

definition recovered ::
  "('r, 'p, 'f) stream_consumer \<Rightarrow> ('r, 'p, 'f) world \<Rightarrow> (delivered_event \<times> ('r, 'p, 'f) world) list" where
  "recovered c w =
     (case claim_stale (pr_redis (sc_processor c)) (pr_codec (sc_processor c)) (sc_queue c) (sc_consumer_name c) w of
        (Inl _, w1) \<Rightarrow> []
      | (Inr ds, w1) \<Rightarrow> handed c ds w1)"

text \<open>
  A message is settled between two worlds: it was handed to the processor, processing returned an outcome, and
  what the outcome stands for was durable then.
\<close>

definition settled_by ::
  "'r server_view \<Rightarrow> ('r, 'p, 'f) processor \<Rightarrow> (delivered_event \<times> ('r, 'p, 'f) world) list \<Rightarrow> string \<Rightarrow> event \<Rightarrow>
     ('r, 'p, 'f) world \<Rightarrow> ('r, 'p, 'f) world \<Rightarrow> bool" where
  "settled_by V p trace m e w w' \<longleftrightarrow>
     (\<exists>d v out v'. (d, v) \<in> set trace \<and> de_message_id d = m \<and> de_event d = e \<and>
        process p d v = (Inr out, v') \<and> settled (sv_zset V) p e v out v' \<and>
        db_steps (w_db w) (w_db v) \<and> db_steps (w_db v') (w_db w'))"

text \<open>Where the message of an entry went: the entry does not decode, or its event was settled.\<close>

definition gone ::
  "'r server_view \<Rightarrow> ('r, 'p, 'f) processor \<Rightarrow> redis_queue \<Rightarrow> (delivered_event \<times> ('r, 'p, 'f) world) list \<Rightarrow>
     string \<Rightarrow> ('r, 'p, 'f) world \<Rightarrow> ('r, 'p, 'f) world \<Rightarrow> bool" where
  "gone V p q trace m w w' \<longleftrightarrow>
     (\<exists>fs. sv_entry V (queue_stream q) (w_redis w) m = Some fs \<and>
        (case decode_one (pr_codec p) fs of Inl _ \<Rightarrow> True | Inr e \<Rightarrow> settled_by V p trace m e w w'))"

definition accounted ::
  "'r server_view \<Rightarrow> ('r, 'p, 'f) processor \<Rightarrow> redis_queue \<Rightarrow> (delivered_event \<times> ('r, 'p, 'f) world) list \<Rightarrow>
     ('r, 'p, 'f) world \<Rightarrow> ('r, 'p, 'f) world \<Rightarrow> bool" where
  "accounted V p q trace w w' \<longleftrightarrow>
     (\<forall>m \<in> sv_outstanding V (queue_stream q) (queue_group q) (w_redis w).
        m \<in> sv_outstanding V (queue_stream q) (queue_group q) (w_redis w') \<or> gone V p q trace m w w')"

text \<open>What a round needs and keeps, and what it does to the database, the stream and the messages.\<close>

definition run_ready :: "'r server_view \<Rightarrow> ('r, 'p, 'f) world \<Rightarrow> bool" where
  "run_ready V w \<longleftrightarrow> rely db_steps w \<and> faults_ok w \<and> pipeline_inv (w_db w) \<and> sv_intact V (w_redis w)"

definition sound_round ::
  "'r server_view \<Rightarrow> ('r, 'p, 'f) processor \<Rightarrow> redis_queue \<Rightarrow> (delivered_event \<times> ('r, 'p, 'f) world) list \<Rightarrow>
     ('r, 'p, 'f) world \<Rightarrow> ('r, 'p, 'f) world \<Rightarrow> bool" where
  "sound_round V p q trace w w' \<longleftrightarrow>
     (run_ready V w \<longrightarrow> run_ready V w' \<and> db_steps (w_db w) (w_db w') \<and>
        stream_grows (sv_intact V) (sv_entry V) (w_redis w) (w_redis w') \<and> accounted V p q trace w w')"

lemma settled_by_extend:
  assumes "settled_by V p trace m e w w'" and "set trace \<subseteq> set trace'"
    and "db_steps (w_db u) (w_db w)" and "db_steps (w_db w') (w_db v)"
  shows "settled_by V p trace' m e u v"
proof -
  from assms(1) obtain d v1 out v2 where h: "(d, v1) \<in> set trace" "de_message_id d = m" "de_event d = e"
    "process p d v1 = (Inr out, v2)" "settled (sv_zset V) p e v1 out v2"
    "db_steps (w_db w) (w_db v1)" "db_steps (w_db v2) (w_db w')" by (auto simp: settled_by_def)
  have "db_steps (w_db u) (w_db v1)" "db_steps (w_db v2) (w_db v)"
    using rtranclp_trans[OF assms(3) h(6)] rtranclp_trans[OF h(7) assms(4)] .
  with h(1-5) assms(2) show ?thesis unfolding settled_by_def by blast
qed

lemma gone_extend:
  assumes "gone V p q trace m w w'" and "set trace \<subseteq> set trace'"
    and "sv_entry V (queue_stream q) (w_redis u) m = sv_entry V (queue_stream q) (w_redis w) m"
    and "db_steps (w_db u) (w_db w)" and "db_steps (w_db w') (w_db v)"
  shows "gone V p q trace' m u v"
proof -
  from assms(1,3) obtain fs where fs: "sv_entry V (queue_stream q) (w_redis u) m = Some fs"
    and d: "case decode_one (pr_codec p) fs of Inl _ \<Rightarrow> True | Inr e \<Rightarrow> settled_by V p trace m e w w'"
    by (auto simp: gone_def)
  show ?thesis
  proof (cases "decode_one (pr_codec p) fs")
    case (Inl x)
    with fs show ?thesis by (simp add: gone_def)
  next
    case (Inr e)
    with d settled_by_extend[OF _ assms(2,4,5)] fs show ?thesis by (simp add: gone_def)
  qed
qed

lemma sound_round_refl [simp, intro]: "sound_round V p q [] w w"
  by (simp add: sound_round_def accounted_def)

lemma sound_round_trans:
  assumes "viewed rd V" and "sound_round V p q l1 u v" and "sound_round V p q l2 v w"
  shows "sound_round V p q (l1 @ l2) u w"
  unfolding sound_round_def
proof (intro impI)
  assume u: "run_ready V u"
  with assms(2) have 1: "run_ready V v" "db_steps (w_db u) (w_db v)"
    "stream_grows (sv_intact V) (sv_entry V) (w_redis u) (w_redis v)" "accounted V p q l1 u v"
    by (simp_all add: sound_round_def)
  with assms(3) have 2: "run_ready V w" "db_steps (w_db v) (w_db w)"
    "stream_grows (sv_intact V) (sv_entry V) (w_redis v) (w_redis w)" "accounted V p q l2 v w"
    by (simp_all add: sound_round_def)
  have "accounted V p q (l1 @ l2) u w"
    unfolding accounted_def
  proof
    fix m assume m: "m \<in> sv_outstanding V (queue_stream q) (queue_group q) (w_redis u)"
    from u have i: "sv_intact V (w_redis u)" by (simp add: run_ready_def)
    obtain fs where "sv_entry V (queue_stream q) (w_redis u) m = Some fs"
      using redis_stream.outstanding_entry[OF assms(1) i m] by blast
    with 1(3) i have same: "sv_entry V (queue_stream q) (w_redis u) m = sv_entry V (queue_stream q) (w_redis v) m"
      by (simp add: stream_grows_def)
    from 1(4) m consider "gone V p q l1 m u v" | "m \<in> sv_outstanding V (queue_stream q) (queue_group q) (w_redis v)"
      by (auto simp: accounted_def)
    then show "m \<in> sv_outstanding V (queue_stream q) (queue_group q) (w_redis w) \<or> gone V p q (l1 @ l2) m u w"
    proof cases
      case 1
      from gone_extend[OF this _ refl rtranclp.rtrancl_refl 2(2), of "l1 @ l2"] show ?thesis by simp
    next
      case v: 2
      with 2(4) gone_extend[OF _ _ same 1(2) rtranclp.rtrancl_refl, of p l2 w "l1 @ l2"] show ?thesis
        by (auto simp: accounted_def)
    qed
  qed
  with 1 2 show "run_ready V w \<and> db_steps (w_db u) (w_db w) \<and>
      stream_grows (sv_intact V) (sv_entry V) (w_redis u) (w_redis w) \<and> accounted V p q (l1 @ l2) u w"
    using rtranclp_trans[OF 1(2) 2(2)] stream_grows_trans[OF 1(3) 2(3)] by simp
qed

section \<open>The rounds\<close>

text \<open>The consumer is connected to a server with lawful streams and to the file store the model knows.\<close>

definition worker_ok :: "'r server_view \<Rightarrow> ('r, 'p, 'f) stream_consumer \<Rightarrow> bool" where
  "worker_ok V c \<longleftrightarrow>
     viewed (pr_redis (sc_processor c)) V \<and> (\<exists>fs base. pr_storage (sc_processor c) = local_storage fs base)"

abbreviation same_consumer :: "('r, 'p, 'f) stream_consumer \<Rightarrow> ('r, 'p, 'f) stream_consumer \<Rightarrow> bool" where
  "same_consumer c c' \<equiv> sc_processor c' = sc_processor c \<and> sc_queue c' = sc_queue c"

lemma worker_ok_same: "worker_ok V c \<Longrightarrow> same_consumer c c' \<Longrightarrow> worker_ok V c'"
  by (simp add: worker_ok_def)

lemma viewed_server: "viewed rd V \<Longrightarrow> redis_server rd (sv_outstanding V) (sv_zset V)"
  by (rule redis_stream.axioms(1))

text \<open>A delivery that is handed on decodes the entry of the stream it names.\<close>

definition deliverable :: "'r server_view \<Rightarrow> ('r, 'p, 'f) stream_consumer \<Rightarrow> 'r \<Rightarrow> delivered_event \<Rightarrow> bool" where
  "deliverable V c r d \<longleftrightarrow>
     (\<exists>fs. sv_entry V (queue_stream (sc_queue c)) r (de_message_id d) = Some fs \<and>
        decode_one (pr_codec (sc_processor c)) fs = Inr (de_event d))"

lemma deliverable_grows:
  "deliverable V c r d \<Longrightarrow> sv_intact V r \<Longrightarrow> stream_grows (sv_intact V) (sv_entry V) r r' \<Longrightarrow> same_consumer c c' \<Longrightarrow>
     deliverable V c' r' d"
  by (auto simp: deliverable_def stream_grows_def)

lemma redis_ready:
  assumes "same_db w w'" and "stream_grows (sv_intact V) (sv_entry V) (w_redis w) (w_redis w')" and "run_ready V w"
  shows "run_ready V w' \<and> db_steps (w_db w) (w_db w')"
  using assms by (simp add: run_ready_def same_db_def rely_def faults_ok_def stream_grows_def)

text \<open>Steps in Redis that take nothing away but entries that do not decode.\<close>

lemma sound_roundI:
  assumes "same_db w w'" and "stream_grows (sv_intact V) (sv_entry V) (w_redis w) (w_redis w')"
    and "\<And>m. sv_intact V (w_redis w) \<Longrightarrow> m \<in> sv_outstanding V (queue_stream q) (queue_group q) (w_redis w) \<Longrightarrow>
      m \<in> sv_outstanding V (queue_stream q) (queue_group q) (w_redis w') \<or>
      (\<exists>fs e. sv_entry V (queue_stream q) (w_redis w) m = Some fs \<and> decode_one (pr_codec p) fs = Inl e)"
  shows "sound_round V p q [] w w'"
  unfolding sound_round_def
proof (intro impI)
  assume r: "run_ready V w"
  have "accounted V p q [] w w'"
    unfolding accounted_def gone_def using assms(3) r by (fastforce simp: run_ready_def)
  with redis_ready[OF assms(1,2) r] assms(2)
  show "run_ready V w' \<and> db_steps (w_db w) (w_db w') \<and>
      stream_grows (sv_intact V) (sv_entry V) (w_redis w) (w_redis w') \<and> accounted V p q [] w w'" by simp
qed

lemma handle_sound:
  assumes "handle c d w = (r, c', w')" and "worker_ok V c"
    and "run_ready V w \<Longrightarrow> deliverable V c (w_redis w) d"
  shows "sound_round V (sc_processor c) (sc_queue c) [(d, w)] w w' \<and> same_consumer c c'"
proof -
  let ?p = "sc_processor c" and ?q = "sc_queue c"
  obtain fs base where st: "pr_storage ?p = local_storage fs base" and vw: "viewed (pr_redis ?p) V"
    using assms(2) by (auto simp: worker_ok_def)
  note rs = viewed_server[OF vw]
  obtain r1 w1 where p: "process ?p d w = (r1, w1)" by fastforce
  obtain r2 w2 where a: "ack (pr_redis ?p) ?q (de_message_id d) w1 = (r2, w2)" by fastforce
  have c': "same_consumer c c'" using assms(1) p a by (auto simp: handle_def split: sum.splits)
  have out1: "sv_outstanding V (queue_stream ?q) (queue_group ?q) (w_redis w1) =
      sv_outstanding V (queue_stream ?q) (queue_group ?q) (w_redis w)"
    using process_outstanding[OF p rs st] .
  note g1 = redis_stream.process_grows[OF vw p st refl]
  have "sound_round V ?p ?q [(d, w)] w w'"
    unfolding sound_round_def
  proof (intro impI)
    assume ready: "run_ready V w"
    then have w: "rely db_steps w" "faults_ok w" "pipeline_inv (w_db w)" "sv_intact V (w_redis w)"
      by (simp_all add: run_ready_def)
    have 1: "db_steps (w_db w) (w_db w1)" "rely db_steps w1" "faults_ok w1"
      using pipeline.process_rely[OF p reads_only_local[OF st] w(1)] process_faults_ok[OF p st w(2)] by auto
    have ready1: "run_ready V w1"
      using 1 pipeline_inv_steps[OF 1(1) w(3)] g1 w(4) by (simp add: run_ready_def stream_grows_def)
    show "run_ready V w' \<and> db_steps (w_db w) (w_db w') \<and>
        stream_grows (sv_intact V) (sv_entry V) (w_redis w) (w_redis w') \<and> accounted V ?p ?q [(d, w)] w w'"
    proof (cases r1)
      case (Inl e)
      with assms(1) p have "w' = w1" by (simp add: handle_def)
      with ready1 1 out1 g1 show ?thesis by (simp add: accounted_def)
    next
      case (Inr out)
      with assms(1) p a have w': "w' = w2" by (auto simp: handle_def split: sum.splits)
      have sd: "same_db w1 w2" using redis_only_same_db[OF ack_frame[OF a]] .
      note g2 = redis_stream.ack_grows[OF vw a]
      have "settled_by V ?p [(d, w)] (de_message_id d) (de_event d) w w2"
        unfolding settled_by_def using p Inr process_settled[OF p[unfolded Inr] st w(1-3) rs] sd
        by (intro exI[of _ d] exI[of _ w] exI[of _ out] exI[of _ w1]) (simp add: same_db_def)
      with assms(3)[OF ready] have "gone V ?p ?q [(d, w)] (de_message_id d) w w2"
        by (auto simp: gone_def deliverable_def)
      moreover have "sv_outstanding V (queue_stream ?q) (queue_group ?q) (w_redis w1) - {de_message_id d}
          \<subseteq> sv_outstanding V (queue_stream ?q) (queue_group ?q) (w_redis w2)"
        using redis_server.ack_held[OF rs a] by (simp add: redis_server.held_def[OF rs])
      ultimately have "accounted V ?p ?q [(d, w)] w w2" using out1 by (auto simp: accounted_def)
      moreover have "db_steps (w_db w) (w_db w2)" using 1(1) sd by (simp add: same_db_def)
      ultimately show ?thesis
        using redis_ready[OF sd g2 ready1] stream_grows_trans[OF g1 g2] by (simp add: w')
    qed
  qed
  with c' show ?thesis by simp
qed

lemma handle_same: "handle c d w = (r, c', w') \<Longrightarrow> same_consumer c c'"
  by (auto simp: handle_def split: prod.splits sum.splits)

lemma handle_all_same: "handle_all c ds w = (r, c', w') \<Longrightarrow> same_consumer c c'"
proof (induction ds arbitrary: c w)
  case (Cons d ds)
  obtain r1 c1 w1 where h: "handle c d w = (r1, c1, w1)" by (cases "handle c d w")
  with Cons handle_same[OF h] show ?case by (cases r1) auto
qed simp

lemma handle_all_sound:
  assumes "handle_all c ds w = (r, c', w')" and "worker_ok V c"
    and "run_ready V w" and "\<forall>d \<in> set ds. deliverable V c (w_redis w) d"
  shows "sound_round V (sc_processor c) (sc_queue c) (handed c ds w) w w'"
  using assms
proof (induction ds arbitrary: c w)
  case Nil
  then show ?case by simp
next
  case (Cons d ds)
  let ?p = "sc_processor c" and ?q = "sc_queue c"
  obtain r1 c1 w1 where h: "handle c d w = (r1, c1, w1)" by (cases "handle c d w")
  have 1: "sound_round V ?p ?q [(d, w)] w w1" "same_consumer c c1"
    using handle_sound[OF h Cons.prems(2)] Cons.prems(4) by simp_all
  show ?case
  proof (cases r1)
    case (Inl e)
    with Cons.prems(1) h 1 show ?thesis by simp
  next
    case (Inr x)
    with Cons.prems(1) h have all: "handle_all c1 ds w1 = (r, c', w')" by simp
    from 1(1) Cons.prems(3) have g: "stream_grows (sv_intact V) (sv_entry V) (w_redis w) (w_redis w1)"
      and i: "sv_intact V (w_redis w)" and r1: "run_ready V w1" by (simp_all add: sound_round_def run_ready_def)
    have "\<forall>d \<in> set ds. deliverable V c1 (w_redis w1) d"
      using Cons.prems(4) deliverable_grows[OF _ i g 1(2)] by simp
    with Cons.IH[OF all worker_ok_same[OF Cons.prems(2) 1(2)] r1] 1(2)
    have 2: "sound_round V ?p ?q (handed c1 ds w1) w1 w'" by simp
    have "viewed (pr_redis ?p) V" using Cons.prems(2) by (simp add: worker_ok_def)
    from sound_round_trans[OF this 1(1) 2] h Inr show ?thesis by simp
  qed
qed

text \<open>A batch that was read or reclaimed and then handled.\<close>

lemma batch_sound:
  assumes "handle_all c ds w1 = (r, c', w')" and "worker_ok V c"
    and "sound_round V (sc_processor c) (sc_queue c) [] w w1"
    and "sv_intact V (w_redis w) \<Longrightarrow> \<forall>d \<in> set ds. deliverable V c (w_redis w1) d"
  shows "sound_round V (sc_processor c) (sc_queue c) (handed c ds w1) w w' \<and> same_consumer c c'"
proof (cases "run_ready V w")
  case True
  with assms(3,4) have "run_ready V w1" "\<forall>d \<in> set ds. deliverable V c (w_redis w1) d"
    by (simp_all add: sound_round_def run_ready_def)
  note 2 = handle_all_sound[OF assms(1,2) this]
  have "viewed (pr_redis (sc_processor c)) V" using assms(2) by (simp add: worker_ok_def)
  from sound_round_trans[OF this assms(3) 2] handle_all_same[OF assms(1)] show ?thesis by simp
next
  case False
  with handle_all_same[OF assms(1)] show ?thesis by (simp add: sound_round_def)
qed

lemma consume_sound:
  assumes "consume c w = (r, c', w')" and "worker_ok V c"
  shows "sound_round V (sc_processor c) (sc_queue c) (consumed c w) w w' \<and> same_consumer c c'"
proof -
  let ?p = "sc_processor c" and ?q = "sc_queue c"
  have vw: "viewed (pr_redis ?p) V" using assms(2) by (simp add: worker_ok_def)
  obtain r1 w1 where q: "queue_read (pr_redis ?p) (pr_codec ?p) ?q (sc_consumer_name c) w = (r1, w1)" by fastforce
  note e = redis_stream.queue_read_entries[OF vw q]
  have 1: "sound_round V ?p ?q [] w w1"
    using redis_only_same_db[OF queue_read_frame[OF q]] e(1)
    by (rule sound_roundI)
      (use e(2) in \<open>simp add: redis_server.held_def[OF viewed_server[OF vw]] redis_stream.malformed_def[OF vw]\<close>)
  show ?thesis
  proof (cases r1)
    case (Inl e)
    with assms(1) q 1 show ?thesis by (auto simp: consume_def consumed_def split: if_splits)
  next
    case (Inr ds)
    have dl: "\<forall>d \<in> set ds. deliverable V c (w_redis w1) d" if i: "sv_intact V (w_redis w)"
    proof
      fix d assume "d \<in> set ds"
      from e(3)[OF i Inr this] redis_stream.delivery_of_grows[OF vw _ i e(1)]
      show "deliverable V c (w_redis w1) d" by (simp add: deliverable_def redis_stream.delivery_of_def[OF vw])
    qed
    have h: "handle_all c ds w1 = (r, c', w')" using assms(1) q Inr by (simp add: consume_def)
    from batch_sound[OF h assms(2) 1 dl] q Inr show ?thesis by (simp add: consumed_def)
  qed
qed

lemma recover_sound:
  assumes "recover c w = (r, c', w')" and "worker_ok V c"
  shows "sound_round V (sc_processor c) (sc_queue c) (recovered c w) w w' \<and> same_consumer c c'"
proof -
  let ?p = "sc_processor c" and ?q = "sc_queue c"
  have vw: "viewed (pr_redis ?p) V" using assms(2) by (simp add: worker_ok_def)
  obtain r1 w1 where q: "claim_stale (pr_redis ?p) (pr_codec ?p) ?q (sc_consumer_name c) w = (r1, w1)" by fastforce
  note e = redis_stream.claim_stale_entries[OF vw q]
  have 1: "sound_round V ?p ?q [] w w1"
    using redis_only_same_db[OF claim_stale_frame[OF q]] e(1)
    by (rule sound_roundI)
      (use e(2) in \<open>simp add: redis_server.held_def[OF viewed_server[OF vw]] redis_stream.malformed_def[OF vw]\<close>)
  show ?thesis
  proof (cases r1)
    case (Inl e)
    with assms(1) q 1 show ?thesis by (auto simp: recover_def recovered_def split: if_splits)
  next
    case (Inr ds)
    have dl: "\<forall>d \<in> set ds. deliverable V c (w_redis w1) d" if "sv_intact V (w_redis w)"
      using e(3)[OF that Inr] by (simp add: deliverable_def redis_stream.delivery_of_def[OF vw])
    have h: "handle_all c ds w1 = (r, c', w')" using assms(1) q Inr by (simp add: recover_def)
    from batch_sound[OF h assms(2) 1 dl] q Inr show ?thesis by (simp add: recovered_def)
  qed
qed

lemma sweep_cases:
  assumes "sweep_retries rd cd q w = (r, w')"
  obtains r1 where "pop_due_retries rd cd q RETRY_BATCH w = (r1, w')"
  | due w1 r2 where "pop_due_retries rd cd q RETRY_BATCH w = (Inr due, w1)" "publish_all rd cd q due w1 = (r2, w')"
proof -
  obtain r1 w1 where p: "pop_due_retries rd cd q RETRY_BATCH w = (r1, w1)" by fastforce
  show thesis
  proof (cases r1)
    case (Inl e)
    with assms p have "w' = w1" by (auto simp: sweep_retries_def split: if_splits)
    with p that(1) show thesis by blast
  next
    case (Inr due)
    obtain r2 w2 where a: "publish_all rd cd q due w1 = (r2, w2)" by fastforce
    with assms p Inr have "w' = w2" by (auto simp: sweep_retries_def split: sum.splits if_splits)
    with p a Inr that(2) show thesis by blast
  qed
qed

lemma sweep_sound:
  assumes "sweep_retries (pr_redis p) (pr_codec p) q w = (r, w')" and "viewed (pr_redis p) V"
  shows "sound_round V p q [] w w'"
  using assms(1)
proof (rule sweep_cases)
  fix r1 assume pop: "pop_due_retries (pr_redis p) (pr_codec p) q RETRY_BATCH w = (r1, w')"
  note h = redis_server.pop_due_retries_held[OF viewed_server[OF assms(2)] pop, of q]
  show ?thesis
    using redis_only_same_db[OF pop_frame[OF pop]] redis_stream.pop_due_retries_grows[OF assms(2) pop]
    by (rule sound_roundI) (use h in \<open>simp add: redis_server.held_def[OF viewed_server[OF assms(2)]]\<close>)
next
  fix due w1 r2
  assume pop: "pop_due_retries (pr_redis p) (pr_codec p) q RETRY_BATCH w = (Inr due, w1)"
    and a: "publish_all (pr_redis p) (pr_codec p) q due w1 = (r2, w')"
  note h = redis_server.pop_due_retries_held[OF viewed_server[OF assms(2)] pop, of q] redis_server.publish_all_held[OF viewed_server[OF assms(2)] a]
    redis_stream.publish_all_grows[OF assms(2) a]
  have "same_db w w'" using redis_only_same_db[OF redis_only_trans[OF pop_frame[OF pop] publish_all_frame[OF a]]] .
  moreover have "stream_grows (sv_intact V) (sv_entry V) (w_redis w) (w_redis w')"
    using stream_grows_trans[OF redis_stream.pop_due_retries_grows[OF assms(2) pop] h(3)] .
  ultimately show ?thesis
    by (rule sound_roundI) (use h in \<open>auto simp: redis_server.held_def[OF viewed_server[OF assms(2)]]\<close>)
qed

section \<open>The worker as a whole\<close>

text \<open>One round of one of the three loops, in any order.\<close>

inductive worker_round ::
  "('r, 'p, 'f) stream_consumer \<times> ('r, 'p, 'f) world \<Rightarrow> ('r, 'p, 'f) stream_consumer \<times> ('r, 'p, 'f) world \<Rightarrow> bool" where
  consumer: "consume c w = (r, c', w') \<Longrightarrow> worker_round (c, w) (c', w')"
| recovery: "recover c w = (r, c', w') \<Longrightarrow> worker_round (c, w) (c', w')"
| scheduler: "sweep_retries (pr_redis (sc_processor c)) (pr_codec (sc_processor c)) (sc_queue c) w = (x, w') \<Longrightarrow>
    worker_round (c, w) (c, w')"

inductive_cases worker_roundE: "worker_round (c, w) (c', w')"

text \<open>Any number of rounds, with the log of what was handed to the processor.\<close>

inductive worker_run ::
  "('r, 'p, 'f) stream_consumer \<times> ('r, 'p, 'f) world \<Rightarrow> (delivered_event \<times> ('r, 'p, 'f) world) list \<Rightarrow>
     ('r, 'p, 'f) stream_consumer \<times> ('r, 'p, 'f) world \<Rightarrow> bool" where
  start: "worker_run cw [] cw"
| consumer: "worker_run cw trace (c, w) \<Longrightarrow> consume c w = (r, c', w') \<Longrightarrow>
    worker_run cw (trace @ consumed c w) (c', w')"
| recovery: "worker_run cw trace (c, w) \<Longrightarrow> recover c w = (r, c', w') \<Longrightarrow>
    worker_run cw (trace @ recovered c w) (c', w')"
| scheduler: "worker_run cw trace (c, w) \<Longrightarrow>
    sweep_retries (pr_redis (sc_processor c)) (pr_codec (sc_processor c)) (sc_queue c) w = (x, w') \<Longrightarrow>
    worker_run cw trace (c, w')"

lemma worker_run_trans: "worker_run cw' trace' cw'' \<Longrightarrow> worker_run cw trace cw' \<Longrightarrow> worker_run cw (trace @ trace') cw''"
proof (induction rule: worker_run.induct)
  case (consumer cw' trace' c w r c' w')
  from worker_run.consumer[OF consumer.IH[OF consumer.prems] consumer.hyps(2)] show ?case by simp
next
  case (recovery cw' trace' c w r c' w')
  from worker_run.recovery[OF recovery.IH[OF recovery.prems] recovery.hyps(2)] show ?case by simp
next
  case (scheduler cw' trace' c w x w')
  from worker_run.scheduler[OF scheduler.IH[OF scheduler.prems] scheduler.hyps(2)] show ?case .
qed simp

lemma sound_round_then:
  assumes "worker_ok V c0" and "sound_round V (sc_processor c0) (sc_queue c0) trace u w" and "same_consumer c0 c"
    and "sound_round V (sc_processor c) (sc_queue c) trace' w w' \<and> same_consumer c c'"
  shows "sound_round V (sc_processor c0) (sc_queue c0) (trace @ trace') u w' \<and> same_consumer c0 c'"
proof -
  have "viewed (pr_redis (sc_processor c0)) V" using assms(1) by (simp add: worker_ok_def)
  from sound_round_trans[OF this assms(2)] assms(3,4) show ?thesis by simp
qed

lemma worker_run_sound:
  assumes "worker_run cw trace cw'" and "worker_ok V (fst cw)"
  shows "sound_round V (sc_processor (fst cw)) (sc_queue (fst cw)) trace (snd cw) (snd cw') \<and>
    same_consumer (fst cw) (fst cw')"
  using assms
proof (induction rule: worker_run.induct)
  case (consumer cw trace c w r c' w')
  then have IH: "sound_round V (sc_processor (fst cw)) (sc_queue (fst cw)) trace (snd cw) w" "same_consumer (fst cw) c"
    by simp_all
  note ok = worker_ok_same[OF consumer.prems IH(2)]
  from sound_round_then[OF consumer.prems IH consume_sound[OF consumer.hyps(2) ok]] show ?case by simp
next
  case (recovery cw trace c w r c' w')
  then have IH: "sound_round V (sc_processor (fst cw)) (sc_queue (fst cw)) trace (snd cw) w" "same_consumer (fst cw) c"
    by simp_all
  note ok = worker_ok_same[OF recovery.prems IH(2)]
  from sound_round_then[OF recovery.prems IH recover_sound[OF recovery.hyps(2) ok]] show ?case by simp
next
  case (scheduler cw trace c w x w')
  then have IH: "sound_round V (sc_processor (fst cw)) (sc_queue (fst cw)) trace (snd cw) w" "same_consumer (fst cw) c"
    by simp_all
  have "viewed (pr_redis (sc_processor c)) V"
    using worker_ok_same[OF scheduler.prems IH(2)] by (simp add: worker_ok_def)
  from sound_round_then[OF scheduler.prems IH, of "[]" w' c] sweep_sound[OF scheduler.hyps(2) this] show ?case by simp
qed simp

text \<open>
  C2. At least once: however rounds of the consumer, the recovery sweep and the retry scheduler interleave,
  with database calls failing and other processes committing at any point, a message that was outstanding is
  still outstanding at the end, unless its entry does not decode or the event its entry decodes to was handed
  to the processor in this run under this message's ID and processing returned an outcome, with what the
  outcome stands for durable at that moment (the result, the failed row, the retrying row with the parked
  retry; for \<open>SKIPPED\<close>, a job that was finished, failed, unknown or under a fresh claim). A message whose
  processing raised is therefore never acknowledged. The database only moves along the pipeline.
\<close>

theorem no_message_lost:
  assumes "worker_run (c, w) trace (c', w')" and "viewed (pr_redis (sc_processor c)) V"
    and "pr_storage (sc_processor c) = local_storage fs base"
    and "rely db_steps w" and "faults_ok w" and "pipeline_inv (w_db w)" and "sv_intact V (w_redis w)"
    and "m \<in> sv_outstanding V (queue_stream (sc_queue c)) (queue_group (sc_queue c)) (w_redis w)"
  shows "(m \<in> sv_outstanding V (queue_stream (sc_queue c)) (queue_group (sc_queue c)) (w_redis w') \<or>
      (\<exists>entry. sv_entry V (queue_stream (sc_queue c)) (w_redis w) m = Some entry \<and>
        (case decode_one (pr_codec (sc_processor c)) entry of
           Inl _ \<Rightarrow> True
         | Inr e \<Rightarrow> \<exists>d v out v'. (d, v) \<in> set trace \<and> de_message_id d = m \<and> de_event d = e \<and>
             process (sc_processor c) d v = (Inr out, v') \<and> settled (sv_zset V) (sc_processor c) e v out v' \<and>
             db_steps (w_db w) (w_db v) \<and> db_steps (w_db v') (w_db w')))) \<and>
    db_steps (w_db w) (w_db w')"
proof -
  have "worker_ok V c" using assms(2,3) by (auto simp: worker_ok_def)
  with worker_run_sound[OF assms(1)] have "sound_round V (sc_processor c) (sc_queue c) trace w w'" by simp
  moreover have "run_ready V w" using assms(4-7) by (simp add: run_ready_def)
  ultimately show ?thesis using assms(8) unfolding sound_round_def accounted_def gone_def settled_by_def by simp
qed

definition sample_consumer :: "extraction_output result \<Rightarrow> (mem_redis, nat, mem_fs) stream_consumer" where
  "sample_consumer a = new_consumer sample_queue (sample_processor a) default_settings ''worker''"

lemma sample_consumer_fields [simp]:
  "sc_queue (sample_consumer a) = sample_queue" "sc_processor (sample_consumer a) = sample_processor a"
  by (simp_all add: sample_consumer_def new_consumer_def)

lemma sample_consumer_ok:
  "viewed (pr_redis (sc_processor (sample_consumer a))) mem_view"
  "pr_storage (sc_processor (sample_consumer a)) = local_storage mem_files [''srv'', ''uploads'']"
  using mem_viewed by simp_all

lemma mem_view_fields [simp]:
  "sv_outstanding mem_view = mem_outstanding" "sv_zset mem_view = mem_zset"
  "sv_intact mem_view = mem_intact" "sv_entry mem_view = mem_entry"
  by (simp_all add: mem_view_def)

lemma show_nat_dash: "show_nat k @ ''-0'' \<noteq> ''8''"
  using show_nat_inj by (cases "show_nat k") auto

lemma pending_8:
  "''8'' \<in> mem_outstanding (queue_stream sample_queue) (queue_group sample_queue) pending_redis"
  by (simp add: mem_outstanding_def pending_redis_def)

lemma queued_job_inv: "pipeline_inv (sample_db queued_job)"
  by (simp add: pipeline_inv_def job_inv_def error_bounded_def db_ok_def sample_defs)

lemma pending_intact: "mem_intact pending_redis"
  by (simp add: mem_intact_def pending_redis_def show_nat_dash)

lemma no_message_lost_witness:
  "\<exists>c' w'. worker_run (sample_consumer (Inr sample_output),
       sample_world pending_redis 0 sample_files (sample_db queued_job) 1000000)
      (recovered (sample_consumer (Inr sample_output)) (sample_world pending_redis 0 sample_files (sample_db queued_job) 1000000))
      (c', w') \<and>
     db_steps (sample_db queued_job) (w_db w')"
proof -
  let ?w = "sample_world pending_redis (0 :: nat) sample_files (sample_db queued_job) 1000000"
  let ?c = "sample_consumer (Inr sample_output)"
  obtain r c' w' where r: "recover ?c ?w = (r, c', w')" by (cases "recover ?c ?w")
  from worker_run.recovery[OF worker_run.start r] have run: "worker_run (?c, ?w) (recovered ?c ?w) (c', w')" by simp
  have w: "rely db_steps ?w" "faults_ok ?w" by (simp_all add: rely_def faults_ok_def sample_world_def)
  have p: "pipeline_inv (w_db ?w)" using queued_job_inv by simp
  have i: "sv_intact mem_view (w_redis ?w)" using pending_intact by (simp add: sample_world_def)
  have m: "''8'' \<in> sv_outstanding mem_view (queue_stream (sc_queue ?c)) (queue_group (sc_queue ?c)) (w_redis ?w)"
    by (simp add: pending_8 sample_world_def)
  have "db_steps (w_db ?w) (w_db w')" by (rule conjunct2[OF no_message_lost[OF run sample_consumer_ok w p i m]])
  then have "db_steps (sample_db queued_job) (w_db w')" by simp
  with run show ?thesis by blast
qed

section \<open>A loop survives and stops\<close>

text \<open>
  Redis may be unreachable or refuse commands, but fails only with its own errors, and an
  acknowledgement gets through.
\<close>

definition outages_only :: "'r redis_api \<Rightarrow> bool" where
  "outages_only rd \<longleftrightarrow>
     (\<forall>s g i r e r'. rd_xack rd s g i r \<noteq> (Inl e, r')) \<and>
     (\<forall>s g c n b r e r'. rd_xreadgroup rd s g c n b r = (Inl e, r') \<longrightarrow> redis_or_os_error e) \<and>
     (\<forall>s g n idle r e r'. rd_xpending_range rd s g n idle r = (Inl e, r') \<longrightarrow> redis_or_os_error e) \<and>
     (\<forall>s g c idle ids r e r'. rd_xclaim rd s g c idle ids r = (Inl e, r') \<longrightarrow> redis_or_os_error e) \<and>
     (\<forall>s fs r e r'. rd_xadd rd s fs r = (Inl e, r') \<longrightarrow> redis_or_os_error e) \<and>
     (\<forall>body r e r'. rd_script rd body r = (Inl e, r') \<longrightarrow> redis_or_os_error e)"

lemma outagesD:
  assumes "outages_only rd"
  shows "rd_xack rd s g i r = (x, r') \<Longrightarrow> \<exists>n. x = Inr n"
    and "rd_xreadgroup rd s g c n b r = (Inl e, r') \<Longrightarrow> redis_or_os_error e"
    and "rd_xpending_range rd s g n idle r = (Inl e, r') \<Longrightarrow> redis_or_os_error e"
    and "rd_xclaim rd s g c idle ids r = (Inl e, r') \<Longrightarrow> redis_or_os_error e"
    and "rd_xadd rd s fs r = (Inl e, r') \<Longrightarrow> redis_or_os_error e"
    and "rd_script rd body r = (Inl e, r') \<Longrightarrow> redis_or_os_error e"
proof -
  note a = assms[unfolded outages_only_def]
  show "rd_xack rd s g i r = (x, r') \<Longrightarrow> \<exists>n. x = Inr n" using a by (cases x) simp_all
  show "rd_xreadgroup rd s g c n b r = (Inl e, r') \<Longrightarrow> redis_or_os_error e"
    using a[THEN conjunct2, THEN conjunct1, rule_format] .
  show "rd_xpending_range rd s g n idle r = (Inl e, r') \<Longrightarrow> redis_or_os_error e"
    using a[THEN conjunct2, THEN conjunct2, THEN conjunct1, rule_format] .
  show "rd_xclaim rd s g c idle ids r = (Inl e, r') \<Longrightarrow> redis_or_os_error e"
    using a[THEN conjunct2, THEN conjunct2, THEN conjunct2, THEN conjunct1, rule_format] .
  show "rd_xadd rd s fs r = (Inl e, r') \<Longrightarrow> redis_or_os_error e"
    using a[THEN conjunct2, THEN conjunct2, THEN conjunct2, THEN conjunct2, THEN conjunct1, rule_format] .
  show "rd_script rd body r = (Inl e, r') \<Longrightarrow> redis_or_os_error e"
    using a[THEN conjunct2, THEN conjunct2, THEN conjunct2, THEN conjunct2, THEN conjunct2, rule_format] .
qed

lemma with_client_connected: "rq_client q \<Longrightarrow> with_client q f w = (case f (w_redis w) of (r, rs) \<Rightarrow> (r, w\<lparr>w_redis := rs\<rparr>))"
  by (simp add: with_client_def redis_call_def)

lemma as_queue_error_QueueError [simp]: "redis_or_os_error e \<Longrightarrow> as_queue_error m (Inl e) = Inl (raise_app QueueError m [])"
  by (simp add: as_queue_error_def)

lemma ack_through:
  assumes "outages_only rd" and "rq_client q"
  obtains w' where "ack rd q i w = (Inr (), w')"
proof -
  obtain r rs where x: "rd_xack rd (queue_stream q) (queue_group q) i (w_redis w) = (r, rs)" by fastforce
  with outagesD(1)[OF assms(1)] obtain n where "r = Inr n" by blast
  with x assms(2) that show thesis by (auto simp: ack_def with_client_connected as_queue_error_def)
qed

lemma decode_messages_through:
  assumes "outages_only rd" and "rq_client q"
  shows "\<exists>ds w'. decode_messages rd cd q counts ms w = (Inr ds, w')"
proof (induction ms arbitrary: w)
  case (Cons m ms)
  obtain i fs where m: "m = (i, fs)" by fastforce
  obtain w1 where a: "ack rd q i w = (Inr (), w1)" using ack_through[OF assms] by blast
  obtain ds w2 where 1: "decode_messages rd cd q counts ms w1 = (Inr ds, w2)" using Cons.IH by blast
  obtain ds' w3 where 2: "decode_messages rd cd q counts ms w = (Inr ds', w3)" using Cons.IH by blast
  show ?case using a 1 2 decode_one_error by (cases "decode_one cd fs") (auto simp: m)
qed simp

lemma decode_entries_through:
  assumes "outages_only rd" and "rq_client q"
  shows "\<exists>ds w'. decode_entries rd cd q rows w = (Inr ds, w')"
proof (induction rows arbitrary: w)
  case (Cons row rows)
  obtain s ms where row: "row = (s, ms)" by fastforce
  obtain ds w1 where 1: "decode_messages rd cd q Map.empty ms w = (Inr ds, w1)"
    using decode_messages_through[OF assms] by blast
  obtain ds' w2 where 2: "decode_entries rd cd q rows w1 = (Inr ds', w2)" using Cons.IH by blast
  show ?case using 1 2 by (simp add: row)
qed simp

lemma queue_read_through:
  assumes "outages_only rd" and "rq_client q"
  shows "(\<exists>ds w'. queue_read rd cd q c w = (Inr ds, w')) \<or>
    (\<exists>e w'. queue_read rd cd q c w = (Inl e, w') \<and> is_app_instance e QueueError)"
proof -
  obtain r rs where x: "rd_xreadgroup rd (queue_stream q) (queue_group q) c
      (redis_read_count (rq_settings q)) (redis_block_ms (rq_settings q)) (w_redis w) = (r, rs)" by fastforce
  show ?thesis
  proof (cases r)
    case (Inl e)
    then have "redis_or_os_error e" using outagesD(2,3)[OF assms(1)] x by blast
    with Inl x assms(2) show ?thesis
      by (simp add: queue_read_def with_client_connected is_subclass_refl)
  next
    case (Inr rows)
    with x assms(2) decode_entries_through[OF assms, of cd rows "w\<lparr>w_redis := rs\<rparr>"] show ?thesis
      by (simp add: queue_read_def with_client_connected as_queue_error_def)
  qed
qed

lemma claim_stale_through:
  assumes "outages_only rd" and "rq_client q"
  shows "(\<exists>ds w'. claim_stale rd cd q c w = (Inr ds, w')) \<or>
    (\<exists>e w'. claim_stale rd cd q c w = (Inl e, w') \<and> is_app_instance e QueueError)"
proof -
  obtain r rs where x: "rd_xpending_range rd (queue_stream q) (queue_group q) (redis_read_count (rq_settings q))
      (pending_min_idle_ms (rq_settings q)) (w_redis w) = (r, rs)" by fastforce
  show ?thesis
  proof (cases r)
    case (Inl e)
    then have "redis_or_os_error e" using outagesD(2,3)[OF assms(1)] x by blast
    with Inl x assms(2) show ?thesis by (simp add: claim_stale_def with_client_connected Let_def is_subclass_refl)
  next
    case (Inr pending)
    define counts where "counts = dict_of (map (\<lambda>(i, n). (i, n + 1)) pending)"
    obtain r2 rs2 where y: "rd_xclaim rd (queue_stream q) (queue_group q) c (pending_min_idle_ms (rq_settings q))
        (map fst counts) rs = (r2, rs2)" by fastforce
    show ?thesis
    proof (cases r2)
      case (Inl e)
      then have "redis_or_os_error e" using outagesD(4)[OF assms(1)] y by blast
      with Inl \<open>r = Inr pending\<close> x y assms(2) show ?thesis
        by (simp add: claim_stale_def with_client_connected Let_def counts_def is_subclass_refl)
    next
      case (Inr claimed)
      with \<open>r = Inr pending\<close> x y assms(2)
        decode_messages_through[OF assms, of cd "map_of counts" claimed "w\<lparr>w_redis := rs2\<rparr>"] show ?thesis
        by (simp add: claim_stale_def with_client_connected Let_def counts_def)
    qed
  qed
qed

lemma handle_through:
  assumes "outages_only (pr_redis (sc_processor c))" and "rq_client (sc_queue c)"
  shows "\<exists>r c' w'. handle c d w = (Inr r, c', w') \<and> same_consumer c c'"
proof -
  obtain r1 w1 where p: "process (sc_processor c) d w = (r1, w1)" by fastforce
  obtain w2 where "ack (pr_redis (sc_processor c)) (sc_queue c) (de_message_id d) w1 = (Inr (), w2)"
    using ack_through[OF assms] by blast
  with p show ?thesis by (cases r1) (auto simp: handle_def)
qed

lemma handle_all_through:
  assumes "outages_only (pr_redis (sc_processor c))" and "rq_client (sc_queue c)"
  shows "\<exists>c' w'. handle_all c ds w = (Inr (), c', w') \<and> same_consumer c c'"
  using assms
proof (induction ds arbitrary: c w)
  case (Cons d ds)
  obtain r c1 w1 where h: "handle c d w = (Inr r, c1, w1)" "same_consumer c c1"
    using handle_through[OF Cons.prems] by blast
  with Cons.IH[of c1 w1] Cons.prems show ?case by auto
qed simp

lemma rounds_through:
  assumes "outages_only (pr_redis (sc_processor c))" and "rq_client (sc_queue c)"
  shows "\<exists>c' w'. consume c w = (Inr (), c', w') \<and> same_consumer c c'"
    and "\<exists>c' w'. recover c w = (Inr (), c', w') \<and> same_consumer c c'"
proof -
  let ?p = "sc_processor c"
  from queue_read_through[OF assms, of "pr_codec ?p" "sc_consumer_name c" w] handle_all_through[OF assms]
  show "\<exists>c' w'. consume c w = (Inr (), c', w') \<and> same_consumer c c'"
    unfolding consume_def by (elim disjE exE conjE) simp_all
  from claim_stale_through[OF assms, of "pr_codec ?p" "sc_consumer_name c" w] handle_all_through[OF assms]
  show "\<exists>c' w'. recover c w = (Inr (), c', w') \<and> same_consumer c c'"
    unfolding recover_def by (elim disjE exE conjE) simp_all
qed

lemma publish_through:
  assumes "outages_only rd" and "rq_client q"
  shows "(\<exists>i w'. publish rd cd q e w = (Inr i, w')) \<or>
    (\<exists>x w'. publish rd cd q e w = (Inl x, w') \<and> is_app_instance x QueueError)"
proof -
  obtain r rs where x: "rd_xadd rd (queue_stream q) (to_stream_fields cd e) (w_redis w) = (r, rs)" by fastforce
  show ?thesis
  proof (cases r)
    case (Inl e)
    then have "redis_or_os_error e" using outagesD(5)[OF assms(1)] x by blast
    with Inl x assms(2) show ?thesis by (simp add: publish_def with_client_connected)
  next
    case (Inr i)
    with x assms(2) show ?thesis by (simp add: publish_def with_client_connected as_queue_error_def)
  qed
qed

lemma publish_all_through:
  assumes "outages_only rd" and "rq_client q"
  shows "(\<exists>w'. publish_all rd cd q es w = (Inr (), w')) \<or>
    (\<exists>x w'. publish_all rd cd q es w = (Inl x, w') \<and> is_app_instance x QueueError)"
proof (induction es arbitrary: w)
  case (Cons e es)
  from publish_through[OF assms, of cd e w] Cons.IH show ?case by (elim disjE exE conjE) simp_all
qed simp

lemma sweep_through:
  assumes "outages_only rd" and "rq_client q" and "rq_script q"
  shows "\<exists>w'. sweep_retries rd cd q w = (Inr (), w')"
proof -
  obtain now w1 where u: "utcnow w = (now, w1)" by fastforce
  obtain r rs where x: "rd_script rd (POP_DUE_RETRIES rd (retry_key q) (total_seconds now) RETRY_BATCH) (w_redis w1)
      = (r, rs)" by fastforce
  show ?thesis
  proof (cases r)
    case (Inl e)
    then have "redis_or_os_error e" using outagesD(6)[OF assms(1)] x by blast
    with Inl x u assms(3) show ?thesis by (simp add: sweep_retries_def pop_due_retries_def redis_call_def)
  next
    case (Inr raw)
    with x u assms(3) publish_all_through[OF assms(1,2), of cd "List.map_filter (ev_load cd) raw" "w1\<lparr>w_redis := rs\<rparr>"]
    show ?thesis by (auto simp: sweep_retries_def pop_due_retries_def redis_call_def as_queue_error_def)
  qed
qed

text \<open>
  The worker keeps going and stops when asked: if Redis fails only with its own errors and
  acknowledgements get through, then whatever goes wrong while events are processed, the consumer, the
  recovery sweep and the retry scheduler never raise, and each of them ends as soon as it sees the
  shutdown request.
\<close>

lemma loops_stop_when_asked:
  assumes "outages_only (pr_redis (sc_processor c))" and "rq_client (sc_queue c)" and "rq_script (sc_queue c)"
    and "True \<in> set answers"
  shows "fst (consumer_run answers c w) = Stopped \<and> fst (run_pending_recovery answers c w) = Stopped \<and>
    fst (run_retry_scheduler (pr_redis (sc_processor c)) (pr_codec (sc_processor c)) (sc_queue c) answers w) = Stopped"
proof (intro conjI)
  show "fst (consumer_run answers c w) = Stopped"
    using assms
  proof (induction answers c w rule: consumer_run.induct)
    case (2 stop answers c w)
    obtain c' w' where "consume c w = (Inr (), c', w')" "same_consumer c c'"
      using rounds_through(1)[OF 2(2,3)] by blast
    with 2 show ?case by (cases stop) auto
  qed simp
  show "fst (run_pending_recovery answers c w) = Stopped"
    using assms
  proof (induction answers c w rule: run_pending_recovery.induct)
    case (3 stop stop' answers c w)
    obtain c' w' where "recover c w = (Inr (), c', w')" "same_consumer c c'"
      using rounds_through(2)[OF 3(2,3)] by blast
    with 3 show ?case by (cases "stop \<or> stop'") auto
  qed auto
  show "fst (run_retry_scheduler (pr_redis (sc_processor c)) (pr_codec (sc_processor c)) (sc_queue c) answers w) = Stopped"
    using assms
  proof (induction "pr_redis (sc_processor c)" "pr_codec (sc_processor c)" "sc_queue c" answers w
      rule: run_retry_scheduler.induct)
    case (3 stop stop' answers w)
    obtain w' where "sweep_retries (pr_redis (sc_processor c)) (pr_codec (sc_processor c)) (sc_queue c) w = (Inr (), w')"
      using sweep_through[OF 3(2-4)] by blast
    with 3 show ?case by (cases "stop \<or> stop'") auto
  qed auto
qed

text \<open>A Redis nobody can reach.\<close>

definition refused :: exc where
  "refused = OtherExc [REDIS_CONNECTION_ERROR, REDIS_ERROR, ''builtins.Exception''] ''Connection refused''"

definition dead_api :: "mem_redis redis_api" where
  "dead_api = mem_api
     \<lparr>rd_xreadgroup := (\<lambda>s g c n b r. (Inl refused, r)),
      rd_xpending_range := (\<lambda>s g n i r. (Inl refused, r)),
      rd_xclaim := (\<lambda>s g c i ids r. (Inl refused, r)),
      rd_xack := (\<lambda>s g i r. (Inr (), r)),
      rd_xadd := (\<lambda>s fs r. (Inl refused, r)),
      rd_script := (\<lambda>b r. (Inl refused, r))\<rparr>"

definition dead_consumer :: "(mem_redis, nat, mem_fs) stream_consumer" where
  "dead_consumer = new_consumer sample_queue
     \<lparr>pr_storage = local_storage mem_files [''srv'', ''uploads''], pr_redis = dead_api,
      pr_codec = plain_codec, pr_queue = sample_queue, pr_provider = scripted_provider (Inr sample_output),
      pr_parsers = sample_parsers, pr_settings = default_settings, pr_consumer_name = ''worker'',
      pr_expired_read = None\<rparr> default_settings ''worker''"

lemma refused_outage [simp]: "redis_or_os_error refused"
  by (simp add: redis_or_os_error_def refused_def redis_error_names is_foreign_instance.simps)

lemma loops_stop_when_asked_witness:
  "fst (consumer_run [False, False, True] dead_consumer (sample_world empty_redis 0 sample_files (sample_db queued_job) 1000000)) = Stopped"
proof -
  have "outages_only (pr_redis (sc_processor dead_consumer))"
    by (simp add: outages_only_def dead_consumer_def new_consumer_def dead_api_def)
  moreover have "rq_client (sc_queue dead_consumer)" "rq_script (sc_queue dead_consumer)"
    by (simp_all add: dead_consumer_def new_consumer_def sample_queue_def)
  ultimately show ?thesis
    using loops_stop_when_asked[of dead_consumer "[False, False, True]"] by simp
qed

section \<open>A retry that is lost\<close>

text \<open>
  C33. What is lost when Redis rejects the publication of a due retry: the sweep goes on as if nothing
  had happened, but the event has left the retry set and is not on the stream, and the manual retry
  the sweep's comment refers to is refused, because a job that is \<open>RETRYING\<close> cannot be re-queued.
\<close>

theorem lost_retry_is_stuck:
  assumes "redis_server rd outstanding zset"
    and "pop_due_retries rd cd q RETRY_BATCH w = (Inr (e # es), w1)"
    and "rq_client q" and "rd_xadd rd (queue_stream q) (to_stream_fields cd e) (w_redis w1) = (Inl x, w_redis w1)"
    and "redis_or_os_error x"
    and "job_status (sess_job s) = RETRYING"
  shows "\<exists>m w2. sweep_retries rd cd q w = (Inr (), w2) \<and> ev_load cd m = Some e \<and>
    zset (retry_key q) (w_redis w) m \<noteq> None \<and> zset (retry_key q) (w_redis w2) m = None \<and>
    outstanding (queue_stream q) (queue_group q) (w_redis w2) = outstanding (queue_stream q) (queue_group q) (w_redis w) \<and>
    reset_for_manual_retry True s v = (Inl (invalid_transition RETRYING QUEUED), s, v)"
proof -
  from assms(2) obtain due where es: "e # es = List.map_filter (ev_load cd) due"
    and p: "POP_DUE_RETRIES rd (retry_key q) (total_seconds (fst (utcnow w))) RETRY_BATCH (w_redis w) = (due, w_redis w1)"
    by (rule redis_server.pop_due_retries_Inr[OF assms(1)])
  note f = redis_server.pop_script[OF assms(1) p]
  have "e \<in> set (List.map_filter (ev_load cd) due)" using es by (metis list.set_intros(1))
  then obtain m where m: "m \<in> set due" "ev_load cd m = Some e" by (auto simp: List.map_filter_def)
  then have z: "zset (retry_key q) (w_redis w) m \<noteq> None" "zset (retry_key q) (w_redis w1) m = None"
    using f(1) f(3)[of "retry_key q"] by auto
  have "publish rd cd q e w1 = (Inl (raise_app QueueError ''Failed to publish the processing event.'' []), w1)"
    using assms(3-5) by (simp add: publish_def with_client_connected)
  then have "sweep_retries rd cd q w = (Inr (), w1)"
    using assms(2) by (simp add: sweep_retries_def)
  moreover have "reset_for_manual_retry True s v = (Inl (invalid_transition RETRYING QUEUED), s, v)"
    using assms(6) by (simp add: reset_for_manual_retry_def ensure_transition_allowed_def is_transition_allowed_def)
  ultimately show ?thesis using m z f(4) by blast
qed

text \<open>A server that is out of memory rejects every \<open>XADD\<close> and still keeps the laws.\<close>

definition full_api :: "mem_redis redis_api" where
  "full_api = mem_api\<lparr>rd_xadd := (\<lambda>s fs r. (Inl refused, r))\<rparr>"

lemma rejecting_server:
  assumes "redis_server rd outstanding zset"
  shows "redis_server (rd\<lparr>rd_xadd := (\<lambda>s fs r. (Inl e, r))\<rparr>) outstanding zset"
proof (unfold_locales, goal_cases)
  case 1 then show ?case by simp
next
  case 2 then show ?case by simp
next
  case 3 then show ?case by simp
next
  case 4 then show ?case using redis_server.xreadgroup_keeps[OF assms] by simp
next
  case 5 then show ?case using redis_server.xreadgroup_ids[OF assms] by simp
next
  case 6 then show ?case using redis_server.xpending_keeps[OF assms] by simp
next
  case 7 then show ?case using redis_server.xclaim_keeps[OF assms] by simp
next
  case 8 then show ?case using redis_server.xack_keeps[OF assms] by simp
next
  case 9 then show ?case using redis_server.xack_zset[OF assms] by simp
next
  case 10 then show ?case using redis_server.zadd_keeps[OF assms] by simp
next
  case 11 then show ?case using redis_server.zadd_zset[OF assms] by simp
next
  case 12 then show ?case using redis_server.script_Inr[OF assms] by simp
next
  case 13 then show ?case using redis_server.script_Inl[OF assms] by simp
next
  case 14 then show ?case using redis_server.zrange[OF assms] by simp
next
  case 15 then show ?case using redis_server.zrem_zset[OF assms] by simp
next
  case 16 then show ?case using redis_server.zrem_keeps[OF assms] by simp
qed

interpretation full_redis: redis_server full_api mem_outstanding mem_zset
  unfolding full_api_def by (rule rejecting_server, rule memory_redis.redis_server_axioms)

lemma lost_retry_is_stuck_witness:
  "\<exists>m w. snd (sweep_retries full_api plain_codec sample_queue
       (sample_world parked_redis () () empty_db 10000000)) = w \<and> mem_zset (retry_key sample_queue) parked_redis m \<noteq> None \<and>
     mem_zset (retry_key sample_queue) (w_redis w) m = None"
proof -
  have pop: "pop_due_retries full_api plain_codec sample_queue RETRY_BATCH (sample_world parked_redis () () empty_db 10000000) =
    (Inr [sample_event], sample_world (parked_redis\<lparr>mr_zsets := (mr_zsets parked_redis)(retry_key sample_queue := [])\<rparr>) () ()
        empty_db 10000000)"
  proof -
    have "plain_load (plain_dump sample_event) = Some sample_event"
      using plain_codec_ok by (simp add: codec_ok_def plain_codec_def)
    then show ?thesis
      by (simp add: full_api_def RETRY_BATCH_def pop_due_retries_def sample_queue_def redis_call_def mem_api_def
          POP_DUE_RETRIES_def mem_zrangebyscore_def mem_zrem_def parked_redis_def empty_redis_def Let_def
          as_queue_error_def List.map_filter_def plain_codec_def)
  qed
  define s :: session where "s = open_session (queued_job\<lparr>job_status := RETRYING\<rparr>) None None"
  have c: "rq_client sample_queue" by (simp add: sample_queue_def)
  have x: "rd_xadd full_api k fs r = (Inl refused, r)" for k fs r by (simp add: full_api_def)
  have r: "job_status (sess_job s) = RETRYING" by (simp add: s_def)
  obtain m w2 where w2: "sweep_retries full_api plain_codec sample_queue (sample_world parked_redis () () empty_db 10000000) = (Inr (), w2)"
    and m: "mem_zset (retry_key sample_queue) (w_redis (sample_world parked_redis () () empty_db 10000000)) m \<noteq> None"
      "mem_zset (retry_key sample_queue) (w_redis w2) m = None"
    using lost_retry_is_stuck[OF full_redis.redis_server_axioms pop c x refused_outage r,
        where v = "sample_world () () () empty_db 0"]
    by (elim exE conjE) (rule that)
  have "w_redis (sample_world parked_redis () () empty_db 10000000) = parked_redis" by (simp add: sample_world_def)
  then show ?thesis using m by (intro exI[of _ m] exI[of _ w2]) (simp only: w2 snd_conv simp_thms)
qed

end
