(* ===== verification/Api_Schemas.thy ===== *)
theory Api_Schemas
  imports Job_Service
begin

text \<open>
  The response models: \<^verbatim>\<open>app/schemas/common.py\<close>, \<^verbatim>\<open>document.py\<close>, \<^verbatim>\<open>job.py\<close> and the response part of
  \<^verbatim>\<open>extraction.py\<close>. A model is a record; \<^verbatim>\<open>model_validate(row)\<close> (\<^verbatim>\<open>from_attributes\<close>) copies the attributes
  the model declares, so what a row has beyond them does not reach a client.
\<close>

section \<open>Pages\<close>

definition DEFAULT_PAGE_SIZE :: int where
  "DEFAULT_PAGE_SIZE = 20"

definition MAX_PAGE_SIZE :: int where
  "MAX_PAGE_SIZE = 100"

record 'a page =
  pg_items :: "'a list"
  pg_total :: int
  pg_limit :: int
  pg_offset :: int

definition has_more :: "('a, 'b) page_scheme \<Rightarrow> bool" where
  "has_more p \<longleftrightarrow> pg_offset p + int (length (pg_items p)) < pg_total p"

section \<open>Documents\<close>

record document_response =
  dr_id :: uuid
  dr_original_filename :: string
  dr_content_type :: string
  dr_file_size :: int
  dr_checksum :: string
  dr_requested_document_type :: "document_type option"
  dr_created_at :: time

definition document_response_of :: "document \<Rightarrow> document_response" where
  "document_response_of d =
     \<lparr>dr_id = doc_id d, dr_original_filename = doc_original_filename d,
      dr_content_type = doc_content_type d, dr_file_size = doc_file_size d,
      dr_checksum = doc_checksum d, dr_requested_document_type = doc_requested_document_type d,
      dr_created_at = doc_created_at d\<rparr>"

record upload_accepted_response =
  ua_document_id :: uuid
  ua_job_id :: uuid
  ua_status :: job_status
  ua_status_url :: string

section \<open>Results\<close>

record extraction_result_response =
  er_id :: uuid
  er_detected_document_type :: document_type
  er_extracted_data :: json
  er_model_provider :: string
  er_model_name :: string
  er_prompt_version :: string
  er_input_tokens :: "int option"
  er_output_tokens :: "int option"
  er_confidence_score :: "py_float option"
  er_created_at :: time

definition result_response_of :: "extraction_result \<Rightarrow> extraction_result_response" where
  "result_response_of r =
     \<lparr>er_id = res_id r, er_detected_document_type = res_detected_document_type r,
      er_extracted_data = res_extracted_data r, er_model_provider = res_model_provider r,
      er_model_name = res_model_name r, er_prompt_version = res_prompt_version r,
      er_input_tokens = res_input_tokens r, er_output_tokens = res_output_tokens r,
      er_confidence_score = res_confidence_score r, er_created_at = res_created_at r\<rparr>"

section \<open>Jobs\<close>

record job_summary =
  js_id :: uuid
  js_document_id :: uuid
  js_status :: job_status
  js_retry_count :: int
  js_max_retries :: int
  js_error_message :: "string option"
  js_queued_at :: time
  js_started_at :: "time option"
  js_completed_at :: "time option"
  js_processing_duration_ms :: "int option"
  js_created_at :: time
  js_updated_at :: time
  js_original_filename :: "string option"
  js_detected_document_type :: "document_type option"

definition summary_is_terminal :: "'a job_summary_scheme \<Rightarrow> bool" where
  "summary_is_terminal s \<longleftrightarrow> is_terminal (js_status s)"

record job_detail = job_summary +
  jd_result :: "extraction_result_response option"
  jd_consumer_name :: "string option"

text \<open>The row has neither of the two joined attributes, so they take their defaults.\<close>

definition job_summary_of :: "job \<Rightarrow> job_summary" where
  "job_summary_of j =
     \<lparr>js_id = job_id j, js_document_id = job_document_id j, js_status = job_status j,
      js_retry_count = job_retry_count j, js_max_retries = job_max_retries j,
      js_error_message = job_error_message j, js_queued_at = job_queued_at j,
      js_started_at = job_started_at j, js_completed_at = job_completed_at j,
      js_processing_duration_ms = job_processing_duration_ms j, js_created_at = job_created_at j,
      js_updated_at = job_updated_at j, js_original_filename = None,
      js_detected_document_type = None\<rparr>"

definition job_detail_of :: "session \<Rightarrow> job_detail" where
  "job_detail_of s =
     job_summary.extend (job_summary_of (sess_job s))
       (job_detail.fields (map_option result_response_of (sess_result s))
          (job_consumer_name (sess_job s)))"

record job_retry_response =
  jr_job_id :: uuid
  jr_status :: job_status
  jr_retry_count :: int
  jr_status_url :: string

end
