(* ===== verification/Logs.thy ===== *)
theory Logs
  imports Errors World
begin

text \<open>
  \<^verbatim>\<open>app/core/logging.py\<close>: the two processors every log line passes, and the context bound to a request
  or to an event. A log line is its event dictionary, in order; structlog, which adds the level and the
  time stamp before these processors and renders the line after them, is not modelled.
\<close>

section \<open>Masking and clipping\<close>


definition MAX_VALUE_CHARS :: nat where
  "MAX_VALUE_CHARS = 1000"





definition truncation_note :: "nat \<Rightarrow> unicode" where
  "truncation_note n = codes (''... [truncated '' @ show_nat n @ '' chars]'')"

definition truncate_value :: "string \<times> json \<Rightarrow> string \<times> json" where
  "truncate_value kv =
     (case kv of (key, v) \<Rightarrow>
        (case v of
           JStr s \<Rightarrow>
             if MAX_VALUE_CHARS < length s
             then (key, JStr (take MAX_VALUE_CHARS s @ truncation_note (length s)))
             else (key, v)
         | _ \<Rightarrow> (key, v)))"



section \<open>Context\<close>

type_synonym log_vars = "string \<Rightarrow> json option"

definition CORRELATION_ID :: string where
  "CORRELATION_ID = ''correlation_id''"

definition bind_context :: "(string \<times> json) list \<Rightarrow> log_vars \<Rightarrow> log_vars" where
  "bind_context values ctx = fold (\<lambda>(k, v) c. c(k \<mapsto> v)) values ctx"

definition clear_context :: "log_vars \<Rightarrow> log_vars" where
  "clear_context ctx = Map.empty"

text \<open>An absent or empty ID is replaced by a fresh one.\<close>

definition bind_correlation_id ::
  "string option \<Rightarrow> log_vars \<Rightarrow> ('r, 'p, 'f) world \<Rightarrow> string \<times> log_vars \<times> ('r, 'p, 'f) world" where
  "bind_correlation_id correlation_id ctx w =
     (case (case correlation_id of
              Some c \<Rightarrow> if c \<noteq> [] then (c, w) else uuid4 w
            | None \<Rightarrow> uuid4 w) of
        (resolved, w1) \<Rightarrow> (resolved, bind_context [(CORRELATION_ID, jstr resolved)] ctx, w1))"

text \<open>Only texts and \<^verbatim>\<open>None\<close> are ever bound under this key.\<close>

definition get_correlation_id :: "log_vars \<Rightarrow> string option" where
  "get_correlation_id ctx =
     (case ctx CORRELATION_ID of
        Some (JStr s) \<Rightarrow> Some (map char_of s)
      | _ \<Rightarrow> None)"

text \<open>\<^verbatim>\<open>with log_context(**values)\<close>: bind, run the body, give each bound key its old value back.\<close>

definition reset_context :: "(string \<times> json) list \<Rightarrow> log_vars \<Rightarrow> log_vars \<Rightarrow> log_vars" where
  "reset_context values old ctx = (\<lambda>k. if k \<in> fst ` set values then old k else ctx k)"

definition with_log_context ::
  "(string \<times> json) list \<Rightarrow> (log_vars \<Rightarrow> 'a \<times> log_vars) \<Rightarrow> log_vars \<Rightarrow> 'a \<times> log_vars" where
  "with_log_context values body ctx =
     (case body (bind_context values ctx) of (x, ctx') \<Rightarrow> (x, reset_context values ctx ctx'))"

section \<open>Properties\<close>

lemma char_of_codes [simp]: "map char_of (codes s) = s"
  by (simp add: codes_def comp_def)

lemma get_bound_correlation_id:
  assumes "bind_correlation_id c ctx w = (cid, ctx', w')"
  shows "get_correlation_id ctx' = Some cid"
  using assms by (auto simp: bind_correlation_id_def bind_context_def get_correlation_id_def split: prod.splits)

lemma bind_correlation_id_given: "c \<noteq> [] \<Longrightarrow> fst (bind_correlation_id (Some c) ctx w) = c"
  by (simp add: bind_correlation_id_def)

lemma with_log_context_restores:
  assumes "body (bind_context values ctx) = (x, bind_context values ctx)"
  shows "with_log_context values body ctx = (x, ctx)"
proof -
  have "bind_context vs c k = c k" if "k \<notin> fst ` set vs" for vs c k
    using that by (induction vs arbitrary: c) (auto simp: bind_context_def split: prod.splits)
  then have "reset_context values ctx (bind_context values ctx) = ctx"
    by (auto simp: reset_context_def)
  with assms show ?thesis by (simp add: with_log_context_def)
qed






lemma truncate_value_other: "(\<And>s. v \<noteq> JStr s) \<Longrightarrow> truncate_value (k, v) = (k, v)"
  by (cases v) (auto simp: truncate_value_def)



end
