(* ===== verification/Api.thy ===== *)
theory Api
  imports Api_Schemas Logs Database Queue Storage
begin

text \<open>
  The HTTP API: \<^verbatim>\<open>app/services/publisher.py\<close>, the routes of \<^verbatim>\<open>app/api/routes/documents.py\<close>, \<^verbatim>\<open>jobs.py\<close> and
  \<^verbatim>\<open>health.py\<close>, and the middleware, error handlers and lifespan of \<^verbatim>\<open>app/api/main.py\<close>.

  An endpoint takes what its dependencies provide (\<open>api_env\<close>), the context of the request, its
  parameters and the world, and returns its response or an exception, the session it leaves (if it got
  as far as having one) and the world; \<open>request\<close> adds what the session dependency does on the way
  out. Routing, the parsing of requests and the rendering of responses are FastAPI's.
\<close>

section \<open>What the dependencies provide\<close>

record ('r, 'p, 'f) api_env =
  ae_settings :: settings
  ae_storage :: "('r, 'p, 'f) file_storage"
  ae_redis :: "'r redis_api"
  ae_codec :: event_codec
  ae_queue :: redis_queue
  ae_nfkd :: "unicode \<Rightarrow> unicode"
  ae_url_for :: "uuid \<Rightarrow> string"

type_synonym ('a, 'r, 'p, 'f) endpoint =
  "('r, 'p, 'f) world \<Rightarrow> 'a result \<times> session option \<times> ('r, 'p, 'f) world"

definition request :: "('a, 'r, 'p, 'f) endpoint \<Rightarrow> ('r, 'p, 'f) world \<Rightarrow> 'a result \<times> ('r, 'p, 'f) world" where
  "request f w = leave_session (f w)"

section \<open>Publishing (publisher.py)\<close>

definition build_event ::
  "job \<Rightarrow> document \<Rightarrow> log_vars \<Rightarrow> ('r, 'p, 'f) world \<Rightarrow> event \<times> ('r, 'p, 'f) world" where
  "build_event j d ctx w =
     new_event (job_id j) (doc_id d) (doc_storage_path d) (doc_requested_document_type d)
       (get_correlation_id ctx) w"

text \<open>\<^verbatim>\<open>job.document\<close> is loaded with the job; without it the attribute access raises.\<close>

definition no_attribute :: exc where
  "no_attribute =
     OtherExc [''builtins.AttributeError'', ''builtins.Exception''] (py_quote ''NoneType'' @ '' object has no attribute '' @ py_quote ''id'')"

definition publish_job ::
  "('r, 'p, 'f) api_env \<Rightarrow> job \<Rightarrow> document option \<Rightarrow> log_vars \<Rightarrow> ('r, 'p, 'f) world \<Rightarrow>
     string result \<times> ('r, 'p, 'f) world" where
  "publish_job a j doc ctx w =
     (case doc of
        None \<Rightarrow> (Inl no_attribute, w)
      | Some d \<Rightarrow>
          (case build_event j d ctx w of
             (e, w1) \<Rightarrow> publish (ae_redis a) (ae_codec a) (ae_queue a) e w1))"

section \<open>Uploading (documents.py)\<close>

definition READ_CHUNK_BYTES :: nat where
  "READ_CHUNK_BYTES = 64 * 1024"

definition upload_too_large :: "settings \<Rightarrow> exc" where
  "upload_too_large s =
     raise_app FileTooLargeError
       (''The file exceeds the '' @ show_2dp (round_even (max_upload_mb s * 100)) @ '' MB limit.'')
       [(''max_bytes'', JInt (max_upload_bytes s))]"

text \<open>The loop, with what is left of the upload as its state; the rest that was not read is returned.\<close>

function read_chunks :: "settings \<Rightarrow> bytes list \<Rightarrow> int \<Rightarrow> bytes \<Rightarrow> bytes result \<times> bytes" where
  "read_chunks s chunks seen rest =
     (let chunk = take READ_CHUNK_BYTES rest; rest' = drop READ_CHUNK_BYTES rest
      in if chunk = [] then (Inr (concat chunks), rest')
         else
           let seen' = seen + int (length chunk)
           in if max_upload_bytes s < seen' then (Inl (upload_too_large s), rest')
              else read_chunks s (chunks @ [chunk]) seen' rest')"
  by pat_completeness auto
termination
  by (relation "measure (\<lambda>(s, chunks, seen, rest). length rest)") (auto simp: READ_CHUNK_BYTES_def)

declare read_chunks.simps [simp del]

definition read_within_limit :: "settings \<Rightarrow> bytes \<Rightarrow> bytes result \<times> bytes" where
  "read_within_limit s upload = read_chunks s [] 0 upload"

record upload_file =
  uf_filename :: "unicode option"
  uf_content_type :: "string option"
  uf_data :: bytes

definition stored_content_type :: "string option \<Rightarrow> string" where
  "stored_content_type content_type =
     (case content_type of
        Some t \<Rightarrow> if t \<noteq> [] then t else ''application/octet-stream''
      | None \<Rightarrow> ''application/octet-stream'')"

definition upload_document ::
  "('r, 'p, 'f) api_env \<Rightarrow> log_vars \<Rightarrow> upload_file \<Rightarrow> document_type option \<Rightarrow>
     (upload_accepted_response, 'r, 'p, 'f) endpoint" where
  "upload_document a ctx u document_type w =
     (case fst (read_within_limit (ae_settings a) (uf_data u)) of
        Inl e \<Rightarrow> (Inl e, None, w)
      | Inr data \<Rightarrow>
          (case validate_upload (ae_nfkd a) (uf_filename u) (uf_content_type u) data (ae_settings a) of
             Inl e \<Rightarrow> (Inl e, None, w)
           | Inr (safe_filename, extension) \<Rightarrow>
               (case st_save (ae_storage a) data extension w of
                  (Inl e, w1) \<Rightarrow> (Inl e, None, w1)
                | (Inr stored, w1) \<Rightarrow>
                    (case create_document_and_job stored safe_filename
                       (stored_content_type (uf_content_type u)) document_type
                       (max_retries (ae_settings a)) w1 of
                       (Inl e, w2) \<Rightarrow> (Inl e, None, w2)
                     | (Inr s, w2) \<Rightarrow>
                         (case publish_job a (sess_job s) (sess_document s) ctx w2 of
                            (Inl e, w3) \<Rightarrow>
                              if is_app_instance e QueueError then
                                (case mark_failed ''The document could not be queued for processing.'' True s w3 of
                                   (Inl e', s', w4) \<Rightarrow> (Inl e', Some s', w4)
                                 | (Inr _, s', w4) \<Rightarrow> (Inl e, Some s', w4))
                              else (Inl e, Some s, w3)
                          | (Inr message_id, w3) \<Rightarrow>
                              (Inr \<lparr>ua_document_id = job_document_id (sess_job s),
                                    ua_job_id = job_id (sess_job s), ua_status = job_status (sess_job s),
                                    ua_status_url = ae_url_for a (job_id (sess_job s))\<rparr>, Some s, w3))))))"

definition get_document_route :: "uuid \<Rightarrow> (document_response, 'r, 'p, 'f) endpoint" where
  "get_document_route did w =
     (case get_document did w of
        (Inl e, w1) \<Rightarrow> (Inl e, None, w1)
      | (Inr d, w1) \<Rightarrow> (Inr (document_response_of d), None, w1))"

section \<open>Jobs (jobs.py)\<close>

definition to_summary :: "session \<Rightarrow> job_summary" where
  "to_summary s =
     (job_summary_of (sess_job s))
       \<lparr>js_original_filename := map_option doc_original_filename (sess_document s),
        js_detected_document_type := map_option res_detected_document_type (sess_result s)\<rparr>"

definition list_jobs_route ::
  "job_status option \<Rightarrow> int \<Rightarrow> int \<Rightarrow> (job_summary page, 'r, 'p, 'f) endpoint" where
  "list_jobs_route status limit offset w =
     (case list_jobs status limit offset w of
        (Inl e, w1) \<Rightarrow> (Inl e, None, w1)
      | (Inr (jobs, n), w1) \<Rightarrow>
          (Inr \<lparr>pg_items = map to_summary jobs, pg_total = n, pg_limit = limit, pg_offset = offset\<rparr>,
           None, w1))"

definition get_job_route :: "uuid \<Rightarrow> (job_detail, 'r, 'p, 'f) endpoint" where
  "get_job_route jid w =
     (case get_job jid w of
        (Inl e, w1) \<Rightarrow> (Inl e, None, w1)
      | (Inr s, w1) \<Rightarrow>
          (Inr ((job_detail_of s)
             \<lparr>js_original_filename := map_option doc_original_filename (sess_document s),
              js_detected_document_type := map_option res_detected_document_type (sess_result s)\<rparr>),
           Some s, w1))"

definition retry_job ::
  "('r, 'p, 'f) api_env \<Rightarrow> log_vars \<Rightarrow> uuid \<Rightarrow> (job_retry_response, 'r, 'p, 'f) endpoint" where
  "retry_job a ctx jid w =
     (case get_job jid w of
        (Inl e, w1) \<Rightarrow> (Inl e, None, w1)
      | (Inr s, w1) \<Rightarrow>
          (case reset_for_manual_retry True s w1 of
             (Inl e, s2, w2) \<Rightarrow> (Inl e, Some s2, w2)
           | (Inr _, s2, w2) \<Rightarrow>
               (case publish_job a (sess_job s2) (sess_document s2) ctx w2 of
                  (Inl e, w3) \<Rightarrow>
                    if is_app_instance e QueueError then
                      (case mark_failed ''The job could not be re-queued for processing.'' True s2 w3 of
                         (Inl e', s3, w4) \<Rightarrow> (Inl e', Some s3, w4)
                       | (Inr _, s3, w4) \<Rightarrow> (Inl e, Some s3, w4))
                    else (Inl e, Some s2, w3)
                | (Inr message_id, w3) \<Rightarrow>
                    (Inr \<lparr>jr_job_id = job_id (sess_job s2), jr_status = job_status (sess_job s2),
                          jr_retry_count = job_retry_count (sess_job s2),
                          jr_status_url = ae_url_for a (job_id (sess_job s2))\<rparr>, Some s2, w3))))"

section \<open>Probes (health.py)\<close>

definition health :: "(string \<times> string) list" where
  "health = [(''status'', ''ok'')]"

text \<open>The status code, the text under \<^verbatim>\<open>status\<close>, and the two checks.\<close>

definition ready ::
  "('r, 'p, 'f) api_env \<Rightarrow> ('r, 'p, 'f) world \<Rightarrow>
     (int \<times> string \<times> (string \<times> bool) list) result \<times> ('r, 'p, 'f) world" where
  "ready a w =
     (case check_database w of
        (Inl e, w1) \<Rightarrow> (Inl e, w1)
      | (Inr database, w1) \<Rightarrow>
          (case queue_health (ae_redis a) (ae_queue a) w1 of
             (Inl e, w2) \<Rightarrow> (Inl e, w2)
           | (Inr redis, w2) \<Rightarrow>
               let checks = [(''database'', database), (''redis'', redis)];
                   all_ready = list_all snd checks
               in (Inr (if all_ready then 200 else 503, if all_ready then ''ready'' else ''not_ready'', checks), w2)))"

section \<open>Errors (main.py)\<close>

record http_response =
  hr_status :: int
  hr_body :: json
  hr_correlation_header :: "string option"

text \<open>What ends a request early: an exception of the program, or one FastAPI and Starlette raise.\<close>

datatype request_error =
    RouteError exc
  | ValidationError "(string list \<times> string) list"
  | HttpError int string

definition json_response :: "int \<Rightarrow> json \<Rightarrow> http_response" where
  "json_response status body = \<lparr>hr_status = status, hr_body = body, hr_correlation_header = None\<rparr>"

text \<open>\<^verbatim>\<open>"correlation_id": get_correlation_id()\<close>.\<close>

definition correlation_json :: "log_vars \<Rightarrow> json" where
  "correlation_json ctx = (case get_correlation_id ctx of None \<Rightarrow> JNull | Some c \<Rightarrow> jstr c)"

definition handle_app_error :: "log_vars \<Rightarrow> app_error \<Rightarrow> http_response" where
  "handle_app_error ctx e =
     json_response (http_status (err_class e)) (to_dict e (get_correlation_id ctx))"

definition handle_validation_error :: "log_vars \<Rightarrow> (string list \<times> string) list \<Rightarrow> http_response" where
  "handle_validation_error ctx items =
     json_response 422
       (JObj [(''error'',
          JObj [(''code'', jstr ''request_validation_failed''),
                (''message'', jstr ''The request payload failed validation.''),
                (''details'', JObj [(''fields'',
                   JList (map (\<lambda>(loc, msg).
                     JObj [(''field'', jstr (py_join ''.'' loc)), (''message'', jstr msg)]) items))]),
                (''correlation_id'', correlation_json ctx)])])"

definition handle_http_exception :: "log_vars \<Rightarrow> int \<Rightarrow> string \<Rightarrow> http_response" where
  "handle_http_exception ctx status detail =
     json_response status
       (JObj [(''error'',
          JObj [(''code'', jstr ''http_error''), (''message'', jstr detail),
                (''correlation_id'', correlation_json ctx)])])"

definition handle_unexpected_error :: "log_vars \<Rightarrow> exc \<Rightarrow> http_response" where
  "handle_unexpected_error ctx e =
     json_response 500
       (JObj [(''error'',
          JObj [(''code'', jstr ''internal_error''), (''message'', jstr ''An unexpected error occurred.''),
                (''correlation_id'', correlation_json ctx)])])"

section \<open>Middleware (main.py)\<close>

text \<open>
  Starlette renders the first three kinds inside the application, below the middleware, and anything
  else outside of it. \<open>call_next\<close> is the application below: it returns a response or raises.
\<close>

definition call_next ::
  "(log_vars \<Rightarrow> ('r, 'p, 'f) world \<Rightarrow> (request_error + http_response) \<times> ('r, 'p, 'f) world) \<Rightarrow>
     log_vars \<Rightarrow> ('r, 'p, 'f) world \<Rightarrow> http_response result \<times> ('r, 'p, 'f) world" where
  "call_next app ctx w =
     (case app ctx w of
        (Inr r, w1) \<Rightarrow> (Inr r, w1)
      | (Inl (RouteError (AppExc e)), w1) \<Rightarrow> (Inr (handle_app_error ctx e), w1)
      | (Inl (ValidationError items), w1) \<Rightarrow> (Inr (handle_validation_error ctx items), w1)
      | (Inl (HttpError status detail), w1) \<Rightarrow> (Inr (handle_http_exception ctx status detail), w1)
      | (Inl (RouteError (OtherExc mro t)), w1) \<Rightarrow> (Inl (OtherExc mro t), w1))"

definition correlation_and_access_log ::
  "(log_vars \<Rightarrow> ('r, 'p, 'f) world \<Rightarrow> http_response result \<times> ('r, 'p, 'f) world) \<Rightarrow> string option \<Rightarrow>
     log_vars \<Rightarrow> ('r, 'p, 'f) world \<Rightarrow> http_response result \<times> log_vars \<times> ('r, 'p, 'f) world" where
  "correlation_and_access_log next_app header ctx w =
     (case bind_correlation_id header (clear_context ctx) w of
        (correlation_id, ctx1, w1) \<Rightarrow>
          (case utcnow w1 of (started, w2) \<Rightarrow>
             (case next_app ctx1 w2 of
                (Inl e, w3) \<Rightarrow> (case utcnow w3 of (_, w4) \<Rightarrow> (Inl e, ctx1, w4))
              | (Inr r, w3) \<Rightarrow>
                  (case utcnow w3 of (_, w4) \<Rightarrow>
                     (Inr (r\<lparr>hr_correlation_header := Some correlation_id\<rparr>), clear_context ctx1, w4)))))"

definition serve ::
  "(log_vars \<Rightarrow> ('r, 'p, 'f) world \<Rightarrow> (request_error + http_response) \<times> ('r, 'p, 'f) world) \<Rightarrow>
     string option \<Rightarrow> log_vars \<Rightarrow> ('r, 'p, 'f) world \<Rightarrow> http_response \<times> log_vars \<times> ('r, 'p, 'f) world" where
  "serve app header ctx w =
     (case correlation_and_access_log (call_next app) header ctx w of
        (Inr r, ctx1, w1) \<Rightarrow> (r, ctx1, w1)
      | (Inl e, ctx1, w1) \<Rightarrow> (handle_unexpected_error ctx1 e, ctx1, w1))"

section \<open>Start and stop (main.py)\<close>

record ('r, 'p, 'f) api_state =
  as_engine :: engine_cache
  as_queue :: "redis_queue option"
  as_storage :: "('r, 'p, 'f) file_storage option"

text \<open>Up to \<^verbatim>\<open>yield\<close>; what was created before a failure stays created.\<close>

definition lifespan_start ::
  "'r redis_api \<Rightarrow> 'f fs_api \<Rightarrow> string list \<Rightarrow> settings \<Rightarrow> ('r, 'p, 'f) api_state \<Rightarrow> ('r, 'p, 'f) world \<Rightarrow>
     unit result \<times> ('r, 'p, 'f) api_state \<times> ('r, 'p, 'f) world" where
  "lifespan_start rd fs base s st w =
     (case get_file_storage fs base (as_storage st) w of
        (Inl e, cs, w1) \<Rightarrow> (Inl e, st\<lparr>as_storage := cs\<rparr>, w1)
      | (Inr _, cs, w1) \<Rightarrow>
          let st1 = st\<lparr>as_storage := cs, as_engine := snd (get_engine s (as_engine st))\<rparr>
          in (case wait_for_database s w1 of
                (Inl e, w2) \<Rightarrow> (Inl e, st1, w2)
              | (Inr _, w2) \<Rightarrow>
                  (case get_queue s (as_queue st1) of (q, _) \<Rightarrow>
                     (case queue_connect rd q w2 of
                        (Inl e, q1, w3) \<Rightarrow> (Inl e, st1\<lparr>as_queue := Some q1\<rparr>, w3)
                      | (Inr _, q1, w3) \<Rightarrow>
                          (case ensure_group rd q1 w3 of
                             (Inl e, w4) \<Rightarrow> (Inl e, st1\<lparr>as_queue := Some q1\<rparr>, w4)
                           | (Inr _, w4) \<Rightarrow> (Inr (), st1\<lparr>as_queue := Some q1\<rparr>, w4))))))"

definition lifespan_stop ::
  "('r, 'p, 'f) api_state \<Rightarrow> ('r, 'p, 'f) world \<Rightarrow> unit result \<times> ('r, 'p, 'f) api_state \<times> ('r, 'p, 'f) world" where
  "lifespan_stop st w =
     (let st1 = st\<lparr>as_queue := map_option queue_close (as_queue st)\<rparr>
      in (case dispose_engine (as_engine st1) w of
            (r, c, w1) \<Rightarrow> (r, st1\<lparr>as_engine := c\<rparr>, w1)))"

end
