(* ===== verification/Api_Properties.thy ===== *)
theory Api_Properties
  imports Api Job_Properties Queue_Properties Upload_Properties Processor_Branches
begin

text \<open>
  The properties of the HTTP API: the size limit of uploads, what an accepted upload guarantees, what
  becomes of an upload that cannot be queued, which jobs can be re-queued, that the API makes only
  commits of the pipeline, and what error responses show.
\<close>

section \<open>Reading an upload\<close>

lemma read_chunks_within:
  "seen + int (length rest) \<le> max_upload_bytes s \<Longrightarrow> read_chunks s chunks seen rest = (Inr (concat chunks @ rest), [])"
proof (induction s chunks seen rest rule: read_chunks.induct)
  case (1 s chunks seen rest)
  show ?case
  proof (cases "rest = []")
    case False
    have l: "length (take READ_CHUNK_BYTES rest) + length (drop READ_CHUNK_BYTES rest) = length rest" by simp
    have ne: "take READ_CHUNK_BYTES rest \<noteq> []" using False by (simp add: READ_CHUNK_BYTES_def)
    have le: "\<not> max_upload_bytes s < seen + int (length (take READ_CHUNK_BYTES rest))"
      using "1.prems" l by linarith
    have "read_chunks s (chunks @ [take READ_CHUNK_BYTES rest]) (seen + int (length (take READ_CHUNK_BYTES rest)))
        (drop READ_CHUNK_BYTES rest) =
      (Inr (concat (chunks @ [take READ_CHUNK_BYTES rest]) @ drop READ_CHUNK_BYTES rest), [])"
      using "1.IH"[OF refl refl ne refl le] "1.prems" l by linarith
    then show ?thesis using ne le by (subst read_chunks.simps) (simp only: Let_def if_False concat_append concat.simps append_Nil2 append_assoc append_take_drop_id)
  qed (simp add: read_chunks.simps)
qed

lemma read_chunks_over:
  "seen \<le> max_upload_bytes s \<Longrightarrow> max_upload_bytes s < seen + int (length rest) \<Longrightarrow>
     \<exists>rest'. read_chunks s chunks seen rest = (Inl (upload_too_large s), rest') \<and> suffix rest' rest \<and>
       seen + int (length rest) - int (length rest') \<le> max_upload_bytes s + int READ_CHUNK_BYTES"
proof (induction s chunks seen rest rule: read_chunks.induct)
  case (1 s chunks seen rest)
  let ?c = "take READ_CHUNK_BYTES rest" and ?d = "drop READ_CHUNK_BYTES rest"
  have l: "length ?c + length ?d = length rest" by simp
  have c: "length ?c \<le> READ_CHUNK_BYTES" by simp
  have ne: "?c \<noteq> []" using "1.prems" by (auto simp: READ_CHUNK_BYTES_def)
  have suf: "suffix ?d rest" by (rule suffix_drop)
  show ?case
  proof (cases "max_upload_bytes s < seen + int (length ?c)")
    case True
    then have "read_chunks s chunks seen rest = (Inl (upload_too_large s), ?d)"
      using ne by (subst read_chunks.simps) (simp only: Let_def if_False if_True)
    moreover have "seen + int (length rest) - int (length ?d) \<le> max_upload_bytes s + int READ_CHUNK_BYTES"
      using "1.prems"(1) l c by linarith
    ultimately show ?thesis using suf by blast
  next
    case False
    then have "read_chunks s chunks seen rest = read_chunks s (chunks @ [?c]) (seen + int (length ?c)) ?d"
      using ne by (subst read_chunks.simps) (simp only: Let_def if_False)
    moreover have "seen + int (length ?c) \<le> max_upload_bytes s"
      and "max_upload_bytes s < seen + int (length ?c) + int (length ?d)"
      using False "1.prems"(2) l by linarith+
    from "1.IH"[OF refl refl ne refl False this] obtain rest' where
      "read_chunks s (chunks @ [?c]) (seen + int (length ?c)) ?d = (Inl (upload_too_large s), rest')"
      and "suffix rest' ?d"
      and "seen + int (length ?c) + int (length ?d) - int (length rest') \<le> max_upload_bytes s + int READ_CHUNK_BYTES"
      by blast
    ultimately show ?thesis using suf l suffix_order.trans by fastforce
  qed
qed

lemma read_within_limit_exact_read:
  assumes "0 \<le> max_upload_bytes s" and "fst (read_within_limit s body) = Inr data"
  shows "data = body"
proof (cases "int (length body) \<le> max_upload_bytes s")
  case True
  then show ?thesis using read_chunks_within[of 0 body s "[]"] assms by (simp add: read_within_limit_def)
next
  case False
  then show ?thesis using read_chunks_over[of 0 s body "[]"] assms by (auto simp: read_within_limit_def)
qed

text \<open>
  C34. The size limit is exact and enforced while reading: an upload within the limit is read in full
  and unchanged, a larger one is refused with \<^verbatim>\<open>FileTooLargeError\<close>, and then no more than the limit and
  one chunk of it have been read.
\<close>

theorem read_within_limit_exact:
  assumes "0 \<le> max_upload_bytes s"
  shows "if int (length body) \<le> max_upload_bytes s then read_within_limit s body = (Inr body, [])
    else \<exists>rest. read_within_limit s body = (Inl (upload_too_large s), rest) \<and> suffix rest body \<and>
      int (length body) - int (length rest) \<le> max_upload_bytes s + int READ_CHUNK_BYTES"
proof (cases "int (length body) \<le> max_upload_bytes s")
  case True
  then show ?thesis using read_chunks_within[of 0 body s "[]"] by (simp add: read_within_limit_def)
next
  case False
  then show ?thesis using read_chunks_over[of 0 s body "[]"] assms by (simp add: read_within_limit_def)
qed

lemma read_note: "read_within_limit default_settings [72, 105] = (Inr [72, 105], [])"
  using read_chunks_within[of 0 "[72, 105]" default_settings "[]"]
  by (simp add: read_within_limit_def default_settings_def MB_def)

lemma read_within_limit_exact_witness:
  "read_within_limit default_settings [72, 105] = (Inr [72, 105], [])"
proof -
  have "2 \<le> max_upload_bytes default_settings" by (simp add: default_settings_def MB_def)
  then show ?thesis using read_within_limit_exact[of default_settings "[72, 105]"] by simp
qed

section \<open>What the endpoints do to the database\<close>

lemma find_prefix: "prefix xs ys \<Longrightarrow> find P xs = Some x \<Longrightarrow> find P ys = Some x"
  by (auto simp: prefix_def find_append)

lemma find_document_extends:
  "extends_db d d' \<Longrightarrow> find_document i d = Some x \<Longrightarrow> find_document i d' = Some x"
  unfolding extends_db_def find_document_def by (blast intro: find_prefix)

lemma publish_job_same_db: "publish_job a j doc ctx w = (r, w') \<Longrightarrow> same_db w w' \<and> w_files w' = w_files w"
  by (auto simp: publish_job_def build_event_def new_event_def same_db_def redis_only_def same_outside_def
      dest!: publish_frame uuid4_frame utcnow_frame split: option.splits prod.splits)

context job_protocol
begin

lemma files_only_rely: "files_only w w' \<Longrightarrow> rely R w \<Longrightarrow> rely R w' \<and> w_db w' = w_db w"
  by (simp add: files_only_def rely_def)

lemma create_rely:
  assumes "create_document_and_job stored n c t b w = (r, w')" and "rely R w"
  shows "R (w_db w) (w_db w') \<and> rely R w' \<and> (\<forall>s. r = Inr s \<longrightarrow> fresh s \<and> snapshot (sess_loaded s) (w_db w'))"
proof -
  obtain did w1 where 1: "uuid4 w = (did, w1)" by fastforce
  obtain jid w2 where 2: "uuid4 w1 = (jid, w2)" by fastforce
  obtain now w3 where 3: "utcnow w2 = (now, w3)" by fastforce
  define doc where "doc = new_document did now stored n c t"
  define j where "j = new_job jid did now b"
  obtain x4 w4 where 4: "db_write (insert_document_and_job doc j) w3 = (x4, w4)" by fastforce
  obtain x5 s5 w5 where 5: "session_refresh (open_session j (Some doc) None) w4 = (x5, s5, w5)"
    by (metis prod_cases3)
  obtain x6 w6 where 6: "db_read (\<lambda>d. case find_document did d of None \<Rightarrow> Inl invalid_request_error
      | Some doc' \<Rightarrow> Inr doc') w5 = (x6, w6)" by fastforce
  have r3: "rely R w3" "w_db w3 = w_db w"
    using uuid4_rely[OF 1 assms(2)] uuid4_rely[OF 2] utcnow_rely[OF 3] by auto
  have r4: "R (w_db w) (w_db w4)" "rely R w4"
  proof -
    have "R d d'" if "insert_document_and_job doc j d = Inr d'" for d d'
      using create_R[of doc jid now b d d'] that by (simp add: j_def doc_def new_document_def)
    from db_write_guarantee[OF 4 r3(1) this] r3(2) show "R (w_db w) (w_db w4)" "rely R w4" by auto
  qed
  have r5: "R (w_db w) (w_db w5)" "rely R w5"
    using session_refresh_rely[OF 5 r4(2)] r4(1) by (auto intro: R_trans)
  have r6: "R (w_db w) (w_db w6)" "R (w_db w5) (w_db w6)" "rely R w6"
    using db_read_rely(1,2)[OF 6 r5(2)] r5(1) by (auto intro: R_trans)
  have run: "(r, w') = (case x4 of Inl e \<Rightarrow> (Inl e, w4) | Inr _ \<Rightarrow>
      (case x5 of Inl e \<Rightarrow> (Inl e, w5) | Inr _ \<Rightarrow>
        (case x6 of Inl e \<Rightarrow> (Inl e, w6) | Inr doc' \<Rightarrow> (Inr (s5\<lparr>sess_document := Some doc'\<rparr>), w6))))"
    using assms(1)
    by (simp add: create_document_and_job_def 1 2 3 4 5 6 doc_def[symmetric] j_def[symmetric] Let_def
        split: sum.splits)
  show ?thesis
  proof (cases x4)
    case (Inl e)
    then show ?thesis using run r4 by simp
  next
    case x4: (Inr u)
    show ?thesis
    proof (cases x5)
      case (Inl e)
      then show ?thesis using run r5 x4 by simp
    next
      case x5: (Inr v)
      show ?thesis
      proof (cases x6)
        case (Inl e)
        then show ?thesis using run r6 x4 x5 by simp
      next
        case x6: (Inr d)
        note q = 5[unfolded x5]
        have j5: "find_job jid (w_db w5) = Some (sess_job s5)"
          using session_refresh_current[OF q r4(2)] by (simp add: j_def new_job_def)
        from snapshot_self[OF this] have "snapshot (sess_loaded s5) (w_db w6)"
          using session_refresh_Inr(1)[OF q] keeps[OF r6(2)] by simp
        moreover have "fresh s5"
          using session_refresh_Inr(1,2)[OF q] by (simp add: fresh_def open_session_def)
        moreover have "r = Inr (s5\<lparr>sess_document := Some d\<rparr>)" "w' = w6" using run x4 x5 x6 by simp_all
        ultimately show ?thesis using r6 by (simp add: fresh_def)
      qed
    qed
  qed
qed

lemma leave_session_rely:
  assumes "leave_session (x, s, w) = (r, w')" and "rely R w"
  shows "R (w_db w) (w_db w') \<and> rely R w'"
proof (cases x)
  case (Inr y)
  with assms show ?thesis by (simp add: leave_session_def)
next
  case (Inl e)
  show ?thesis
  proof (cases s)
    case None
    obtain y v where y: "db_read (\<lambda>_. Inr ()) w = (y :: unit result, v)" by fastforce
    have "w' = v" using assms(1) Inl None y by (cases y) (simp_all add: leave_session_def split: unit.splits)
    with db_read_rely(1,2)[OF y assms(2)] show ?thesis by simp
  next
    case (Some t)
    obtain y t' v where y: "session_rollback t w = (y, t', v)" by (metis prod_cases3)
    have "w' = v" using assms(1) Inl Some y by (cases y) (simp_all add: leave_session_def)
    with session_rollback_rely[OF y assms(2)] show ?thesis by simp
  qed
qed

text \<open>The last part of both endpoints that publish: publish, or fail the job.\<close>

lemma publish_or_fail_rely:
  assumes "publish_job a j doc ctx w = (x, w1)" and "rely R w" and "fresh s"
    and "snapshot (sess_loaded s) (w_db w)"
    and "w' = w1 \<or> (\<exists>y s'. mark_failed m True s w1 = (y, s', w'))"
  shows "R (w_db w) (w_db w') \<and> rely R w'"
proof -
  have 1: "rely R w1" "w_db w1 = w_db w"
    using same_db_rely[OF publish_job_same_db[OF assms(1), THEN conjunct1] assms(2)] by simp_all
  from assms(5) show ?thesis
  proof
    assume "\<exists>y s'. mark_failed m True s w1 = (y, s', w')"
    then obtain y s' where "mark_failed m True s w1 = (y, s', w')" by blast
    from mark_failed_rely[OF this 1(1) assms(3)] assms(4) 1 show ?thesis by simp
  qed (use 1 in simp)
qed

end

text \<open>How far an upload gets.\<close>

lemma upload_cases:
  assumes "upload_document a ctx u t w = (r, so, w')"
  obtains (refused) e where "r = Inl e" "so = None" "w' = w"
  | (unsaved) data ext e where "st_save (ae_storage a) data ext w = (Inl e, w')" "r = Inl e" "so = None"
  | (uncreated) data name ext stored w1 e where
      "fst (read_within_limit (ae_settings a) (uf_data u)) = Inr data"
      "validate_upload (ae_nfkd a) (uf_filename u) (uf_content_type u) data (ae_settings a) = Inr (name, ext)"
      "st_save (ae_storage a) data ext w = (Inr stored, w1)"
      "create_document_and_job stored name (stored_content_type (uf_content_type u)) t
         (max_retries (ae_settings a)) w1 = (Inl e, w')" "r = Inl e" "so = None"
  | (created) data name ext stored w1 s w2 x w3 where
      "fst (read_within_limit (ae_settings a) (uf_data u)) = Inr data"
      "validate_upload (ae_nfkd a) (uf_filename u) (uf_content_type u) data (ae_settings a) = Inr (name, ext)"
      "st_save (ae_storage a) data ext w = (Inr stored, w1)"
      "create_document_and_job stored name (stored_content_type (uf_content_type u)) t
         (max_retries (ae_settings a)) w1 = (Inr s, w2)"
      "publish_job a (sess_job s) (sess_document s) ctx w2 = (x, w3)"
      "(r, so, w') =
         (case x of
            Inl e \<Rightarrow>
              if is_app_instance e QueueError then
                (case mark_failed ''The document could not be queued for processing.'' True s w3 of
                   (Inl e', s', w4) \<Rightarrow> (Inl e', Some s', w4)
                 | (Inr _, s', w4) \<Rightarrow> (Inl e, Some s', w4))
              else (Inl e, Some s, w3)
          | Inr message_id \<Rightarrow>
              (Inr \<lparr>ua_document_id = job_document_id (sess_job s),
                    ua_job_id = job_id (sess_job s), ua_status = job_status (sess_job s),
                    ua_status_url = ae_url_for a (job_id (sess_job s))\<rparr>, Some s, w3))"
proof (cases "fst (read_within_limit (ae_settings a) (uf_data u))")
  case (Inl e)
  with assms show thesis by (intro refused[of e]) (simp_all add: upload_document_def)
next
  case rd: (Inr data)
  show thesis
  proof (cases "validate_upload (ae_nfkd a) (uf_filename u) (uf_content_type u) data (ae_settings a)")
    case (Inl e)
    with assms rd show thesis by (intro refused[of e]) (simp_all add: upload_document_def)
  next
    case (Inr ne)
    then obtain name ext where v:
      "validate_upload (ae_nfkd a) (uf_filename u) (uf_content_type u) data (ae_settings a) = Inr (name, ext)"
      by (cases ne) simp
    obtain y w1 where sv: "st_save (ae_storage a) data ext w = (y, w1)" by fastforce
    show thesis
    proof (cases y)
      case (Inl e)
      with assms rd v sv show thesis by (intro unsaved[of data ext e]) (simp_all add: upload_document_def)
    next
      case y: (Inr stored)
      obtain z w2 where cr: "create_document_and_job stored name (stored_content_type (uf_content_type u)) t
         (max_retries (ae_settings a)) w1 = (z, w2)" by fastforce
      show thesis
      proof (cases z)
        case (Inl e)
        with assms rd v sv y cr show thesis
          by (intro uncreated[of data name ext stored w1 e]) (simp_all add: upload_document_def)
      next
        case z: (Inr s)
        obtain x w3 where p: "publish_job a (sess_job s) (sess_document s) ctx w2 = (x, w3)" by fastforce
        show thesis
          by (rule created[OF rd v sv[unfolded y] cr[unfolded z] p])
            (use assms rd v sv y cr z p in \<open>simp add: upload_document_def\<close>)
      qed
    qed
  qed
qed

lemma reset_for_manual_retry_Inr:
  assumes "reset_for_manual_retry True s w = (Inr v, s', w')"
  shows "\<exists>now. s' = s\<lparr>sess_job := requeued_job now (sess_job s), sess_loaded := requeued_job now (sess_job s), sess_new := []\<rparr>"
  using assms
  by (auto simp: reset_for_manual_retry_def commit_if_def session_commit_def split: sum.splits prod.splits)

lemma snapshot_same_keys: "same_keys l c \<Longrightarrow> snapshot l d \<Longrightarrow> snapshot c d"
  by (simp add: same_keys_def snapshot_def)

context job_protocol
begin

lemma upload_rely:
  assumes "upload_document a ctx u t w = (r, so, w')" and "rely R w"
    and "\<And>data ext w y w'. st_save (ae_storage a) data ext w = (y, w') \<Longrightarrow> files_only w w'"
  shows "R (w_db w) (w_db w') \<and> rely R w'"
  using assms(1)
proof (cases rule: upload_cases)
  case (refused e)
  then show ?thesis using assms(2) by simp
next
  case (unsaved data ext e)
  from files_only_rely[OF assms(3)[OF unsaved(1)] assms(2)] show ?thesis by simp
next
  case (uncreated data name ext stored w1 e)
  note 1 = files_only_rely[OF assms(3)[OF uncreated(3)] assms(2)]
  from create_rely[OF uncreated(4)] 1 show ?thesis by simp
next
  case (created data name ext stored w1 s w2 x w3)
  note 1 = files_only_rely[OF assms(3)[OF created(3)] assms(2)]
  note 2 = create_rely[OF created(4) conjunct1[OF 1]]
  have "w' = w3 \<or> (\<exists>y s'. mark_failed ''The document could not be queued for processing.'' True s w3 = (y, s', w'))"
    using created(6) by (auto split: sum.splits if_splits prod.splits)
  from publish_or_fail_rely[OF created(5) _ _ _ this] 2 1 show ?thesis by (metis R_trans)
qed

lemma retry_rely:
  assumes "retry_job a ctx jid w = (r, so, w')" and "rely R w"
  shows "R (w_db w) (w_db w') \<and> rely R w'"
proof -
  obtain x w1 where g: "get_job jid w = (x, w1)" by fastforce
  note 1 = get_job_rely(1,2)[OF g assms(2)]
  show ?thesis
  proof (cases x)
    case (Inl e)
    with assms(1) g 1 show ?thesis by (simp add: retry_job_def)
  next
    case (Inr s)
    note s = get_job_rely(3)[OF g assms(2) Inr]
    obtain y s2 w2 where m: "reset_for_manual_retry True s w1 = (y, s2, w2)" by (metis prod_cases3)
    have 2: "R (w_db w) (w_db w2)" "rely R w2"
      using reset_for_manual_retry_rely[OF m 1(2)] s 1(1) by (auto intro: R_trans)
    show ?thesis
    proof (cases y)
      case (Inl e)
      with assms(1) g Inr m 2 show ?thesis by (simp add: retry_job_def)
    next
      case y: (Inr v)
      obtain now where s2': "s2 = s\<lparr>sess_job := requeued_job now (sess_job s), sess_loaded := requeued_job now (sess_job s), sess_new := []\<rparr>"
        using reset_for_manual_retry_Inr[OF m[unfolded y]] by blast
      have "snapshot (sess_loaded s) (w_db w2)"
        using keeps[OF reset_for_manual_retry_rely(1)[OF m 1(2)]] s by simp
      then have s2: "fresh s2" "snapshot (sess_loaded s2) (w_db w2)"
        using s snapshot_same_keys[of "sess_loaded s" "requeued_job now (sess_loaded s)"]
        by (simp_all add: s2' fresh_def)
      obtain z w3 where p: "publish_job a (sess_job s2) (sess_document s2) ctx w2 = (z, w3)" by fastforce
      have "w' = w3 \<or> (\<exists>y s'. mark_failed ''The job could not be re-queued for processing.'' True s2 w3 = (y, s', w'))"
        using assms(1) g Inr m y p by (auto simp: retry_job_def split: sum.splits if_splits prod.splits)
      from publish_or_fail_rely[OF p 2(2) s2 this] 2(1) show ?thesis by (metis R_trans)
    qed
  qed
qed

end

text \<open>
  C18. The API makes only commits of the pipeline: whatever database calls fail and whatever others
  commit meanwhile, an upload or a manual retry, with what its session does on the way out, leaves a
  database the pipeline can reach from the one it found, and the two read endpoints only let others
  act.
\<close>

theorem api_refines:
  assumes "rely db_steps w"
    and "storage_backend (ae_storage a) object"
  shows "(request (upload_document a ctx u t) w = (r1, w1) \<longrightarrow> db_steps (w_db w) (w_db w1)) \<and>
    (request (retry_job a ctx jid) w = (r2, w2) \<longrightarrow> db_steps (w_db w) (w_db w2)) \<and>
    (request (get_job_route jid) w = (r3, w3) \<longrightarrow> db_steps (w_db w) (w_db w3)) \<and>
    (request (get_document_route did) w = (r4, w4) \<longrightarrow> db_steps (w_db w) (w_db w4))"
proof (intro conjI impI)
  have out: "db_steps (w_db w) (w_db v)"
    if "f w = (x, so, w')" and "db_steps (w_db w) (w_db w') \<and> rely db_steps w'" and "request f w = (y, v)"
    for f :: "('x, 'a, 'b, 'c) endpoint" and x so w' y v
    using pipeline.leave_session_rely[of x so w' y v] that by (auto simp: request_def intro: rtranclp_trans)
  show "db_steps (w_db w) (w_db w1)" if "request (upload_document a ctx u t) w = (r1, w1)"
  proof -
    obtain x so w' where x: "upload_document a ctx u t w = (x, so, w')" by (metis prod_cases3)
    from out[OF x pipeline.upload_rely[OF x assms(1) storage_backend.save_frame[OF assms(2)]] that] show ?thesis .
  qed
  show "db_steps (w_db w) (w_db w2)" if "request (retry_job a ctx jid) w = (r2, w2)"
  proof -
    obtain x so w' where x: "retry_job a ctx jid w = (x, so, w')" by (metis prod_cases3)
    from out[OF x pipeline.retry_rely[OF x assms(1)] that] show ?thesis .
  qed
  show "db_steps (w_db w) (w_db w3)" if "request (get_job_route jid) w = (r3, w3)"
  proof -
    obtain x w' where x: "get_job jid w = (x, w')" by fastforce
    then obtain y so where "get_job_route jid w = (y, so, w')" by (cases x) (auto simp: get_job_route_def)
    from out[OF this _ that] pipeline.get_job_rely(1,2)[OF x assms(1)] show ?thesis by simp
  qed
  show "db_steps (w_db w) (w_db w4)" if "request (get_document_route did) w = (r4, w4)"
  proof -
    obtain x w' where x: "get_document did w = (x, w')" by fastforce
    then obtain y so where "get_document_route did w = (y, so, w')"
      by (cases x) (auto simp: get_document_route_def)
    from out[OF this _ that] pipeline.db_read_rely(1,2)[OF x[unfolded get_document_def] assms(1)]
    show ?thesis by simp
  qed
qed

definition sample_api :: "(mem_redis, unit, mem_fs) api_env" where
  "sample_api =
     \<lparr>ae_settings = default_settings, ae_storage = local_storage mem_files [''srv'', ''uploads''],
      ae_redis = mem_api, ae_codec = plain_codec, ae_queue = sample_queue, ae_nfkd = (\<lambda>s. s),
      ae_url_for = (\<lambda>i. ''/api/v1/jobs/'' @ i)\<rparr>"

lemma sample_api_storage:
  "storage_backend (ae_storage sample_api) (key_object mem_files (\<lambda>f. f) [''srv'', ''uploads''])"
  using memory_files.local_backend by (simp add: sample_api_def)

lemma api_refines_witness:
  "\<exists>r w'. request (retry_job sample_api Map.empty ''job'')
      (sample_world empty_redis () Map.empty (sample_db (failed_job 7 ''boom'' processing_job)) 9) = (r, w') \<and>
    db_steps (sample_db (failed_job 7 ''boom'' processing_job)) (w_db w')"
proof -
  let ?w = "sample_world empty_redis () (Map.empty :: mem_fs) (sample_db (failed_job 7 ''boom'' processing_job)) 9"
  obtain r w' where r: "request (retry_job sample_api Map.empty ''job'') ?w = (r, w')" by fastforce
  have "rely db_steps ?w" by (simp add: rely_def sample_world_def)
  from api_refines[OF this sample_api_storage, THEN conjunct2, THEN conjunct1, rule_format, OF r] r
  show ?thesis by auto
qed

section \<open>An accepted upload\<close>

lemma create_Inr_steps:
  assumes "create_document_and_job stored n c t b w = (Inr s, w')"
  obtains did w1 jid w2 now w3 u w4 v s5 w5 doc' where
    "uuid4 w = (did, w1)" "uuid4 w1 = (jid, w2)" "utcnow w2 = (now, w3)"
    "db_write (insert_document_and_job (new_document did now stored n c t) (new_job jid did now b)) w3 = (Inr u, w4)"
    "session_refresh (open_session (new_job jid did now b) (Some (new_document did now stored n c t)) None) w4
       = (Inr v, s5, w5)"
    "db_read (\<lambda>d. case find_document did d of None \<Rightarrow> Inl invalid_request_error | Some doc' \<Rightarrow> Inr doc') w5
       = (Inr doc', w')"
    "s = s5\<lparr>sess_document := Some doc'\<rparr>"
proof -
  obtain did w1 where 1: "uuid4 w = (did, w1)" by fastforce
  obtain jid w2 where 2: "uuid4 w1 = (jid, w2)" by fastforce
  obtain now w3 where 3: "utcnow w2 = (now, w3)" by fastforce
  obtain x4 w4 where 4: "db_write (insert_document_and_job (new_document did now stored n c t)
      (new_job jid did now b)) w3 = (x4, w4)" by fastforce
  obtain x5 s5 w5 where 5: "session_refresh (open_session (new_job jid did now b)
      (Some (new_document did now stored n c t)) None) w4 = (x5, s5, w5)" by (metis prod_cases3)
  obtain x6 w6 where 6: "db_read (\<lambda>d. case find_document did d of None \<Rightarrow> Inl invalid_request_error
      | Some doc' \<Rightarrow> Inr doc') w5 = (x6, w6)" by fastforce
  note def = create_document_and_job_def 1 2 3 4 5 6 Let_def
  obtain u where x4: "x4 = Inr u" using assms by (cases x4) (simp_all add: def)
  obtain v where x5: "x5 = Inr v" using assms x4 by (cases x5) (simp_all add: def)
  obtain d where x6: "x6 = Inr d" using assms x4 x5 by (cases x6) (simp_all add: def)
  show thesis
    by (rule that[OF 1 2 3 4[unfolded x4] 5[unfolded x5]]) (use assms x4 x5 x6 6 in \<open>auto simp: def\<close>)
qed

lemma insert_finds:
  assumes "insert_document_and_job doc j d = Inr d'"
  shows "find_document (doc_id doc) d' = Some doc" and "find_job (job_id j) d' = Some j"
proof -
  have "find (\<lambda>r. doc_id r = doc_id doc) (db_documents d) = None"
    and "find (\<lambda>r. job_id r = job_id j) (db_jobs d) = None"
    using assms by (auto simp: insert_document_and_job_Inr find_None_iff image_iff)
  then show "find_document (doc_id doc) d' = Some doc" "find_job (job_id j) d' = Some j"
    using assms by (auto simp: insert_document_and_job_Inr find_document_def find_job_def find_append)
qed

lemma create_Inr:
  assumes "create_document_and_job stored n c t b w = (Inr s, w')" and "rely db_steps w"
  obtains did now j where
    "sess_document s = Some (new_document did now stored n c t)"
    "find_document did (w_db w') = Some (new_document did now stored n c t)"
    "find_job (job_id (sess_job s)) (w_db w') = Some j" "job_document_id j = did"
    "job_document_id (sess_job s) = did" "w_files w' = w_files w" "w_redis w' = w_redis w"
  using assms(1)
proof (rule create_Inr_steps)
  fix did w1 jid w2 now w3 u w4 v s5 w5 doc'
  assume 1: "uuid4 w = (did, w1)" and 2: "uuid4 w1 = (jid, w2)" and 3: "utcnow w2 = (now, w3)"
    and 4: "db_write (insert_document_and_job (new_document did now stored n c t) (new_job jid did now b)) w3 = (Inr u, w4)"
    and 5: "session_refresh (open_session (new_job jid did now b) (Some (new_document did now stored n c t)) None) w4
       = (Inr v, s5, w5)"
    and 6: "db_read (\<lambda>d. case find_document did d of None \<Rightarrow> Inl invalid_request_error | Some doc' \<Rightarrow> Inr doc') w5
       = (Inr doc', w')"
    and s: "s = s5\<lparr>sess_document := Some doc'\<rparr>"
  let ?doc = "new_document did now stored n c t" and ?j = "new_job jid did now b"
  have r3: "rely db_steps w3"
    using pipeline.uuid4_rely[OF 1 assms(2)] pipeline.uuid4_rely[OF 2] pipeline.utcnow_rely[OF 3] by auto
  obtain d where d: "insert_document_and_job ?doc ?j d = Inr (w_db w4)" and r4: "rely db_steps w4"
    using pipeline.db_write_rely[OF 4 r3] by (metis old.unit.exhaust)
  have ins: "find_document did (w_db w4) = Some ?doc" "find_job jid (w_db w4) = Some ?j"
    using insert_finds[OF d] by (simp_all add: new_document_def new_job_def)
  note r5 = pipeline.session_refresh_rely[OF 5 r4]
  note r6 = pipeline.db_read_rely[OF 6 r5(2)]
  have steps: "db_steps (w_db w4) (w_db w')" using r5(1) r6(1) by (rule rtranclp_trans)
  have doc: "find_document did (w_db w') = Some ?doc"
    using find_document_extends[OF extends_steps[OF steps] ins(1)] .
  then have doc': "doc' = ?doc" using r6(3)[OF refl] by (simp split: option.splits)
  have j5: "find_job jid (w_db w5) = Some (sess_job s5)"
    using pipeline.session_refresh_current[OF 5 r4] by (simp add: new_job_def)
  have snap: "snapshot ?j (w_db w5)" "snapshot ?j (w_db w')"
    using db_steps_keeps[OF r5(1) snapshot_self[OF ins(2)]] db_steps_keeps[OF steps snapshot_self[OF ins(2)]] by auto
  have jid: "job_id (sess_job s5) = jid" using find_job_Some[OF j5] by simp
  have did: "job_document_id (sess_job s5) = did" using snap(1) j5 by (simp add: snapshot_def new_job_def)
  obtain j where j: "find_job jid (w_db w') = Some j" "job_document_id j = did"
    using snap(2) by (auto simp: snapshot_def new_job_def)
  have "w_files w' = w_files w" "w_redis w' = w_redis w"
    using uuid4_frame[OF 1] uuid4_frame[OF 2] utcnow_frame[OF 3] db_write_frame[OF 4]
      session_refresh_frame[OF 5] db_read_frame[OF 6] by (simp_all add: same_outside_def)
  then show thesis
    using that[of did now j] doc doc' j jid did s by simp
qed

lemma publish_job_document:
  assumes "publish_job a j (Some d) ctx w = (Inr i, w')"
  obtains e w1 where "publish (ae_redis a) (ae_codec a) (ae_queue a) e w1 = (Inr i, w')"
    "ev_job_id e = job_id j" "ev_document_id e = doc_id d" "ev_storage_path e = doc_storage_path d"
    "ev_requested_document_type e = doc_requested_document_type d"
    "ev_correlation_id e = get_correlation_id ctx" "ev_event_version e = EVENT_VERSION"
  using assms by (auto simp: publish_job_def build_event_def new_event_def split: prod.splits)

text \<open>
  C15. What a 202 promises: when an upload is accepted, the bytes that were sent are in the storage under
  the path of its document (whose checksum is theirs), the document and its job are committed, and the
  event that names them is on the stream, outstanding for the workers; and the name and the content
  passed validation.
\<close>

theorem upload_accepted:
  assumes "redis_server (ae_redis a) outstanding zset" and "storage_backend (ae_storage a) object"
    and "rely db_steps w" and "0 \<le> max_upload_bytes (ae_settings a)"
    and "upload_document a ctx u t w = (Inr resp, so, w')"
  shows "\<exists>doc j e i w1 ext.
    find_document (ua_document_id resp) (w_db w') = Some doc \<and>
    find_job (ua_job_id resp) (w_db w') = Some j \<and> job_document_id j = ua_document_id resp \<and>
    object (w_files w') (doc_storage_path doc) = Some (uf_data u) \<and>
    doc_checksum doc = sha256_hex (uf_data u) \<and> doc_requested_document_type doc = t \<and>
    validate_upload (ae_nfkd a) (uf_filename u) (uf_content_type u) (uf_data u) (ae_settings a) =
      Inr (doc_original_filename doc, ext) \<and>
    publish (ae_redis a) (ae_codec a) (ae_queue a) e w1 = (Inr i, w') \<and>
    ev_job_id e = ua_job_id resp \<and> ev_document_id e = ua_document_id resp \<and>
    ev_storage_path e = doc_storage_path doc \<and> ev_correlation_id e = get_correlation_id ctx \<and>
    i \<in> outstanding (queue_stream (ae_queue a)) (queue_group (ae_queue a)) (w_redis w')"
  using assms(5)
proof (cases rule: upload_cases)
  case (created data name ext stored w1 s w2 x w3)
  obtain i where x: "x = Inr i" using created(6) by (cases x) (auto split: sum.splits if_splits prod.splits)
  have resp: "ua_document_id resp = job_document_id (sess_job s)" "ua_job_id resp = job_id (sess_job s)"
    and w3: "w3 = w'" using created(6) x by auto
  have data: "data = uf_data u"
    using created(1) read_within_limit_exact_read[OF assms(4)] by blast
  note 1 = pipeline.files_only_rely[OF storage_backend.save_frame[OF assms(2) created(3)] assms(3)]
  note stored = storage_backend.save_object[OF assms(2) created(3)] storage_backend.save_meta[OF assms(2) created(3)]
  from created(4) 1[THEN conjunct1] show ?thesis
  proof (rule create_Inr)
    fix did now j
    let ?doc = "new_document did now stored name (stored_content_type (uf_content_type u)) t"
    assume c: "sess_document s = Some ?doc" "find_document did (w_db w2) = Some ?doc"
      "find_job (job_id (sess_job s)) (w_db w2) = Some j" "job_document_id j = did"
      "job_document_id (sess_job s) = did" "w_files w2 = w_files w1" "w_redis w2 = w_redis w1"
    have p: "publish_job a (sess_job s) (Some ?doc) ctx w2 = (Inr i, w')"
      using created(5) c(1) x w3 by simp
    note same = publish_job_same_db[OF p]
    from p obtain e v where e: "publish (ae_redis a) (ae_codec a) (ae_queue a) e v = (Inr i, w')"
      "ev_job_id e = job_id (sess_job s)" "ev_document_id e = doc_id ?doc" "ev_storage_path e = doc_storage_path ?doc"
      "ev_correlation_id e = get_correlation_id ctx" by (rule publish_job_document)
    have i: "i \<in> outstanding (queue_stream (ae_queue a)) (queue_group (ae_queue a)) (w_redis w')"
      using redis_server.publish_new[OF assms(1) e(1)] by (simp add: redis_server.held_def[OF assms(1)])
    have db: "w_db w' = w_db w2" "w_files w' = w_files w1" using same c(6) by (simp_all add: same_db_def)
    show ?thesis
      by (rule exI[of _ ?doc], rule exI[of _ j], rule exI[of _ e], rule exI[of _ i], rule exI[of _ v], rule exI[of _ ext])
        (use c e i db resp stored data created(2) in \<open>simp add: new_document_def\<close>)
  qed
qed simp_all

definition note_upload :: upload_file where
  "note_upload = \<lparr>uf_filename = Some (codes ''note.txt''), uf_content_type = Some ''text/plain; charset=utf-8'',
     uf_data = [72, 105]\<rparr>"

text \<open>A worker has created the group; nothing has been published.\<close>

definition upload_redis :: mem_redis where
  "upload_redis = snd (mem_xgroup_create ''document-processing'' ''document-workers'' ''0'' True empty_redis)"

definition upload_world :: "(mem_redis, unit, mem_fs) world" where
  "upload_world = sample_world upload_redis () Map.empty empty_db 0"

definition note_stored :: stored_file where
  "note_stored = \<lparr>sf_stored_filename = ''id0.txt'', sf_storage_path = ''1970/01/01/id0.txt'', sf_size = 2,
     sf_checksum = sha256_hex [72, 105]\<rparr>"

definition note_document :: document where
  "note_document = new_document ''id1'' 0 note_stored ''note.txt'' ''text/plain; charset=utf-8'' None"

definition note_job :: job where
  "note_job = new_job ''id2'' ''id1'' 0 3"

definition note_event :: event where
  "note_event =
     \<lparr>ev_event_id = ''id3'', ev_event_type = DOCUMENT_PROCESSING_REQUESTED, ev_event_version = EVENT_VERSION,
      ev_job_id = ''id2'', ev_document_id = ''id1'', ev_storage_path = ''1970/01/01/id0.txt'',
      ev_requested_document_type = None, ev_attempt = 0, ev_created_at = 0, ev_correlation_id = None\<rparr>"

definition uploaded_world :: "(mem_redis, unit, mem_fs) world" where
  "uploaded_world = upload_world
     \<lparr>w_files := [[''srv'', ''uploads'', ''1970'', ''01'', ''01'', ''id0.txt''] \<mapsto> [72, 105]], w_uuid_next := 4,
      w_db := \<lparr>db_documents = [note_document], db_jobs = [note_job], db_results = []\<rparr>,
      w_redis := snd (mem_xadd ''document-processing'' (to_stream_fields plain_codec note_event) upload_redis)\<rparr>"

lemma save_note:
  "storage_save mem_files [''srv'', ''uploads''] [72, 105] ''.txt'' upload_world =
    (Inr note_stored, upload_world
       \<lparr>w_files := [[''srv'', ''uploads'', ''1970'', ''01'', ''01'', ''id0.txt''] \<mapsto> [72, 105]], w_uuid_next := 1\<rparr>)"
  by (simp add: storage_save_def upload_world_def sample_world_def uuid4_def utcnow_def sample_uuid_def date_sample
      key_sample resolve_sample fs_call_def write_bytes_def note_stored_def Let_def)
    (simp add: mem_files_def date_sample key_sample)

lemma quiet_uuid4: "quiet w \<Longrightarrow> uuid4 w = (i, w') \<Longrightarrow> quiet w'"
  by (auto simp: uuid4_def quiet_def)

lemma quiet_create:
  assumes "quiet w" and "uuid4 w = (did, w1)" and "uuid4 w1 = (jid, w2)" and "utcnow w2 = (now, w3)"
    and "doc = new_document did now stored n c t" and "j = new_job jid did now b"
  shows "create_document_and_job stored n c t b w =
    (case insert_document_and_job doc j (w_db w) of
       Inl e \<Rightarrow> (Inl e, w3)
     | Inr d \<Rightarrow> (Inr (open_session j (Some doc) None), w3\<lparr>w_db := d\<rparr>))"
proof -
  have q: "quiet w3" "w_db w3 = w_db w"
    using quiet_utcnow[OF quiet_uuid4[OF quiet_uuid4[OF assms(1,2)] assms(3)] assms(4)]
      uuid4_frame[OF assms(2)] uuid4_frame[OF assms(3)] utcnow_frame[OF assms(4)] by auto
  have id: "job_id j = jid" "doc_id doc = did" using assms(5,6) by (simp_all add: new_job_def new_document_def)
  show ?thesis
  proof (cases "insert_document_and_job doc j (w_db w)")
    case (Inl e)
    with q assms(2-4) show ?thesis
      by (simp add: create_document_and_job_def assms(5,6)[symmetric])
  next
    case (Inr d)
    note f = insert_finds[OF Inr, unfolded id]
    have "session_refresh (open_session j (Some doc) None) (w3\<lparr>w_db := d\<rparr>) =
        (Inr (), open_session j (Some doc) None, w3\<lparr>w_db := d\<rparr>)"
      using q f by (simp add: session_refresh_def id open_session_def)
    with q assms(2-4) Inr f show ?thesis
      by (simp add: create_document_and_job_def assms(5,6)[symmetric] open_session_def)
  qed
qed

lemma create_note:
  "create_document_and_job note_stored ''note.txt'' ''text/plain; charset=utf-8'' None 3
      (upload_world\<lparr>w_files := f, w_uuid_next := Suc 0\<rparr>) =
    (Inr (open_session note_job (Some note_document) None),
     upload_world\<lparr>w_files := f, w_uuid_next := 3,
       w_db := \<lparr>db_documents = [note_document], db_jobs = [note_job], db_results = []\<rparr>\<rparr>)"
proof -
  have ids: "sample_uuid (Suc 0) = ''id1''" "sample_uuid (Suc (Suc 0)) = ''id2''" by code_simp+
  have ins: "insert_document_and_job note_document note_job empty_db =
      Inr \<lparr>db_documents = [note_document], db_jobs = [note_job], db_results = []\<rparr>"
    by (simp add: insert_document_and_job_Inr note_document_def note_job_def new_document_def document_fits_def
        note_stored_def empty_db_def)
  have q: "quiet (upload_world\<lparr>w_files := f, w_uuid_next := Suc 0\<rparr>)"
    by (simp add: quiet_def upload_world_def sample_world_def)
  note c = quiet_create[OF q _ _ _ note_document_def note_job_def,
      of "upload_world\<lparr>w_files := f, w_uuid_next := Suc (Suc 0)\<rparr>"
         "upload_world\<lparr>w_files := f, w_uuid_next := 3\<rparr>" "upload_world\<lparr>w_files := f, w_uuid_next := 3\<rparr>"]
  show ?thesis
    by (subst c) (simp_all add: uuid4_def utcnow_def upload_world_def sample_world_def ids ins)
qed

lemma publish_note:
  "\<exists>i. publish_job sample_api note_job (Some note_document) Map.empty
     (upload_world\<lparr>w_files := [[''srv'', ''uploads'', ''1970'', ''01'', ''01'', ''id0.txt''] \<mapsto> [72, 105]], w_uuid_next := 3,
       w_db := \<lparr>db_documents = [note_document], db_jobs = [note_job], db_results = []\<rparr>\<rparr>) = (Inr i, uploaded_world)"
proof -
  have id: "sample_uuid 3 = ''id3''" by code_simp
  have q: "queue_stream sample_queue = ''document-processing''" "rq_client sample_queue"
    by (simp_all add: queue_stream_def sample_queue_def default_settings_def)
  have f: "job_id note_job = ''id2''" "doc_id note_document = ''id1''" "doc_storage_path note_document = ''1970/01/01/id0.txt''"
    "doc_requested_document_type note_document = None"
    by (simp_all add: note_job_def new_job_def note_document_def new_document_def note_stored_def)
  have e: "build_event note_job note_document Map.empty
      (upload_world\<lparr>w_files := fs, w_uuid_next := 3, w_db := d\<rparr>) =
      (note_event, upload_world\<lparr>w_files := fs, w_uuid_next := 4, w_db := d\<rparr>)" for fs d
    by (simp add: build_event_def new_event_def uuid4_def utcnow_def upload_world_def sample_world_def id f
        note_event_def get_correlation_id_def)
  have r: "w_redis upload_world = upload_redis" by (simp add: upload_world_def)
  show ?thesis
    by (simp add: publish_job_def e publish_def with_client_def q redis_call_def sample_api_def mem_api_def
        uploaded_world_def r mem_xadd_def Let_def as_queue_error_def)
qed

lemma upload_note:
  "\<exists>so. upload_document sample_api Map.empty note_upload None upload_world =
     (Inr \<lparr>ua_document_id = ''id1'', ua_job_id = ''id2'', ua_status = QUEUED, ua_status_url = ''/api/v1/jobs/id2''\<rparr>, so,
      uploaded_world)"
proof -
  obtain i where p: "publish_job sample_api note_job (Some note_document) Map.empty
      (upload_world\<lparr>w_files := [[''srv'', ''uploads'', ''1970'', ''01'', ''01'', ''id0.txt''] \<mapsto> [72, 105]], w_uuid_next := 3,
       w_db := \<lparr>db_documents = [note_document], db_jobs = [note_job], db_results = []\<rparr>\<rparr>) = (Inr i, uploaded_world)"
    using publish_note by blast
  have api: "ae_settings sample_api = default_settings" "ae_nfkd sample_api = (\<lambda>u. u)"
    "st_save (ae_storage sample_api) = storage_save mem_files [''srv'', ''uploads'']"
    "ae_url_for sample_api i = ''/api/v1/jobs/'' @ i" for i
    by (simp_all add: sample_api_def local_storage_def)
  have job: "job_id note_job = ''id2''" "job_document_id note_job = ''id1''" "job_status note_job = QUEUED"
    by (simp_all add: note_job_def new_job_def)
  have "max_retries default_settings = 3" by (simp add: default_settings_def)
  then show ?thesis
    by (simp add: upload_document_def note_upload_def api read_note accept_sample save_note
        stored_content_type_def create_note open_session_def p job)
qed

lemma upload_accepted_witness:
  "\<exists>so w' doc. upload_document sample_api Map.empty note_upload None upload_world =
     (Inr \<lparr>ua_document_id = ''id1'', ua_job_id = ''id2'', ua_status = QUEUED, ua_status_url = ''/api/v1/jobs/id2''\<rparr>, so, w') \<and>
     find_document ''id1'' (w_db w') = Some doc \<and>
     key_object mem_files (\<lambda>f. f) [''srv'', ''uploads''] (w_files w') (doc_storage_path doc) = Some [72, 105]"
proof -
  obtain so w' where u: "upload_document sample_api Map.empty note_upload None upload_world =
     (Inr \<lparr>ua_document_id = ''id1'', ua_job_id = ''id2'', ua_status = QUEUED, ua_status_url = ''/api/v1/jobs/id2''\<rparr>, so, w')"
    using upload_note by blast
  have r: "redis_server (ae_redis sample_api) mem_outstanding mem_zset"
    using memory_redis.redis_server_axioms by (simp add: sample_api_def)
  have l: "rely db_steps upload_world" "0 \<le> max_upload_bytes (ae_settings sample_api)"
    by (simp_all add: rely_def upload_world_def sample_world_def sample_api_def default_settings_def MB_def)
  from upload_accepted[OF r sample_api_storage l u] u show ?thesis by (auto simp: note_upload_def)
qed

section \<open>When publishing fails\<close>

text \<open>The client raises only its own errors and those of the operating system.\<close>

definition xadd_errors :: "'r redis_api \<Rightarrow> bool" where
  "xadd_errors rd \<longleftrightarrow> (\<forall>s fs r e r'. rd_xadd rd s fs r = (Inl e, r') \<longrightarrow> redis_or_os_error e)"

lemma publish_raises:
  assumes "xadd_errors rd" and "publish rd cd q e w = (Inl x, w')"
  shows "is_app_instance x QueueError"
proof -
  obtain y v where y: "with_client q (rd_xadd rd (queue_stream q) (to_stream_fields cd e)) w = (y, v)" by fastforce
  show ?thesis
  proof (cases "rq_client q")
    case True
    obtain z r where z: "rd_xadd rd (queue_stream q) (to_stream_fields cd e) (w_redis w) = (z, r)" by fastforce
    have "y = z" using y z True by (simp add: with_client_def redis_call_def)
    moreover have "redis_or_os_error e'" if "z = Inl e'" for e'
      using assms(1)[unfolded xadd_errors_def, rule_format, OF z[unfolded that]] .
    ultimately show ?thesis using assms(2) y
      by (cases z) (auto simp: publish_def as_queue_error_def mk_error_def)
  next
    case False
    with assms(2) show ?thesis
      by (auto simp: publish_def with_client_def not_connected_def as_queue_error_def mk_error_def
          redis_or_os_error_def split: if_splits)
  qed
qed

lemma publish_job_raises:
  assumes "xadd_errors (ae_redis a)" and "publish_job a j (Some d) ctx w = (Inl x, w')"
  shows "is_app_instance x QueueError"
  using assms(2) publish_raises[OF assms(1)] by (auto simp: publish_job_def split: prod.splits)

text \<open>
  C16. An upload that cannot be queued leaves no job behind that looks queued: when publishing fails, the
  new job is \<open>FAILED\<close> with a message that says so and the client gets the \<^verbatim>\<open>QueueError\<close>; when an earlier
  step fails, no job exists.
\<close>

theorem unqueued_upload_fails_job:
  assumes "quiet w" and "storage_backend (ae_storage a) object" and "xadd_errors (ae_redis a)"
    and "upload_document a ctx u t w = (Inl e, so, w')"
  shows "w_db w' = w_db w \<or>
    is_app_instance e QueueError \<and>
    (\<exists>j. find_job (job_id j) (w_db w) = None \<and> find_job (job_id j) (w_db w') = Some j \<and>
       job_status j = FAILED \<and>
       job_error_message j = Some ''The document could not be queued for processing.'')"
  using assms(4)
proof (cases rule: upload_cases)
  case (unsaved data ext e)
  from storage_backend.save_frame[OF assms(2) unsaved(1)] show ?thesis by (simp add: files_only_def)
next
  case (uncreated data name ext stored w1 e)
  have q: "quiet w1" "w_db w1 = w_db w"
    using storage_backend.save_frame[OF assms(2) uncreated(3)] assms(1) by (simp_all add: files_only_def quiet_def)
  obtain did w2 where 1: "uuid4 w1 = (did, w2)" by fastforce
  obtain jid w3 where 2: "uuid4 w2 = (jid, w3)" by fastforce
  obtain now w4 where 3: "utcnow w3 = (now, w4)" by fastforce
  from uncreated(4) quiet_create[OF q(1) 1 2 3 refl refl] have "w' = w4" by (auto split: sum.splits)
  with uuid4_frame[OF 1] uuid4_frame[OF 2] utcnow_frame[OF 3] q show ?thesis by simp
next
  case (created data name ext stored w1 s w2 x w3)
  have q: "quiet w1" "w_db w1 = w_db w"
    using storage_backend.save_frame[OF assms(2) created(3)] assms(1) by (simp_all add: files_only_def quiet_def)
  obtain did v1 where 1: "uuid4 w1 = (did, v1)" by fastforce
  obtain jid v2 where 2: "uuid4 v1 = (jid, v2)" by fastforce
  obtain now v3 where 3: "utcnow v2 = (now, v3)" by fastforce
  let ?doc = "new_document did now stored name (stored_content_type (uf_content_type u)) t"
    and ?j = "new_job jid did now (max_retries (ae_settings a))"
  from created(4) quiet_create[OF q(1) 1 2 3 refl refl] obtain d where
    d: "insert_document_and_job ?doc ?j (w_db w) = Inr d" and s: "s = open_session ?j (Some ?doc) None"
    and w2: "w2 = v3\<lparr>w_db := d\<rparr>"
    by (auto simp: q(2) split: sum.splits)
  have q2: "quiet w2"
    using quiet_utcnow[OF quiet_uuid4[OF quiet_uuid4[OF q(1) 1] 2] 3] by (simp add: w2)
  have p: "publish_job a ?j (Some ?doc) ctx w2 = (x, w3)" using created(5) by (simp add: s open_session_def)
  obtain y where y: "x = Inl y" using created(6) by (cases x) auto
  have y': "is_app_instance y QueueError" using publish_job_raises[OF assms(3) p[unfolded y]] .
  have w3: "quiet w3" "w_db w3 = d"
    using publish_job_same_db[OF p] quiet_same_db[OF _ q2] by (auto simp: same_db_def w2)
  have new: "find_job jid (w_db w) = None" "find_job jid d = Some ?j"
    using d insert_finds(2)[OF d] by (auto simp: insert_document_and_job_Inr find_job_None_iff new_job_def)
  have cur: "current s (w_db w3)" "is_active (job_status (sess_loaded s))"
    using new(2) w3 by (simp_all add: s current_def open_session_def fresh_def new_job_def is_active_def status_sets)
  obtain s' now' w4 where m: "mark_failed ''The document could not be queued for processing.'' True s w3 = (Inr (), s', w4)"
    and row: "row_is (w_db w4) (failed_job now' ''The document could not be queued for processing.'' ?j)"
    using quiet_mark_failed[OF w3(1) cur, of "''The document could not be queued for processing.''"]
    by (auto simp: s open_session_def)
  have "e = y" "w' = w4" using created(6) y y' m by auto
  moreover have "job_id ?j = jid" by (simp add: new_job_def)
  from row_is_current[OF row, of jid] this obtain j where "find_job jid (w_db w4) = Some j" "job_status j = FAILED"
    "job_error_message j = Some ''The document could not be queued for processing.''"
    by (auto simp: failed_job_def truncate_error_def MAX_ERROR_MESSAGE_CHARS_def)
  ultimately show ?thesis using new(1) y' find_job_Some by metis
qed simp_all

definition offline_api :: "(mem_redis, unit, mem_fs) api_env" where
  "offline_api = sample_api\<lparr>ae_queue := new_queue default_settings\<rparr>"

lemma offline_fields [simp]:
  "ae_settings offline_api = default_settings" "ae_nfkd offline_api = (\<lambda>u. u)"
  "ae_storage offline_api = local_storage mem_files [''srv'', ''uploads'']" "ae_redis offline_api = mem_api"
  by (simp_all add: offline_api_def sample_api_def)

lemma mem_xadd_errors: "xadd_errors mem_api"
  by (simp add: xadd_errors_def mem_api_def mem_xadd_def Let_def)

lemma publish_offline:
  "\<exists>w'. publish_job offline_api j (Some d) ctx w = (Inl not_connected, w')"
  by (simp add: publish_job_def publish_def with_client_def offline_api_def new_queue_def as_queue_error_def
      not_connected_def redis_or_os_error_def split: prod.splits)

lemma upload_offline:
  "\<exists>e so w'. upload_document offline_api Map.empty note_upload None upload_world = (Inl e, so, w')"
proof -
  let ?w = "upload_world\<lparr>w_files := [[''srv'', ''uploads'', ''1970'', ''01'', ''01'', ''id0.txt''] \<mapsto> [72, 105]],
      w_uuid_next := 3, w_db := \<lparr>db_documents = [note_document], db_jobs = [note_job], db_results = []\<rparr>\<rparr>"
  obtain w' where p: "publish_job offline_api note_job (Some note_document) Map.empty ?w = (Inl not_connected, w')"
    using publish_offline by blast
  have "max_retries default_settings = 3" by (simp add: default_settings_def)
  then show ?thesis
    by (simp add: upload_document_def note_upload_def read_note accept_sample local_storage_def save_note
        stored_content_type_def create_note open_session_def p split: prod.split sum.split)
qed

lemma unqueued_upload_fails_job_witness:
  "\<exists>e so w'. upload_document offline_api Map.empty note_upload None upload_world = (Inl e, so, w') \<and>
     (db_jobs (w_db w') = [] \<or> (\<exists>j \<in> set (db_jobs (w_db w')). job_status j = FAILED))"
proof -
  obtain e so w' where u: "upload_document offline_api Map.empty note_upload None upload_world = (Inl e, so, w')"
    using upload_offline by blast
  have st: "storage_backend (ae_storage offline_api) (key_object mem_files (\<lambda>f. f) [''srv'', ''uploads''])"
    using memory_files.local_backend by simp
  have w: "quiet upload_world" "db_jobs (w_db upload_world) = []" by (simp_all add: upload_world_def empty_db_def)
  have "xadd_errors (ae_redis offline_api)" using mem_xadd_errors by simp
  from unqueued_upload_fails_job[OF w(1) st this u]
  have "db_jobs (w_db w') = [] \<or> (\<exists>j \<in> set (db_jobs (w_db w')). job_status j = FAILED)"
  proof (elim disjE conjE exE)
    fix j assume "find_job (job_id j) (w_db w') = Some j" "job_status j = FAILED"
    then show ?thesis using find_job_Some[of "job_id j" "w_db w'" j] by auto
  qed (simp add: w)
  with u show ?thesis by blast
qed

section \<open>Manual retries\<close>

lemma flush_row_is: "same_keys l c \<Longrightarrow> flush_row now l c (l\<lparr>job_updated_at := t\<rparr>) = c\<lparr>job_updated_at := now\<rparr>"
  by (cases l, cases c) (simp add: flush_row_def same_keys_def pick_def)

text \<open>A session that has committed before no longer has the time of its last update.\<close>

lemma quiet_mark_failed_again:
  assumes "quiet w" and "fresh s" and "row_is (w_db w) (sess_loaded s)" and "is_active (job_status (sess_loaded s))"
  shows "\<exists>s' t w'. mark_failed m True s w = (Inr (), s', w') \<and> row_is (w_db w') (failed_job t m (sess_loaded s))"
proof -
  obtain t w1 where u: "utcnow w = (t, w1)" by fastforce
  obtain now w2 where u2: "utcnow w1 = (now, w2)" by fastforce
  have w1: "quiet w1" "quiet w2" "w_db w2 = w_db w"
    using quiet_utcnow[OF assms(1) u] quiet_utcnow[OF _ u2] utcnow_frame[OF u] utcnow_frame[OF u2] by auto
  have l: "sess_job s = sess_loaded s" "sess_new s = []" using assms(2) by (simp_all add: fresh_def)
  let ?l = "sess_loaded s" and ?c = "failed_job t m (sess_loaded s)"
  obtain v where v: "find_job (job_id ?l) (w_db w) = Some (?l\<lparr>job_updated_at := v\<rparr>)" using assms(3) by (auto simp: row_is_def)
  have ne: "?c \<noteq> ?l" using assms(4) by (metis job_change_status(3) is_active_def status_sets(2) insertE singletonD empty_iff job_status.distinct)
  let ?d = "(w_db w)\<lparr>db_jobs := update_rows (\<lambda>r. job_id r = job_id ?l) (flush_row now ?l ?c) (db_jobs (w_db w))\<rparr>"
  have "flush_job now ?l ?c (w_db w) = Inr ?d" using v ne by (simp add: flush_job_same_keys)
  then have "mark_failed m True s w = (Inr (), s\<lparr>sess_job := ?c, sess_loaded := ?c\<rparr>, w2\<lparr>w_db := ?d\<rparr>)"
    using w1 u u2 l assms(4)
    by (simp add: mark_failed_def ensure_transition_allowed_def is_transition_allowed_def commit_if_def session_commit_def)
  moreover have "row_is ?d ?c"
    using v by (auto simp: row_is_def find_job_update_rows flush_row_is)
  ultimately show ?thesis by auto
qed

text \<open>
  C17. Only a failed job can be re-queued: for a job in any other state (so also for one stuck in
  \<open>QUEUED\<close> or \<open>RETRYING\<close> whose event was lost) the request is refused with 409 and changes nothing;
  a failed job becomes \<open>QUEUED\<close> with a fresh retry budget and its event is published, or, when
  publishing fails, it is \<open>FAILED\<close> again.
\<close>

theorem retry_only_failed:
  assumes "quiet w" and "find_job jid (w_db w) = Some j" and "find_document (job_document_id j) (w_db w) = Some doc"
    and "xadd_errors (ae_redis a)" and "retry_job a ctx jid w = (r, so, w')"
  shows "if job_status j \<noteq> FAILED then
      r = Inl (invalid_transition (job_status j) QUEUED) \<and> w' = w \<and> http_status InvalidJobTransitionError = 409
    else \<exists>j'. find_job jid (w_db w') = Some j' \<and>
      (case r of
         Inl e \<Rightarrow> is_app_instance e QueueError \<and> job_status j' = FAILED
       | Inr resp \<Rightarrow> jr_job_id resp = jid \<and> job_status j' = QUEUED \<and> job_retry_count j' = 0 \<and>
           job_error_message j' = None \<and>
           (\<exists>e i v. publish (ae_redis a) (ae_codec a) (ae_queue a) e v = (Inr i, w') \<and> ev_job_id e = jid \<and>
              ev_storage_path e = doc_storage_path doc))"
proof -
  have jid: "job_id j = jid" using find_job_Some[OF assms(2)] by simp
  let ?s = "load_job (w_db w) j"
  have g: "get_job jid w = (Inr ?s, w)" using assms(1,2) by (simp add: get_job_def)
  have s: "sess_job ?s = j" "sess_loaded ?s = j" "sess_document ?s = Some doc" "current ?s (w_db w)"
    using assms(2,3) jid by (simp_all add: load_job_def current_def open_session_def fresh_def)
  show ?thesis
  proof (cases "job_status j = FAILED")
    case False
    then have "reset_for_manual_retry True ?s w = (Inl (invalid_transition (job_status j) QUEUED), ?s, w)"
      by (simp add: reset_for_manual_retry_def ensure_transition_allowed_def is_transition_allowed_def s)
    moreover have "http_status InvalidJobTransitionError = 409" by code_simp
    ultimately show ?thesis using assms(5) g False by (simp add: retry_job_def)
  next
    case True
    obtain now w1 where u: "utcnow w = (now, w1)" by fastforce
    let ?c = "requeued_job now j"
    have w1: "quiet w1" "w_db w1 = w_db w" using quiet_utcnow[OF assms(1) u] utcnow_frame[OF u] by auto
    have "job_status ?c \<noteq> job_status (sess_loaded ?s)" using True s by simp
    with quiet_commit_change[of w1 ?s ?c] w1 s obtain w2 where
      c: "session_commit (?s\<lparr>sess_job := ?c\<rparr>) w1 = (Inr (), ?s\<lparr>sess_job := ?c, sess_loaded := ?c\<rparr>, w2)"
      and row: "row_is (w_db w2) ?c" and q2: "quiet w2" by auto
    let ?s2 = "?s\<lparr>sess_job := ?c, sess_loaded := ?c\<rparr>"
    have m: "reset_for_manual_retry True ?s w = (Inr (), ?s2, w2)"
      using True u c by (simp add: reset_for_manual_retry_def ensure_transition_allowed_def
          is_transition_allowed_def commit_if_def s)
    obtain x w3 where p: "publish_job a ?c (Some doc) ctx w2 = (x, w3)" by fastforce
    have w3: "quiet w3" "w_db w3 = w_db w2"
      using publish_job_same_db[OF p] quiet_same_db[OF _ q2] by (auto simp: same_db_def)
    have id: "job_id ?c = jid" using jid by simp
    have rowj: "\<exists>j'. find_job jid (w_db w2) = Some j' \<and> job_status j' = QUEUED \<and> job_retry_count j' = 0 \<and>
        job_error_message j' = None"
      using row_is_current[OF row id] by (simp add: requeued_job_def)
    show ?thesis
    proof (cases x)
      case (Inr i)
      have out: "r = Inr \<lparr>jr_job_id = jid, jr_status = QUEUED, jr_retry_count = 0, jr_status_url = ae_url_for a jid\<rparr>" "w' = w3"
        using assms(5) g m p Inr id by (simp_all add: retry_job_def s) (simp add: requeued_job_def)
      from p[unfolded Inr] obtain e v where "publish (ae_redis a) (ae_codec a) (ae_queue a) e v = (Inr i, w3)"
        "ev_job_id e = job_id ?c" "ev_storage_path e = doc_storage_path doc" by (rule publish_job_document)
      with True rowj w3 id show ?thesis by (auto simp: out)
    next
      case (Inl y)
      have y: "is_app_instance y QueueError" using publish_job_raises[OF assms(4) p[unfolded Inl]] .
      have act: "fresh ?s2" "is_active (job_status ?c)" using s(4)
        by (simp_all add: current_def fresh_def is_active_def status_sets)
      with quiet_mark_failed_again[OF w3(1), of ?s2 "''The job could not be re-queued for processing.''"] row w3
      obtain s3 t w4 where f: "mark_failed ''The job could not be re-queued for processing.'' True ?s2 w3 = (Inr (), s3, w4)"
        and row4: "row_is (w_db w4) (failed_job t ''The job could not be re-queued for processing.'' ?c)" by auto
      have out: "r = Inl y" "w' = w4" using assms(5) g m p Inl y f by (simp_all add: retry_job_def s)
      from row_is_current[OF row4, of jid] id show ?thesis using True y by (auto simp: out)
    qed
  qed
qed

lemma retry_only_failed_witness:
  "retry_job sample_api Map.empty ''job'' (sample_world empty_redis () Map.empty (sample_db queued_job) 9) =
     (Inl (invalid_transition QUEUED QUEUED), snd (retry_job sample_api Map.empty ''job''
        (sample_world empty_redis () Map.empty (sample_db queued_job) 9)))"
proof -
  let ?w = "sample_world empty_redis () (Map.empty :: mem_fs) (sample_db queued_job) 9"
  obtain r so w' where r: "retry_job sample_api Map.empty ''job'' ?w = (r, so, w')" by (metis prod_cases3)
  have x: "xadd_errors (ae_redis sample_api)" using mem_xadd_errors by (simp add: sample_api_def)
  have d: "find_document (job_document_id queued_job) (w_db ?w) = Some sample_document"
    by (simp add: find_document_def sample_db_def sample_document_def new_document_def)
  have "find_job ''job'' (w_db ?w) = Some queued_job" by simp
  from retry_only_failed[OF quiet_sample_world this d x r] r show ?thesis by simp
qed

section \<open>What a client sees of an error\<close>

lemma correlation_bound:
  assumes "correlation_and_access_log next_app header ctx w = (x, ctx', w')"
  obtains cid ctx1 w1 v where "bind_correlation_id header (clear_context ctx) w = (cid, ctx1, w1)"
    "get_correlation_id ctx1 = Some cid" "header = Some h \<Longrightarrow> h \<noteq> [] \<Longrightarrow> cid = h"
    "case x of
       Inl e \<Rightarrow> ctx' = ctx1 \<and> fst (next_app ctx1 v) = Inl e
     | Inr r \<Rightarrow> hr_correlation_header r = Some cid \<and> ctx' = Map.empty \<and>
         (\<exists>r0. fst (next_app ctx1 v) = Inr r0 \<and> r = r0\<lparr>hr_correlation_header := Some cid\<rparr>)"
proof -
  obtain cid ctx1 w1 where b: "bind_correlation_id header (clear_context ctx) w = (cid, ctx1, w1)"
    by (metis prod_cases3)
  obtain t v where t: "utcnow w1 = (t, v)" by fastforce
  obtain y w3 where y: "next_app ctx1 v = (y, w3)" by fastforce
  show thesis
  proof (rule that[OF b get_bound_correlation_id[OF b], of v])
    show "cid = h" if "header = Some h" "h \<noteq> []"
      using b that by (simp add: bind_correlation_id_def)
    show "case x of
       Inl e \<Rightarrow> ctx' = ctx1 \<and> fst (next_app ctx1 v) = Inl e
     | Inr r \<Rightarrow> hr_correlation_header r = Some cid \<and> ctx' = Map.empty \<and>
         (\<exists>r0. fst (next_app ctx1 v) = Inr r0 \<and> r = r0\<lparr>hr_correlation_header := Some cid\<rparr>)"
      using assms b t y
      by (cases y) (auto simp: correlation_and_access_log_def clear_context_def split: prod.splits)
  qed
qed

text \<open>
  C36. Every response can be traced and none reveals internals: a client that sends a correlation ID
  gets it back in the header, except when the application raised something unforeseen; then the answer
  is a 500 that carries the ID in its body only, and it is the same whatever was raised.
\<close>

theorem responses_are_traceable:
  assumes "serve app (Some h) ctx w = (r, ctx', w')" and "h \<noteq> []"
  shows "hr_correlation_header r = Some h \<or>
    hr_correlation_header r = None \<and> hr_status r = 500 \<and>
    hr_body r = JObj [(''error'', JObj [(''code'', jstr ''internal_error''),
      (''message'', jstr ''An unexpected error occurred.''), (''correlation_id'', jstr h)])]"
proof -
  obtain x c v where x: "correlation_and_access_log (call_next app) (Some h) ctx w = (x, c, v)"
    by (metis prod_cases3)
  from x show ?thesis
  proof (rule correlation_bound[of "call_next app" "Some h" ctx w x c v h])
    fix cid ctx1 w1 v'
    assume b: "get_correlation_id ctx1 = Some cid" "Some h = Some h \<Longrightarrow> h \<noteq> [] \<Longrightarrow> cid = h"
      and k: "case x of
       Inl e \<Rightarrow> c = ctx1 \<and> fst (call_next app ctx1 v') = Inl e
     | Inr r \<Rightarrow> hr_correlation_header r = Some cid \<and> c = Map.empty \<and>
         (\<exists>r0. fst (call_next app ctx1 v') = Inr r0 \<and> r = r0\<lparr>hr_correlation_header := Some cid\<rparr>)"
    have cid: "cid = h" using b(2) assms(2) by simp
    from assms(1) x k b(1) cid show ?thesis
      by (cases x) (auto simp: serve_def handle_unexpected_error_def json_response_def correlation_json_def)
  qed
qed

lemma responses_are_traceable_witness:
  "hr_correlation_header (fst (serve (\<lambda>ctx w. (Inl (HttpError 404 ''Not Found''), w)) (Some ''trace-1'') Map.empty
     (sample_world () () () empty_db 0))) = Some ''trace-1''"
proof -
  obtain r c v where r: "serve (\<lambda>ctx w. (Inl (HttpError 404 ''Not Found''), w)) (Some ''trace-1'') Map.empty
     (sample_world () () () empty_db 0) = (r, c, v)" by (metis prod_cases3)
  have "hr_status r = 404"
    using r by (auto simp: serve_def correlation_and_access_log_def call_next_def bind_correlation_id_def
        handle_http_exception_def json_response_def)
  with responses_are_traceable[OF r] r show ?thesis by simp
qed

end
