(* ===== verification/End_To_End.thy ===== *)
theory End_To_End
  imports Api_Properties Worker_Properties
begin

text \<open>
  The pipeline from one end to the other: an upload accepted by the API, its event read by a worker, the
  job as the API shows it afterwards.
\<close>

section \<open>The API and a worker on the same services\<close>

definition same_services :: "('r, 'p, 'f) api_env \<Rightarrow> ('r, 'p, 'f) stream_consumer \<Rightarrow> bool" where
  "same_services a c \<longleftrightarrow>
     pr_redis (sc_processor c) = ae_redis a \<and> pr_codec (sc_processor c) = ae_codec a \<and>
     pr_storage (sc_processor c) = ae_storage a \<and> rq_client (sc_queue c) \<and>
     queue_stream (sc_queue c) = queue_stream (ae_queue a) \<and>
     queue_group (sc_queue c) = queue_group (ae_queue a) \<and>
     length (pr_consumer_name (sc_processor c)) \<le> 128"

text \<open>Nothing the worker calls on its way refuses: what is stored can be read, the model answers, Redis acknowledges.\<close>

definition readable :: "('r, 'p, 'f) file_storage \<Rightarrow> ('f \<Rightarrow> string \<Rightarrow> bytes option) \<Rightarrow> bool" where
  "readable st object \<longleftrightarrow> (\<forall>k w. object (w_files w) k \<noteq> None \<longrightarrow> (\<exists>data w'. st_read st k w = (Inr data, w')))"

definition answers :: "'p provider \<Rightarrow> bool" where
  "answers lp \<longleftrightarrow>
     (\<forall>x n. \<exists>k n'. lp_classify lp x n = (Inr k, n')) \<and>
     (\<forall>x ty n. \<exists>out n'. lp_extract lp x ty n = (Inr out, n') \<and> output_fits out)"

definition acknowledges :: "'r redis_api \<Rightarrow> bool" where
  "acknowledges rd \<longleftrightarrow> (\<forall>s g i r. \<exists>r'. rd_xack rd s g i r = (Inr (), r'))"

section \<open>What an accepted upload leaves behind\<close>

lemma insert_frees_result:
  assumes "insert_document_and_job doc j d = Inr d'" and "db_ok d" and "job_document_id j = doc_id doc"
  shows "db_ok d'" and "find_result (job_id j) d' = None"
  using assms
  by (auto simp: insert_document_and_job_Inr db_ok_def find_result_None_iff image_iff subset_iff)

text \<open>On a quiet database: the queued job with its document, no result, the bytes in the storage.\<close>

lemma quiet_upload:
  assumes "storage_backend (ae_storage a) object" and "quiet w" and "db_ok (w_db w)"
    and "0 \<le> max_upload_bytes (ae_settings a)"
    and "upload_document a ctx u t w = (Inr resp, so, w')"
  obtains doc now where "quiet w'" and "db_ok (w_db w')"
    and "find_job (ua_job_id resp) (w_db w') =
      Some (new_job (ua_job_id resp) (ua_document_id resp) now (max_retries (ae_settings a)))"
    and "find_document (ua_document_id resp) (w_db w') = Some doc"
    and "find_result (ua_job_id resp) (w_db w') = None"
    and "object (w_files w') (doc_storage_path doc) = Some (uf_data u)"
  using assms(5)
proof (cases rule: upload_cases)
  case (created data name ext stored w1 s w2 x w3)
  obtain i where x: "x = Inr i" using created(6) by (cases x) (auto split: sum.splits if_splits prod.splits)
  have resp: "ua_document_id resp = job_document_id (sess_job s)" "ua_job_id resp = job_id (sess_job s)"
    and w3: "w3 = w'" using created(6) x by auto
  have data: "data = uf_data u" using created(1) read_within_limit_exact_read[OF assms(4)] by blast
  have f: "files_only w w1" by (rule storage_backend.save_frame[OF assms(1) created(3)])
  then have q1: "quiet w1" "w_db w1 = w_db w" using assms(2) by (auto simp: files_only_def quiet_def)
  have obj: "object (w_files w1) (sf_storage_path stored) = Some data"
    by (rule storage_backend.save_object[OF assms(1) created(3)])
  obtain did v1 where d: "uuid4 w1 = (did, v1)" by fastforce
  obtain jid v2 where j: "uuid4 v1 = (jid, v2)" by fastforce
  obtain now v3 where n: "utcnow v2 = (now, v3)" by fastforce
  let ?doc = "new_document did now stored name (stored_content_type (uf_content_type u)) t"
  let ?j = "new_job jid did now (max_retries (ae_settings a))"
  from quiet_create[OF q1(1) d j n refl refl] created(4) q1(2)
  obtain db where ins: "insert_document_and_job ?doc ?j (w_db w) = Inr db"
    and s: "s = open_session ?j (Some ?doc) None" and w2: "w2 = v3\<lparr>w_db := db\<rparr>"
    by (auto split: sum.splits)
  have keys: "job_id ?j = jid" "job_document_id ?j = did" "doc_id ?doc = did" "doc_storage_path ?doc = sf_storage_path stored"
    by (simp_all add: new_job_def new_document_def)
  note found = insert_finds[OF ins, unfolded keys]
  have sd: "same_db w2 w'" and fw: "w_files w' = w_files w2"
    using publish_job_same_db[OF created(5)] w3 by auto
  have "quiet v3" "w_files v3 = w_files w1"
    using quiet_utcnow[OF quiet_uuid4[OF quiet_uuid4[OF q1(1) d] j] n] uuid4_frame[OF d] uuid4_frame[OF j]
      utcnow_frame[OF n] by (auto simp: same_outside_def)
  then have "quiet w2" "w_files w2 = w_files w1" by (simp_all add: w2 quiet_def)
  then have "quiet w'" "w_files w' = w_files w1" using sd fw by (auto simp: quiet_def same_db_def)
  moreover have "w_db w' = db" using sd by (simp add: same_db_def w2)
  moreover have "db_ok db" "find_result jid db = None"
    using insert_frees_result[OF ins assms(3)] keys by simp_all
  ultimately show thesis
    using that[of now ?doc] found obj data resp s keys by (simp add: open_session_def)
qed simp_all

section \<open>What the worker makes of it\<close>

text \<open>The text the extractor finds in a stored file, chosen by the extension of its stored name.\<close>

definition text_of :: "parsers \<Rightarrow> document \<Rightarrow> bytes \<Rightarrow> unicode result" where
  "text_of ps doc data =
     extract_text ps data (suffix_of (last_part (path_parts (CHR ''/'') (CHR ''.'') (doc_stored_filename doc))))"

lemma produce_answers:
  assumes "storage_backend (pr_storage p) object" and "readable (pr_storage p) object" and "answers (pr_provider p)"
    and "object (w_files w) (ev_storage_path e) = Some data" and "sess_document s = Some doc"
    and "text_of (pr_parsers p) doc data = Inr body"
  shows "\<exists>out ty n n' w'. produce p s e w = (Inr (out, body), w') \<and> output_fits out \<and>
    (ev_requested_document_type e = None \<or> ev_requested_document_type e = Some ty) \<and>
    lp_extract (pr_provider p) (fst (Text_Extraction.truncate body (llm_max_input_chars (pr_settings p)))) ty n = (Inr out, n')"
proof -
  let ?lp = "pr_provider p" and ?x = "fst (Text_Extraction.truncate body (llm_max_input_chars (pr_settings p)))"
  obtain data' w1 where r: "st_read (pr_storage p) (ev_storage_path e) w = (Inr data', w1)"
    using assms(2,4) unfolding readable_def by (metis option.distinct(1))
  have d: "data' = data" "w1 = w"
    using storage_backend.read_object[OF assms(1) r] storage_backend.read_frame[OF assms(1) r] assms(4) by auto
  have "\<exists>ty w2. resolve_type p e ?x w = (Inr ty, w2) \<and>
      (ev_requested_document_type e = None \<or> ev_requested_document_type e = Some ty)"
  proof (cases "ev_requested_document_type e")
    case None
    obtain k n' where "lp_classify ?lp (fst (Text_Extraction.truncate ?x (classification_max_chars (pr_settings p))))
        (w_provider w) = (Inr k, n')" using assms(3) unfolding answers_def by blast
    with None show ?thesis by (simp add: resolve_type_def provider_call_def Let_def)
  qed (simp add: resolve_type_def)
  then obtain ty w2 where ty: "resolve_type p e ?x w = (Inr ty, w2)"
    and req: "ev_requested_document_type e = None \<or> ev_requested_document_type e = Some ty" by blast
  obtain out n' where x: "lp_extract ?lp ?x ty (w_provider w2) = (Inr out, n')" and "output_fits out"
    using assms(3) unfolding answers_def by blast
  moreover have "produce p s e w = (Inr (out, body), w2\<lparr>w_provider := n'\<rparr>)"
    using r d ty x assms(5,6) by (simp add: produce_def text_of_def provider_call_def)
  ultimately show ?thesis using req by blast
qed

lemma find_result_new:
  assumes "db_results d' = db_results d @ [r]" and "find_result i d = None" and "res_job_id r = i"
  shows "find_result i d' = Some r"
  using assms by (simp add: find_result_def find_append)

text \<open>The job as the API shows it once its row is completed and its result is there.\<close>

lemma quiet_get_job_route:
  assumes "quiet w" and "row_is (w_db w) j" and "find_result (job_id j) (w_db w) = Some r"
    and "find_document (job_document_id j) (w_db w) = Some doc"
  shows "\<exists>detail so. get_job_route (job_id j) w = (Inr detail, so, w) \<and> js_status detail = job_status j \<and>
    js_original_filename detail = Some (doc_original_filename doc) \<and>
    jd_result detail = Some (result_response_of r)"
proof -
  from assms(2) obtain t where "find_job (job_id j) (w_db w) = Some (j\<lparr>job_updated_at := t\<rparr>)"
    by (auto simp: row_is_def)
  with assms show ?thesis
    by (simp add: get_job_route_def get_job_def load_job_def job_detail_of_def job_summary_of_def
        job_summary.extend_def job_detail.fields_def)
qed

text \<open>A job that waits for a worker is claimed, and its document comes with it.\<close>

lemma quiet_claim_waiting:
  assumes "quiet w" and "db_ok (w_db w)" and "find_job i (w_db w) = Some j"
    and "job_status j \<in> {QUEUED, RETRYING}" and "length name \<le> 128"
    and "find_document (job_document_id j) (w_db w) = Some doc"
  obtains s w1 where "claim_job i name stale w = (Inr (Some s), w1)" and "sess_document s = Some doc"
    and "job_document_id (sess_loaded s) = job_document_id j"
    and "w_files w1 = w_files w" and "w_uuid w1 = w_uuid w"
proof -
  obtain now w0 where n: "utcnow w = (now, w0)" by fastforce
  let ?cut = "now - stale * microseconds_per_second"
  let ?d = "claim_effect i ?cut now name (w_db w)"
  have "claim_condition i ?cut j"
    using find_job_Some[OF assms(3)] assms(4) by (auto simp: claim_condition_def claimable_statuses_def)
  with quiet_claim_job[OF assms(1,2) n, of i name stale] assms(3,5)
  have c: "claim_job i name stale w = (Inr (Some (load_job ?d (claim_values now name j))), w0\<lparr>w_db := ?d\<rparr>)"
    by (simp add: Let_def)
  note f = quiet_claimed(3)[OF assms(1,2) c]
  from c show thesis
    by (rule that) (use assms(6) f in
      \<open>simp_all add: load_job_def claim_effect_def claim_values_def find_document_def same_outside_def\<close>)
qed

text \<open>A queued job without a result, claimed and processed on services that answer.\<close>

lemma quiet_process_queued:
  assumes "storage_backend (pr_storage p) object" and "pr_storage p = local_storage fs base"
    and "readable (pr_storage p) object" and "answers (pr_provider p)"
    and "quiet w" and "db_ok (w_db w)" and "length (pr_consumer_name p) \<le> 128"
    and "find_job (ev_job_id (de_event m)) (w_db w) = Some j" and "job_status j = QUEUED"
    and "find_document (job_document_id j) (w_db w) = Some doc"
    and "find_result (ev_job_id (de_event m)) (w_db w) = None"
    and "object (w_files w) (ev_storage_path (de_event m)) = Some data"
    and "text_of (pr_parsers p) doc data = Inr body" and "pg_text body"
    and "de_delivery_count m \<le> max_delivery_count (pr_settings p)"
    and "\<forall>n. w_uuid w n \<notin> res_id ` set (db_results (w_db w))"
  shows "\<exists>w' out ty n n' jc r. process p m w = (Inr OutCompleted, w') \<and>
    (ev_requested_document_type (de_event m) = None \<or> ev_requested_document_type (de_event m) = Some ty) \<and>
    lp_extract (pr_provider p) (fst (Text_Extraction.truncate body (llm_max_input_chars (pr_settings p)))) ty n = (Inr out, n') \<and>
    row_is (w_db w') jc \<and> job_id jc = ev_job_id (de_event m) \<and> job_status jc = COMPLETED \<and>
    job_document_id jc = job_document_id j \<and>
    find_result (ev_job_id (de_event m)) (w_db w') = Some r \<and> res_extracted_data r = eo_data out \<and>
    find_document (job_document_id j) (w_db w') = Some doc \<and> quiet w'"
proof -
  let ?e = "de_event m"
  obtain s w1 where c: "claim_job (ev_job_id ?e) (pr_consumer_name p) (stale_processing_seconds (pr_settings p)) w =
      (Inr (Some s), w1)"
    and doc: "sess_document s = Some doc" and dj: "job_document_id (sess_loaded s) = job_document_id j"
    and fw: "w_files w1 = w_files w" "w_uuid w1 = w_uuid w"
    by (rule quiet_claim_waiting[OF assms(5,6,8) _ assms(7,10)]) (use assms(9) in simp)
  note q = quiet_claimed[OF assms(5,6) c]
  from produce_answers[OF assms(1,3,4) _ doc assms(13), of w1 ?e] assms(12) fw
  obtain out ty k k' w2 where pr: "produce p s ?e w1 = (Inr (out, body), w2)" and fits: "output_fits out"
    and req: "ev_requested_document_type ?e = None \<or> ev_requested_document_type ?e = Some ty"
    and x: "lp_extract (pr_provider p) (fst (Text_Extraction.truncate body (llm_max_input_chars (pr_settings p)))) ty k = (Inr out, k')"
    by (metis (no_types, lifting))
  have "w_uuid w2 = w_uuid w"
    using produce_same_db[OF pr reads_only_local[OF assms(2)]] fw(2) by (simp add: same_db_def)
  then have fresh: "fst (uuid4 w2) \<notin> res_id ` set (db_results (w_db w))"
    using assms(16) by (simp add: uuid4_def)
  obtain now' t w' where pd: "process p m w = (Inr OutCompleted, w')"
    and row: "row_is (w_db w') (completed_job t (sess_loaded s))"
    and res: "db_results (w_db w') = db_results (w_db w) @
      [new_result (fst (uuid4 w2)) now' (ev_job_id ?e) out
         (fst (Text_Extraction.truncate body (raw_text_store_max_chars (pr_settings p))))]"
    and q': "quiet w'" and steps: "db_steps (w_db w) (w_db w')"
    using quiet_success[OF assms(5,6,2) c assms(15) pr assms(11) fresh] fits pg_text_truncate[OF assms(14)]
    unfolding storable_def by blast
  have "find_document (job_document_id j) (w_db w') = Some doc"
    by (rule find_document_extends[OF extends_steps[OF steps] assms(10)])
  moreover have "find_result (ev_job_id ?e) (w_db w') = Some (new_result (fst (uuid4 w2)) now' (ev_job_id ?e) out
         (fst (Text_Extraction.truncate body (raw_text_store_max_chars (pr_settings p)))))"
    by (rule find_result_new[OF res assms(11)]) (simp add: new_result_def)
  moreover have "job_id (completed_job t (sess_loaded s)) = ev_job_id ?e"
    "job_document_id (completed_job t (sess_loaded s)) = job_document_id j"
    using q(5) dj by simp_all
  ultimately show ?thesis using pd req x row q'
    by (intro exI[of _ w'] exI[of _ out] exI[of _ ty] exI[of _ k] exI[of _ k'] exI[of _ "completed_job t (sess_loaded s)"] exI)
      (auto simp: new_result_def)
qed

section \<open>From the upload to the completed job\<close>

text \<open>Acknowledging changes neither the database nor anything else the API reads.\<close>

lemma ack_acknowledges:
  assumes "acknowledges rd" and "rq_client q"
  shows "\<exists>w'. ack rd q i w = (Inr (), w') \<and> redis_only w w'"
proof -
  obtain r' where "rd_xack rd (queue_stream q) (queue_group q) i (w_redis w) = (Inr (), r')"
    using assms(1) unfolding acknowledges_def by blast
  then have "ack rd q i w = (Inr (), w\<lparr>w_redis := r'\<rparr>)"
    using assms(2) by (simp add: ack_def with_client_def redis_call_def as_queue_error_def)
  then show ?thesis by (simp add: redis_only_def)
qed

lemma quiet_redis_only: "redis_only w w' \<Longrightarrow> quiet w \<Longrightarrow> quiet w'"
  by (simp add: redis_only_def quiet_def)

lemma handle_one:
  assumes "process (sc_processor c) m w = (Inr out, w1)"
    and "acknowledges (pr_redis (sc_processor c))" and "rq_client (sc_queue c)"
  shows "\<exists>c' w'. handle_all c [m] w = (Inr (), c', w') \<and> sc_processed c' = sc_processed c + 1 \<and> redis_only w1 w'"
proof -
  obtain w' where "ack (pr_redis (sc_processor c)) (sc_queue c) (de_message_id m) w1 = (Inr (), w')" "redis_only w1 w'"
    using ack_acknowledges[OF assms(2,3)] by blast
  with assms(1) show ?thesis by (auto simp: handle_def)
qed

text \<open>
  C4. The pipeline completes what the API accepts, when nothing on the way refuses: on a quiet database with
  unused UUIDs, with a local storage whose files can be read, a provider that answers with data that can be
  stored and a Redis that acknowledges, an upload that was accepted, whose event a worker reads next within
  the delivery limit and from whose bytes the extractor gets a text without U+0000 and surrogates (so not a
  scanned PDF), ends as a job that \<^verbatim>\<open>GET /jobs/{id}\<close> shows as completed, with the original file name and the
  data the provider extracted from that text, for the requested type when there was one.
\<close>

theorem upload_is_completed:
  assumes "ae_storage a = local_storage fs base" and "storage_backend (ae_storage a) object"
    and "readable (ae_storage a) object" and "answers (pr_provider (sc_processor c))"
    and "acknowledges (ae_redis a)" and "same_services a c" and "quiet w" and "db_ok (w_db w)"
    and "0 \<le> max_upload_bytes (ae_settings a)"
    and "upload_document a ctx u t w = (Inr resp, so, w1)"
    and "queue_read (ae_redis a) (ae_codec a) (sc_queue c) (sc_consumer_name c) w1 = (Inr [m], w2)"
    and "find_document (ua_document_id resp) (w_db w1) = Some doc"
    and "ev_job_id (de_event m) = ua_job_id resp" and "ev_storage_path (de_event m) = doc_storage_path doc"
    and "de_delivery_count m \<le> max_delivery_count (pr_settings (sc_processor c))"
    and "text_of (pr_parsers (sc_processor c)) doc (uf_data u) = Inr body" and "pg_text body"
    and "\<forall>n. w_uuid w1 n \<notin> res_id ` set (db_results (w_db w1))"
  shows "\<exists>c' w3 detail so' out ty n n'.
    consume c w1 = (Inr (), c', w3) \<and> sc_processed c' = sc_processed c + 1 \<and>
    (ev_requested_document_type (de_event m) = None \<or> ev_requested_document_type (de_event m) = Some ty) \<and>
    lp_extract (pr_provider (sc_processor c))
      (fst (Text_Extraction.truncate body (llm_max_input_chars (pr_settings (sc_processor c))))) ty n = (Inr out, n') \<and>
    get_job_route (ua_job_id resp) w3 = (Inr detail, so', w3) \<and> js_status detail = COMPLETED \<and>
    js_original_filename detail = Some (doc_original_filename doc) \<and>
    map_option er_extracted_data (jd_result detail) = Some (eo_data out)"
proof -
  let ?p = "sc_processor c"
  have sv: "pr_redis ?p = ae_redis a" "pr_codec ?p = ae_codec a" "pr_storage ?p = ae_storage a"
    "rq_client (sc_queue c)" "length (pr_consumer_name ?p) \<le> 128"
    using assms(6) by (simp_all add: same_services_def)
  obtain doc' now where up: "quiet w1" "db_ok (w_db w1)"
    "find_job (ua_job_id resp) (w_db w1) =
      Some (new_job (ua_job_id resp) (ua_document_id resp) now (max_retries (ae_settings a)))"
    "find_document (ua_document_id resp) (w_db w1) = Some doc'" "find_result (ua_job_id resp) (w_db w1) = None"
    "object (w_files w1) (doc_storage_path doc') = Some (uf_data u)"
    by (rule quiet_upload[OF assms(2,7,8,9,10)])
  have d: "doc' = doc" using up(4) assms(12) by simp
  have r: "redis_only w1 w2" by (rule queue_read_frame[OF assms(11)])
  then have same: "w_db w2 = w_db w1" "w_files w2 = w_files w1" "w_uuid w2 = w_uuid w1"
    by (simp_all add: redis_only_def)
  let ?j = "new_job (ua_job_id resp) (ua_document_id resp) now (max_retries (ae_settings a))"
  have j: "job_status ?j = QUEUED" "job_document_id ?j = ua_document_id resp" by (simp_all add: new_job_def)
  obtain w3 out ty n n' jc x where pd: "process ?p m w2 = (Inr OutCompleted, w3)"
    and req: "ev_requested_document_type (de_event m) = None \<or> ev_requested_document_type (de_event m) = Some ty"
    and ex: "lp_extract (pr_provider ?p) (fst (Text_Extraction.truncate body (llm_max_input_chars (pr_settings ?p)))) ty n
      = (Inr out, n')"
    and row: "row_is (w_db w3) jc" "job_id jc = ua_job_id resp" "job_status jc = COMPLETED"
      "job_document_id jc = ua_document_id resp"
    and res: "find_result (ua_job_id resp) (w_db w3) = Some x" "res_extracted_data x = eo_data out"
    and doc: "find_document (ua_document_id resp) (w_db w3) = Some doc" and q3: "quiet w3"
    using quiet_process_queued[of ?p object fs base w2 m ?j doc "uf_data u" body] sv assms(1-4,13-18) up d same j
      quiet_redis_only[OF r up(1)] by auto
  obtain c' w4 where h: "handle_all c [m] w2 = (Inr (), c', w4)" "sc_processed c' = sc_processed c + 1"
    and r4: "redis_only w3 w4"
    using handle_one[OF pd] sv assms(5) by auto
  have db4: "w_db w4 = w_db w3" using r4 by (simp add: redis_only_def)
  have cons: "consume c w1 = (Inr (), c', w4)" using assms(11) h sv by (simp add: consume_def)
  obtain detail so' where g: "get_job_route (job_id jc) w4 = (Inr detail, so', w4)" "js_status detail = job_status jc"
    "js_original_filename detail = Some (doc_original_filename doc)" "jd_result detail = Some (result_response_of x)"
    using quiet_get_job_route[OF quiet_redis_only[OF r4 q3], of jc x doc] row res doc db4 by auto
  have "map_option er_extracted_data (jd_result detail) = Some (eo_data out)"
    using g(4) res by (simp add: result_response_of_def)
  with cons h req ex g row show ?thesis by (metis (no_types, lifting))
qed

text \<open>The note of \<^verbatim>\<open>upload_note\<close>, read by a worker whose provider answers every call alike.\<close>

definition instant_provider :: "unit provider" where
  "instant_provider =
     \<lparr>lp_classify = (\<lambda>x n. (Inr \<lparr>co_document_type = INVOICE, co_input_tokens = None,
        co_output_tokens = None, co_confidence_score = None\<rparr>, n)),
      lp_extract = (\<lambda>x ty n. (Inr sample_output, n)), lp_aclose = Pair (Inr ())\<rparr>"

definition note_consumer :: "(mem_redis, unit, mem_fs) stream_consumer" where
  "note_consumer = new_consumer sample_queue
     \<lparr>pr_storage = local_storage mem_files [''srv'', ''uploads''], pr_redis = mem_api, pr_codec = plain_codec,
      pr_queue = sample_queue, pr_provider = instant_provider, pr_parsers = sample_parsers,
      pr_settings = default_settings, pr_consumer_name = ''worker'', pr_expired_read = None\<rparr>
     default_settings ''worker''"

definition note_delivery :: delivered_event where
  "note_delivery = \<lparr>de_message_id = ''0-0'', de_event = note_event, de_delivery_count = 1\<rparr>"

lemma sample_queue_names: "queue_stream sample_queue = ''document-processing''"
  "queue_group sample_queue = ''document-workers''" "rq_client sample_queue"
  by (simp_all add: queue_stream_def queue_group_def sample_queue_def default_settings_def)

lemma read_uploaded_entry:
  "\<exists>r'. mem_xreadgroup ''document-processing'' ''document-workers'' ''worker'' 1 b (w_redis uploaded_world) =
     (Inr [(''document-processing'', [(''0-0'', to_stream_fields plain_codec note_event)])], r')"
proof -
  have "show_nat 0 = ''0''" by code_simp
  then show ?thesis
    by (simp add: uploaded_world_def mem_xreadgroup_def mem_xadd_def upload_redis_def mem_xgroup_create_def
      empty_redis_def Let_def)
qed

lemma read_uploaded:
  "\<exists>w2. queue_read mem_api plain_codec sample_queue ''worker'' uploaded_world = (Inr [note_delivery], w2)"
proof -
  obtain r' where r: "mem_xreadgroup ''document-processing'' ''document-workers'' ''worker'' 1
      (redis_block_ms default_settings) (w_redis uploaded_world) =
      (Inr [(''document-processing'', [(''0-0'', to_stream_fields plain_codec note_event)])], r')"
    using read_uploaded_entry by blast
  have "ev_load plain_codec (ev_dump plain_codec note_event) = Some note_event"
    using plain_codec_ok by (simp add: codec_ok_def)
  moreover have "rq_settings sample_queue = default_settings" "redis_read_count default_settings = 1"
    "ev_event_version note_event = EVENT_VERSION"
    by (simp_all add: sample_queue_def default_settings_def note_event_def)
  ultimately show ?thesis
    by (simp add: queue_read_def with_client_def sample_queue_names redis_call_def mem_api_def r as_queue_error_def
        decode_one_def to_stream_fields_def note_delivery_def)
qed

lemma note_readable: "readable (local_storage mem_files [''srv'', ''uploads'']) (key_object mem_files (\<lambda>f. f) [''srv'', ''uploads''])"
  by (auto simp: readable_def local_storage_def storage_read_def key_object_def fs_call_def mem_files_def
      split: sum.splits option.splits)

lemma note_consumer_fields:
  "sc_queue note_consumer = sample_queue" "sc_consumer_name note_consumer = ''worker''"
  "pr_redis (sc_processor note_consumer) = mem_api" "pr_codec (sc_processor note_consumer) = plain_codec"
  "pr_storage (sc_processor note_consumer) = local_storage mem_files [''srv'', ''uploads'']"
  "pr_provider (sc_processor note_consumer) = instant_provider" "pr_parsers (sc_processor note_consumer) = sample_parsers"
  "pr_settings (sc_processor note_consumer) = default_settings" "pr_consumer_name (sc_processor note_consumer) = ''worker''"
  "pr_queue (sc_processor note_consumer) = sample_queue" "sc_processed note_consumer = 0"
  by (simp_all add: note_consumer_def new_consumer_def)

lemma uploaded_fields:
  "find_document ''id1'' (w_db uploaded_world) = Some note_document" "db_results (w_db uploaded_world) = []"
  "doc_storage_path note_document = ''1970/01/01/id0.txt''" "doc_stored_filename note_document = ''id0.txt''"
  "doc_original_filename note_document = ''note.txt''"
  "ev_job_id (de_event note_delivery) = ''id2''" "ev_storage_path (de_event note_delivery) = ''1970/01/01/id0.txt''"
  "de_delivery_count note_delivery = 1"
  by (simp_all add: uploaded_world_def find_document_def note_document_def new_document_def note_stored_def
      note_delivery_def note_event_def)

lemma note_text: "text_of sample_parsers note_document [72, 105] = Inr [72, 105]"
proof -
  have "suffix_of (last_part (path_parts (CHR ''/'') (CHR ''.'') ''id0.txt'')) = ''.txt''" by code_simp
  then show ?thesis by (simp add: text_of_def uploaded_fields text_sample)
qed

lemma instant_answers: "answers instant_provider"
  by (simp add: answers_def instant_provider_def sample_output_fits)

lemma mem_acknowledges: "acknowledges mem_api"
  by (auto simp: acknowledges_def mem_api_def mem_xack_def split: option.splits)

lemma upload_is_completed_witness:
  "\<exists>c' w3 detail so'. consume note_consumer uploaded_world = (Inr (), c', w3) \<and> sc_processed c' = 1 \<and>
     get_job_route ''id2'' w3 = (Inr detail, so', w3) \<and> js_status detail = COMPLETED \<and>
     js_original_filename detail = Some ''note.txt'' \<and>
     map_option er_extracted_data (jd_result detail) = Some (eo_data sample_output)"
proof -
  obtain so where u: "upload_document sample_api Map.empty note_upload None upload_world =
     (Inr \<lparr>ua_document_id = ''id1'', ua_job_id = ''id2'', ua_status = QUEUED, ua_status_url = ''/api/v1/jobs/id2''\<rparr>, so,
      uploaded_world)" using upload_note by blast
  obtain w2 where q: "queue_read mem_api plain_codec sample_queue ''worker'' uploaded_world = (Inr [note_delivery], w2)"
    using read_uploaded by blast
  have a: "ae_storage sample_api = local_storage mem_files [''srv'', ''uploads'']" "ae_redis sample_api = mem_api"
    "ae_codec sample_api = plain_codec" "ae_queue sample_api = sample_queue" "ae_settings sample_api = default_settings"
    by (simp_all add: sample_api_def)
  have s: "same_services sample_api note_consumer" by (simp add: same_services_def a note_consumer_fields sample_queue_names)
  have w: "quiet upload_world" "db_ok (w_db upload_world)"
    by (simp_all add: upload_world_def db_ok_def empty_db_def)
  have m: "0 \<le> max_upload_bytes default_settings" "1 \<le> max_delivery_count default_settings"
    by (simp_all add: default_settings_def MB_def)
  from upload_is_completed[of sample_api mem_files "[''srv'', ''uploads'']"
      "key_object mem_files (\<lambda>f. f) [''srv'', ''uploads'']" note_consumer, OF a(1) sample_api_storage]
    u q s instant_answers mem_acknowledges w m note_readable uploaded_fields note_text
  show ?thesis by (fastforce simp: a note_consumer_fields note_upload_def instant_provider_def)
qed

end
