(* ===== verification/Retry_Budget.thy ===== *)
theory Retry_Budget
  imports End_To_End
begin

text \<open>
  What becomes of a job whose every attempt fails for a reason that may pass: it is retried until its
  budget is used up and then failed, once and for all.
\<close>

section \<open>A model that never answers\<close>

definition refuses :: "'p provider \<Rightarrow> bool" where
  "refuses lp \<longleftrightarrow>
     (\<forall>x n. \<exists>e n'. lp_classify lp x n = (Inl e, n') \<and> is_retryable e) \<and>
     (\<forall>x ty n. \<exists>e n'. lp_extract lp x ty n = (Inl e, n') \<and> is_retryable e)"

text \<open>Redis takes every retry.\<close>

definition schedules :: "'r redis_api \<Rightarrow> bool" where
  "schedules rd \<longleftrightarrow> (\<forall>k ms r. \<exists>r'. rd_zadd rd k ms r = (Inr (), r'))"

lemma produce_refuses:
  assumes "storage_backend (pr_storage p) object" and "readable (pr_storage p) object" and "refuses (pr_provider p)"
    and "object (w_files w) (ev_storage_path e) = Some data" and "sess_document s = Some doc"
    and "text_of (pr_parsers p) doc data = Inr body"
  shows "\<exists>x w'. produce p s e w = (Inl x, w') \<and> is_retryable x \<and> w_files w' = w_files w"
proof -
  let ?lp = "pr_provider p" and ?x = "fst (Text_Extraction.truncate body (llm_max_input_chars (pr_settings p)))"
  obtain w1 where r: "st_read (pr_storage p) (ev_storage_path e) w = (Inr data, w1)" "w1 = w"
    using assms(2,4) storage_backend.read_object[OF assms(1)] storage_backend.read_frame[OF assms(1)]
    unfolding readable_def by (metis option.distinct(1) option.inject)
  have c: "\<exists>x n'. lp_classify ?lp y n = (Inl x, n') \<and> is_retryable x" for y n
    using assms(3) by (simp add: refuses_def)
  have e: "\<exists>x n'. lp_extract ?lp y ty n = (Inl x, n') \<and> is_retryable x" for y ty n
    using assms(3) by (simp add: refuses_def)
  obtain x n' where k: "lp_classify ?lp (fst (Text_Extraction.truncate ?x (classification_max_chars (pr_settings p))))
      (w_provider w) = (Inl x, n')" "is_retryable x" using c by blast
  show ?thesis
  proof (cases "ev_requested_document_type e")
    case None
    with r k assms(5,6) show ?thesis
      by (simp add: produce_def text_of_def resolve_type_def provider_call_def Let_def)
  next
    case (Some ty)
    obtain x n' where "lp_extract ?lp ?x ty (w_provider w) = (Inl x, n')" "is_retryable x" using e by blast
    with r Some assms(5,6) show ?thesis
      by (simp add: produce_def text_of_def resolve_type_def provider_call_def Let_def)
  qed
qed

lemma schedule_retry_accepted:
  assumes "schedules rd" and "rq_client q"
  shows "\<exists>w'. schedule_retry rd cd q e delay w = (Inr (), w')"
proof -
  obtain now w1 where u: "utcnow w = (now, w1)" by fastforce
  obtain r' where "rd_zadd rd (retry_key q) [(ev_dump cd e, fl (total_seconds now + delay))] (w_redis w1) = (Inr (), r')"
    using assms(1) unfolding schedules_def by blast
  with u assms(2) show ?thesis
    by (simp add: schedule_retry_def with_client_def redis_call_def as_queue_error_def Let_def)
qed

lemma compute_delay_below_1024: "attempt < 1024 \<Longrightarrow> \<exists>delay. compute_delay attempt s u = Inr delay"
  by (simp add: compute_delay_def float_pow2_def Let_def)

section \<open>One attempt\<close>

text \<open>The row after \<open>n\<close> failed attempts with a budget of \<open>b\<close> retries.\<close>

definition tried :: "nat \<Rightarrow> int \<Rightarrow> job \<Rightarrow> bool" where
  "tried n b j \<longleftrightarrow> job_max_retries j = b \<and>
     (if int n \<le> b then job_status j = (if n = 0 then QUEUED else RETRYING) \<and> job_retry_count j = int n
      else job_status j = FAILED \<and> job_retry_count j = b)"

text \<open>Where the attempts take place: the row, its document, the stored bytes, nobody else at work.\<close>

definition attempt_world ::
  "('f \<Rightarrow> string \<Rightarrow> bytes option) \<Rightarrow> uuid \<Rightarrow> document \<Rightarrow> bytes \<Rightarrow> nat \<Rightarrow> int \<Rightarrow> ('r, 'p, 'f) world \<Rightarrow> bool" where
  "attempt_world object i doc data n b w \<longleftrightarrow>
     quiet w \<and> db_ok (w_db w) \<and> object (w_files w) (doc_storage_path doc) = Some data \<and>
     (\<exists>j. find_job i (w_db w) = Some j \<and> tried n b j \<and> find_document (job_document_id j) (w_db w) = Some doc)"

definition attempt_event :: "uuid \<Rightarrow> document \<Rightarrow> int \<Rightarrow> delivered_event \<Rightarrow> bool" where
  "attempt_event i doc limit m \<longleftrightarrow> ev_job_id (de_event m) = i \<and>
     ev_storage_path (de_event m) = doc_storage_path doc \<and> de_delivery_count m \<le> limit"

lemma db_steps_ok: "db_steps d d' \<Longrightarrow> db_ok d \<Longrightarrow> db_ok d'"
  by (induction rule: rtranclp_induct) (auto intro: db_step_ok)

text \<open>After an attempt the world is again one for the next attempt, if the row says so.\<close>

lemma next_attempt_world:
  assumes "attempt_world object i doc data n b w" and "process p m w = (r, w')" and "pr_storage p = local_storage fs base"
    and "quiet w'" and "w_files w' = w_files w" and "row_is (w_db w') c" and "job_id c = i" and "tried k b c"
    and "find_job i (w_db w) = Some j" and "job_document_id c = job_document_id j"
  shows "attempt_world object i doc data k b w'"
proof -
  have q: "quiet w" "db_ok (w_db w)" and doc: "find_document (job_document_id j) (w_db w) = Some doc"
    using assms(1,9) by (auto simp: attempt_world_def)
  have steps: "db_steps (w_db w) (w_db w')"
    using pipeline.process_rely[OF assms(2) reads_only_local[OF assms(3)]] q(1) by (simp add: quiet_def rely_def)
  obtain t where "find_job i (w_db w') = Some (c\<lparr>job_updated_at := t\<rparr>)" using assms(6,7) by (auto simp: row_is_def)
  moreover have "tried k b (c\<lparr>job_updated_at := t\<rparr>)" using assms(8) by (auto simp: tried_def split: if_splits)
  moreover have "find_document (job_document_id c) (w_db w') = Some doc"
    using find_document_extends[OF extends_steps[OF steps] doc] assms(10) by simp
  ultimately show ?thesis
    using assms(1,4,5) db_steps_ok[OF steps q(2)] by (simp add: attempt_world_def)
qed

text \<open>A processor on services of which only the model fails.\<close>

definition only_model_fails :: "('f \<Rightarrow> string \<Rightarrow> bytes option) \<Rightarrow> 'f fs_api \<Rightarrow> string list \<Rightarrow> ('r, 'p, 'f) processor \<Rightarrow> bool" where
  "only_model_fails object fs base p \<longleftrightarrow>
     storage_backend (pr_storage p) object \<and> readable (pr_storage p) object \<and> pr_storage p = local_storage fs base \<and>
     refuses (pr_provider p) \<and> schedules (pr_redis p) \<and> rq_client (pr_queue p) \<and> length (pr_consumer_name p) \<le> 128"

lemma attempt_fails:
  assumes "only_model_fails object fs base p" and "text_of (pr_parsers p) doc data = Inr body"
    and "attempt_world object i doc data n b w" and "attempt_event i doc (max_delivery_count (pr_settings p)) m"
    and "b < 1024"
  shows "\<exists>w'. process p m w =
      (Inr (if int n < b then OutRetryScheduled else if int n = b then OutFailed else OutSkipped), w') \<and>
    attempt_world object i doc data (Suc n) b w' \<and> db_results (w_db w') = db_results (w_db w)"
proof -
  note svc = assms(1)[unfolded only_model_fails_def] and ev = assms(4)[unfolded attempt_event_def]
  have q: "quiet w" "db_ok (w_db w)" and obj: "object (w_files w) (ev_storage_path (de_event m)) = Some data"
    using assms(3,4) by (auto simp: attempt_world_def attempt_event_def)
  obtain j where j: "find_job i (w_db w) = Some j" "tried n b j" "find_document (job_document_id j) (w_db w) = Some doc"
    using assms(3) by (auto simp: attempt_world_def)
  show ?thesis
  proof (cases "int n \<le> b")
    case False
    obtain now w' where u: "utcnow w = (now, w')" by fastforce
    have "job_status j = FAILED" using False j(2) by (simp add: tried_def)
    then have "process p m w = (Inr OutSkipped, w')"
      using quiet_skip[OF q u, of m p] j(1) ev by (simp add: is_terminal_def status_sets)
    moreover have "attempt_world object i doc data (Suc n) b w'"
      using assms(3) quiet_utcnow[OF q(1) u] utcnow_frame[OF u] False
      by (auto simp: attempt_world_def same_outside_def tried_def split: if_splits)
    ultimately show ?thesis using False utcnow_frame[OF u] by auto
  next
    case True
    have st: "job_status j \<in> {QUEUED, RETRYING}" "job_retry_count j = int n" "job_max_retries j = b"
      using True j(2) by (auto simp: tried_def)
    obtain s w1 where c: "claim_job (ev_job_id (de_event m)) (pr_consumer_name p)
        (stale_processing_seconds (pr_settings p)) w = (Inr (Some s), w1)"
      and doc: "sess_document s = Some doc" "job_document_id (sess_loaded s) = job_document_id j"
      and fw: "w_files w1 = w_files w"
      using quiet_claim_waiting[OF q _ st(1) _ j(3), of "ev_job_id (de_event m)"] j(1) svc ev by blast
    note cl = quiet_claimed[OF q c]
    have rc: "job_retry_count (sess_loaded s) = int n" "job_max_retries (sess_loaded s) = b" "job_id (sess_loaded s) = i"
      using cl(5,8) j(1) st ev by auto
    obtain x w2 where pr: "produce p s (de_event m) w1 = (Inl x, w2)" "is_retryable x" "w_files w2 = w_files w"
      using produce_refuses[OF _ _ _ _ doc(1) assms(2), of object w1 "de_event m"] svc obj fw by auto
    show ?thesis
    proof (cases "int n < b")
      case True
      obtain u w3 where rn: "random01 w2 = (u, w3)" by fastforce
      obtain delay where d: "compute_delay (job_retry_count (sess_loaded s)) (pr_settings p) u = Inr delay"
        using compute_delay_below_1024[of "int n"] True assms(5) rc by auto
      obtain e' w4 where na: "next_attempt (de_event m) w3 = (e', w4)" by fastforce
      obtain w5 where sr: "schedule_retry (pr_redis p) (pr_codec p) (pr_queue p) e' delay w4 = (Inr (), w5)"
        using schedule_retry_accepted svc by blast
      have "w_files w5 = w_files w"
        using rn na schedule_retry_frame[OF sr] next_attempt_frame[OF na] pr(3)
        by (auto simp: random01_def redis_only_def same_outside_def split: list.splits)
      then obtain w' where p: "process p m w = (Inr OutRetryScheduled, w')"
        "row_is (w_db w') (retrying_job (describe x) (sess_loaded s))" "quiet w'" "w_files w' = w_files w"
        "db_results (w_db w') = db_results (w_db w)"
        using quiet_transient[OF q _ c _ pr(1) _ rn d na sr, of fs base] svc ev pr(2) True rc by (auto simp: should_retry_def)
      show ?thesis using p True st rc doc
          next_attempt_world[OF assms(3) p(1) _ p(3,4,2), of fs base "Suc n" j] svc j(1)
        by (auto simp: retrying_job_def tried_def)
    next
      case False
      with \<open>int n \<le> b\<close> have n: "int n = b" by simp
      obtain t w' where p: "process p m w = (Inr OutFailed, w')"
        "row_is (w_db w') (failed_job t (describe x) (sess_loaded s))" "quiet w'" "w_files w' = w_files w"
        "db_results (w_db w') = db_results (w_db w)"
        using quiet_permanent[OF q _ c _ pr(1), of fs base] svc ev pr(3) n rc by (auto simp: should_retry_def)
      show ?thesis using p n rc doc
          next_attempt_world[OF assms(3) p(1) _ p(3,4,2), of fs base "Suc n" j] svc j(1)
        by (auto simp: failed_job_def tried_def)
    qed
  qed
qed

section \<open>All attempts\<close>

lemma handled_and_acknowledged:
  assumes "process (sc_processor c) m w = (Inr out, w1)"
    and "acknowledges (pr_redis (sc_processor c))" and "rq_client (sc_queue c)"
  shows "\<exists>w'. handle c m w = (Inr (Some out), c\<lparr>sc_processed := sc_processed c + 1\<rparr>, w') \<and> redis_only w1 w'"
  using assms(1) ack_acknowledges[OF assms(2,3), of "de_message_id m" w1] by (auto simp: handle_def)

lemma attempt_world_redis_only:
  "redis_only w w' \<Longrightarrow> attempt_world object i doc data n b w \<Longrightarrow> attempt_world object i doc data n b w'"
  using quiet_redis_only[of w w'] by (simp add: attempt_world_def redis_only_def)

lemma attempts_fail:
  assumes "only_model_fails object fs base (sc_processor c)" and "text_of (pr_parsers (sc_processor c)) doc data = Inr body"
    and "acknowledges (pr_redis (sc_processor c))" and "rq_client (sc_queue c)" and "b < 1024"
    and "attempt_world object i doc data n b w"
    and "list_all (attempt_event i doc (max_delivery_count (pr_settings (sc_processor c)))) ds"
  shows "\<exists>w'. handle_all c ds w = (Inr (), c\<lparr>sc_processed := sc_processed c + int (length ds)\<rparr>, w') \<and>
    attempt_world object i doc data (n + length ds) b w' \<and> db_results (w_db w') = db_results (w_db w)"
  using assms
proof (induction ds arbitrary: c w n)
  case Nil
  then show ?case by simp
next
  case (Cons m ds)
  obtain out w1 where p: "process (sc_processor c) m w = (Inr out, w1)" "attempt_world object i doc data (Suc n) b w1"
    "db_results (w_db w1) = db_results (w_db w)"
    using attempt_fails[OF Cons.prems(1,2,6) _ Cons.prems(5), of m] Cons.prems(7) by auto
  let ?c = "c\<lparr>sc_processed := sc_processed c + 1\<rparr>"
  obtain w2 where h: "handle c m w = (Inr (Some out), ?c, w2)" "redis_only w1 w2"
    using handled_and_acknowledged[OF p(1) Cons.prems(3,4)] by blast
  from Cons.IH[of ?c "Suc n" w2] Cons.prems attempt_world_redis_only[OF h(2) p(2)]
  obtain w' where "handle_all ?c ds w2 = (Inr (), ?c\<lparr>sc_processed := sc_processed ?c + int (length ds)\<rparr>, w')"
    "attempt_world object i doc data (n + length (m # ds)) b w'" "db_results (w_db w') = db_results (w_db w2)" by auto
  moreover have "db_results (w_db w2) = db_results (w_db w)" using h(2) p(3) by (simp add: redis_only_def)
  ultimately show ?case using h(1) by (auto simp: add.assoc)
qed

text \<open>
  C11. Retries run out: while the model keeps failing in a way that may pass, a queued job with a budget of
  \<open>b\<close> retries is attempted \<open>b + 1\<close> times and no more. After \<open>n \<le> b\<close> deliveries it waits as \<open>RETRYING\<close> with
  \<open>n\<close> retries counted; from delivery \<open>b + 1\<close> on it is \<open>FAILED\<close> with \<open>b\<close>, however many deliveries follow. Every
  delivery is acknowledged and none writes a result.
\<close>

theorem retries_run_out:
  assumes "only_model_fails object fs base (sc_processor c)" and "text_of (pr_parsers (sc_processor c)) doc data = Inr body"
    and "acknowledges (pr_redis (sc_processor c))" and "rq_client (sc_queue c)"
    and "quiet w" and "db_ok (w_db w)" and "find_job i (w_db w) = Some j"
    and "job_status j = QUEUED" and "job_retry_count j = 0" and "0 \<le> job_max_retries j" and "job_max_retries j < 1024"
    and "find_document (job_document_id j) (w_db w) = Some doc" and "object (w_files w) (doc_storage_path doc) = Some data"
    and "list_all (attempt_event i doc (max_delivery_count (pr_settings (sc_processor c)))) ds"
  shows "\<exists>c' w' j'. handle_all c ds w = (Inr (), c', w') \<and> sc_processed c' = sc_processed c + int (length ds) \<and>
    db_results (w_db w') = db_results (w_db w) \<and> find_job i (w_db w') = Some j' \<and>
    (if int (length ds) \<le> job_max_retries j
     then job_status j' = (if ds = [] then QUEUED else RETRYING) \<and> job_retry_count j' = int (length ds)
     else job_status j' = FAILED \<and> job_retry_count j' = job_max_retries j)"
proof -
  have "attempt_world object i doc data 0 (job_max_retries j) w"
    using assms(5-13) by (simp add: attempt_world_def tried_def)
  from attempts_fail[OF assms(1-4,11) this assms(14)] show ?thesis
    by (auto simp: attempt_world_def tried_def split: if_splits)
qed

text \<open>The note of the sample upload, read five times by a worker whose model times out; its budget is three.\<close>

definition mute_provider :: "unit provider" where
  "mute_provider = \<lparr>lp_classify = (\<lambda>x n. (Inl provider_timeout, n)),
     lp_extract = (\<lambda>x ty n. (Inl provider_timeout, n)), lp_aclose = Pair (Inr ())\<rparr>"

definition mute_consumer :: "(mem_redis, unit, mem_fs) stream_consumer" where
  "mute_consumer = note_consumer\<lparr>sc_processor := (sc_processor note_consumer)\<lparr>pr_provider := mute_provider\<rparr>\<rparr>"

lemma mute_consumer_fields:
  "sc_queue mute_consumer = sample_queue" "pr_redis (sc_processor mute_consumer) = mem_api"
  "pr_storage (sc_processor mute_consumer) = local_storage mem_files [''srv'', ''uploads'']"
  "pr_provider (sc_processor mute_consumer) = mute_provider" "pr_parsers (sc_processor mute_consumer) = sample_parsers"
  "pr_settings (sc_processor mute_consumer) = default_settings" "pr_consumer_name (sc_processor mute_consumer) = ''worker''"
  "pr_queue (sc_processor mute_consumer) = sample_queue" "sc_processed mute_consumer = 0"
  by (simp_all add: mute_consumer_def note_consumer_fields)

lemma retries_run_out_witness:
  "\<exists>c' w' j'. handle_all mute_consumer (replicate 5 note_delivery) uploaded_world = (Inr (), c', w') \<and>
     sc_processed c' = 5 \<and> db_results (w_db w') = [] \<and> find_job ''id2'' (w_db w') = Some j' \<and>
     job_status j' = FAILED \<and> job_retry_count j' = 3"
proof -
  let ?object = "key_object mem_files (\<lambda>f. f) [''srv'', ''uploads''] :: mem_fs \<Rightarrow> _"
  have "refuses mute_provider" by (simp add: refuses_def mute_provider_def provider_timeout_def is_retryable_foreign retryable_exceptions_def)
  moreover have "schedules mem_api" by (simp add: schedules_def mem_api_def mem_zadd_def)
  moreover have "storage_backend (local_storage mem_files [''srv'', ''uploads'']) ?object"
    using memory_files.local_backend .
  ultimately have o: "only_model_fails ?object mem_files [''srv'', ''uploads''] (sc_processor mute_consumer)"
    using note_readable by (simp add: only_model_fails_def mute_consumer_fields sample_queue_names)
  have j: "find_job ''id2'' (w_db uploaded_world) = Some note_job" "job_status note_job = QUEUED"
    "job_retry_count note_job = 0" "job_max_retries note_job = 3" "job_document_id note_job = ''id1''"
    by (simp_all add: uploaded_world_def find_job_def note_job_def new_job_def)
  have w: "quiet uploaded_world" "db_ok (w_db uploaded_world)"
    by (simp_all add: uploaded_world_def upload_world_def quiet_def sample_world_def db_ok_def note_job_def new_job_def
        note_document_def new_document_def)
  have b: "?object (w_files uploaded_world) ''1970/01/01/id0.txt'' = Some [72, 105]"
    by (simp add: uploaded_world_def key_object_def resolve_sample)
  have ds: "list_all (attempt_event ''id2'' note_document (max_delivery_count default_settings)) (replicate 5 note_delivery)"
    by (simp add: list_all_iff attempt_event_def uploaded_fields default_settings_def)
  from retries_run_out[OF o _ _ _ w j(1-3), of note_document "[72, 105]" "[72, 105]" "replicate 5 note_delivery"]
  show ?thesis using b ds mem_acknowledges note_text
    by (simp add: mute_consumer_fields uploaded_fields j sample_queue_names)
qed

end
