(* ===== verification/Retry_Delivery.thy ===== *)
theory Retry_Delivery
  imports Worker_Properties
begin

text \<open>
  The way back of a retry: what processing parked in Redis is put on the stream again by the retry
  scheduler once it is due.
\<close>

section \<open>Popping in the order of due times\<close>

text \<open>Due, and with at most \<open>n\<close> entries, itself included, that are due no later.\<close>

definition next_in_line ::
  "(string \<Rightarrow> 'r \<Rightarrow> string \<Rightarrow> py_float option) \<Rightarrow> string \<Rightarrow> nat \<Rightarrow> py_float \<Rightarrow> 'r \<Rightarrow> string \<Rightarrow> bool" where
  "next_in_line zset key n now r k \<longleftrightarrow>
     (\<exists>x. zset key r k = Some x \<and> x \<le> now \<and> card {m. \<exists>y. zset key r m = Some y \<and> y \<le> x} \<le> n)"

lemma sorted_wrt_take_all:
  assumes "sorted_wrt (\<lambda>a b. f a \<le> f b) xs" and "i < length xs" and "m \<in> set (take (Suc i) xs)"
  shows "f m \<le> (f (xs ! i) :: 'a :: linorder)"
proof -
  obtain j where j: "j < Suc i" "j < length xs" "m = xs ! j"
    using assms(3) by (auto simp: in_set_conv_nth)
  show ?thesis
  proof (cases "j = i")
    case False
    then have "j < i" using j(1) by simp
    from sorted_wrt_nth_less[OF assms(1) this assms(2)] j(3) show ?thesis by simp
  qed (use j in simp)
qed

text \<open>Redis runs the script and takes every entry.\<close>

definition takes_all :: "'r redis_api \<Rightarrow> bool" where
  "takes_all rd \<longleftrightarrow> (\<forall>s f r. \<exists>i r'. rd_xadd rd s f r = (Inr i, r')) \<and> (\<forall>body r. \<exists>vs r'. rd_script rd body r = (Inr vs, r'))"

context redis_server
begin

lemma first_is_popped:
  assumes "next_in_line zset key n now r k"
  shows "k \<in> set (rd_zrangebyscore rd key now 0 n r)"
proof -
  obtain x where x: "zset key r k = Some x" "x \<le> now" "card {m. \<exists>y. zset key r m = Some y \<and> y \<le> x} \<le> n"
    using assms by (auto simp: next_in_line_def)
  obtain due where d: "distinct due" "set due = {m. \<exists>x. zset key r m = Some x \<and> x \<le> now}"
    "sorted_wrt (\<lambda>a b. the (zset key r a) \<le> the (zset key r b)) due"
    "rd_zrangebyscore rd key now 0 n r = take n (drop 0 due)"
    using zrange[of key r now 0 n] by blast
  obtain i where i: "i < length due" "due ! i = k" using d(2) x(1,2) by (metis (mono_tags, lifting) in_set_conv_nth mem_Collect_eq)
  have "m \<in> {m. \<exists>y. zset key r m = Some y \<and> y \<le> x}" if "m \<in> set (take (Suc i) due)" for m
    using sorted_wrt_take_all[OF d(3) i(1) that] d(2) x(1) i(2) in_set_takeD[OF that] by auto
  then have sub: "set (take (Suc i) due) \<subseteq> {m. \<exists>y. zset key r m = Some y \<and> y \<le> x}" by blast
  have "finite {m. \<exists>y. zset key r m = Some y \<and> y \<le> x}"
  proof (rule finite_subset)
    show "{m. \<exists>y. zset key r m = Some y \<and> y \<le> x} \<subseteq> set due" using d(2) x(2) by auto
  qed simp
  from card_mono[OF this sub] have "Suc i \<le> n"
    using x(3) i(1) distinct_card[OF distinct_take[OF d(1), of "Suc i"]] by simp
  then have "due ! i \<in> set (take n due)" using i(1) by (auto simp: in_set_conv_nth)
  then show ?thesis using d(4) i(2) by simp
qed

text \<open>An entry with the event was added and is outstanding.\<close>

definition on_stream :: "event_codec \<Rightarrow> redis_queue \<Rightarrow> event \<Rightarrow> 'r \<Rightarrow> bool" where
  "on_stream cd q e r \<longleftrightarrow>
     (\<exists>a b i. rd_xadd rd (queue_stream q) (to_stream_fields cd e) a = (Inr i, b) \<and>
        i \<in> outstanding (queue_stream q) (queue_group q) r)"

lemma publish_taken:
  assumes "takes_all rd" and "rq_client q"
  obtains i w' where "publish rd cd q e w = (Inr i, w')" and "parked q w' = parked q w" and "on_stream cd q e (w_redis w')"
proof -
  obtain i r' where x: "rd_xadd rd (queue_stream q) (to_stream_fields cd e) (w_redis w) = (Inr i, r')"
    using assms(1) unfolding takes_all_def by blast
  have "on_stream cd q e r'" using x xadd_new[OF x] by (auto simp: on_stream_def)
  then show thesis using assms(2) x xadd_zset[OF x]
    by (intro that[of i "w\<lparr>w_redis := r'\<rparr>"]) (simp_all add: publish_def with_client_connected as_queue_error_def parked_def)
qed

lemma publish_all_taken:
  assumes "takes_all rd" and "rq_client q"
  shows "\<exists>w'. publish_all rd cd q es w = (Inr (), w') \<and> parked q w' = parked q w \<and>
    (\<forall>e \<in> set es. on_stream cd q e (w_redis w'))"
proof (induction es arbitrary: w)
  case (Cons e es)
  obtain i w1 where p: "publish rd cd q e w = (Inr i, w1)" "parked q w1 = parked q w" "on_stream cd q e (w_redis w1)"
    using publish_taken[OF assms] by blast
  obtain w' where w': "publish_all rd cd q es w1 = (Inr (), w')" "parked q w' = parked q w1"
    "\<forall>e \<in> set es. on_stream cd q e (w_redis w')" using Cons.IH by blast
  have "on_stream cd q e (w_redis w')" using p(3) publish_all_held[OF w'(1)] by (auto simp: on_stream_def held_def)
  with p w' show ?case by auto
qed simp

lemma sweep_republishes:
  assumes "takes_all rd" and "rq_client q" and "rq_script q" and "codec_ok cd"
    and "next_in_line zset (retry_key q) RETRY_BATCH (total_seconds (fst (utcnow w))) (w_redis w) (ev_dump cd e)"
  shows "\<exists>w'. sweep_retries rd cd q w = (Inr (), w') \<and> on_stream cd q e (w_redis w') \<and>
    parked q w' (ev_dump cd e) = None"
proof -
  obtain now w1 where t: "utcnow w = (now, w1)" by fastforce
  have r1: "w_redis w1 = w_redis w" using utcnow_frame[OF t] by (simp add: same_outside_def)
  let ?body = "POP_DUE_RETRIES rd (retry_key q) (total_seconds now) RETRY_BATCH"
  obtain due r2 where b: "rd_script rd ?body (w_redis w) = (Inr due, r2)" using assms(1) unfolding takes_all_def by blast
  have p: "?body (w_redis w) = (due, r2)" by (rule script_Inr[OF b])
  let ?w2 = "w1\<lparr>w_redis := r2\<rparr>" and ?es = "List.map_filter (ev_load cd) due"
  have pop: "pop_due_retries rd cd q RETRY_BATCH w = (Inr ?es, ?w2)"
    using t r1 assms(3) b by (simp add: pop_due_retries_def redis_call_def as_queue_error_def)
  have "due = rd_zrangebyscore rd (retry_key q) (total_seconds now) 0 RETRY_BATCH (w_redis w)"
    using p by (auto simp: POP_DUE_RETRIES_def Let_def split: if_splits)
  with first_is_popped[OF assms(5)] t have k: "ev_dump cd e \<in> set due" by simp
  then have e: "e \<in> set ?es" using assms(4) by (force simp: List.map_filter_def codec_ok_def)
  obtain w' where w': "publish_all rd cd q ?es ?w2 = (Inr (), w')" "parked q w' = parked q ?w2"
    "on_stream cd q e (w_redis w')" using publish_all_taken[OF assms(1,2)] e by blast
  have "parked q ?w2 (ev_dump cd e) = None" using pop_script(3)[OF p, of "retry_key q"] k by (simp add: parked_def)
  with w' pop show ?thesis by (auto simp: sweep_retries_def)
qed

end

text \<open>
  C12. A retry comes back: when processing has returned \<open>RETRY_SCHEDULED\<close>, whatever failed meanwhile, and Redis
  still holds what it held then, the first sweep at which the parked attempt is due and among the fifty
  earliest takes it out of the retry set and publishes it: an entry of the stream is outstanding that
  decodes to the event of the same job with its attempt counted.
\<close>

theorem scheduled_retry_is_republished:
  fixes p :: "('r, 'p, 'f) processor" and w w' v :: "('r, 'p, 'f) world"
  assumes "redis_server (pr_redis p) outstanding zset" and "takes_all (pr_redis p)"
    and "codec_ok (pr_codec p)" and "rq_client (pr_queue p)" and "rq_script (pr_queue p)"
    and "pr_storage p = local_storage fs base" and "rely db_steps w" and "faults_ok w"
    and "process p m w = (Inr OutRetryScheduled, w')" and "ev_event_version (de_event m) = EVENT_VERSION"
    and "w_redis v = w_redis w'"
    and "\<forall>u :: ('r, 'p, 'f) world.
      zset (retry_key (pr_queue p)) (w_redis v) (ev_dump (pr_codec p) (fst (next_attempt (de_event m) u))) \<noteq> None \<longrightarrow>
      next_in_line zset (retry_key (pr_queue p)) RETRY_BATCH (total_seconds (fst (utcnow v))) (w_redis v)
        (ev_dump (pr_codec p) (fst (next_attempt (de_event m) u)))"
  shows "\<exists>e r r' i v'. sweep_retries (pr_redis p) (pr_codec p) (pr_queue p) v = (Inr (), v') \<and>
    ev_job_id e = ev_job_id (de_event m) \<and> ev_storage_path e = ev_storage_path (de_event m) \<and>
    ev_attempt e = ev_attempt (de_event m) + 1 \<and>
    rd_xadd (pr_redis p) (queue_stream (pr_queue p)) (to_stream_fields (pr_codec p) e) r = (Inr i, r') \<and>
    decode_one (pr_codec p) (to_stream_fields (pr_codec p) e) = Inr e \<and>
    i \<in> outstanding (queue_stream (pr_queue p)) (queue_group (pr_queue p)) (w_redis v') \<and>
    zset (retry_key (pr_queue p)) (w_redis v') (ev_dump (pr_codec p) e) = None"
proof -
  have "retry_parked zset p (de_event m) (w_redis v)"
    using process_settled[OF assms(9,6,7,8) _ assms(1)] assms(11) by (simp add: settled_def)
  then obtain u :: "('r, 'p, 'f) world" where u: "zset (retry_key (pr_queue p)) (w_redis v)
      (ev_dump (pr_codec p) (fst (next_attempt (de_event m) u))) \<noteq> None"
    unfolding retry_parked_def by blast
  obtain e u' where n: "next_attempt (de_event m) u = (e, u')" by fastforce
  note f = next_attempt_fields[OF n]
  obtain v' where s: "sweep_retries (pr_redis p) (pr_codec p) (pr_queue p) v = (Inr (), v')"
    "redis_server.on_stream (pr_redis p) outstanding (pr_codec p) (pr_queue p) e (w_redis v')"
    "redis_server.parked zset (pr_queue p) v' (ev_dump (pr_codec p) e) = None"
    using redis_server.sweep_republishes[OF assms(1,2,4,5,3), of v e] assms(12)[rule_format, OF u] n by auto
  have "decode_one (pr_codec p) (to_stream_fields (pr_codec p) e) = Inr e"
    using assms(3,10) f(5) by (simp add: decode_one_def to_stream_fields_def codec_ok_def)
  with s f show ?thesis
    by (auto simp: redis_server.on_stream_def[OF assms(1)] redis_server.parked_def[OF assms(1)])
qed

text \<open>The sample job: its model times out in the first second, and a thousand seconds later the retry is due.\<close>

lemma sample_retry_scheduled:
  "\<exists>w' e x. process (sample_processor (Inl provider_timeout)) (sample_delivery 1) (worker_world queued_job) =
     (Inr OutRetryScheduled, w') \<and> mem_zset (retry_key sample_queue) (w_redis w') = [plain_dump e \<mapsto> x] \<and> x \<le> 1000"
proof -
  let ?w2 = "sample_world empty_redis (2 :: nat) sample_files (sample_db processing_job) 1000000"
  have rnd: "random01 ?w2 = (0, ?w2)" by (simp add: random01_def sample_world_def)
  obtain delay where d: "compute_delay 0 default_settings 0 = Inr delay" "delay \<le> 120"
    using compute_delay_bounds[OF default_delay_settings, of 0 0] by (auto simp: default_settings_def)
  obtain e w4 where n: "next_attempt sample_event ?w2 = (e, w4)" by fastforce
  obtain r w5 where c: "schedule_retry mem_api plain_codec sample_queue e delay w4 = (r, w5)" by fastforce
  then have r: "r = Inr ()"
    by (auto simp: schedule_retry_def with_client_def sample_queue_def redis_call_def mem_api_def
        mem_zadd_def as_queue_error_def Let_def split: prod.splits)
  have retry: "should_retry provider_timeout 0 3"
    by (simp add: should_retry_def provider_timeout_def retryable_exceptions_def)
  note t = quiet_transient[OF _ _ _ claim_run[of 1 "Inl provider_timeout"] _ produce_run(1),
      where fs = mem_files and base = "[''srv'', ''uploads'']"]
  obtain w' where w': "process (sample_processor (Inl provider_timeout)) (sample_delivery 1) (worker_world queued_job) =
      (Inr OutRetryScheduled, w')" "w_redis w' = w_redis w5"
    using t[of 0 ?w2 delay e w4 r w5] rnd d n c r retry by auto
  have w4: "w_redis w4 = empty_redis" "fst (utcnow w4) = 1000000"
    using n by (auto simp: next_attempt_def uuid4_def sample_world_def utcnow_def)
  have "memory_redis.parked sample_queue w5 = (memory_redis.parked sample_queue w4)
      (ev_dump plain_codec e \<mapsto> fl (total_seconds (fst (utcnow w4)) + delay))"
    by (rule memory_redis.schedule_retry_parked) (use c r in simp)
  moreover have "total_seconds 1000000 = 1" using is_fl_of_int[of 1] by (simp add: total_seconds_def is_fl_def)
  ultimately have "mem_zset (retry_key sample_queue) (w_redis w5) = [plain_dump e \<mapsto> fl (1 + delay)]"
    using w4 by (simp add: memory_redis.parked_def mem_zset_def empty_redis_def plain_codec_def)
  moreover have "fl (1 + delay) \<le> 1000" using d(2) is_fl_of_int[of 1000] by (intro fl_le_float) simp_all
  ultimately show ?thesis using w' by auto
qed

lemma scheduled_retry_is_republished_witness:
  "\<exists>e i (v' :: (mem_redis, nat, mem_fs) world). ev_job_id e = ''job'' \<and> ev_attempt e = 1 \<and> i \<in> mem_outstanding ''document-processing'' ''document-workers'' (w_redis v') \<and>
     mem_zset (retry_key sample_queue) (w_redis v') (plain_dump e) = None"
proof -
  obtain w' e x where w': "process (sample_processor (Inl provider_timeout)) (sample_delivery 1) (worker_world queued_job) =
      (Inr OutRetryScheduled, w')" and z: "mem_zset (retry_key sample_queue) (w_redis w') = [plain_dump e \<mapsto> x]" "x \<le> 1000"
    using sample_retry_scheduled by blast
  let ?v = "sample_world (w_redis w') (0 :: nat) sample_files empty_db 1000000000"
  have now: "total_seconds (fst (utcnow ?v)) = 1000" using is_fl_of_int[of 1000] by (simp add: total_seconds_def is_fl_def)
  let ?p = "sample_processor (Inl provider_timeout)"
  have k: "next_in_line mem_zset (retry_key (pr_queue ?p)) RETRY_BATCH (total_seconds (fst (utcnow ?v))) (w_redis ?v) k"
    if "mem_zset (retry_key (pr_queue ?p)) (w_redis ?v) k \<noteq> None" for k
  proof -
    have "{m. \<exists>y. mem_zset (retry_key sample_queue) (w_redis w') m = Some y \<and> y \<le> x} \<subseteq> {plain_dump e}"
      by (auto simp: z(1) split: if_splits)
    from card_mono[OF _ this] have "card {m. \<exists>y. mem_zset (retry_key sample_queue) (w_redis w') m = Some y \<and> y \<le> x} \<le> 1" by simp
    with that z show ?thesis unfolding now by (auto simp: next_in_line_def RETRY_BATCH_def split: if_splits)
  qed
  have line: "\<forall>u :: (mem_redis, nat, mem_fs) world.
      mem_zset (retry_key (pr_queue ?p)) (w_redis ?v) (ev_dump (pr_codec ?p) (fst (next_attempt (de_event (sample_delivery 1)) u))) \<noteq> None \<longrightarrow>
      next_in_line mem_zset (retry_key (pr_queue ?p)) RETRY_BATCH (total_seconds (fst (utcnow ?v))) (w_redis ?v)
        (ev_dump (pr_codec ?p) (fst (next_attempt (de_event (sample_delivery 1)) u)))" using k by blast
  have server: "redis_server (pr_redis ?p) mem_outstanding mem_zset" "takes_all (pr_redis ?p)" "codec_ok (pr_codec ?p)"
    using memory_redis.redis_server_axioms plain_codec_ok
    by (simp_all add: takes_all_def mem_api_def[THEN arg_cong[where f = rd_xadd]] mem_api_def[THEN arg_cong[where f = rd_script]]
        mem_xadd_def Let_def split: prod.split)
  have q: "rq_client (pr_queue ?p)" "rq_script (pr_queue ?p)" by (simp_all add: sample_queue_def)
  have st: "pr_storage ?p = local_storage mem_files [''srv'', ''uploads'']" by simp
  have w: "rely db_steps (worker_world queued_job)" "faults_ok (worker_world queued_job)"
    by (simp_all add: rely_def sample_world_def faults_ok_def)
  have ev: "ev_event_version (de_event (sample_delivery 1)) = EVENT_VERSION" "w_redis ?v = w_redis w'"
    by (simp_all add: sample_event_def EVENT_VERSION_def)
  have n: "queue_stream sample_queue = ''document-processing''" "queue_group sample_queue = ''document-workers''"
    "ev_attempt sample_event = 0"
    by (simp_all add: queue_stream_def queue_group_def sample_queue_def default_settings_def sample_event_def)
  from scheduled_retry_is_republished[OF server q st w w' ev line] show ?thesis
  proof (elim exE conjE)
    fix e i and v' :: "(mem_redis, nat, mem_fs) world"
    assume e: "ev_job_id e = ev_job_id (de_event (sample_delivery 1))"
        "ev_attempt e = ev_attempt (de_event (sample_delivery 1)) + 1"
        "i \<in> mem_outstanding (queue_stream (pr_queue ?p)) (queue_group (pr_queue ?p)) (w_redis v')"
        "mem_zset (retry_key (pr_queue ?p)) (w_redis v') (ev_dump (pr_codec ?p) e) = None"
    have "ev_job_id e = ''job''" using e(1) by simp
    moreover have "ev_attempt e = 1" using e(2) n(3) by simp
    moreover have "i \<in> mem_outstanding ''document-processing'' ''document-workers'' (w_redis v')"
      using e(3) by (simp only: n sample_processor_fields)
    moreover have "mem_zset (retry_key sample_queue) (w_redis v') (plain_dump e) = None"
      using e(4) by (simp only: sample_processor_fields plain_codec_def event_codec.simps)
    ultimately show ?thesis by (intro exI conjI)
  qed
qed

end
