(* ===== verification/Crash_Recovery.thy ===== *)
theory Crash_Recovery
  imports Worker_Properties
begin

text \<open>
  What becomes of the job of a worker that died: the recovery sweep reclaims its message after
  \<^verbatim>\<open>pending_min_idle_ms\<close>, a minute by default, but the row may be claimed again only after
  \<^verbatim>\<open>stale_processing_seconds\<close>, ten minutes by default.
\<close>

text \<open>A job in processing under a claim that is not stale is not claimed.\<close>

lemma fresh_claim_skipped:
  assumes "quiet w" and "db_ok (w_db w)" and "find_job (ev_job_id (de_event d)) (w_db w) = Some j"
    and "job_status j = PROCESSING" and "job_started_at j = Some t"
    and "fst (utcnow w) - stale_processing_seconds (pr_settings p) * microseconds_per_second \<le> t"
  shows "\<exists>w'. process p d w = (Inr OutSkipped, w') \<and> same_outside w w' \<and> w_db w' = w_db w"
proof -
  obtain now w1 where u: "utcnow w = (now, w1)" by fastforce
  have "\<not> claim_condition (ev_job_id (de_event d))
      (now - stale_processing_seconds (pr_settings p) * microseconds_per_second) j"
    using assms(4-6) u by (simp add: claim_condition_def claimable_statuses_def)
  with quiet_claim_job[OF assms(1,2) u] assms(3)
  have "process p d w = (Inr OutSkipped, w1)" by (simp add: process_def Let_def)
  with utcnow_frame[OF u] show ?thesis by auto
qed

text \<open>
  C39. The recovery sweep drops the job of a worker that died, when it finds the message before the claim has
  gone stale: the message is reclaimed, the row is in \<open>PROCESSING\<close> with a start time inside
  \<^verbatim>\<open>stale_processing_seconds\<close>, so processing answers \<open>SKIPPED\<close> and the message is acknowledged like any other.
  The sweep reports success and has changed nothing but the acknowledgement: the row still says \<open>PROCESSING\<close>,
  no message is left that would bring it to a worker once the claim is stale, and a manual retry is refused.
  With the default settings the first sweep that finds the message idle for a minute does this, nine minutes
  before the claim goes stale.
\<close>

theorem crashed_job_is_dropped:
  assumes "claim_stale (pr_redis (sc_processor c)) (pr_codec (sc_processor c)) (sc_queue c) (sc_consumer_name c) w =
      (Inr [d], w1)"
    and "quiet w" and "db_ok (w_db w)"
    and "find_job (ev_job_id (de_event d)) (w_db w) = Some j" and "job_status j = PROCESSING" and "job_started_at j = Some t"
    and "fst (utcnow w1) - stale_processing_seconds (pr_settings (sc_processor c)) * microseconds_per_second \<le> t"
    and "rq_client (sc_queue c)"
    and "rd_xack (pr_redis (sc_processor c)) (queue_stream (sc_queue c)) (queue_group (sc_queue c)) (de_message_id d)
      (w_redis w1) = (Inr u, r)"
  shows "\<exists>w2. recover c w = (Inr (), c\<lparr>sc_processed := sc_processed c + 1\<rparr>, w2) \<and>
    w_redis w2 = r \<and> w_db w2 = w_db w \<and>
    (job_status (sess_job s) = PROCESSING \<longrightarrow>
       reset_for_manual_retry True s v = (Inl (invalid_transition PROCESSING QUEUED), s, v))"
proof -
  have same: "redis_only w w1" by (rule claim_stale_frame[OF assms(1)])
  have w1: "quiet w1" "w_db w1 = w_db w"
    using same assms(2) by (auto simp: redis_only_def quiet_def)
  obtain w' where p: "process (sc_processor c) d w1 = (Inr OutSkipped, w')" "same_outside w1 w'" "w_db w' = w_db w1"
    using fresh_claim_skipped[of w1 d j t "sc_processor c"] assms(3-7) w1 by auto
  then have "w_redis w' = w_redis w1" by (simp add: same_outside_def)
  then have a: "ack (pr_redis (sc_processor c)) (sc_queue c) (de_message_id d) w' = (Inr (), w'\<lparr>w_redis := r\<rparr>)"
    using assms(8,9) by (simp add: ack_def with_client_connected as_queue_error_def)
  have "recover c w = (Inr (), c\<lparr>sc_processed := sc_processed c + 1\<rparr>, w'\<lparr>w_redis := r\<rparr>)"
    using assms(1) p a by (simp add: recover_def handle_def)
  moreover have "job_status (sess_job s) = PROCESSING \<Longrightarrow>
      reset_for_manual_retry True s v = (Inl (invalid_transition PROCESSING QUEUED), s, v)"
    by (simp add: reset_for_manual_retry_def ensure_transition_allowed_def is_transition_allowed_def)
  ultimately show ?thesis using p(3) w1(2) by auto
qed

text \<open>The reclaimed message of the sample server, and the server once it is acknowledged.\<close>

definition reclaimed_redis :: "string \<Rightarrow> mem_redis" where
  "reclaimed_redis name = set_group (queue_stream sample_queue) (queue_group sample_queue)
     \<lparr>grp_unread = [], grp_pending =
        [\<lparr>pe_id = ''8'', pe_fields = to_stream_fields plain_codec sample_event, pe_consumer = name,
          pe_delivered = 3, pe_since = 100000\<rparr>]\<rparr> pending_redis"

lemma reclaim_pending:
  "claim_stale mem_api plain_codec sample_queue name (sample_world pending_redis p f d t) =
     (Inr [\<lparr>de_message_id = ''8'', de_event = sample_event, de_delivery_count = 3\<rparr>],
      sample_world (reclaimed_redis name) p f d t)"
proof -
  have "rq_client sample_queue" "redis_read_count (rq_settings sample_queue) = 1"
    "pending_min_idle_ms (rq_settings sample_queue) = 60000"
    by (simp_all add: sample_queue_def default_settings_def)
  then show ?thesis
    by (simp add: claim_stale_def with_client_def redis_call_def mem_api_def mem_xpending_range_def mem_xclaim_def
        pending_redis_def idle_enough_def dict_of_def publish_decode_roundtrip_event reclaimed_redis_def)
qed

lemma ack_reclaimed:
  "\<exists>r. mem_xack (queue_stream sample_queue) (queue_group sample_queue) ''8'' (reclaimed_redis name) = (Inr (), r) \<and>
     mem_outstanding (queue_stream sample_queue) (queue_group sample_queue) r = {}"
  by (simp add: mem_xack_def reclaimed_redis_def mem_outstanding_def set_group_def)

text \<open>
  The sample job was claimed in the first second by a worker that died. After a hundred seconds, with the
  default settings, the sweep of another worker finds its message, and afterwards none is left.
\<close>

lemma crashed_job_is_dropped_witness:
  "\<exists>c w2. recover (sample_consumer (Inr sample_output))
       (sample_world pending_redis 0 sample_files (sample_db processing_job) 100000000) = (Inr (), c, w2) \<and>
     w_db w2 = sample_db processing_job \<and>
     mem_outstanding (queue_stream sample_queue) (queue_group sample_queue) (w_redis w2) = {}"
proof -
  let ?c = "sample_consumer (Inr sample_output)"
  let ?w = "\<lambda>r. sample_world r (0 :: nat) sample_files (sample_db processing_job) 100000000"
  let ?d = "\<lparr>de_message_id = ''8'', de_event = sample_event, de_delivery_count = 3\<rparr>"
  note r1 = reclaim_pending[of "sc_consumer_name ?c" "0 :: nat" sample_files "sample_db processing_job" 100000000]
  obtain r2 where a: "mem_xack (queue_stream sample_queue) (queue_group sample_queue) ''8''
      (reclaimed_redis (sc_consumer_name ?c)) = (Inr (), r2)"
    and o2: "mem_outstanding (queue_stream sample_queue) (queue_group sample_queue) r2 = {}"
    using ack_reclaimed by blast
  have j: "find_job (ev_job_id (de_event ?d)) (w_db (?w pending_redis)) = Some processing_job"
    "job_status processing_job = PROCESSING" "job_started_at processing_job = Some 1000000"
    by (simp_all add: sample_event_def)
  have t: "fst (utcnow (?w (reclaimed_redis (sc_consumer_name ?c)))) - stale_processing_seconds (pr_settings (sc_processor ?c)) * microseconds_per_second \<le> 1000000"
    by (simp add: default_settings_def)
  let ?p = "sc_processor ?c" and ?q = "sc_queue ?c" and ?w1 = "?w (reclaimed_redis (sc_consumer_name ?c))"
  have cl: "claim_stale (pr_redis ?p) (pr_codec ?p) ?q (sc_consumer_name ?c) (?w pending_redis) = (Inr [?d], ?w1)"
    using r1 by simp
  have x: "rd_xack (pr_redis ?p) (queue_stream ?q) (queue_group ?q) (de_message_id ?d) (w_redis ?w1) = (Inr (), r2)"
    using a by (simp add: mem_api_def)
  have q: "quiet (?w pending_redis)" "db_ok (w_db (?w pending_redis))" "rq_client ?q"
    by (simp_all add: sample_queue_def)
  obtain w2 where w2: "recover ?c (?w pending_redis) = (Inr (), ?c\<lparr>sc_processed := sc_processed ?c + 1\<rparr>, w2)"
    "w_redis w2 = r2" "w_db w2 = w_db (?w pending_redis)"
    using crashed_job_is_dropped[OF cl q(1,2) j t q(3) x, where s = "open_session processing_job None None"
        and v = "?w pending_redis"] by (elim exE conjE) (rule that)
  have "w_db w2 = sample_db processing_job" using w2(3) by simp
  moreover have "mem_outstanding (queue_stream sample_queue) (queue_group sample_queue) (w_redis w2) = {}"
    by (simp only: w2(2) o2)
  ultimately show ?thesis using w2(1) by blast
qed

end
