(* ===== verification/Duplicate_Result.thy ===== *)
theory Duplicate_Result
  imports End_To_End
begin

text \<open>
  A job that is processed although it already has a result, as happens after a stale worker has overwritten
  a completed job with \<open>FAILED\<close> and the job has been re-queued by hand.
\<close>

section \<open>A result that is refused\<close>

lemma duplicate_is_refused:
  assumes "find_job (job_id l) d = Some l" and "res_job_id r = job_id l" and "find_result (job_id l) d \<noteq> None"
    and "result_fits r" and "job_status l = PROCESSING"
  shows "flush_completed v t l r d = Inl integrity_error"
proof -
  have "job_status (completed_job t l) \<noteq> job_status l" using assms(5) by simp
  then have "completed_job t l \<noteq> l" by metis
  then obtain d' where d': "flush_job v l (completed_job t l) d = Inr d'" "db_results d' = db_results d"
    using assms(1) by (simp add: flush_job_same_keys)
  have "res_job_id r \<in> res_job_id ` set (db_results d')" using assms(2,3) d'(2) by (simp add: find_result_mem)
  then show ?thesis using d'(1) assms(4) by (simp add: flush_completed_def insert_result_def)
qed

text \<open>The commit fails as a whole, is rolled back, and nothing of it stays.\<close>

lemma quiet_persist_duplicate:
  assumes "quiet w" and "current s (w_db w)" and "job_status (sess_loaded s) = PROCESSING"
    and "find_result (job_id (sess_loaded s)) (w_db w) \<noteq> None" and "storable p out body"
  shows "\<exists>s' w'. persist p out body s w =
      ((case pr_expired_read p of None \<Rightarrow> Inr () | Some e \<Rightarrow> Inl e), s', w') \<and>
    sess_loaded s' = sess_loaded s \<and> quiet w' \<and> w_db w' = w_db w"
proof -
  obtain rid w1 where u: "uuid4 w = (rid, w1)" by fastforce
  obtain now w2 where n: "utcnow w1 = (now, w2)" by fastforce
  obtain t w3 where t: "utcnow w2 = (t, w3)" by fastforce
  obtain v w4 where v: "utcnow w3 = (v, w4)" by fastforce
  let ?l = "sess_loaded s"
  let ?rec = "new_result rid now (job_id ?l) out
      (fst (Text_Extraction.truncate body (raw_text_store_max_chars (pr_settings p))))"
  let ?s2 = "(session_add ?rec s)\<lparr>sess_job := completed_job t ?l\<rparr>"
  have l: "sess_job s = ?l" "sess_new s = []" "find_job (job_id ?l) (w_db w) = Some ?l"
    using assms(2) by (auto simp: current_def fresh_def)
  have sd: "same_db w w4" using u n t v same_db_steps(1,2) same_db_trans by metis
  then have q: "quiet w4" "w_db w4 = w_db w" using quiet_same_db assms(1) by (auto simp: same_db_def)
  have "flush v ?s2 (w_db w4) = Inl integrity_error"
    using duplicate_is_refused[OF l(3) _ assms(4), of ?rec v t] assms(3,5) q(2)
      flush_one_result[of ?s2 ?l t ?rec v "w_db w4"]
    by (simp add: session_add_def l(2) new_result_def result_fits_def storable_def output_fits_def)
  then have c: "session_commit ?s2 w3 = (Inl integrity_error, ?s2, w4)"
    using q by (simp add: session_commit_def v)
  have m: "mark_completed False (session_add ?rec s) w2 = (Inr (), ?s2, w3)"
    using assms(3) t l(1)
    by (simp add: mark_completed_def commit_if_def session_add_def ensure_transition_allowed_def
        is_transition_allowed_def)
  have "is_foreign_instance integrity_error INTEGRITY_ERROR" by (simp add: integrity_error_def INTEGRITY_ERROR_def)
  then show ?thesis using u n m c q l(1)
    by (simp add: persist_def Let_def session_rollback_def session_add_def split: option.split)
qed

lemma quiet_failure_is_final:
  assumes "quiet w" and "find_job (job_id (sess_loaded s)) (w_db w) = Some (sess_loaded s)"
    and "job_status (sess_loaded s) = PROCESSING"
    and "\<not> should_retry x (job_retry_count (sess_loaded s)) (job_max_retries (sess_loaded s))"
  shows "\<exists>t w'. handle_failure p s e x w = (Inr OutFailed, w') \<and>
    row_is (w_db w') (failed_job t (describe x) (sess_loaded s)) \<and> db_results (w_db w') = db_results (w_db w)"
proof -
  obtain s1 s2 where r: "session_rollback s w = (Inr (), s1, w)" "session_refresh s1 w = (Inr (), s2, w)"
    "current s2 (w_db w)" "sess_loaded s2 = sess_loaded s" using quiet_recover[OF assms(1,2)] by blast
  have "sess_job s2 = sess_loaded s" using r(3,4) by (simp add: current_def fresh_def)
  then have "handle_failure p s e x w = fail_job (describe x) s2 w"
    using assms(4) r by (simp add: handle_failure_def)
  with quiet_fail_job[OF assms(1) r(3), of "describe x"] assms(3) r(4) show ?thesis by auto
qed

section \<open>The outcome\<close>

text \<open>
  C28. A job that already has a result never becomes completed again. The commit of the second result is
  refused and undone, the stored result stays, and then one of two things is wrong. If the log call
  after the rollback can still read the expired row, processing reports \<open>COMPLETED\<close> and the entry is
  acknowledged, while the row stays \<open>PROCESSING\<close>: no delivery is left to take it over and a manual retry
  is refused. If reading it raises (a failure that is not retried), the job is \<open>FAILED\<close> with that error.
\<close>

theorem duplicate_result_never_completes:
  assumes "quiet w" and "db_ok (w_db w)" and "pr_storage p = local_storage fs base"
    and "claim_job (ev_job_id (de_event m)) (pr_consumer_name p)
      (stale_processing_seconds (pr_settings p)) w = (Inr (Some s), w1)"
    and "de_delivery_count m \<le> max_delivery_count (pr_settings p)"
    and "produce p s (de_event m) w1 = (Inr (out, body), w2)" and "storable p out body"
    and "find_result (ev_job_id (de_event m)) (w_db w) \<noteq> None"
    and "\<forall>x. pr_expired_read p = Some x \<longrightarrow>
      \<not> should_retry x (job_retry_count (sess_loaded s)) (job_max_retries (sess_loaded s))"
  shows "\<exists>w' t. db_results (w_db w') = db_results (w_db w) \<and>
    (case pr_expired_read p of
       None \<Rightarrow> process p m w = (Inr OutCompleted, w') \<and> row_is (w_db w') (sess_loaded s) \<and>
         job_status (sess_loaded s) = PROCESSING
     | Some x \<Rightarrow> process p m w = (Inr OutFailed, w') \<and> row_is (w_db w') (failed_job t (describe x) (sess_loaded s)))"
proof -
  note c = quiet_claimed[OF assms(1,2,4)]
  have sd: "same_db w1 w2" using produce_same_db[OF assms(6) reads_only_local[OF assms(3)]] .
  then have q: "quiet w2" "w_db w2 = w_db w1" using quiet_same_db c(1) by (auto simp: same_db_def)
  have cur: "current s (w_db w2)" using c(2) q(2) by simp
  have "find_result (job_id (sess_loaded s)) (w_db w2) \<noteq> None"
    using assms(8) c(5,7) q(2) by (simp add: find_result_def)
  from quiet_persist_duplicate[OF q(1) cur c(6) this assms(7)]
  obtain s' w' where ps: "persist p out body s w2 =
      ((case pr_expired_read p of None \<Rightarrow> Inr () | Some e \<Rightarrow> Inl e), s', w')"
    "sess_loaded s' = sess_loaded s" "quiet w'" "w_db w' = w_db w2" by blast
  have row: "find_job (job_id (sess_loaded s)) (w_db w') = Some (sess_loaded s)"
    using cur ps(4) by (simp add: current_def)
  have res: "db_results (w_db w') = db_results (w_db w)" using ps(4) q(2) c(7) by simp
  show ?thesis
  proof (cases "pr_expired_read p")
    case None
    have "row_is (w_db w') (sess_loaded s)"
      unfolding row_is_def by (rule exI[of _ "job_updated_at (sess_loaded s)"]) (simp add: row)
    moreover have "process p m w = (Inr OutCompleted, w')"
      using assms(4-6) ps(1) None by (simp add: process_def Let_def run_def)
    ultimately show ?thesis using None res c(6) by auto
  next
    case (Some x)
    obtain t w3 where "handle_failure p s' (de_event m) x w' = (Inr OutFailed, w3)"
      "row_is (w_db w3) (failed_job t (describe x) (sess_loaded s))" "db_results (w_db w3) = db_results (w_db w')"
      using quiet_failure_is_final[OF ps(3), of s' x p "de_event m"] row ps(2) c(6) assms(9) Some by auto
    moreover from this have "process p m w = (Inr OutFailed, w3)"
      using assms(4-6) ps(1) Some by (simp add: process_def Let_def run_def)
    ultimately show ?thesis using Some res by auto
  qed
qed

text \<open>The note of the sample upload, delivered while its job already has a result.\<close>

definition note_result :: extraction_result where
  "note_result = sample_result\<lparr>res_job_id := ''id2''\<rparr>"

definition extracted_world :: "(mem_redis, unit, mem_fs) world" where
  "extracted_world = uploaded_world\<lparr>w_db := (w_db uploaded_world)\<lparr>db_results := [note_result]\<rparr>\<rparr>"

lemma duplicate_result_never_completes_witness:
  "\<exists>w'. process (sc_processor note_consumer) note_delivery extracted_world = (Inr OutCompleted, w') \<and>
     db_results (w_db w') = [note_result] \<and>
     (\<exists>j. find_job ''id2'' (w_db w') = Some j \<and> job_status j = PROCESSING)"
proof -
  let ?p = "sc_processor note_consumer" and ?w = extracted_world
  have w: "quiet ?w" "db_ok (w_db ?w)"
    by (simp_all add: extracted_world_def uploaded_world_def upload_world_def quiet_def sample_world_def db_ok_def
        note_job_def new_job_def note_document_def new_document_def note_result_def sample_result_def)
  have j: "find_job ''id2'' (w_db ?w) = Some note_job" "job_status note_job \<in> {QUEUED, RETRYING}"
    "find_document (job_document_id note_job) (w_db ?w) = Some note_document" "w_files ?w = w_files uploaded_world"
    by (simp_all add: extracted_world_def uploaded_world_def find_job_def find_document_def note_job_def new_job_def
        note_document_def new_document_def)
  obtain s w1 where c: "claim_job ''id2'' ''worker'' (stale_processing_seconds default_settings) ?w = (Inr (Some s), w1)"
    and s: "sess_document s = Some note_document" "w_files w1 = w_files ?w"
    by (rule quiet_claim_waiting[OF w j(1,2) _ j(3), of "''worker''" "stale_processing_seconds default_settings"]) (simp, rule that)
  have b: "key_object mem_files (\<lambda>f. f) [''srv'', ''uploads''] (w_files w1) ''1970/01/01/id0.txt'' = Some [72, 105]"
    using s(2) j(4) by (simp add: uploaded_world_def key_object_def resolve_sample)
  obtain out w2 where p: "produce ?p s note_event w1 = (Inr (out, [72, 105]), w2)" "output_fits out"
    using produce_answers[of ?p "key_object mem_files (\<lambda>f. f) [''srv'', ''uploads'']" w1 note_event "[72, 105]" s
        note_document "[72, 105]"] memory_files.local_backend note_readable instant_answers b s(1) note_text
    by (auto simp: note_consumer_fields note_event_def)
  have e: "de_event note_delivery = note_event" "ev_job_id note_event = ''id2''" by (simp_all add: note_delivery_def note_event_def)
  have st: "storable ?p out [72, 105]"
    using p(2) by (simp add: storable_def pg_text_truncate)
  have r: "find_result ''id2'' (w_db ?w) \<noteq> None" "db_results (w_db ?w) = [note_result]"
    by (simp_all add: extracted_world_def find_result_def note_result_def)
  have x: "pr_expired_read ?p = None" by (simp add: note_consumer_def new_consumer_def)
  have m: "1 \<le> max_delivery_count default_settings" by (simp add: default_settings_def)
  obtain w' where "process ?p note_delivery ?w = (Inr OutCompleted, w')" "db_results (w_db w') = [note_result]"
    "row_is (w_db w') (sess_loaded s)" "job_status (sess_loaded s) = PROCESSING"
    using duplicate_result_never_completes[OF w, of ?p mem_files "[''srv'', ''uploads'']" note_delivery s w1 out "[72, 105]" w2]
      c p(1) st e r x m by (auto simp: note_consumer_fields uploaded_fields)
  moreover have "job_id (sess_loaded s) = ''id2''" by (rule quiet_claimed(5)[OF w c])
  ultimately show ?thesis by (auto simp: row_is_def)
qed

end
