(* ===== verification/Llm_Properties.thy ===== *)
theory Llm_Properties
  imports Llm
begin

text \<open>
  What the OpenAI provider returns, given what pydantic and the client library document: a validated
  value satisfies its schema, and a parsed instance is one of the schema's class.
\<close>

section \<open>What the libraries promise\<close>

definition pydantic_ok :: "pydantic \<Rightarrow> bool" where
  "pydantic_ok pyd \<longleftrightarrow>
     (\<forall>s v v'. pyd_validate pyd s v = Some v' \<longrightarrow> conforms (FModel s) v') \<and>
     (\<forall>s t v'. pyd_validate_json pyd s t = Some v' \<longrightarrow> conforms (FModel s) v')"

definition client_ok :: "'c openai_client \<Rightarrow> bool" where
  "client_ok oc \<longleftrightarrow>
     (\<forall>model ms s temp c r c'. oc_parse oc model ms s temp c = (Inr r, c') \<longrightarrow>
        (\<forall>m \<in> set (cp_choices r). \<forall>cls v. cm_parsed m = Some (Instance cls v) \<longrightarrow> conforms (FModel cls) v))"

lemma conforms_fields_get:
  "conforms_fields fs kvs \<Longrightarrow> map_of fs k = Some t \<Longrightarrow> \<exists>v. map_of kvs k = Some v \<and> conforms t v"
  by (induction fs arbitrary: kvs) (auto split: list.splits prod.splits if_splits)

lemma conforms_model_get:
  assumes "conforms (FModel fs) v" and "map_of fs k = Some t"
  shows "\<exists>x. json_get k v = Some x \<and> conforms t x"
  using assms conforms_fields_get by (auto simp: json_get_def split: json.splits)

lemma parsed_model_conforms:
  assumes "pydantic_ok pyd" and "parsed_model pyd r s = Some v"
    and "\<forall>m \<in> set (cp_choices r). \<forall>cls v. cm_parsed m = Some (Instance cls v) \<longrightarrow> conforms (FModel cls) v"
  shows "conforms (FModel s) v"
proof (cases "cp_choices r")
  case Nil
  with assms(2) show ?thesis by (simp add: parsed_model_def)
next
  case (Cons m ms)
  note p = assms(1)[unfolded pydantic_ok_def]
  have i: "cm_parsed m = Some (Instance cls v') \<Longrightarrow> conforms (FModel cls) v'" for cls v'
    using assms(3) Cons by simp
  from assms(2) Cons have "(\<exists>v'. cm_parsed m = Some (Instance s v') \<and> v = v') \<or>
      (\<exists>v'. pyd_validate pyd s v' = Some v) \<or> (\<exists>t. pyd_validate_json pyd s t = Some v)"
    by (auto simp: parsed_model_def split: if_splits option.splits parsed_value.splits)
  then show ?thesis using p i by blast
qed

lemma complete_Inr:
  assumes "complete oc op ms s operation c = (Inr r, c')"
  shows "oc_parse oc (op_model op) ms s (op_temperature op) c = (Inr r, c')"
  using assms by (auto simp: complete_def split: prod.splits sum.splits)

lemma complete_state: "snd (complete oc op ms s operation c) = snd (oc_parse oc (op_model op) ms s (op_temperature op) c)"
  by (auto simp: complete_def split: prod.splits sum.splits)

text \<open>One call, or two of which the second asks for a repair.\<close>

definition client_calls ::
  "'c openai_client \<Rightarrow> openai_provider \<Rightarrow> chat_message list \<Rightarrow> schema \<Rightarrow> 'c \<Rightarrow> 'c \<Rightarrow> bool" where
  "client_calls oc op ms s c c' \<longleftrightarrow>
     c' = snd (oc_parse oc (op_model op) ms s (op_temperature op) c) \<or>
     (\<exists>answer. c' = snd (oc_parse oc (op_model op) (ms @ [(AssistantRole, answer), (UserRole, codes repair_user_message)]) s
        (op_temperature op) (snd (oc_parse oc (op_model op) ms s (op_temperature op) c))))"

lemma parse_sound:
  assumes "pydantic_ok pyd" and "client_ok oc" and "parse oc pyd op ms s operation c = (r, c')"
  shows "client_calls oc op ms s c c' \<and> (\<forall>v u. r = Inr (v, u) \<longrightarrow> conforms (FModel s) v)"
proof -
  have good: "conforms (FModel s) v"
    if "complete oc op ms' s operation c0 = (Inr x, c1)" "parsed_model pyd x s = Some v" for ms' c0 x c1 v
    using parsed_model_conforms[OF assms(1) that(2)]
      assms(2)[unfolded client_ok_def, rule_format, OF complete_Inr[OF that(1)]] by blast
  obtain x1 c1 where 1: "complete oc op ms s operation c = (x1, c1)" by fastforce
  have s1: "snd (oc_parse oc (op_model op) ms s (op_temperature op) c) = c1"
    using complete_state[of oc op ms s operation c] 1 by simp
  show ?thesis
  proof (cases "\<exists>f. x1 = Inr f \<and> parsed_model pyd f s = None")
    case False
    then have "c' = c1 \<and> (\<forall>v u. r = Inr (v, u) \<longrightarrow> (\<exists>f. x1 = Inr f \<and> parsed_model pyd f s = Some v))"
      using assms(3) 1 by (auto simp: parse_def split: sum.splits option.splits)
    with s1 1 good show ?thesis by (auto simp: client_calls_def)
  next
    case True
    then obtain f where f: "x1 = Inr f" "parsed_model pyd f s = None" by blast
    let ?ms = "ms @ [(AssistantRole, assistant_text f), (UserRole, codes repair_user_message)]"
    obtain x2 c2 where 2: "complete oc op ?ms s operation c1 = (x2, c2)" by fastforce
    have "c' = c2 \<and> (\<forall>v u. r = Inr (v, u) \<longrightarrow> (\<exists>g. x2 = Inr g \<and> parsed_model pyd g s = Some v))"
      using assms(3) 1 2 f by (auto simp: parse_def split: sum.splits option.splits)
    moreover have "snd (oc_parse oc (op_model op) ?ms s (op_temperature op) c1) = c2"
      using complete_state[of oc op ?ms s operation c1] 2 by simp
    ultimately show ?thesis using s1 2 good by (auto simp: client_calls_def)
  qed
qed

lemma schema_scores:
  "map_of (SCHEMA_REGISTRY t) ''confidence_score'' = Some FUnit"
  "map_of DocumentClassification ''confidence_score'' = Some FUnit"
  "map_of DocumentClassification ''document_type'' = Some FDocumentType"
  by (cases t) (simp_all add: schema_defs)

lemma score_unit:
  assumes "conforms (FModel s) v" and "map_of s ''confidence_score'' = Some FUnit"
  shows "\<exists>x. (case json_get ''confidence_score'' v of None \<Rightarrow> None | Some w \<Rightarrow> json_float w) = Some x \<and> 0 \<le> x \<and> x \<le> 1"
proof -
  obtain w where w: "json_get ''confidence_score'' v = Some w" "conforms FUnit w"
    using conforms_model_get[OF assms] by blast
  then obtain x where "w = JFloat x" "0 \<le> x" "x \<le> 1" by (cases w) simp_all
  with w(1) show ?thesis by (simp add: json_float_def)
qed

lemma known_type:
  assumes "conforms (FModel DocumentClassification) v"
  shows "\<exists>s t. json_get ''document_type'' v = Some (JStr s) \<and> document_type_of_value (map char_of s) = Some t"
proof -
  obtain w where w: "json_get ''document_type'' v = Some w" "conforms FDocumentType w"
    using conforms_model_get[OF assms schema_scores(3)] by blast
  from w(2) obtain s where s: "w = JStr s" "\<exists>t. codes (document_type_value t) = s"
    by (cases w) (auto simp: list_ex_iff)
  then obtain t where t: "s = codes (document_type_value t)" by blast
  have "map char_of s = document_type_value t" by (simp add: t codes_def comp_def)
  moreover have "document_type_of_value (document_type_value t) = Some t"
    by (cases t) (simp_all add: document_type_of_value_def document_type_members_def)
  ultimately show ?thesis using w(1) s(1) by auto
qed

lemma complete_validation_error:
  assumes "complete oc op ms s operation c = (Inl validation_error, c')"
  shows "fst (oc_parse oc (op_model op) ms s (op_temperature op) c) = Inl validation_error"
  using assms
  by (auto simp: complete_def map_openai_error_def Let_def validation_error_def split: prod.splits sum.splits if_splits)

lemma parse_validation_error:
  assumes "parse oc pyd op ms s operation c = (Inl validation_error, c')"
  shows "\<exists>ms' c0. fst (oc_parse oc (op_model op) ms' s (op_temperature op) c0) = Inl validation_error"
proof -
  have "\<exists>ms' c0 c1. complete oc op ms' s operation c0 = (Inl validation_error, c1)"
    using assms by (auto simp: parse_def validation_error_def split: prod.splits sum.splits option.splits)
  then obtain ms' c0 c1 where "complete oc op ms' s operation c0 = (Inl validation_error, c1)" by blast
  from complete_validation_error[OF this] show ?thesis by blast
qed

text \<open>
  C37. The OpenAI provider returns only validated results and gives up after one repair: whatever the
  model answers, an extraction that is returned satisfies the schema of the requested type, both outputs
  carry a confidence between 0 and 1, a classification never fails on a validated answer (a validation
  error can only be one the client raised itself), and the client
  is called once, or once more with the answer and a request to correct it.
\<close>

theorem openai_output_validated:
  assumes "pydantic_ok pyd" and "client_ok oc"
  shows "(openai_extract oc pyd op text t c = (r, c1) \<longrightarrow>
      client_calls oc op (extraction_messages text t) (SCHEMA_REGISTRY t) c c1 \<and>
      (\<forall>e. r = Inr e \<longrightarrow> eo_document_type e = t \<and> conforms (FModel (SCHEMA_REGISTRY t)) (eo_data e) \<and>
        (\<exists>x. eo_confidence_score e = Some x \<and> 0 \<le> x \<and> x \<le> 1))) \<and>
    (openai_classify oc pyd op text c = (k, c2) \<longrightarrow>
      client_calls oc op (classification_messages text) DocumentClassification c c2 \<and>
      (k = Inl validation_error \<longrightarrow>
        (\<exists>ms c0. fst (oc_parse oc (op_model op) ms DocumentClassification (op_temperature op) c0) = Inl validation_error)) \<and>
      (\<forall>q. k = Inr q \<longrightarrow> (\<exists>x. co_confidence_score q = Some x \<and> 0 \<le> x \<and> x \<le> 1)))"
proof (intro conjI[of "_ \<longrightarrow> _"] impI)
  assume e: "openai_extract oc pyd op text t c = (r, c1)"
  obtain y c' where y: "parse oc pyd op (extraction_messages text t) (SCHEMA_REGISTRY t) ''extract'' c = (y, c')"
    by fastforce
  note p = parse_sound[OF assms y]
  from e y p score_unit[OF _ schema_scores(1)]
  show "client_calls oc op (extraction_messages text t) (SCHEMA_REGISTRY t) c c1 \<and>
      (\<forall>e. r = Inr e \<longrightarrow> eo_document_type e = t \<and> conforms (FModel (SCHEMA_REGISTRY t)) (eo_data e) \<and>
        (\<exists>x. eo_confidence_score e = Some x \<and> 0 \<le> x \<and> x \<le> 1))"
    by (cases y) (auto simp: openai_extract_def)
next
  assume e: "openai_classify oc pyd op text c = (k, c2)"
  obtain y c' where y: "parse oc pyd op (classification_messages text) DocumentClassification ''classify'' c = (y, c')"
    by fastforce
  note p = parse_sound[OF assms y]
  show "client_calls oc op (classification_messages text) DocumentClassification c c2 \<and>
      (k = Inl validation_error \<longrightarrow>
        (\<exists>ms c0. fst (oc_parse oc (op_model op) ms DocumentClassification (op_temperature op) c0) = Inl validation_error)) \<and>
      (\<forall>q. k = Inr q \<longrightarrow> (\<exists>x. co_confidence_score q = Some x \<and> 0 \<le> x \<and> x \<le> 1))"
  proof (cases y)
    case (Inl x)
    with e y p parse_validation_error[of oc pyd op "classification_messages text" DocumentClassification "''classify''" c c']
    show ?thesis by (auto simp: openai_classify_def)
  next
    case (Inr vu)
    obtain v u where vu: "vu = (v, u)" by fastforce
    have v: "conforms (FModel DocumentClassification) v" using p Inr vu by blast
    obtain s t' where s: "json_get ''document_type'' v = Some (JStr s)" "document_type_of_value (map char_of s) = Some t'"
      using known_type[OF v] by blast
    obtain x where x: "(case json_get ''confidence_score'' v of None \<Rightarrow> None | Some w \<Rightarrow> json_float w) = Some x"
      "0 \<le> x" "x \<le> 1" using score_unit[OF v schema_scores(2)] by blast
    have "k = Inr \<lparr>co_document_type = t', co_input_tokens = usage_input u, co_output_tokens = usage_output u,
        co_confidence_score = Some x\<rparr>" "c2 = c'"
      using e y Inr vu s x(1) by (simp_all add: openai_classify_def)
    with p x show ?thesis by simp
  qed
qed

section \<open>A pydantic that checks the declared shape\<close>

definition checking_pydantic :: pydantic where
  "checking_pydantic =
     \<lparr>pyd_validate = (\<lambda>s v. if conforms (FModel s) v then Some v else None),
      pyd_validate_json = (\<lambda>s t. None)\<rparr>"

definition raw_client :: "json \<Rightarrow> nat openai_client" where
  "raw_client v =
     \<lparr>oc_parse = (\<lambda>model ms s temp n. (Inr \<lparr>cp_choices = [\<lparr>cm_refusal = None, cm_parsed = Some (Raw v), cm_content = None\<rparr>],
        cp_usage = None\<rparr>, Suc n)),
      oc_close = (\<lambda>n. (Inr (), n)), oc_status = (\<lambda>e. None)\<rparr>"

lemma openai_output_validated_witness:
  "fst (openai_classify (raw_client (JObj [(''document_type'', jstr ''memo''), (''confidence_score'', JFloat 1)]))
      checking_pydantic \<lparr>op_model = ''m'', op_temperature = 0\<rparr> [72, 105] 0) \<noteq> Inl validation_error"
proof -
  let ?oc = "raw_client (JObj [(''document_type'', jstr ''memo''), (''confidence_score'', JFloat 1)])"
    and ?op = "\<lparr>op_model = ''m'', op_temperature = 0\<rparr> :: openai_provider"
  have "pydantic_ok checking_pydantic" by (simp add: pydantic_ok_def checking_pydantic_def)
  moreover have "client_ok ?oc" by (simp add: client_ok_def raw_client_def)
  moreover obtain k c2 where k: "openai_classify ?oc checking_pydantic ?op [72, 105] 0 = (k, c2)" by fastforce
  ultimately have "k = Inl validation_error \<longrightarrow>
      (\<exists>ms c0. fst (oc_parse ?oc (op_model ?op) ms DocumentClassification (op_temperature ?op) c0) = Inl validation_error)"
    using openai_output_validated[of checking_pydantic ?oc ?op "[72, 105]" GENERIC 0 "Inl validation_error" 0 k c2] by blast
  then show ?thesis using k by (simp add: raw_client_def)
qed

end
