(* ===== verification/Fake_Provider.thy ===== *)
theory Fake_Provider
  imports Llm_Properties Retry_Policy
begin

text \<open>
  What the deterministic provider of \<^verbatim>\<open>app/llm/base.py\<close> returns: a payload of the requested schema for every
  text, but for one kind of invoice.
\<close>

section \<open>The payloads\<close>

lemma snippet_conforms: "snippet body = JNull \<or> conforms FStr (snippet body)"
  by (simp add: snippet_def Let_def)

lemma fake_invoice_conforms: "conforms (FModel InvoiceExtraction) (fake_invoice vendor)"
proof -
  have "iso_date (codes ''2026-01-15'')" "iso_date (codes ''2026-02-15'')"
    by code_simp+
  then show ?thesis by (cases vendor) (simp_all add: fake_invoice_def schema_defs)
qed

lemma fake_resume_conforms: "conforms (FModel ResumeExtraction) (fake_resume body)"
  using snippet_conforms[of body] by (simp add: fake_resume_def schema_defs)

lemma fake_ticket_conforms: "conforms (FModel SupportTicketExtraction) (fake_ticket body)"
  using snippet_conforms[of body] by (simp add: fake_ticket_def schema_defs)

lemma fake_generic_conforms: "conforms (FModel GenericDocumentExtraction) (fake_generic body)"
  using snippet_conforms[of body] by (simp add: fake_generic_def schema_defs)

text \<open>The marker is the last thing in the text: nothing follows it that could be split into lines.\<close>

definition ends_in_marker :: "(unicode \<Rightarrow> unicode) \<Rightarrow> unicode \<Rightarrow> bool" where
  "ends_in_marker ulower body \<longleftrightarrow>
     (case py_find (codes ''vendor:'') (ulower body) of None \<Rightarrow> False | Some i \<Rightarrow> length body \<le> i + 7)"

lemma lower_marker: "lower ''vendor:'' = ''vendor:''"
  by code_simp

lemma find_after_vendor:
  "if ends_in_marker ulower body then find_after ulower body ''vendor:'' = Inl index_error
   else (\<exists>v. find_after ulower body ''vendor:'' = Inr v)"
  by (auto simp: ends_in_marker_def find_after_def lower_marker first_line_def Let_def split: option.split)

text \<open>The payload of every type satisfies its schema and carries the fixed confidence.\<close>

lemma fake_payload_conforms:
  "if t = INVOICE \<and> ends_in_marker ulower body then fake_payload ulower t body = Inl index_error
   else (\<exists>v. fake_payload ulower t body = Inr v \<and> conforms (FModel (SCHEMA_REGISTRY t)) v \<and>
     json_get ''confidence_score'' v = Some (JFloat (3 / 4)))"
proof (cases t)
  case INVOICE
  from find_after_vendor[of ulower body] INVOICE fake_invoice_conforms show ?thesis
    by (auto simp: fake_payload_def fake_invoice_def json_get_def split: if_splits)
qed (use fake_resume_conforms fake_ticket_conforms fake_generic_conforms in
  \<open>simp_all add: fake_payload_def fake_resume_def fake_ticket_def fake_generic_def json_get_def\<close>)

section \<open>The provider\<close>

text \<open>pydantic returns a value that already has the declared shape as it is.\<close>

definition keeps_valid :: "pydantic \<Rightarrow> bool" where
  "keeps_valid pyd \<longleftrightarrow> (\<forall>s v. conforms (FModel s) v \<longrightarrow> pyd_validate pyd s v = Some v)"

text \<open>
  C40. The provider used without an API key is total but for one case: for every type and text it returns a
  payload of the schema of that type, a quarter of the length as token count and the confidence 0.75,
  and counts the call. The exception is an invoice whose text ends in ``vendor:'': \<^verbatim>\<open>splitlines()[0]\<close>
  raises \<^verbatim>\<open>IndexError\<close>, which is not retried, so that document can never be processed.
\<close>

theorem fake_extract_conforms:
  assumes "keeps_valid pyd" and "fk_failures f = []"
  shows "(if t = INVOICE \<and> ends_in_marker ulower body then
       fake_extract ulower pyd body t f = (Inl index_error, f\<lparr>fk_calls := fk_calls f + 1\<rparr>) \<and>
       \<not> is_retryable index_error
     else
       (\<exists>v. fake_extract ulower pyd body t f =
          (Inr \<lparr>eo_document_type = t, eo_data = v, eo_model_provider = ''fake'', eo_model_name = FAKE_MODEL,
                eo_prompt_version = FAKE_PROMPT_VERSION, eo_input_tokens = Some (int (length body) div 4),
                eo_output_tokens = Some 32, eo_confidence_score = Some (3 / 4)\<rparr>,
           f\<lparr>fk_calls := fk_calls f + 1\<rparr>) \<and>
          fake_payload ulower t body = Inr v \<and> conforms (FModel (SCHEMA_REGISTRY t)) v))"
  using fake_payload_conforms[of t ulower body] assms
  by (auto simp: fake_extract_def maybe_fail_def Let_def keeps_valid_def json_float_def index_error_def
      retryable_exceptions_def is_foreign_instance.simps split: if_splits)

text \<open>The text of an uploaded invoice that ends in the marker.\<close>

definition ascii_lower :: "unicode \<Rightarrow> unicode" where
  "ascii_lower = map (\<lambda>c. if 65 \<le> c \<and> c \<le> 90 then c + 32 else c)"

lemma fake_extract_conforms_witness:
  "fst (fake_extract ascii_lower checking_pydantic (codes ''Invoice. Vendor:'') INVOICE new_fake) = Inl index_error \<and>
   (\<exists>out. fst (fake_extract ascii_lower checking_pydantic (codes ''Invoice. Vendor: Acme'') INVOICE new_fake) = Inr out \<and>
      conforms (FModel InvoiceExtraction) (eo_data out))"
proof -
  have p: "keeps_valid checking_pydantic" and f: "fk_failures new_fake = []"
    by (simp_all add: keeps_valid_def checking_pydantic_def new_fake_def)
  have "ends_in_marker ascii_lower (codes ''Invoice. Vendor:'')"
    "\<not> ends_in_marker ascii_lower (codes ''Invoice. Vendor: Acme'')" by code_simp+
  with fake_extract_conforms[OF p f, of INVOICE ascii_lower "codes ''Invoice. Vendor:''"]
    fake_extract_conforms[OF p f, of INVOICE ascii_lower "codes ''Invoice. Vendor: Acme''"]
  show ?thesis by auto
qed

end
