(* ===== verification/Stored_Results.thy ===== *)
theory Stored_Results
  imports Processor_Branches Fake_Provider
begin

text \<open>
  From the model to the database: the contract of \<^verbatim>\<open>LLMProvider\<close> (\<^verbatim>\<open>app/llm/base.py\<close>) as a locale, the two
  providers as its instances, and what it gives the worker: whatever fails and whatever others commit,
  every stored result satisfies the schema of its document type.
\<close>

section \<open>The contract of a provider\<close>

locale llm_provider =
  fixes lp :: "'p provider"
  assumes extracted_type: "lp_extract lp x ty n = (Inr out, n') \<Longrightarrow> eo_document_type out = ty"
    and extracted_conforms: "lp_extract lp x ty n = (Inr out, n') \<Longrightarrow> Schemas.conforms (FModel (SCHEMA_REGISTRY ty)) (eo_data out)"

locale validating =
  fixes pyd :: pydantic
  assumes pyd_ok: "pydantic_ok pyd"
begin

lemma fake_extract_valid:
  assumes "fake_extract ulower pyd x ty f = (Inr out, f')"
  shows "eo_document_type out = ty \<and> Schemas.conforms (FModel (SCHEMA_REGISTRY ty)) (eo_data out)"
  using assms pyd_ok
  by (auto simp: fake_extract_def pydantic_ok_def split: prod.splits sum.splits option.splits)

end

locale validating_client = validating pyd for pyd +
  fixes oc :: "'c openai_client" and op :: openai_provider
  assumes oc_ok: "client_ok oc"
begin

lemma openai_extract_valid:
  assumes "openai_extract oc pyd op x ty c = (Inr out, c')"
  shows "eo_document_type out = ty \<and> Schemas.conforms (FModel (SCHEMA_REGISTRY ty)) (eo_data out)"
proof -
  obtain y c1 where y: "parse oc pyd op (extraction_messages x ty) (SCHEMA_REGISTRY ty) ''extract'' c = (y, c1)"
    by fastforce
  from parse_sound[OF pyd_ok oc_ok y] assms y show ?thesis
    by (cases y) (auto simp: openai_extract_def)
qed

end

sublocale validating \<subseteq> fake: llm_provider "fake_provider ulower pyd" for ulower
  by unfold_locales (auto simp: fake_provider_def dest: fake_extract_valid)

sublocale validating_client \<subseteq> openai: llm_provider "openai_llm oc pyd op"
  by unfold_locales (auto simp: openai_llm_def dest: openai_extract_valid)

lemma checking_pydantic_ok: "pydantic_ok checking_pydantic"
  by (simp add: pydantic_ok_def checking_pydantic_def)

interpretation strict_checks: validating checking_pydantic
  by unfold_locales (rule checking_pydantic_ok)

interpretation raw_answers: validating_client checking_pydantic "raw_client v" cfg for v cfg
  by unfold_locales (simp add: client_ok_def raw_client_def)

section \<open>Databases whose results are valid\<close>

definition result_conforms :: "extraction_result \<Rightarrow> bool" where
  "result_conforms r \<longleftrightarrow> Schemas.conforms (FModel (SCHEMA_REGISTRY (res_detected_document_type r))) (res_extracted_data r)"

definition results_conform :: "db \<Rightarrow> bool" where
  "results_conform d \<longleftrightarrow> (\<forall>r \<in> set (db_results d). result_conforms r)"

text \<open>Commits of the pipeline that keep the results valid.\<close>

definition valid_steps :: "db \<Rightarrow> db \<Rightarrow> bool" where
  "valid_steps d d' \<longleftrightarrow> db_steps d d' \<and> (results_conform d \<longrightarrow> results_conform d')"

lemma flush_keeps_results:
  "flush_job t l c d = Inr d' \<Longrightarrow> results_conform d' = results_conform d"
  by (auto simp: results_conform_def flush_job_def split: if_splits)

lemma valid_stepsI: "db_step d d' \<Longrightarrow> (results_conform d \<Longrightarrow> results_conform d') \<Longrightarrow> valid_steps d d'"
  by (auto simp: valid_steps_def)

text \<open>The whole protocol of the job service stays within them, if only valid results are inserted.\<close>

interpretation valid_results: job_protocol valid_steps result_conforms
proof (unfold_locales, goal_cases)
  case 4
  then show ?case by (auto intro!: valid_stepsI db_step.create simp: insert_document_and_job_def results_conform_def split: if_splits)
next
  case 5
  then show ?case by (intro valid_stepsI db_step.claim) (simp add: claim_effect_def results_conform_def)
next
  case (6 l d r t now d')
  then have "results_conform d \<Longrightarrow> results_conform d'"
    by (elim flush_completed_cases) (auto simp: insert_result_Inr results_conform_def flush_job_keys(2))
  with 6 show ?case by (intro valid_stepsI db_step.complete)
qed (auto simp: valid_steps_def flush_keeps_results intro: db_steps_keeps db_step.intros)

lemma allows_conforming:
  "Schemas.conforms (FModel (SCHEMA_REGISTRY (eo_document_type out))) (eo_data out) \<Longrightarrow> allows result_conforms out"
  by (simp add: allows_def result_conforms_def new_result_def del: Schemas.conforms.simps)

context llm_provider
begin

lemma provides_conforming: "pr_provider p = lp \<Longrightarrow> provides result_conforms p"
  unfolding provides_def using allows_conforming extracted_type extracted_conforms by metis

end

text \<open>A worker with the OpenAI provider; pydantic and the client behave as documented.\<close>

definition runs_openai :: "('r, 'p, 'f) processor \<Rightarrow> bool" where
  "runs_openai p \<longleftrightarrow>
     (\<exists>oc pyd cfg. pr_provider p = openai_llm oc pyd cfg \<and> pydantic_ok pyd \<and> client_ok oc)"

lemma openai_provides: "runs_openai p \<Longrightarrow> provides result_conforms p"
proof -
  assume "runs_openai p"
  then obtain oc pyd cfg where p: "pr_provider p = openai_llm oc pyd cfg" "pydantic_ok pyd" "client_ok oc"
    by (auto simp: runs_openai_def)
  then have "validating_client pyd oc" by unfold_locales
  then have "llm_provider (openai_llm oc pyd cfg)"
    by unfold_locales (auto simp: openai_llm_def dest: validating_client.openai_extract_valid)
  from llm_provider.provides_conforming[OF this p(1)] show ?thesis .
qed

lemma fake_provides:
  assumes "pr_provider p = fake_provider ulower pyd" and "pydantic_ok pyd"
  shows "provides result_conforms p"
proof -
  have "llm_provider (fake_provider ulower pyd)"
    using assms(2) by unfold_locales (auto simp: fake_provider_def dest: validating.fake_extract_valid[unfolded validating_def])
  from llm_provider.provides_conforming[OF this assms(1)] show ?thesis .
qed

section \<open>An invoice\<close>

definition invoice_processor :: "(mem_redis, nat, mem_fs) processor" where
  "invoice_processor = (sample_processor (Inr sample_output))
     \<lparr>pr_provider := openai_llm (raw_client (fake_invoice None)) checking_pydantic \<lparr>op_model = ''m'', op_temperature = 0\<rparr>\<rparr>"

definition invoice_delivery :: delivered_event where
  "invoice_delivery = (sample_delivery 1)\<lparr>de_event := sample_event\<lparr>ev_requested_document_type := Some INVOICE\<rparr>\<rparr>"

lemma invoice_samples [simp]:
  "pr_storage invoice_processor = local_storage mem_files [''srv'', ''uploads'']"
  "pr_provider invoice_processor =
     openai_llm (raw_client (fake_invoice None)) checking_pydantic \<lparr>op_model = ''m'', op_temperature = 0\<rparr>"
  "pr_parsers invoice_processor = sample_parsers" "pr_settings invoice_processor = default_settings"
  "pr_consumer_name invoice_processor = ''worker''"
  "ev_job_id (de_event invoice_delivery) = ''job''" "ev_storage_path (de_event invoice_delivery) = ''a1.txt''"
  "ev_requested_document_type (de_event invoice_delivery) = Some INVOICE" "de_delivery_count invoice_delivery = 1"
  by (simp_all add: invoice_processor_def invoice_delivery_def)

lemma invoice_storable: "pg_json (fake_invoice None)"
  by (simp add: fake_invoice_def)

lemma extract_invoice:
  "\<exists>out. lp_extract (pr_provider invoice_processor) [72, 105] INVOICE 0 = (Inr out, 1) \<and> output_fits out \<and>
     eo_data out = fake_invoice None"
  using fake_invoice_conforms[of None] invoice_storable
  by (simp add: pg_integer_def usage_input_def usage_output_def openai_llm_def openai_extract_def parse_def complete_def raw_client_def parsed_model_def
      checking_pydantic_def output_fits_def truthy_text_def PROMPT_VERSION_def del: Schemas.conforms.simps)

lemma produce_invoice:
  "\<exists>out. produce invoice_processor sample_session (de_event invoice_delivery) (worker_world processing_job) =
     (Inr (out, [72, 105]), sample_world empty_redis 1 sample_files (sample_db processing_job) 1000000) \<and>
     output_fits out"
proof -
  have d: "sess_document sample_session = Some sample_document"
    by (simp add: sample_session_def load_job_def sample_db_def find_document_def sample_document_def new_document_def)
  have s: "doc_stored_filename sample_document = ''a1.txt''"
    by (simp add: sample_document_def new_document_def sample_stored_def)
  obtain out where "lp_extract (pr_provider invoice_processor) [72, 105] INVOICE 0 = (Inr out, 1)" "output_fits out"
    using extract_invoice by blast
  moreover have "fst (Text_Extraction.truncate [72, 105] 40000) = [72, 105]" by (simp add: Text_Extraction.truncate_def)
  ultimately show ?thesis
    by (simp add: produce_def local_storage_def read_sample d s suffix_sample text_sample Let_def
        resolve_type_def provider_call_def)
qed

end
