(* ===== verification/Worker_Process.thy ===== *)
theory Worker_Process
  imports Worker_Properties
begin

text \<open>
  The worker process from its start to its exit code: what \<^verbatim>\<open>run_worker\<close> hands to the three loops, how the
  task group interleaves them, that a termination signal ends the process with code 0 after every loop had its
  turn, and what a refused acknowledgement does to it.
\<close>

section \<open>Starting up\<close>

lemma connect_attempts_Inr:
  "connect_attempts rd n q w = (Inr u, q', w') \<Longrightarrow> q' = q\<lparr>rq_client := True, rq_script := True\<rparr>"
  by (induction n arbitrary: w) (auto split: prod.splits sum.splits if_splits)

lemma connect_attempts_frame: "connect_attempts rd n q w = (r, q', w') \<Longrightarrow> redis_only w w'"
proof (induction n arbitrary: w)
  case (Suc n)
  obtain x w1 where x: "redis_call (rd_ping rd) w = (x, w1)" by fastforce
  then have 1: "redis_only w w1" by (auto simp: redis_call_def redis_only_def split: prod.splits)
  have "w' = w1 \<or> connect_attempts rd n q w1 = (r, q', w')"
    using Suc.prems x by (auto split: sum.splits if_splits)
  with 1 Suc.IH redis_only_trans show ?case by blast
qed simp

lemma ensure_group_frame: "ensure_group rd q w = (r, w') \<Longrightarrow> redis_only w w'"
  by (auto simp: ensure_group_def dest: with_client_frame split: prod.splits sum.splits if_splits)

lemma faults_ok_redis_only: "redis_only w w' \<Longrightarrow> faults_ok w \<Longrightarrow> faults_ok w'"
  by (simp add: redis_only_def faults_ok_def)

lemma get_file_storage_frame:
  "get_file_storage fs base c w = (r, c', w') \<Longrightarrow> same_db w w'"
  by (auto simp: get_file_storage_def ensure_root_def fs_call_def same_db_def split: option.splits prod.splits sum.splits)

text \<open>What every loop relies on, and what a start keeps.\<close>

definition undisturbed :: "('r, 'p, 'f) world \<Rightarrow> ('r, 'p, 'f) world \<Rightarrow> bool" where
  "undisturbed w w' \<longleftrightarrow>
     (rely db_steps w \<and> faults_ok w \<longrightarrow> db_steps (w_db w) (w_db w') \<and> rely db_steps w' \<and> faults_ok w')"

lemma undisturbed_refl [simp, intro]: "undisturbed w w"
  by (simp add: undisturbed_def)

lemma undisturbed_trans [trans]: "undisturbed u v \<Longrightarrow> undisturbed v w \<Longrightarrow> undisturbed u w"
  by (auto simp: undisturbed_def)

lemma undisturbed_same_db: "same_db w w' \<Longrightarrow> undisturbed w w'"
  by (simp add: undisturbed_def same_db_def rely_def faults_ok_def)

lemma undisturbed_read: "db_read f w = (r, w') \<Longrightarrow> undisturbed w w'"
  using pipeline.db_read_rely(1,2)[of f w r w'] faults_ok_db_read[of f w r w'] by (auto simp: undisturbed_def)

lemma wait_for_database_undisturbed: "wait_for_database s w = (r, w') \<Longrightarrow> undisturbed w w'"
proof -
  have "database_attempts s n w = (r, w') \<Longrightarrow> undisturbed w w'" for n
  proof (induction n arbitrary: w)
    case (Suc n)
    obtain x w1 where x: "select_1 w = (x, w1)" by fastforce
    then have 1: "undisturbed w w1" unfolding select_1_def by (rule undisturbed_read)
    have "w' = w1 \<or> database_attempts s n w1 = (r, w')"
      using Suc.prems x by (auto split: sum.splits if_splits)
    with 1 Suc.IH undisturbed_trans show ?case by blast
  qed simp
  then show "wait_for_database s w = (r, w') \<Longrightarrow> undisturbed w w'" by (simp add: wait_for_database_def)
qed

lemma worker_start_Inr:
  assumes "worker_start env s i v = (Inr (c, provider), j, w)"
  shows "undisturbed v w" and "rq_client (sc_queue c)" and "rq_script (sc_queue c)"
    and "in_queue j = Some (sc_queue c)" and "pr_redis (sc_processor c) = we_redis env"
    and "in_storage i = None \<Longrightarrow> pr_storage (sc_processor c) = local_storage (we_fs env) (we_base env)"
proof -
  let ?i0 = "i\<lparr>in_engine := snd (get_engine s (in_engine i))\<rparr>"
  note s = worker_start_def Let_def
  obtain w1 where a: "wait_for_database s v = (Inr (), w1)"
    using assms by (auto simp: s split: sum.splits prod.splits)
  obtain q cq where b: "get_queue s (in_queue ?i0) = (q, cq)" by fastforce
  obtain q1 w2 where c: "queue_connect (we_redis env) q w1 = (Inr (), q1, w2)"
    using assms a b by (auto simp: s split: sum.splits prod.splits)
  obtain w3 where d: "ensure_group (we_redis env) q1 w2 = (Inr (), w3)"
    using assms a b c by (auto simp: s split: sum.splits prod.splits)
  obtain ch where e: "build_provider s = Inr ch"
    using assms a b c d by (auto simp: s split: sum.splits prod.splits)
  let ?i2 = "?i0\<lparr>in_queue := Some q1, in_engine := snd (get_sessionmaker s (in_engine ?i0))\<rparr>"
  obtain storage st w4 where f: "get_file_storage (we_fs env) (we_base env) (in_storage ?i2) w3 = (Inr storage, st, w4)"
    using assms a b c d e by (auto simp: s split: sum.splits prod.splits)
  have q1: "rq_client q1" "rq_script q1"
    using connect_attempts_Inr[OF c[unfolded queue_connect_def]] by simp_all
  have fin: "sc_queue c = q1" "in_queue j = Some q1" "w = w4" "pr_redis (sc_processor c) = we_redis env"
    "pr_storage (sc_processor c) = storage"
    using assms a b c d e f by (auto simp: s new_consumer_def)
  have "redis_only w1 w3" using connect_attempts_frame[OF c[unfolded queue_connect_def]] ensure_group_frame[OF d]
    by (rule redis_only_trans)
  then have "same_db w1 w4" using get_file_storage_frame[OF f] redis_only_same_db same_db_trans by blast
  then show "undisturbed v w"
    using wait_for_database_undisturbed[OF a] undisturbed_same_db undisturbed_trans fin(3) by blast
  show "rq_client (sc_queue c)" "rq_script (sc_queue c)" "in_queue j = Some (sc_queue c)"
    "pr_redis (sc_processor c) = we_redis env" using q1 fin by simp_all
  show "in_storage i = None \<Longrightarrow> pr_storage (sc_processor c) = local_storage (we_fs env) (we_base env)"
    using f fin(5) by (auto simp: get_file_storage_def split: prod.splits sum.splits)
qed

section \<open>The task group\<close>

lemma take_turn_run:
  assumes "take_turn t stop c w = (r, c', w')"
  obtains trace where "worker_run (c, w) trace (c', w')"
proof -
  have "\<exists>trace. worker_run (c, w) trace (c', w')"
    using assms
    by (cases t; cases stop)
      (auto simp: take_turn_def split: prod.splits sum.splits
        intro: worker_run.start worker_run.consumer[OF worker_run.start] worker_run.recovery[OF worker_run.start]
          worker_run.scheduler[OF worker_run.start])
  with that show thesis by blast
qed

lemmas turn_simps =
  task_group.simps not_not if_False loop_end.case prod.case not_False_eq_True simp_thms prod.inject

lemma task_group_run:
  "task_group hs xs stop live c w = (r, c', w') \<Longrightarrow> \<exists>trace. worker_run (c, w) trace (c', w')"
proof (induction hs xs stop live c w rule: task_group.induct)
  case (4 hs t xs stop l ls c w)
  obtain e c1 w1 where t: "take_turn t stop c w = (e, c1, w1)" by (cases "take_turn t stop c w")
  then obtain trace where run: "worker_run (c, w) trace (c1, w1)" by (rule take_turn_run)
  show ?case
  proof (cases "t \<in> set (l # ls)")
    case True
    have "(c', w') = (c1, w1) \<or> (\<exists>trace'. worker_run (c1, w1) trace' (c', w'))"
    proof (cases e)
      case Stopped
      with 4(4) t True have "task_group hs xs stop (removeAll t (l # ls)) c1 w1 = (r, c', w')"
        by (simp only: turn_simps)
      with 4(2)[of e "(c1, w1)" c1 w1] t True Stopped show ?thesis by simp
    next
      case Running
      with 4(4) t True have "task_group hs xs stop (l # ls) c1 w1 = (r, c', w')"
        by (simp only: turn_simps)
      with 4(3)[of e "(c1, w1)" c1 w1] t True Running show ?thesis by simp
    next
      case (Raised x)
      with 4(4) t True show ?thesis
        by (simp only: turn_simps)
    qed
    with run worker_run_trans[OF _ run] show ?thesis by metis
  qed (use 4 in simp)
qed (auto intro: worker_run.start)

text \<open>After the event is set, a loop that has its turn stops without doing anything more.\<close>

lemma take_turn_stop: "take_turn t True c w = (Stopped, c, w)"
  by (cases t) (simp_all add: take_turn_def)

lemma task_group_stopping:
  assumes "\<forall>l \<in> set live. Turn l \<in> set zs"
  shows "task_group hs zs True live c w = (Some [], c, w)"
  using assms
proof (induction zs arbitrary: live)
  case Nil
  then show ?case by (cases live) auto
next
  case (Cons z zs)
  show ?case
  proof (cases live)
    case live: (Cons l ls)
    show ?thesis
    proof (cases z)
      case (Signal k)
      with live Cons.IH[of "l # ls"] Cons.prems show ?thesis by simp
    next
      case (Turn t)
      have "\<forall>k \<in> set (removeAll t (l # ls)). Turn k \<in> set zs" using Cons.prems live Turn by auto
      then have "task_group hs zs True (removeAll t (l # ls)) c w = (Some [], c, w)" by (rule Cons.IH)
      moreover have "t \<notin> set (l # ls) \<Longrightarrow> task_group hs zs True (l # ls) c w = (Some [], c, w)"
        using Cons.prems live Turn by (intro Cons.IH) auto
      ultimately show ?thesis using live Turn by (auto simp: take_turn_stop)
    qed
  qed simp
qed

lemma take_turn_through:
  assumes "outages_only (pr_redis (sc_processor c))" and "rq_client (sc_queue c)" and "rq_script (sc_queue c)"
  shows "\<exists>c' w'. take_turn t stop c w = (if stop then Stopped else Running, c', w') \<and> same_consumer c c'"
proof (cases stop)
  case False
  show ?thesis
  proof (cases t)
    case ConsumerLoop
    with False rounds_through(1)[OF assms(1,2), of w] show ?thesis by (auto simp: take_turn_def)
  next
    case RecoveryLoop
    with False rounds_through(2)[OF assms(1,2), of w] show ?thesis by (auto simp: take_turn_def)
  next
    case SchedulerLoop
    with False sweep_through[OF assms, of "pr_codec (sc_processor c)" w] show ?thesis by (auto simp: take_turn_def)
  qed
qed (simp add: take_turn_stop)

text \<open>A signal that is handled, with a turn of every loop after it, ends the group without an error.\<close>

lemma task_group_ends:
  assumes "outages_only (pr_redis (sc_processor c))" and "rq_client (sc_queue c)" and "rq_script (sc_queue c)"
    and "sg \<in> set hs" and "\<forall>l \<in> set live. Turn l \<in> set zs"
  shows "\<exists>c' w'. task_group hs (ys @ Signal sg # zs) stop live c w = (Some [], c', w') \<and> same_consumer c c'"
  using assms
proof (induction ys arbitrary: stop live c w)
  case Nil
  then show ?case using task_group_stopping[of live zs hs c w] by (cases live) auto
next
  case (Cons y ys)
  show ?case
  proof (cases live)
    case Nil
    then show ?thesis by simp
  next
    case live: (Cons l ls)
    note IH = Cons.IH[OF _ _ _ Cons.prems(4)]
    show ?thesis
    proof (cases y)
      case (Signal k)
      with live IH[OF Cons.prems(1-3), of "l # ls"] Cons.prems(5) show ?thesis by simp
    next
      case (Turn t)
      obtain c1 w1 where t: "take_turn t stop c w = (if stop then Stopped else Running, c1, w1)" "same_consumer c c1"
        using take_turn_through[OF Cons.prems(1-3)] by blast
      have c1: "outages_only (pr_redis (sc_processor c1))" "rq_client (sc_queue c1)" "rq_script (sc_queue c1)"
        using Cons.prems(1-3) t(2) by simp_all
      have sub: "\<forall>k \<in> set (removeAll t (l # ls)). Turn k \<in> set zs" using Cons.prems(5) live by auto
      show ?thesis
      proof (cases "t \<in> set (l # ls)")
        case False
        with Turn live IH[OF Cons.prems(1-3), of "l # ls"] Cons.prems(5) show ?thesis by simp
      next
        case True
        define next_live where "next_live = (if stop then removeAll t (l # ls) else l # ls)"
        have "\<forall>k \<in> set next_live. Turn k \<in> set zs"
          using sub Cons.prems(5) live by (cases stop) (simp_all only: next_live_def if_True if_False)
        from IH[OF c1 this] obtain c2 w2 where
          "task_group hs (ys @ Signal sg # zs) stop (if stop then removeAll t (l # ls) else l # ls) c1 w1 = (Some [], c2, w2)"
          "same_consumer c1 c2" unfolding next_live_def by blast
        then show ?thesis using Turn live True t by (auto split: if_splits)
      qed
    qed
  qed
qed

section \<open>Shutting down\<close>

lemma provider_call_same_db: "provider_call f w = (r, w') \<Longrightarrow> same_db w w' \<and> w_redis w' = w_redis w"
  by (auto simp: provider_call_def same_db_def split: prod.splits)

lemma dispose_engine_undisturbed:
  "dispose_engine e w = (r, e', w') \<Longrightarrow> undisturbed w w' \<and> w_redis w' = w_redis w"
  by (auto simp: dispose_engine_def dest: undisturbed_read db_read_frame[THEN same_outside_def[THEN iffD1]]
      split: option.splits prod.splits sum.splits)

lemma shutdown_all_closes:
  assumes "shutdown_all provider j w = (j', w')"
  shows "undisturbed w w'" and "w_redis w' = w_redis w" and "in_queue j' = map_option queue_close (in_queue j)"
proof -
  obtain r w1 where a: "provider_call (lp_aclose provider) w = (r, w1)" by fastforce
  obtain r2 e w2 where d: "dispose_engine (in_engine j) w1 = (r2, e, w2)" by (cases "dispose_engine (in_engine j) w1") auto
  have "w' = w2" and j: "in_queue j' = map_option queue_close (in_queue j)"
    using assms a d by (auto simp: shutdown_all_def Let_def)
  then show "undisturbed w w'" "w_redis w' = w_redis w"
    using provider_call_same_db[OF a] dispose_engine_undisturbed[OF d] undisturbed_same_db undisturbed_trans by metis+
  show "in_queue j' = map_option queue_close (in_queue j)" by (rule j)
qed

lemma queue_close_closed [simp]: "\<not> rq_client (queue_close q)"
  by (simp add: queue_close_def)

text \<open>The process around the task group.\<close>

lemma worker_main_tasks:
  assumes "worker_start env s i v = (Inr (c, provider), j, w)" and "install_signal_handlers add = Inr hs"
    and "task_group hs xs False [ConsumerLoop, RecoveryLoop, SchedulerLoop] c w = (Some errors, c', w1)"
    and "shutdown_all provider j w1 = (j', w2)"
  shows "worker_main env s add xs i v =
    (Some (if errors = [] then Inr 0 else Inl exception_group), j', w2)"
  using assms by (simp add: worker_main_def run_worker_def exception_group_def is_app_instance.simps)

section \<open>A clean exit\<close>

text \<open>
  C31. A termination signal ends a worker that has started, with exit code 0, provided Redis fails only with its
  own errors and accepts every acknowledgement (a refused acknowledgement ends it differently, as the theorem on it
  below shows): whatever the loops did before the signal and however processing or the database failed, once
  each loop has had a turn after the signal the process has stopped all three, closed the queue and exited
  with 0. What it did in between is a run of rounds of the three loops, and every message that was outstanding
  when the loops started still is, unless its entry does not decode or its event was handed to the processor in
  that run and settled with a durable outcome; the database has only moved along the pipeline.
\<close>

theorem worker_exits_cleanly:
  assumes "worker_start env s i v = (Inr (c, provider), j, w)" and "in_storage i = None"
    and "outages_only (we_redis env)" and "viewed (we_redis env) V" and "sv_intact V (w_redis w)"
    and "rely db_steps v" and "faults_ok v" and "pipeline_inv (w_db v)"
    and "install_signal_handlers add = Inr hs" and "sg \<in> set hs" and "\<forall>l. Turn l \<in> set zs"
  shows "\<exists>j' q v' trace c1 w1. worker_main env s add (ys @ Signal sg # zs) i v = (Some (Inr 0), j', v') \<and>
    in_queue j' = Some q \<and> \<not> rq_client q \<and> db_steps (w_db v) (w_db v') \<and>
    worker_run (c, w) trace (c1, w1) \<and> w_redis v' = w_redis w1 \<and> db_steps (w_db w1) (w_db v') \<and>
    accounted V (sc_processor c) (sc_queue c) trace w v'"
proof -
  note st = worker_start_Inr[OF assms(1)]
  have ok: "worker_ok V c"
    using assms(4) st(5,6) assms(2) by (auto simp: worker_ok_def)
  have "outages_only (pr_redis (sc_processor c))" using assms(3) st(5) by simp
  from task_group_ends[OF this st(2,3) assms(10), of "[ConsumerLoop, RecoveryLoop, SchedulerLoop]" zs ys False w] assms(11)
  obtain c1 w1 where g: "task_group hs (ys @ Signal sg # zs) False [ConsumerLoop, RecoveryLoop, SchedulerLoop] c w =
      (Some [], c1, w1)" by auto
  obtain j' v' where d: "shutdown_all provider j w1 = (j', v')" by fastforce
  note sd = shutdown_all_closes[OF d]
  have main: "worker_main env s add (ys @ Signal sg # zs) i v = (Some (Inr 0), j', v')"
    using worker_main_tasks[OF assms(1,9) g d] by simp
  have w: "rely db_steps w" "faults_ok w" "db_steps (w_db v) (w_db w)"
    using st(1) assms(6,7) by (auto simp: undisturbed_def)
  have ready: "run_ready V w"
    using w pipeline_inv_steps[OF w(3) assms(8)] assms(5) by (simp add: run_ready_def)
  obtain trace where run: "worker_run (c, w) trace (c1, w1)" using task_group_run[OF g] by blast
  from worker_run_sound[OF run] ok have "sound_round V (sc_processor c) (sc_queue c) trace w w1" by simp
  with ready have w1: "run_ready V w1" "db_steps (w_db w) (w_db w1)"
    "accounted V (sc_processor c) (sc_queue c) trace w w1"
    by (simp_all add: sound_round_def)
  have v': "db_steps (w_db w1) (w_db v')" using sd(1) w1(1) by (simp add: undisturbed_def run_ready_def)
  have "accounted V (sc_processor c) (sc_queue c) trace w v'"
    using w1(3) gone_extend[OF _ order_refl refl rtranclp.rtrancl_refl v'] sd(2) unfolding accounted_def by metis
  moreover have "db_steps (w_db v) (w_db v')" using w(3) w1(2) v' by (meson rtranclp_trans)
  ultimately show ?thesis using main sd(2,3) st(4) run v' by auto
qed

section \<open>A worker that starts\<close>

definition sample_env :: "mem_redis redis_api \<Rightarrow> (mem_redis, nat, mem_fs) worker_env" where
  "sample_env rd =
     \<lparr>we_redis = rd, we_codec = plain_codec, we_fs = mem_files, we_base = [''srv'', ''uploads''],
      we_provider = (\<lambda>_. scripted_provider (Inr sample_output)), we_parsers = sample_parsers,
      we_expired_read = None, we_hostname = ''host'', we_pid = 1, we_hex = ''0123456789''\<rparr>"

definition no_instances :: "(mem_redis, nat, mem_fs) instances" where
  "no_instances = \<lparr>in_engine = no_engine, in_queue = None, in_storage = None\<rparr>"

abbreviation fake_settings :: settings where
  "fake_settings \<equiv> default_settings\<lparr>llm_provider := FAKE\<rparr>"

abbreviation started_queue :: redis_queue where
  "started_queue \<equiv> (new_queue fake_settings)\<lparr>rq_client := True, rq_script := True\<rparr>"

definition started_consumer :: "mem_redis redis_api \<Rightarrow> (mem_redis, nat, mem_fs) stream_consumer" where
  "started_consumer rd =
     (let name = build_consumer_name ''host'' 1 ''0123456789''
      in new_consumer started_queue
           \<lparr>pr_storage = local_storage mem_files [''srv'', ''uploads''], pr_redis = rd, pr_codec = plain_codec,
            pr_queue = started_queue, pr_provider = scripted_provider (Inr sample_output), pr_parsers = sample_parsers,
            pr_settings = fake_settings, pr_consumer_name = name, pr_expired_read = None\<rparr> fake_settings name)"

text \<open>The group exists already, as it does for every worker but the first.\<close>

lemma started_sample:
  assumes "rd_ping rd = Pair (Inr ())" and "rd_xgroup_create rd = mem_xgroup_create"
    and "mr_groups r (redis_stream_name fake_settings) (redis_consumer_group fake_settings) = Some g"
  shows "\<exists>j. worker_start (sample_env rd) fake_settings no_instances (sample_world r 0 sample_files d t) =
    (Inr (started_consumer rd, scripted_provider (Inr sample_output)), j, sample_world r 0 sample_files d t)"
proof -
  let ?w = "sample_world r (0 :: nat) sample_files d t"
  have n: "nat (db_connect_max_attempts fake_settings) = Suc 29"
    "nat (redis_connect_max_attempts fake_settings) = Suc 29" by (simp_all add: default_settings_def)
  have a: "wait_for_database fake_settings ?w = (Inr (), ?w)"
    by (simp only: wait_for_database_def n database_attempts.simps) (simp add: select_1_def)
  have b: "get_queue fake_settings None = (new_queue fake_settings, Some (new_queue fake_settings))"
    by (simp add: get_queue_def)
  have c: "queue_connect rd (new_queue fake_settings) ?w = (Inr (), started_queue, ?w)"
    by (simp only: queue_connect_def new_queue_def n redis_queue.select_convs connect_attempts.simps)
      (simp add: redis_call_def assms(1))
  have "py_in GROUP_EXISTS ''BUSYGROUP Consumer Group name already exists''" by code_simp
  then have d: "ensure_group rd started_queue ?w = (Inr (), ?w)"
    using assms(3)
    by (simp add: ensure_group_def with_client_def redis_call_def assms(2) mem_xgroup_create_def new_queue_def
        queue_stream_def queue_group_def response_error_def redis_error_names is_foreign_instance.simps)
  have e: "build_provider fake_settings = Inr UseFake" by (simp add: build_provider_def)
  have f: "get_file_storage mem_files [''srv'', ''uploads''] None ?w =
      (Inr (local_storage mem_files [''srv'', ''uploads'']), Some (local_storage mem_files [''srv'', ''uploads'']), ?w)"
    by (simp add: get_file_storage_def ensure_root_def fs_call_def mem_files_def)
  show ?thesis
    using a b c d e f by (simp add: worker_start_def Let_def sample_env_def no_instances_def started_consumer_def)
qed

lemma mem_outages_only: "outages_only mem_api"
  by (auto simp: outages_only_def mem_api_def mem_xack_def mem_xreadgroup_def mem_xpending_range_def mem_xclaim_def
      mem_xadd_def no_group_def response_error_def redis_or_os_error_def redis_error_names is_foreign_instance.simps
      Let_def split: option.splits if_splits prod.splits)

definition unread_redis :: mem_redis where
  "unread_redis = empty_redis\<lparr>
     mr_entries := (\<lambda>_. [(''8'', to_stream_fields plain_codec sample_event)]), mr_groups := (\<lambda>_ _. Some
     \<lparr>grp_unread = [(''8'', to_stream_fields plain_codec sample_event)], grp_pending = []\<rparr>)\<rparr>"

lemma unread_intact: "mem_intact unread_redis"
  by (simp add: mem_intact_def unread_redis_def show_nat_dash)

lemma both_signals: "install_signal_handlers (\<lambda>_. None) = Inr [''SIGINT'', ''SIGTERM'']"
  by (simp add: install_signal_handlers_def)

lemma worker_exits_cleanly_witness:
  "\<exists>j' v'. worker_main (sample_env mem_api) fake_settings (\<lambda>_. None)
     [Turn ConsumerLoop, Signal ''SIGTERM'', Turn RecoveryLoop, Turn ConsumerLoop, Turn SchedulerLoop] no_instances
     (sample_world unread_redis 0 sample_files (sample_db queued_job) 1000000) = (Some (Inr 0), j', v') \<and>
     db_steps (sample_db queued_job) (w_db v')"
proof -
  let ?v = "sample_world unread_redis (0 :: nat) sample_files (sample_db queued_job) 1000000"
  obtain j where st: "worker_start (sample_env mem_api) fake_settings no_instances ?v =
      (Inr (started_consumer mem_api, scripted_provider (Inr sample_output)), j, ?v)"
    using started_sample[of mem_api unread_redis _ "sample_db queued_job" 1000000]
    by (auto simp: mem_api_def unread_redis_def)
  have e: "in_storage no_instances = None" "we_redis (sample_env mem_api) = mem_api"
    by (simp_all add: no_instances_def sample_env_def)
  have w: "rely db_steps ?v" "faults_ok ?v" "pipeline_inv (w_db ?v)"
    using queued_job_inv by (simp_all add: rely_def faults_ok_def sample_world_def)
  have i: "sv_intact mem_view (w_redis ?v)" using unread_intact by simp
  have t: "\<forall>l. Turn l \<in> set [Turn RecoveryLoop, Turn ConsumerLoop, Turn SchedulerLoop]"
    by (metis list.set_intros loop_name.exhaust)
  have sg: "''SIGTERM'' \<in> set [''SIGINT'', ''SIGTERM'']" by simp
  have o: "outages_only (we_redis (sample_env mem_api))" "viewed (we_redis (sample_env mem_api)) mem_view"
    using mem_outages_only mem_viewed e(2) by simp_all
  obtain j' v' where "worker_main (sample_env mem_api) fake_settings (\<lambda>_. None)
      ([Turn ConsumerLoop] @ Signal ''SIGTERM'' # [Turn RecoveryLoop, Turn ConsumerLoop, Turn SchedulerLoop]) no_instances ?v =
      (Some (Inr 0), j', v')" "db_steps (w_db ?v) (w_db v')"
    using worker_exits_cleanly[OF st e(1) o i w both_signals sg t, of "[Turn ConsumerLoop]"]
    by (elim exE conjE) (rule that)
  then show ?thesis by (intro exI[of _ j'] exI[of _ v']) simp
qed

section \<open>An acknowledgement that is refused\<close>

text \<open>
  C32. One refused acknowledgement ends the worker: when Redis rejects the \<open>XACK\<close> of an event whose outcome
  has just been committed, the consumer loop raises instead of backing off as it does for every other
  outage; what was committed stays. Because the task group wraps the error, \<^verbatim>\<open>main\<close> does not log
  the error and return 1 as for an unreachable dependency: an exception group that nothing catches leaves it,
  after the queue has been closed.
\<close>

theorem refused_ack_stops_worker:
  assumes "worker_start env s i v = (Inr (c, provider), j, w)" and "install_signal_handlers add = Inr hs"
    and "queue_read (pr_redis (sc_processor c)) (pr_codec (sc_processor c)) (sc_queue c) (sc_consumer_name c) w =
      (Inr (d # ds), w1)"
    and "process (sc_processor c) d w1 = (Inr outcome, w2)"
    and "rd_xack (pr_redis (sc_processor c)) (queue_stream (sc_queue c)) (queue_group (sc_queue c)) (de_message_id d)
      (w_redis w2) = (Inl x, r)" and "redis_or_os_error x"
    and "rely db_steps w2" and "faults_ok w2"
  shows "\<exists>e j' v' q. consumer_run [False] c w = (Raised e, c, w2\<lparr>w_redis := r\<rparr>) \<and> is_app_instance e QueueError \<and>
    worker_main env s add (Turn ConsumerLoop # xs) i v = (Some (Inl exception_group), j', v') \<and>
    db_steps (w_db w2) (w_db v') \<and> w_redis v' = r \<and> in_queue j' = Some q \<and> \<not> rq_client q"
proof -
  note st = worker_start_Inr[OF assms(1)]
  let ?e = "raise_app QueueError ''Failed to acknowledge the message.'' []"
  have "ack (pr_redis (sc_processor c)) (sc_queue c) (de_message_id d) w2 = (Inl ?e, w2\<lparr>w_redis := r\<rparr>)"
    using assms(5,6) st(2) by (simp add: ack_def with_client_connected)
  then have run: "consumer_run [False] c w = (Raised ?e, c, w2\<lparr>w_redis := r\<rparr>)"
    using assms(3,4) by (simp add: consume_def handle_def)
  then have g: "task_group hs (Turn ConsumerLoop # xs) False [ConsumerLoop, RecoveryLoop, SchedulerLoop] c w =
      (Some [?e], c, w2\<lparr>w_redis := r\<rparr>)" by (simp add: take_turn_def)
  obtain j' v' where d: "shutdown_all provider j (w2\<lparr>w_redis := r\<rparr>) = (j', v')" by fastforce
  note sd = shutdown_all_closes[OF d]
  have "rely db_steps (w2\<lparr>w_redis := r\<rparr>)" "faults_ok (w2\<lparr>w_redis := r\<rparr>)"
    using assms(7,8) by (simp_all add: rely_def faults_ok_def)
  then have "db_steps (w_db w2) (w_db v')" using sd(1) by (simp add: undisturbed_def)
  then show ?thesis
    using run worker_main_tasks[OF assms(1,2) g d] sd(2,3) st(4)
    by (intro exI[of _ ?e] exI[of _ j'] exI[of _ v'] exI[of _ "queue_close (sc_queue c)"]) simp
qed

text \<open>A server that accepts everything but acknowledgements, with one message for a job that is done.\<close>

definition no_ack_api :: "mem_redis redis_api" where
  "no_ack_api = mem_api\<lparr>rd_xack := (\<lambda>s g i r. (Inl refused, r))\<rparr>"

lemma read_unread:
  "\<exists>r. queue_read no_ack_api plain_codec started_queue name (sample_world unread_redis p f d t) =
     (Inr [\<lparr>de_message_id = ''8'', de_event = sample_event, de_delivery_count = 1\<rparr>], sample_world r p f d t)"
proof -
  have "rq_client started_queue" "redis_read_count (rq_settings started_queue) = 1"
    by (simp_all add: new_queue_def default_settings_def)
  then show ?thesis
    by (simp add: publish_decode_roundtrip_event queue_read_def with_client_def redis_call_def no_ack_api_def
        mem_api_def mem_xreadgroup_def unread_redis_def empty_redis_def Let_def as_queue_error_def)
      (rule exI, rule refl)
qed

lemma refused_ack_stops_worker_witness:
  "\<exists>j' v'. worker_main (sample_env no_ack_api) fake_settings (\<lambda>_. None) [Turn ConsumerLoop] no_instances
     (sample_world unread_redis 0 sample_files (sample_db (completed_job 5 processing_job)) 1000000) =
     (Some (Inl exception_group), j', v')"
proof -
  let ?w = "\<lambda>r. sample_world r (0 :: nat) sample_files (sample_db (completed_job 5 processing_job)) 1000000"
  let ?c = "started_consumer no_ack_api"
  let ?d = "\<lparr>de_message_id = ''8'', de_event = sample_event, de_delivery_count = 1\<rparr>"
  obtain j where st: "worker_start (sample_env no_ack_api) fake_settings no_instances (?w unread_redis) =
      (Inr (?c, scripted_provider (Inr sample_output)), j, ?w unread_redis)"
    using started_sample[of no_ack_api unread_redis _ "sample_db (completed_job 5 processing_job)" 1000000]
    by (auto simp: no_ack_api_def mem_api_def unread_redis_def)
  have c: "sc_queue ?c = started_queue" "pr_redis (sc_processor ?c) = no_ack_api"
    "pr_codec (sc_processor ?c) = plain_codec"
    by (simp_all add: started_consumer_def new_consumer_def Let_def)
  obtain r where r: "queue_read no_ack_api plain_codec started_queue (sc_consumer_name ?c) (?w unread_redis) = (Inr [?d], ?w r)"
    using read_unread[of "sc_consumer_name ?c" 0 sample_files "sample_db (completed_job 5 processing_job)" 1000000]
    by (elim exE) (rule that)
  have read: "queue_read (pr_redis (sc_processor ?c)) (pr_codec (sc_processor ?c)) (sc_queue ?c)
      (sc_consumer_name ?c) (?w unread_redis) = (Inr [?d], ?w r)" unfolding c by (rule r)
  have skip: "process (sc_processor ?c) ?d (?w r) = (Inr OutSkipped, ?w r)"
    using quiet_claim_job[of "?w r" 1000000 "?w r" "''job''" "pr_consumer_name (sc_processor ?c)" 600]
    by (simp add: started_consumer_def new_consumer_def Let_def process_def claim_condition_def claimable_statuses_def
        default_settings_def)
  have x: "rd_xack (pr_redis (sc_processor ?c)) k g m r' = (Inl refused, r')" for k g m r'
    unfolding c by (simp add: no_ack_api_def)
  have w: "rely db_steps (?w r)" "faults_ok (?w r)" by (simp_all add: rely_def faults_ok_def sample_world_def)
  show ?thesis
    using refused_ack_stops_worker[OF st both_signals read skip x refused_outage w, of "[]"] by auto
qed

end
