(* ===== verification/Whole_System.thy ===== *)
theory Whole_System
  imports Stored_Results Worker_Process Api_Properties
begin

text \<open>
  The API and any number of workers on one database, one Redis and one file store: what holds in every world
  they can reach from an empty database, whatever fails and in whatever order they act.
\<close>

section \<open>A round of a worker, for any protocol\<close>

context job_protocol
begin

text \<open>What a consumer needs: its storage only reads, and its provider's answers may be stored.\<close>

abbreviation consumer_ok :: "('r, 'p, 'f) stream_consumer \<Rightarrow> bool" where
  "consumer_ok c \<equiv> reads_only (sc_processor c) \<and> provides V (sc_processor c)"

lemma redis_only_rely: "redis_only w w' \<Longrightarrow> rely R w \<Longrightarrow> rely R w' \<and> w_db w' = w_db w"
  by (simp add: redis_only_def rely_def)

lemma handle_rely:
  assumes "handle c d w = (r, c', w')" and "consumer_ok c" and "rely R w"
  shows "R (w_db w) (w_db w') \<and> rely R w' \<and> same_consumer c c'"
proof -
  obtain x w1 where p: "process (sc_processor c) d w = (x, w1)" by fastforce
  obtain y w2 where a: "ack (pr_redis (sc_processor c)) (sc_queue c) (de_message_id d) w1 = (y, w2)" by fastforce
  have 1: "R (w_db w) (w_db w1)" "rely R w1" using process_rely[OF p _ assms(3)] assms(2) by auto
  have 2: "rely R w2" "w_db w2 = w_db w1" using redis_only_rely[OF ack_frame[OF a] 1(2)] by auto
  show ?thesis using assms(1) p a 1 2 by (auto simp: handle_def split: sum.splits)
qed

lemma handle_all_rely:
  assumes "handle_all c ds w = (r, c', w')" and "consumer_ok c" and "rely R w"
  shows "R (w_db w) (w_db w') \<and> rely R w' \<and> same_consumer c c'"
  using assms
proof (induction ds arbitrary: c w)
  case (Cons d ds)
  obtain r1 c1 w1 where h: "handle c d w = (r1, c1, w1)" by (cases "handle c d w")
  note 1 = handle_rely[OF h Cons.prems(2,3)]
  show ?case
  proof (cases r1)
    case (Inr x)
    with Cons.prems(1) h have "handle_all c1 ds w1 = (r, c', w')" by simp
    from Cons.IH[OF this] 1 Cons.prems(2) show ?thesis by (auto intro: R_trans)
  qed (use Cons.prems(1) h 1 in simp)
qed simp

lemma worker_round_rely:
  assumes "worker_round (c, w) (c', w')" and "consumer_ok c" and "rely R w"
  shows "R (w_db w) (w_db w') \<and> rely R w' \<and> same_consumer c c'"
  using assms(1)
proof (rule worker_roundE)
  fix r assume a: "consume c w = (r, c', w')"
  obtain x w1 where q: "queue_read (pr_redis (sc_processor c)) (pr_codec (sc_processor c)) (sc_queue c)
      (sc_consumer_name c) w = (x, w1)" by fastforce
  note 1 = redis_only_rely[OF queue_read_frame[OF q] assms(3)]
  show ?thesis
    using a q 1 handle_all_rely[OF _ assms(2), of _ w1 r c' w']
    by (cases x) (auto simp: consume_def split: if_splits)
next
  fix r assume a: "recover c w = (r, c', w')"
  obtain x w1 where q: "claim_stale (pr_redis (sc_processor c)) (pr_codec (sc_processor c)) (sc_queue c)
      (sc_consumer_name c) w = (x, w1)" by fastforce
  note 1 = redis_only_rely[OF claim_stale_frame[OF q] assms(3)]
  show ?thesis
    using a q 1 handle_all_rely[OF _ assms(2), of _ w1 r c' w']
    by (cases x) (auto simp: recover_def split: if_splits)
next
  fix x assume c: "c' = c"
    and s: "sweep_retries (pr_redis (sc_processor c)) (pr_codec (sc_processor c)) (sc_queue c) w = (x, w')"
  have "redis_only w w'"
    using s by (rule sweep_cases) (blast intro: pop_frame publish_all_frame redis_only_trans)+
  with c redis_only_rely[of w w'] assms(3) show ?thesis by simp
qed

text \<open>A request, with what its session does on the way out.\<close>

lemma request_rely:
  assumes "request f w = (y, v)" and "f w = (x, so, w')" and "R (w_db w) (w_db w') \<and> rely R w'"
  shows "R (w_db w) (w_db v) \<and> rely R v"
  using leave_session_rely[of x so w' y v] assms by (auto simp: request_def intro: R_trans)

lemma list_jobs_rely:
  assumes "list_jobs st n k w = (r, w')" and "rely R w"
  shows "R (w_db w) (w_db w') \<and> rely R w'"
  using assms unfolding list_jobs_def Let_def
  by (auto split: prod.splits sum.splits intro: R_trans dest: db_read_rely(1) db_read_rely(2))

end

section \<open>The system\<close>

text \<open>
  A step of the system: the API serves a request, or one of the workers does a round of one of its loops. The
  counter of a consumer is its own, so a worker is known up to its consumer.
\<close>

inductive system_step ::
  "('r, 'p, 'f) api_env \<Rightarrow> ('r, 'p, 'f) stream_consumer set \<Rightarrow> ('r, 'p, 'f) world \<Rightarrow> ('r, 'p, 'f) world \<Rightarrow> bool"
  for a workers where
  upload: "request (upload_document a ctx u t) w = (r, w') \<Longrightarrow> system_step a workers w w'"
| retry: "request (retry_job a ctx jid) w = (r, w') \<Longrightarrow> system_step a workers w w'"
| show_job: "request (get_job_route jid) w = (r, w') \<Longrightarrow> system_step a workers w w'"
| show_document: "request (get_document_route did) w = (r, w') \<Longrightarrow> system_step a workers w w'"
| list_jobs: "request (list_jobs_route st n k) w = (r, w') \<Longrightarrow> system_step a workers w w'"
| work: "c \<in> workers \<Longrightarrow> same_consumer c c1 \<Longrightarrow> worker_round (c1, w) (c2, w') \<Longrightarrow> system_step a workers w w'"

context job_protocol
begin

lemma system_step_rely:
  assumes "system_step a workers w w'" and "storage_backend (ae_storage a) object"
    and "\<forall>c \<in> workers. consumer_ok c" and "rely R w"
  shows "R (w_db w) (w_db w') \<and> rely R w'"
  using assms(1)
proof cases
  case (upload ctx u t r)
  obtain x so v where x: "upload_document a ctx u t w = (x, so, v)" by (metis prod_cases3)
  from request_rely[OF upload x upload_rely[OF x assms(4) storage_backend.save_frame[OF assms(2)]]] show ?thesis .
next
  case (retry ctx jid r)
  obtain x so v where x: "retry_job a ctx jid w = (x, so, v)" by (metis prod_cases3)
  from request_rely[OF retry x retry_rely[OF x assms(4)]] show ?thesis .
next
  case (show_job jid r)
  obtain x v where x: "get_job jid w = (x, v)" by fastforce
  then obtain y so where "get_job_route jid w = (y, so, v)" by (cases x) (auto simp: get_job_route_def)
  from request_rely[OF show_job this] get_job_rely(1,2)[OF x assms(4)] show ?thesis by simp
next
  case (show_document did r)
  obtain x v where x: "get_document did w = (x, v)" by fastforce
  then obtain y so where "get_document_route did w = (y, so, v)" by (cases x) (auto simp: get_document_route_def)
  from request_rely[OF show_document this] db_read_rely(1,2)[OF x[unfolded get_document_def] assms(4)]
  show ?thesis by simp
next
  case (list_jobs st n k r)
  obtain x v where x: "Job_Service.list_jobs st n k w = (x, v)" by fastforce
  then obtain y so where "list_jobs_route st n k w = (y, so, v)"
    by (cases x) (auto simp: list_jobs_route_def split: prod.splits)
  from request_rely[OF list_jobs this] list_jobs_rely[OF x assms(4)] show ?thesis by simp
next
  case (work c c1 c2)
  then have "consumer_ok c1" using assms(3) by (simp add: provides_def)
  from worker_round_rely[OF _ this assms(4)] work show ?thesis by simp
qed

lemma system_steps_rely:
  assumes "(system_step a workers)\<^sup>*\<^sup>* w w'" and "storage_backend (ae_storage a) object"
    and "\<forall>c \<in> workers. consumer_ok c" and "rely R w"
  shows "R (w_db w) (w_db w') \<and> rely R w'"
  using assms(1,4)
proof (induction rule: rtranclp_induct)
  case (step y z)
  with system_step_rely[OF step.hyps(2) assms(2,3)] show ?case by (auto intro: R_trans)
qed simp

end

section \<open>Everything the system can reach\<close>

lemma filter_distinct_key:
  "distinct (map k xs) \<Longrightarrow> find (\<lambda>x. k x = i) xs = Some r \<Longrightarrow> filter (\<lambda>x. k x = i) xs = [r]"
  by (induction xs) (auto simp: filter_empty_conv image_iff split: if_splits)

text \<open>
  C1. The system as a whole is safe. Take the API and any number of workers that use the OpenAI provider, on an
  empty database, and let them act in any order, with uploads, retries and reads of any kind, database calls
  and Redis commands failing at any point, other processes committing within the same protocol, and the model
  answering anything: the constraints of the schema hold, no job has used more retries than it may, and every
  job shown as \<open>COMPLETED\<close> has exactly one result, whose data satisfies the schema of its document type.
\<close>

theorem system_is_safe:
  assumes "(system_step a workers)\<^sup>*\<^sup>* w w'" and "w_db w = empty_db" and "rely valid_steps w"
    and "storage_backend (ae_storage a) object"
    and "\<forall>c \<in> workers. (\<exists>fs base. pr_storage (sc_processor c) = local_storage fs base) \<and> runs_openai (sc_processor c)"
  shows "db_ok (w_db w') \<and> (\<forall>j \<in> set (db_jobs (w_db w')). job_retry_count j \<le> max 0 (job_max_retries j) \<and>
    (job_status j = COMPLETED \<longrightarrow>
       (\<exists>r. filter (\<lambda>r. res_job_id r = job_id j) (db_results (w_db w')) = [r] \<and>
          Schemas.conforms (FModel (SCHEMA_REGISTRY (res_detected_document_type r))) (res_extracted_data r))))"
proof -
  have "\<forall>c \<in> workers. reads_only (sc_processor c) \<and> provides result_conforms (sc_processor c)"
    using assms(5) reads_only_local openai_provides by blast
  from valid_results.system_steps_rely[OF assms(1,4) this assms(3)]
  have steps: "db_steps empty_db (w_db w')" and v: "results_conform (w_db w')"
    using assms(2) by (auto simp: valid_steps_def results_conform_def empty_db_def)
  note inv = pipeline_inv_steps[OF steps pipeline_inv_empty]
  then have ok: "db_ok (w_db w')" and jobs: "\<forall>j \<in> set (db_jobs (w_db w')). job_inv (w_db w') j"
    by (simp_all add: pipeline_inv_def)
  have "\<exists>r. filter (\<lambda>r. res_job_id r = i) (db_results (w_db w')) = [r] \<and> result_conforms r"
    if "find_result i (w_db w') \<noteq> None" for i
  proof -
    from that obtain r where r: "find_result i (w_db w') = Some r" by blast
    then have "r \<in> set (db_results (w_db w'))" by (auto simp: find_result_def find_Some_iff)
    then have "result_conforms r" using v by (simp add: results_conform_def)
    moreover have "filter (\<lambda>r. res_job_id r = i) (db_results (w_db w')) = [r]"
      using ok r unfolding find_result_def db_ok_def by (intro filter_distinct_key) auto
    ultimately show ?thesis by blast
  qed
  then show ?thesis using ok jobs by (simp add: job_inv_def result_conforms_def del: Schemas.conforms.simps)
qed

text \<open>One upload, and one worker whose model always answers with the same invoice.\<close>

definition fixed_client :: "json \<Rightarrow> unit openai_client" where
  "fixed_client v =
     \<lparr>oc_parse = (\<lambda>model ms s temp n. (Inr \<lparr>cp_choices = [\<lparr>cm_refusal = None, cm_parsed = Some (Raw v), cm_content = None\<rparr>],
        cp_usage = None\<rparr>, n)),
      oc_close = (\<lambda>n. (Inr (), n)), oc_status = (\<lambda>e. None)\<rparr>"

definition invoice_consumer :: "(mem_redis, unit, mem_fs) stream_consumer" where
  "invoice_consumer = new_consumer sample_queue
     \<lparr>pr_storage = local_storage mem_files [''srv'', ''uploads''], pr_redis = mem_api, pr_codec = plain_codec,
      pr_queue = sample_queue,
      pr_provider = openai_llm (fixed_client (fake_invoice None)) checking_pydantic \<lparr>op_model = ''m'', op_temperature = 0\<rparr>,
      pr_parsers = sample_parsers, pr_settings = default_settings, pr_consumer_name = ''worker'', pr_expired_read = None\<rparr>
     default_settings ''worker''"

lemma invoice_consumer_ok:
  "(\<exists>fs base. pr_storage (sc_processor invoice_consumer) = local_storage fs base) \<and> runs_openai (sc_processor invoice_consumer)"
proof -
  have "client_ok (fixed_client (fake_invoice None))" by (simp add: client_ok_def fixed_client_def)
  then have "runs_openai (sc_processor invoice_consumer)"
    unfolding runs_openai_def using checking_pydantic_ok by (auto simp: invoice_consumer_def new_consumer_def)
  then show ?thesis by (auto simp: invoice_consumer_def new_consumer_def)
qed

lemma uploaded_step: "system_step sample_api workers upload_world uploaded_world"
proof -
  obtain so where "upload_document sample_api Map.empty note_upload None upload_world =
     (Inr \<lparr>ua_document_id = ''id1'', ua_job_id = ''id2'', ua_status = QUEUED, ua_status_url = ''/api/v1/jobs/id2''\<rparr>, so,
      uploaded_world)" using upload_note by blast
  then have "request (upload_document sample_api Map.empty note_upload None) upload_world =
     (Inr \<lparr>ua_document_id = ''id1'', ua_job_id = ''id2'', ua_status = QUEUED, ua_status_url = ''/api/v1/jobs/id2''\<rparr>,
      uploaded_world)" by (simp add: request_def leave_session_def)
  then show ?thesis by (rule system_step.upload)
qed

lemma system_is_safe_witness:
  "\<exists>r c' w'. consume invoice_consumer uploaded_world = (r, c', w') \<and>
     (system_step sample_api {invoice_consumer})\<^sup>*\<^sup>* upload_world w' \<and> db_ok (w_db w')"
proof -
  obtain r c' w' where c: "consume invoice_consumer uploaded_world = (r, c', w')"
    by (cases "consume invoice_consumer uploaded_world")
  have "system_step sample_api {invoice_consumer} uploaded_world w'"
    by (rule system_step.work[OF _ _ worker_round.consumer[OF c]]) simp_all
  with uploaded_step have steps: "(system_step sample_api {invoice_consumer})\<^sup>*\<^sup>* upload_world w'"
    by (meson rtranclp.rtrancl_refl rtranclp.rtrancl_into_rtrancl)
  have "w_db upload_world = empty_db" "rely valid_steps upload_world"
    by (simp_all add: upload_world_def sample_world_def rely_def)
  from system_is_safe[OF steps this sample_api_storage] invoice_consumer_ok
  have "db_ok (w_db w')" by simp
  with c steps show ?thesis by blast
qed

section \<open>What is never lost\<close>

text \<open>
  C25. Committed history is never lost: whatever requests the API serves and whatever rounds the workers do, in
  any order, with database calls and Redis commands failing at any point and other processes of the same
  program committing in between, the documents and results that were there are still there unchanged and in
  place, and the jobs that were there still exist, in place, with their identity, document, retry budget and
  creation time. An update of a job writes every column that changed, so this is a property of what the marks
  of the job service change.
\<close>

theorem history_append_only:
  assumes "(system_step a workers)\<^sup>*\<^sup>* w w'" and "rely db_steps w" and "storage_backend (ae_storage a) object"
    and "\<forall>c \<in> workers. \<exists>fs base. pr_storage (sc_processor c) = local_storage fs base"
  shows "prefix (db_documents (w_db w)) (db_documents (w_db w')) \<and> prefix (db_results (w_db w)) (db_results (w_db w')) \<and>
    prefix (map (\<lambda>j. (job_id j, job_document_id j, job_max_retries j, job_created_at j)) (db_jobs (w_db w)))
      (map (\<lambda>j. (job_id j, job_document_id j, job_max_retries j, job_created_at j)) (db_jobs (w_db w')))"
proof -
  have "\<forall>c \<in> workers. reads_only (sc_processor c) \<and> provides (\<lambda>_. True) (sc_processor c)"
    using assms(4) reads_only_local by (auto simp: provides_def allows_def)
  from pipeline.system_steps_rely[OF assms(1,3) this assms(2)] have "db_steps (w_db w) (w_db w')" by simp
  from extends_steps[OF this] show ?thesis by (simp add: extends_db_def)
qed

lemma history_append_only_witness:
  "\<exists>r c' w'. consume invoice_consumer uploaded_world = (r, c', w') \<and>
     prefix (db_documents (w_db uploaded_world)) (db_documents (w_db w'))"
proof -
  obtain r c' w' where c: "consume invoice_consumer uploaded_world = (r, c', w')"
    by (cases "consume invoice_consumer uploaded_world")
  have "system_step sample_api {invoice_consumer} uploaded_world w'"
    by (rule system_step.work[OF _ _ worker_round.consumer[OF c]]) simp_all
  then have steps: "(system_step sample_api {invoice_consumer})\<^sup>*\<^sup>* uploaded_world w'" by blast
  have "rely db_steps upload_world" by (simp add: upload_world_def sample_world_def rely_def)
  then have "rely db_steps uploaded_world"
    using pipeline.system_step_rely[OF uploaded_step[of "{}"] sample_api_storage] by simp
  from history_append_only[OF steps this sample_api_storage] invoice_consumer_ok c show ?thesis by blast
qed

end
