(* ===== verification/Log_Setup.thy ===== *)
theory Log_Setup
  imports Logs Settings
begin

text \<open>
  \<^verbatim>\<open>configure_logging\<close> of \<^verbatim>\<open>app/core/logging.py\<close>: what it sets in structlog and in the logger hierarchy of the
  standard library. A logger the program never asked for is one without handlers that propagates; the
  root logger has the empty name.
\<close>

section \<open>State\<close>

datatype log_processor =
    MergeContextvars | AddLogLevel | StackInfoRenderer | TimeStamper string bool
  | RedactSensitive | TruncateLongValues
  | FormatExcInfo | RemoveProcessorsMeta | JSONRenderer | ConsoleRenderer bool

record log_handler =
  lh_stream :: string
  lh_foreign_pre_chain :: "log_processor list"
  lh_processors :: "log_processor list"

record std_logger =
  lg_handlers :: "log_handler list"
  lg_level :: int
  lg_propagate :: bool

record structlog_config =
  sg_processors :: "log_processor list"
  sg_min_level :: int
  sg_cache_logger :: bool

record log_state =
  ls_structlog :: "structlog_config option"
  ls_loggers :: "string \<Rightarrow> std_logger"

definition root_logger :: string where
  "root_logger = []"

text \<open>\<^verbatim>\<open>logging.getLevelNamesMapping()\<close> of the standard library.\<close>

definition level_names :: "(string \<times> int) list" where
  "level_names =
     [(''CRITICAL'', 50), (''FATAL'', 50), (''ERROR'', 40), (''WARN'', 30), (''WARNING'', 30),
      (''INFO'', 20), (''DEBUG'', 10), (''NOTSET'', 0)]"

definition unknown_level_error :: "string \<Rightarrow> exc" where
  "unknown_level_error k = OtherExc [''builtins.KeyError'', ''builtins.LookupError'', ''builtins.Exception''] k"

section \<open>Configuration\<close>

definition shared_processors :: "log_processor list" where
  "shared_processors =
     [MergeContextvars, AddLogLevel, StackInfoRenderer, TimeStamper ''iso'' True, RedactSensitive, TruncateLongValues]"

definition renderer :: "bool \<Rightarrow> bool \<Rightarrow> log_processor" where
  "renderer json_logs stderr_isatty = (if json_logs then JSONRenderer else ConsoleRenderer stderr_isatty)"

definition stdout_handler :: "log_processor \<Rightarrow> log_handler" where
  "stdout_handler r =
     \<lparr>lh_stream = ''stdout'', lh_foreign_pre_chain = shared_processors,
      lh_processors = [RemoveProcessorsMeta, r]\<rparr>"

definition uvicorn_loggers :: "string list" where
  "uvicorn_loggers = [''uvicorn'', ''uvicorn.error'', ''uvicorn.access'']"

definition silence :: "string \<Rightarrow> (string \<Rightarrow> std_logger) \<Rightarrow> string \<Rightarrow> std_logger" where
  "silence name loggers = loggers(name := (loggers name)\<lparr>lg_handlers := [], lg_propagate := True\<rparr>)"

definition configure_logging :: "string \<Rightarrow> bool \<Rightarrow> bool \<Rightarrow> log_state \<Rightarrow> unit result \<times> log_state" where
  "configure_logging level json_logs stderr_isatty st =
     (let r = renderer json_logs stderr_isatty; name = map upper_char level
      in (case map_of level_names name of
            None \<Rightarrow> (Inl (unknown_level_error name), st)
          | Some n \<Rightarrow>
              let root = (ls_loggers st root_logger)\<lparr>lg_handlers := [stdout_handler r], lg_level := n\<rparr>
              in (Inr (),
                  \<lparr>ls_structlog = Some
                     \<lparr>sg_processors = shared_processors @ [FormatExcInfo, r], sg_min_level = n, sg_cache_logger = True\<rparr>,
                   ls_loggers = fold silence uvicorn_loggers ((ls_loggers st)(root_logger := root))\<rparr>)))"

section \<open>Which handlers see a record\<close>

text \<open>The names from a logger to the root, and \<^verbatim>\<open>Logger.callHandlers\<close> of the standard library along them.\<close>

definition parent_name :: "string \<Rightarrow> string" where
  "parent_name name = rev (tl (dropWhile (\<lambda>c. c \<noteq> CHR ''.'') (rev name)))"

function logger_chain :: "string \<Rightarrow> string list" where
  "logger_chain name = (if name = [] then [root_logger] else name # logger_chain (parent_name name))"
  by pat_completeness auto

lemma parent_name_shorter: "name \<noteq> [] \<Longrightarrow> length (parent_name name) < length name"
proof -
  assume "name \<noteq> []"
  then have "0 < length name" by simp
  moreover have "length (dropWhile (\<lambda>c. c \<noteq> CHR ''.'') (rev name)) \<le> length name"
    using length_dropWhile_le[of "\<lambda>c. c \<noteq> CHR ''.''" "rev name"] by simp
  moreover have "length (parent_name name) = length (dropWhile (\<lambda>c. c \<noteq> CHR ''.'') (rev name)) - 1"
    by (simp add: parent_name_def)
  ultimately show ?thesis by linarith
qed

termination logger_chain
  by (relation "measure length") (simp_all add: parent_name_shorter)

declare logger_chain.simps [simp del]

fun call_handlers :: "(string \<Rightarrow> std_logger) \<Rightarrow> string list \<Rightarrow> log_handler list" where
  "call_handlers loggers [] = []"
| "call_handlers loggers (n # ns) =
     lg_handlers (loggers n) @ (if lg_propagate (loggers n) then call_handlers loggers ns else [])"

section \<open>Properties\<close>

lemma fold_silence:
  "fold silence names loggers n =
    (if n \<in> set names then (loggers n)\<lparr>lg_handlers := [], lg_propagate := True\<rparr> else loggers n)"
  by (induction names arbitrary: loggers) (auto simp: silence_def)

lemma root_not_uvicorn [simp]: "root_logger \<notin> set uvicorn_loggers"
  by (simp add: root_logger_def uvicorn_loggers_def)

text \<open>Every level the settings accept is one the standard library knows.\<close>

lemma accepted_level_configures:
  assumes "normalise_log_level value = Some level"
  shows "\<exists>st'. configure_logging level json_logs tty st = (Inr (), st')"
proof -
  have "level \<in> log_levels" using assms by (auto simp: normalise_log_level_def Let_def split: if_splits)
  then have "map upper_char level = level \<and> map_of level_names level \<noteq> None"
    by (auto simp: log_levels_def level_names_def upper_char_def)
  then show ?thesis by (auto simp: configure_logging_def Let_def)
qed

lemma unknown_level_changes_nothing:
  "configure_logging level json_logs tty st = (Inl e, st') \<Longrightarrow> st' = st \<and> map_of level_names (map upper_char level) = None"
  by (auto simp: configure_logging_def Let_def split: option.splits)

lemma configured_handlers:
  assumes "configure_logging level json_logs tty st = (Inr (), st')"
  shows "lg_handlers (ls_loggers st' n) =
    (if n = root_logger then [stdout_handler (renderer json_logs tty)]
     else if n \<in> set uvicorn_loggers then [] else lg_handlers (ls_loggers st n))"
    and "lg_propagate (ls_loggers st' n) = (n \<in> set uvicorn_loggers \<or> lg_propagate (ls_loggers st n))"
  using assms by (auto simp: configure_logging_def Let_def fold_silence split: option.splits if_splits)

text \<open>Nothing is printed twice: a record reaches the one handler of the root and no other, for the loggers of
  uvicorn whatever they were set up to do, and for any logger nobody attached a handler to.\<close>

lemma chain_ends_in_root: "\<exists>ns. logger_chain name = ns @ [root_logger] \<and> root_logger \<notin> set ns"
proof (induction name rule: logger_chain.induct)
  case (1 name)
  show ?case
  proof (cases "name = []")
    case True
    then show ?thesis by (simp add: logger_chain.simps)
  next
    case False
    with 1 obtain ns where "logger_chain (parent_name name) = ns @ [root_logger]" "root_logger \<notin> set ns" by blast
    with False show ?thesis by (subst logger_chain.simps) (auto simp: root_logger_def intro: exI[of _ "name # ns"])
  qed
qed

lemma call_handlers_root:
  assumes "\<And>n. n \<in> set ns \<Longrightarrow> lg_handlers (loggers n) = [] \<and> lg_propagate (loggers n)"
  shows "call_handlers loggers (ns @ [m]) = lg_handlers (loggers m)"
  using assms by (induction ns) auto

lemma printed_once:
  assumes "configure_logging level json_logs tty st = (Inr (), st')"
    and "\<And>n. n \<in> set (logger_chain name) \<Longrightarrow> n \<noteq> root_logger \<Longrightarrow> n \<notin> set uvicorn_loggers \<Longrightarrow>
      lg_handlers (ls_loggers st n) = [] \<and> lg_propagate (ls_loggers st n)"
  shows "call_handlers (ls_loggers st') (logger_chain name) = [stdout_handler (renderer json_logs tty)]"
proof -
  obtain ns where ns: "logger_chain name = ns @ [root_logger]" "root_logger \<notin> set ns" using chain_ends_in_root by blast
  have "lg_handlers (ls_loggers st' n) = [] \<and> lg_propagate (ls_loggers st' n)" if "n \<in> set ns" for n
    using that ns assms(2)[of n] configured_handlers[OF assms(1), of n] by auto
  then show ?thesis unfolding ns(1) using call_handlers_root configured_handlers(1)[OF assms(1), of root_logger] by simp
qed

lemma uvicorn_printed_once:
  assumes "configure_logging level json_logs tty st = (Inr (), st')" and "name \<in> set uvicorn_loggers"
  shows "call_handlers (ls_loggers st') (logger_chain name) = [stdout_handler (renderer json_logs tty)]"
proof -
  have "set (logger_chain ''uvicorn'') = {''uvicorn'', root_logger}"
    "set (logger_chain ''uvicorn.error'') = {''uvicorn.error'', ''uvicorn'', root_logger}"
    "set (logger_chain ''uvicorn.access'') = {''uvicorn.access'', ''uvicorn'', root_logger}"
    by (simp_all add: logger_chain.simps parent_name_def)
  then show ?thesis using assms(2) by (intro printed_once[OF assms(1)]) (auto simp: uvicorn_loggers_def)
qed

text \<open>Configuring again, as every start of an application does, is the same as configuring once.\<close>

lemma configure_idempotent:
  assumes "configure_logging level json_logs tty st = (Inr (), st')"
  shows "configure_logging level json_logs tty st' = (Inr (), st')"
  using assms by (auto simp: configure_logging_def Let_def fold_silence fun_eq_iff split: option.splits)

text \<open>
  Both ways to the output mask and cut before they render. The text of an exception is added after that
  and so is neither masked nor cut.
\<close>

lemma masked_before_rendering:
  assumes "configure_logging level json_logs tty st = (Inr (), st')"
  shows "\<exists>c. ls_structlog st' = Some c \<and> sg_processors c = shared_processors @ [FormatExcInfo, renderer json_logs tty] \<and>
    {RedactSensitive, TruncateLongValues} \<subseteq> set shared_processors \<and>
    (\<forall>h \<in> set (lg_handlers (ls_loggers st' root_logger)). lh_foreign_pre_chain h = shared_processors)"
  using assms configured_handlers(1)[OF assms, of root_logger]
  by (auto simp: configure_logging_def Let_def shared_processors_def stdout_handler_def split: option.splits)

end
