(* ===== verification/Metrics.thy ===== *)
theory Metrics
  imports Api Queue_Properties Protocol
begin

text \<open>
  \<^verbatim>\<open>app/services/metrics.py\<close> with \<^verbatim>\<open>app/schemas/metrics.py\<close> and its endpoint: the tallies of the jobs and
  the Redis backlog. Each query is one database call of its own, so others may commit in between. How
  PostgreSQL divides when it averages integers (its \<^verbatim>\<open>numeric\<close> type) is the argument \<open>avg\<close>.
\<close>

section \<open>The summary\<close>

record metrics_summary =
  ms_total_jobs :: int
  ms_queued :: int
  ms_processing :: int
  ms_retrying :: int
  ms_completed :: int
  ms_failed :: int
  ms_average_processing_duration_ms :: "py_float option"
  ms_approximate_success_rate :: "py_float option"
  ms_jobs_last_24_hours :: int
  ms_stream_length :: int
  ms_pending :: int
  ms_scheduled_retries :: int

definition with_status :: "job_status \<Rightarrow> db \<Rightarrow> int" where
  "with_status s d = int (length (filter (\<lambda>j. job_status j = s) (db_jobs d)))"

text \<open>\<^verbatim>\<open>GROUP BY status\<close>: a row only for the states that occur.\<close>

definition status_rows :: "db \<Rightarrow> (job_status \<times> int) list" where
  "status_rows d =
     map (\<lambda>s. (s, with_status s d)) (filter (\<lambda>s. s \<in> job_status ` set (db_jobs d)) job_status_members)"

definition durations :: "db \<Rightarrow> int list" where
  "durations d = List.map_filter job_processing_duration_ms (db_jobs d)"

definition created_since :: "time \<Rightarrow> db \<Rightarrow> int" where
  "created_since t d = int (length (filter (\<lambda>j. t \<le> job_created_at j) (db_jobs d)))"

text \<open>\<^verbatim>\<open>timedelta(hours=24)\<close>.\<close>

definition hours_24 :: time where
  "hours_24 = 24 * 60 * 60 * microseconds_per_second"

definition build_metrics_summary ::
  "(int list \<Rightarrow> rat) \<Rightarrow> 'r redis_api \<Rightarrow> redis_queue \<Rightarrow> ('r, 'p, 'f) world \<Rightarrow>
     metrics_summary result \<times> ('r, 'p, 'f) world" where
  "build_metrics_summary avg rd q w =
     (case db_read (\<lambda>d. Inr (status_rows d)) w of
        (Inl e, w1) \<Rightarrow> (Inl e, w1)
      | (Inr rows, w1) \<Rightarrow>
          let by_status = map_of rows;
              counts = (\<lambda>s. case by_status s of None \<Rightarrow> 0 | Some n \<Rightarrow> n)
          in (case db_read (\<lambda>d. Inr (if durations d = [] then None else Some (avg (durations d)))) w1 of
                (Inl e, w2) \<Rightarrow> (Inl e, w2)
              | (Inr avg_duration, w2) \<Rightarrow>
                  (case utcnow w2 of (now, w3) \<Rightarrow>
                     let since = now - hours_24
                     in (case db_read (\<lambda>d. Inr (created_since since d)) w3 of
                           (Inl e, w4) \<Rightarrow> (Inl e, w4)
                         | (Inr last_day, w4) \<Rightarrow>
                             let completed = counts COMPLETED;
                                 failed = counts FAILED;
                                 terminal = completed + failed;
                                 success_rate = (if terminal \<noteq> 0 then Some (py_div_int completed terminal) else None)
                             in (case depth rd q w4 of
                                   (Inl e, w5) \<Rightarrow> (Inl e, w5)
                                 | (Inr dp, w5) \<Rightarrow>
                                     (Inr \<lparr>ms_total_jobs = sum_list (map counts job_status_members),
                                           ms_queued = counts QUEUED, ms_processing = counts PROCESSING,
                                           ms_retrying = counts RETRYING, ms_completed = completed,
                                           ms_failed = failed,
                                           ms_average_processing_duration_ms =
                                             map_option (\<lambda>a. py_round (fl a) 2) avg_duration,
                                           ms_approximate_success_rate =
                                             map_option (\<lambda>x. py_round x 4) success_rate,
                                           ms_jobs_last_24_hours = last_day,
                                           ms_stream_length = qd_stream_length dp,
                                           ms_pending = qd_pending dp,
                                           ms_scheduled_retries = qd_scheduled_retries dp\<rparr>, w5))))))"

definition metrics_route :: "(int list \<Rightarrow> rat) \<Rightarrow> ('r, 'p, 'f) api_env \<Rightarrow> (metrics_summary, 'r, 'p, 'f) endpoint" where
  "metrics_route avg a w =
     (case build_metrics_summary avg (ae_redis a) (ae_queue a) w of (r, w1) \<Rightarrow> (r, None, w1))"

section \<open>Properties\<close>

lemma counts_of_rows:
  "(case map_of (status_rows d) s of None \<Rightarrow> 0 | Some n \<Rightarrow> n) = with_status s d"
proof -
  have "map_of (map (\<lambda>s. (s, f s)) xs) s = (if s \<in> set xs then Some (f s) else None)"
    for f :: "job_status \<Rightarrow> int" and xs
    by (induction xs) auto
  moreover have "s \<in> set job_status_members" by simp
  moreover have "with_status s d = 0" if "s \<notin> job_status ` set (db_jobs d)"
    using that by (auto simp: with_status_def filter_empty_conv)
  ultimately show ?thesis by (simp add: status_rows_def)
qed

lemma statuses_partition:
  "with_status QUEUED d + with_status PROCESSING d + with_status RETRYING d + with_status COMPLETED d
     + with_status FAILED d = int (length (db_jobs d))"
proof -
  have "length (filter (\<lambda>j. job_status j = QUEUED) js) + length (filter (\<lambda>j. job_status j = PROCESSING) js)
      + length (filter (\<lambda>j. job_status j = RETRYING) js) + length (filter (\<lambda>j. job_status j = COMPLETED) js)
      + length (filter (\<lambda>j. job_status j = FAILED) js) = length js" for js
  proof (induction js)
    case (Cons j js)
    then show ?case by (cases "job_status j") simp_all
  qed simp
  from this[of "db_jobs d"] show ?thesis by (simp add: with_status_def)
qed

lemma depth_frame [frame]: "depth rd q w = (r, w') \<Longrightarrow> redis_only w w'"
  by (auto simp: depth_def Let_def split: sum.splits prod.splits dest!: with_client_frame intro: redis_only_trans)

text \<open>A ratio rounded to four decimals.\<close>

lemma fl_unit_error:
  assumes "0 \<le> x" and "x \<le> 1"
  shows "\<bar>fl x - x\<bar> \<le> 1 / 2 ^ 53"
proof -
  have "\<bar>x\<bar> / 2 ^ 53 \<le> 1 / 2 ^ 53" using assms by (intro divide_right_mono) simp_all
  with fl_error[of x] show ?thesis by (rule order_trans)
qed

lemma py_round_error:
  assumes "0 \<le> x" and "x \<le> 1"
  shows "\<bar>py_round x n - x\<bar> \<le> 1 / (2 * 10 ^ n) + 1 / 2 ^ 53" and "0 \<le> py_round x n" and "py_round x n \<le> 1"
proof -
  let ?r = "of_int (round_even (x * 10 ^ n)) / 10 ^ n :: rat"
  have r: "0 \<le> round_even (x * 10 ^ n)" "round_even (x * 10 ^ n) \<le> 10 ^ n"
    using round_even_mono[of 0 "x * 10 ^ n"] round_even_mono[of "x * 10 ^ n" "of_int (10 ^ n)"]
      round_even_of_int[of 0] round_even_of_int[of "10 ^ n"] assms by (simp_all add: mult_le_cancel_right1)
  then have bounds: "0 \<le> ?r" "?r \<le> 1"
    by (simp_all add: divide_le_eq_1)
  show "0 \<le> py_round x n" unfolding py_round_def by (rule fl_nonneg) (rule bounds)
  have "is_fl 1" using is_fl_of_int[of 1] by simp
  then show "py_round x n \<le> 1" unfolding py_round_def by (rule fl_le_float[OF bounds(2)])
  have "?r - x = (of_int (round_even (x * 10 ^ n)) - x * 10 ^ n) / 10 ^ n" by (simp add: diff_divide_distrib)
  then have "\<bar>?r - x\<bar> = \<bar>of_int (round_even (x * 10 ^ n)) - x * 10 ^ n\<bar> / 10 ^ n" by (simp add: abs_divide)
  moreover have "\<bar>of_int (round_even (x * 10 ^ n)) - x * 10 ^ n\<bar> / 10 ^ n \<le> 1 / 2 / 10 ^ n"
    by (intro divide_right_mono round_even_error) simp
  ultimately have "\<bar>?r - x\<bar> \<le> 1 / (2 * 10 ^ n)" by simp
  moreover have "\<bar>fl ?r - ?r\<bar> \<le> 1 / 2 ^ 53" by (rule fl_unit_error[OF bounds])
  ultimately show "\<bar>py_round x n - x\<bar> \<le> 1 / (2 * 10 ^ n) + 1 / 2 ^ 53" unfolding py_round_def by linarith
qed

lemma rate_accurate:
  assumes "0 \<le> c" and "0 \<le> f" and "0 < c + f"
  shows "0 \<le> py_round (py_div_int c (c + f)) 4 \<and> py_round (py_div_int c (c + f)) 4 \<le> 1 \<and>
    \<bar>py_round (py_div_int c (c + f)) 4 - of_int c / of_int (c + f)\<bar> \<le> 51 / 10 ^ 6"
proof -
  let ?q = "of_int c / of_int (c + f) :: rat"
  have q: "0 \<le> ?q" "?q \<le> 1" using assms by (simp_all add: divide_le_eq_1)
  have "is_fl 1" using is_fl_of_int[of 1] by simp
  then have d: "0 \<le> py_div_int c (c + f)" "py_div_int c (c + f) \<le> 1"
    unfolding py_div_int_def using q by (auto intro: fl_nonneg fl_le_float)
  have "\<bar>py_div_int c (c + f) - ?q\<bar> \<le> 1 / 2 ^ 53"
    unfolding py_div_int_def by (rule fl_unit_error[OF q])
  moreover have "\<bar>py_round (py_div_int c (c + f)) 4 - py_div_int c (c + f)\<bar> \<le> 1 / (2 * 10 ^ 4) + 1 / 2 ^ 53"
    by (rule py_round_error[OF d])
  ultimately have "\<bar>py_round (py_div_int c (c + f)) 4 - ?q\<bar> \<le> 1 / (2 * 10 ^ 4) + 2 / 2 ^ 53" by linarith
  also have "\<dots> \<le> 51 / 10 ^ 6" by simp
  finally show ?thesis using py_round_error[OF d] by blast
qed

text \<open>
  C38. The summary is consistent, whatever commits come between its queries: its job counts are those
  of one database of the pipeline, every job is counted exactly once, and the success rate is absent
  exactly when no job has finished, otherwise between 0 and 1 and within 0.000051 of the exact ratio of
  completed to finished jobs.
\<close>

theorem metrics_consistent:
  assumes "build_metrics_summary avg rd q w = (Inr m, w')" and "rely db_steps w"
  shows "\<exists>d. db_steps (w_db w) d \<and> db_steps d (w_db w') \<and>
    ms_total_jobs m = int (length (db_jobs d)) \<and>
    ms_queued m = with_status QUEUED d \<and> ms_processing m = with_status PROCESSING d \<and>
    ms_retrying m = with_status RETRYING d \<and> ms_completed m = with_status COMPLETED d \<and>
    ms_failed m = with_status FAILED d \<and>
    (case ms_approximate_success_rate m of
       None \<Rightarrow> ms_completed m + ms_failed m = 0
     | Some x \<Rightarrow> 0 < ms_completed m + ms_failed m \<and> 0 \<le> x \<and> x \<le> 1 \<and>
         \<bar>x - of_int (ms_completed m) / of_int (ms_completed m + ms_failed m)\<bar> \<le> 51 / 10 ^ 6)"
proof -
  obtain x1 w1 where 1: "db_read (\<lambda>d. Inr (status_rows d)) w = (x1, w1)" by fastforce
  obtain x2 w2 where 2: "db_read (\<lambda>d. Inr (if durations d = [] then None else Some (avg (durations d)))) w1 = (x2, w2)"
    by fastforce
  obtain now w3 where 3: "utcnow w2 = (now, w3)" by fastforce
  obtain x4 w4 where 4: "db_read (\<lambda>d. Inr (created_since (now - hours_24) d)) w3 = (x4, w4)" by fastforce
  obtain x5 w5 where 5: "depth rd q w4 = (x5, w5)" by fastforce
  note def = build_metrics_summary_def 1 2 3 4 5 Let_def
  obtain rows where r1: "x1 = Inr rows" using assms(1) by (cases x1) (simp_all add: def)
  obtain a where r2: "x2 = Inr a" using assms(1) r1 by (cases x2) (simp_all add: def)
  obtain n where r4: "x4 = Inr n" using assms(1) r1 r2 by (cases x4) (simp_all add: def)
  obtain dp where r5: "x5 = Inr dp" using assms(1) r1 r2 r4 by (cases x5) (simp_all add: def)
  note p1 = pipeline.db_read_rely[OF 1 assms(2)]
  note p2 = pipeline.db_read_rely(1,2)[OF 2 p1(2)]
  note p3 = pipeline.utcnow_rely[OF 3 p2(2)]
  note p4 = pipeline.db_read_rely(1,2)[OF 4 conjunct1[OF p3]]
  have w5: "w_db w5 = w_db w4" using depth_frame[OF 5] by (simp add: redis_only_def)
  let ?d = "w_db w1"
  have rows: "rows = status_rows ?d" using p1(3)[OF r1] by simp
  have m: "ms_total_jobs m = int (length (db_jobs ?d))" "ms_queued m = with_status QUEUED ?d"
    "ms_processing m = with_status PROCESSING ?d" "ms_retrying m = with_status RETRYING ?d"
    "ms_completed m = with_status COMPLETED ?d" "ms_failed m = with_status FAILED ?d"
    "ms_approximate_success_rate m =
       (if with_status COMPLETED ?d + with_status FAILED ?d \<noteq> 0
        then Some (py_round (py_div_int (with_status COMPLETED ?d) (with_status COMPLETED ?d + with_status FAILED ?d)) 4)
        else None)" "w' = w5"
    using assms(1) r1 r2 r4 r5 statuses_partition[of ?d]
    by (auto simp: def rows counts_of_rows job_status_members_def)
  have pos: "0 \<le> with_status s ?d" for s by (simp add: with_status_def)
  have "case ms_approximate_success_rate m of
       None \<Rightarrow> ms_completed m + ms_failed m = 0
     | Some x \<Rightarrow> 0 < ms_completed m + ms_failed m \<and> 0 \<le> x \<and> x \<le> 1 \<and>
         \<bar>x - of_int (ms_completed m) / of_int (ms_completed m + ms_failed m)\<bar> \<le> 51 / 10 ^ 6"
  proof (cases "with_status COMPLETED ?d + with_status FAILED ?d = 0")
    case False
    then have c: "0 < with_status COMPLETED ?d + with_status FAILED ?d" using pos[of COMPLETED] pos[of FAILED] by linarith
    from rate_accurate[OF pos pos c] c show ?thesis unfolding m by simp
  qed (simp add: m)
  moreover have "db_steps ?d (w_db w')" using p2(1) p3 p4(1) w5 m(8) by (auto intro: rtranclp_trans)
  ultimately show ?thesis using p1(1) m(1-6) by blast
qed

lemma depth_sample:
  "\<exists>dp w'. depth mem_api sample_queue (sample_world pending_redis () () d 9) = (Inr dp, w')"
  by (simp add: depth_def with_client_def sample_queue_def redis_call_def mem_api_def mem_xpending_def Let_def
      pending_redis_def empty_redis_def)

lemma metrics_consistent_witness:
  "\<exists>m w'. build_metrics_summary (\<lambda>_. 0) mem_api sample_queue (sample_world pending_redis () () (sample_db queued_job) 9) =
       (Inr m, w') \<and> ms_approximate_success_rate m = None"
proof -
  let ?w = "sample_world pending_redis () () (sample_db queued_job) 9"
  obtain dp w' where d: "depth mem_api sample_queue ?w = (Inr dp, w')" using depth_sample by blast
  obtain m where m: "build_metrics_summary (\<lambda>_. 0) mem_api sample_queue ?w = (Inr m, w')"
    by (simp add: build_metrics_summary_def d Let_def)
  have "rely db_steps ?w" by (simp add: rely_def sample_world_def)
  from metrics_consistent[OF m this] have "ms_approximate_success_rate m = None \<or>
      ms_completed m + ms_failed m \<noteq> 0" by (auto split: option.splits)
  moreover have "with_status COMPLETED (sample_db queued_job) = 0" "with_status FAILED (sample_db queued_job) = 0"
    by (simp_all add: with_status_def sample_db_def)
  then have "ms_completed m = 0" "ms_failed m = 0"
    using m by (auto simp: build_metrics_summary_def d Let_def counts_of_rows)
  ultimately show ?thesis using m by auto
qed

end
