(* ===== verification/Migration.thy ===== *)
theory Migration
  imports Enums Errors
begin

text \<open>
  The database schema, twice: as the ORM models declare it (\<^verbatim>\<open>app/db/base.py\<close>, \<^verbatim>\<open>app/db/types.py\<close>, the
  column declarations of \<^verbatim>\<open>app/db/models\<close>) and as the Alembic migration builds it
  (\<^verbatim>\<open>alembic/versions/b1cbb1995668_initial_schema.py\<close>), one statement after the other. A statement works on
  the catalogue of the database and is refused when an object it needs is missing, when the object it
  creates exists, or when others depend on the object it drops, as PostgreSQL does.
\<close>

section \<open>Catalogue\<close>

datatype sql_type =
    UuidType | StringType nat | TextType | IntegerType | BigIntegerType | FloatType | JsonbType
  | TimestampTz | EnumType string

datatype server_default = DefaultText string | DefaultNow

record column =
  col_name :: string
  col_type :: sql_type
  col_nullable :: bool
  col_server_default :: "server_default option"

datatype on_delete = Cascade

datatype table_constraint =
    PrimaryKey string "string list"
  | Unique string "string list"
  | ForeignKey string "string list" string "string list" on_delete

record table =
  tab_name :: string
  tab_columns :: "column list"
  tab_constraints :: "table_constraint list"

record table_index =
  ix_name :: string
  ix_table :: string
  ix_columns :: "string list"
  ix_unique :: bool

record db_schema =
  ds_types :: "(string \<times> string list) list"
  ds_tables :: "table list"
  ds_indexes :: "table_index list"

definition no_schema :: db_schema where
  "no_schema = \<lparr>ds_types = [], ds_tables = [], ds_indexes = []\<rparr>"

section \<open>What the models declare\<close>

record mapped =
  mp_name :: string
  mp_type :: sql_type
  mp_nullable :: bool
  mp_server_default :: "server_default option"
  mp_primary_key :: bool
  mp_unique :: bool
  mp_index :: bool
  mp_references :: "(string \<times> string \<times> on_delete) option"

definition mapped_column :: "string \<Rightarrow> sql_type \<Rightarrow> bool \<Rightarrow> mapped" where
  "mapped_column n t nullable =
     \<lparr>mp_name = n, mp_type = t, mp_nullable = nullable, mp_server_default = None, mp_primary_key = False,
      mp_unique = False, mp_index = False, mp_references = None\<rparr>"

definition UUIDPrimaryKey :: "string \<Rightarrow> mapped" where
  "UUIDPrimaryKey n = (mapped_column n UuidType False)\<lparr>mp_primary_key := True\<rparr>"

definition CreatedAt :: "string \<Rightarrow> mapped" where
  "CreatedAt n = (mapped_column n TimestampTz False)\<lparr>mp_server_default := Some DefaultNow, mp_index := True\<rparr>"

definition DefaultedTimestamp :: "string \<Rightarrow> mapped" where
  "DefaultedTimestamp n = (mapped_column n TimestampTz False)\<lparr>mp_server_default := Some DefaultNow\<rparr>"

definition UpdatedAt :: "string \<Rightarrow> mapped" where
  "UpdatedAt n = (mapped_column n TimestampTz False)\<lparr>mp_server_default := Some DefaultNow\<rparr>"

definition OptionalTimestamp :: "string \<Rightarrow> mapped" where
  "OptionalTimestamp n = mapped_column n TimestampTz True"

definition FileSize :: "string \<Rightarrow> mapped" where
  "FileSize n = mapped_column n BigIntegerType False"

text \<open>The naming convention.\<close>

definition ix_label :: "string \<Rightarrow> string list \<Rightarrow> string" where
  "ix_label t cs = ''ix_'' @ t @ ''_'' @ py_join ''_'' cs"

definition uq_label :: "string \<Rightarrow> string list \<Rightarrow> string" where
  "uq_label t cs = ''uq_'' @ t @ ''_'' @ py_join ''_'' cs"

definition fk_label :: "string \<Rightarrow> string \<Rightarrow> string \<Rightarrow> string" where
  "fk_label t c referred = ''fk_'' @ t @ ''_'' @ c @ ''_'' @ referred"

definition pk_label :: "string \<Rightarrow> string" where
  "pk_label t = ''pk_'' @ t"

definition DocumentTypeEnum :: "string \<times> string list" where
  "DocumentTypeEnum = (''document_type'', map document_type_value document_type_members)"

definition JobStatusEnum :: "string \<times> string list" where
  "JobStatusEnum = (''job_status'', map status_value job_status_members)"

definition document_columns :: "mapped list" where
  "document_columns =
     [UUIDPrimaryKey ''id'',
      mapped_column ''original_filename'' (StringType 255) False,
      (mapped_column ''stored_filename'' (StringType 255) False)\<lparr>mp_unique := True\<rparr>,
      mapped_column ''content_type'' (StringType 128) False,
      FileSize ''file_size'',
      mapped_column ''storage_path'' (StringType 1024) False,
      (mapped_column ''checksum'' (StringType 64) False)\<lparr>mp_index := True\<rparr>,
      mapped_column ''requested_document_type'' (EnumType (fst DocumentTypeEnum)) True,
      CreatedAt ''created_at'']"

definition job_columns :: "mapped list" where
  "job_columns =
     [UUIDPrimaryKey ''id'',
      (mapped_column ''document_id'' UuidType False)
        \<lparr>mp_references := Some (''documents'', ''id'', Cascade), mp_index := True\<rparr>,
      (mapped_column ''status'' (EnumType (fst JobStatusEnum)) False)
        \<lparr>mp_server_default := Some (DefaultText (status_value QUEUED))\<rparr>,
      (mapped_column ''retry_count'' IntegerType False)\<lparr>mp_server_default := Some (DefaultText ''0'')\<rparr>,
      (mapped_column ''max_retries'' IntegerType False)\<lparr>mp_server_default := Some (DefaultText ''3'')\<rparr>,
      mapped_column ''error_message'' TextType True,
      DefaultedTimestamp ''queued_at'',
      OptionalTimestamp ''started_at'',
      OptionalTimestamp ''completed_at'',
      mapped_column ''processing_duration_ms'' IntegerType True,
      mapped_column ''consumer_name'' (StringType 128) True,
      CreatedAt ''created_at'',
      UpdatedAt ''updated_at'']"

definition job_indexes :: "table_index list" where
  "job_indexes =
     [\<lparr>ix_name = ''ix_processing_jobs_status_created_at'', ix_table = ''processing_jobs'',
       ix_columns = [''status'', ''created_at''], ix_unique = False\<rparr>,
      \<lparr>ix_name = ''ix_processing_jobs_status_started_at'', ix_table = ''processing_jobs'',
       ix_columns = [''status'', ''started_at''], ix_unique = False\<rparr>]"

definition result_columns :: "mapped list" where
  "result_columns =
     [UUIDPrimaryKey ''id'',
      (mapped_column ''job_id'' UuidType False)
        \<lparr>mp_references := Some (''processing_jobs'', ''id'', Cascade), mp_unique := True\<rparr>,
      (mapped_column ''detected_document_type'' (EnumType (fst DocumentTypeEnum)) False)\<lparr>mp_index := True\<rparr>,
      mapped_column ''extracted_data'' JsonbType False,
      mapped_column ''raw_text'' TextType True,
      mapped_column ''model_provider'' (StringType 64) False,
      mapped_column ''model_name'' (StringType 128) False,
      mapped_column ''prompt_version'' (StringType 32) False,
      mapped_column ''input_tokens'' IntegerType True,
      mapped_column ''output_tokens'' IntegerType True,
      mapped_column ''confidence_score'' FloatType True,
      DefaultedTimestamp ''created_at'']"

text \<open>The table and the indexes SQLAlchemy derives from mapped columns.\<close>

definition table_of :: "string \<Rightarrow> mapped list \<Rightarrow> table" where
  "table_of t ms =
     \<lparr>tab_name = t,
      tab_columns = map (\<lambda>m. \<lparr>col_name = mp_name m, col_type = mp_type m, col_nullable = mp_nullable m,
        col_server_default = mp_server_default m\<rparr>) ms,
      tab_constraints =
        [PrimaryKey (pk_label t) (map mp_name (filter mp_primary_key ms))] @
        map (\<lambda>m. Unique (uq_label t [mp_name m]) [mp_name m]) (filter mp_unique ms) @
        List.map_filter (\<lambda>m. map_option
          (\<lambda>(rt, rc, od). ForeignKey (fk_label t (mp_name m) rt) [mp_name m] rt [rc] od) (mp_references m)) ms\<rparr>"

definition indexes_of :: "string \<Rightarrow> mapped list \<Rightarrow> table_index list" where
  "indexes_of t ms =
     map (\<lambda>m. \<lparr>ix_name = ix_label t [mp_name m], ix_table = t, ix_columns = [mp_name m], ix_unique = False\<rparr>)
       (filter mp_index ms)"

text \<open>\<^verbatim>\<open>Base.metadata\<close>.\<close>

definition metadata :: db_schema where
  "metadata =
     \<lparr>ds_types = [DocumentTypeEnum, JobStatusEnum],
      ds_tables = [table_of ''documents'' document_columns, table_of ''processing_jobs'' job_columns,
        table_of ''extraction_results'' result_columns],
      ds_indexes = indexes_of ''documents'' document_columns @ indexes_of ''processing_jobs'' job_columns @
        job_indexes @ indexes_of ''extraction_results'' result_columns\<rparr>"

section \<open>Statements\<close>

definition programming_error :: "string \<Rightarrow> exc" where
  "programming_error t =
     OtherExc [''sqlalchemy.exc.ProgrammingError'', ''sqlalchemy.exc.DBAPIError'',
       ''sqlalchemy.exc.SQLAlchemyError'', ''builtins.Exception''] t"

type_synonym statement = "db_schema \<Rightarrow> db_schema result"

definition enum_create :: "string \<times> string list \<Rightarrow> bool \<Rightarrow> statement" where
  "enum_create e checkfirst s =
     (if fst e \<in> fst ` set (ds_types s) then
        (if checkfirst then Inr s else Inl (programming_error ''type already exists''))
      else Inr (s\<lparr>ds_types := ds_types s @ [e]\<rparr>))"

definition enum_drop :: "string \<times> string list \<Rightarrow> bool \<Rightarrow> statement" where
  "enum_drop e checkfirst s =
     (if fst e \<notin> fst ` set (ds_types s) then
        (if checkfirst then Inr s else Inl (programming_error ''type does not exist''))
      else if list_ex (\<lambda>t. list_ex (\<lambda>c. col_type c = EnumType (fst e)) (tab_columns t)) (ds_tables s) then
        Inl (programming_error ''other objects depend on the type'')
      else Inr (s\<lparr>ds_types := filter (\<lambda>x. fst x \<noteq> fst e) (ds_types s)\<rparr>))"

fun references_ok :: "string list \<Rightarrow> table_constraint \<Rightarrow> bool" where
  "references_ok tables (ForeignKey n cs rt rcs od) \<longleftrightarrow> rt \<in> set tables"
| "references_ok tables _ \<longleftrightarrow> True"

fun references_table :: "string \<Rightarrow> table_constraint \<Rightarrow> bool" where
  "references_table t (ForeignKey n cs rt rcs od) \<longleftrightarrow> rt = t"
| "references_table t _ \<longleftrightarrow> False"

definition known_column_type :: "(string \<times> string list) list \<Rightarrow> column \<Rightarrow> bool" where
  "known_column_type types c = (case col_type c of EnumType n \<Rightarrow> n \<in> fst ` set types | _ \<Rightarrow> True)"

definition create_table :: "table \<Rightarrow> statement" where
  "create_table t s =
     (if tab_name t \<in> tab_name ` set (ds_tables s) then Inl (programming_error ''relation already exists'')
      else if \<not> list_all (known_column_type (ds_types s)) (tab_columns t) then
        Inl (programming_error ''type does not exist'')
      else if \<not> list_all (references_ok (map tab_name (ds_tables s))) (tab_constraints t) then
        Inl (programming_error ''relation does not exist'')
      else Inr (s\<lparr>ds_tables := ds_tables s @ [t]\<rparr>))"

definition drop_table :: "string \<Rightarrow> statement" where
  "drop_table t s =
     (if t \<notin> tab_name ` set (ds_tables s) then Inl (programming_error ''table does not exist'')
      else if list_ex (\<lambda>x. tab_name x \<noteq> t \<and> list_ex (references_table t) (tab_constraints x)) (ds_tables s) then
        Inl (programming_error ''other objects depend on the table'')
      else Inr (s\<lparr>ds_tables := filter (\<lambda>x. tab_name x \<noteq> t) (ds_tables s),
                  ds_indexes := filter (\<lambda>i. ix_table i \<noteq> t) (ds_indexes s)\<rparr>))"

definition create_index :: "string \<Rightarrow> string \<Rightarrow> string list \<Rightarrow> bool \<Rightarrow> statement" where
  "create_index n t cs u s =
     (case find (\<lambda>x. tab_name x = t) (ds_tables s) of
        None \<Rightarrow> Inl (programming_error ''relation does not exist'')
      | Some x \<Rightarrow>
          if \<not> list_all (\<lambda>c. c \<in> set (map col_name (tab_columns x))) cs then
            Inl (programming_error ''column does not exist'')
          else if n \<in> ix_name ` set (ds_indexes s) then Inl (programming_error ''relation already exists'')
          else Inr (s\<lparr>ds_indexes := ds_indexes s @
            [\<lparr>ix_name = n, ix_table = t, ix_columns = cs, ix_unique = u\<rparr>]\<rparr>))"

definition drop_index :: "string \<Rightarrow> statement" where
  "drop_index n s =
     (if n \<notin> ix_name ` set (ds_indexes s) then Inl (programming_error ''index does not exist'')
      else Inr (s\<lparr>ds_indexes := filter (\<lambda>i. ix_name i \<noteq> n) (ds_indexes s)\<rparr>))"

text \<open>A migration runs its statements in one transaction: the first error undoes it.\<close>

fun run_statements :: "statement list \<Rightarrow> statement" where
  "run_statements [] s = Inr s"
| "run_statements (f # fs) s = (case f s of Inl e \<Rightarrow> Inl e | Inr s' \<Rightarrow> run_statements fs s')"

section \<open>The migration\<close>

definition DOCUMENT_TYPE_VALUES :: "string list" where
  "DOCUMENT_TYPE_VALUES = [''invoice'', ''resume'', ''support_ticket'', ''generic'']"

definition JOB_STATUS_VALUES :: "string list" where
  "JOB_STATUS_VALUES = [''queued'', ''processing'', ''retrying'', ''completed'', ''failed'']"

definition document_type_enum :: "string \<times> string list" where
  "document_type_enum = (''document_type'', DOCUMENT_TYPE_VALUES)"

definition job_status_enum :: "string \<times> string list" where
  "job_status_enum = (''job_status'', JOB_STATUS_VALUES)"

definition sa_column :: "string \<Rightarrow> sql_type \<Rightarrow> bool \<Rightarrow> server_default option \<Rightarrow> column" where
  "sa_column n t nullable d = \<lparr>col_name = n, col_type = t, col_nullable = nullable, col_server_default = d\<rparr>"

definition documents_table :: table where
  "documents_table =
     \<lparr>tab_name = ''documents'',
      tab_columns =
        [sa_column ''id'' UuidType False None,
         sa_column ''original_filename'' (StringType 255) False None,
         sa_column ''stored_filename'' (StringType 255) False None,
         sa_column ''content_type'' (StringType 128) False None,
         sa_column ''file_size'' BigIntegerType False None,
         sa_column ''storage_path'' (StringType 1024) False None,
         sa_column ''checksum'' (StringType 64) False None,
         sa_column ''requested_document_type'' (EnumType ''document_type'') True None,
         sa_column ''created_at'' TimestampTz False (Some DefaultNow)],
      tab_constraints =
        [PrimaryKey ''pk_documents'' [''id''], Unique ''uq_documents_stored_filename'' [''stored_filename'']]\<rparr>"

definition processing_jobs_table :: table where
  "processing_jobs_table =
     \<lparr>tab_name = ''processing_jobs'',
      tab_columns =
        [sa_column ''id'' UuidType False None,
         sa_column ''document_id'' UuidType False None,
         sa_column ''status'' (EnumType ''job_status'') False (Some (DefaultText ''queued'')),
         sa_column ''retry_count'' IntegerType False (Some (DefaultText ''0'')),
         sa_column ''max_retries'' IntegerType False (Some (DefaultText ''3'')),
         sa_column ''error_message'' TextType True None,
         sa_column ''queued_at'' TimestampTz False (Some DefaultNow),
         sa_column ''started_at'' TimestampTz True None,
         sa_column ''completed_at'' TimestampTz True None,
         sa_column ''processing_duration_ms'' IntegerType True None,
         sa_column ''consumer_name'' (StringType 128) True None,
         sa_column ''created_at'' TimestampTz False (Some DefaultNow),
         sa_column ''updated_at'' TimestampTz False (Some DefaultNow)],
      tab_constraints =
        [ForeignKey ''fk_processing_jobs_document_id_documents'' [''document_id''] ''documents'' [''id''] Cascade,
         PrimaryKey ''pk_processing_jobs'' [''id'']]\<rparr>"

definition extraction_results_table :: table where
  "extraction_results_table =
     \<lparr>tab_name = ''extraction_results'',
      tab_columns =
        [sa_column ''id'' UuidType False None,
         sa_column ''job_id'' UuidType False None,
         sa_column ''detected_document_type'' (EnumType ''document_type'') False None,
         sa_column ''extracted_data'' JsonbType False None,
         sa_column ''raw_text'' TextType True None,
         sa_column ''model_provider'' (StringType 64) False None,
         sa_column ''model_name'' (StringType 128) False None,
         sa_column ''prompt_version'' (StringType 32) False None,
         sa_column ''input_tokens'' IntegerType True None,
         sa_column ''output_tokens'' IntegerType True None,
         sa_column ''confidence_score'' FloatType True None,
         sa_column ''created_at'' TimestampTz False (Some DefaultNow)],
      tab_constraints =
        [ForeignKey ''fk_extraction_results_job_id_processing_jobs'' [''job_id''] ''processing_jobs'' [''id''] Cascade,
         PrimaryKey ''pk_extraction_results'' [''id''],
         Unique ''uq_extraction_results_job_id'' [''job_id'']]\<rparr>"

definition upgrade :: statement where
  "upgrade = run_statements
     [enum_create document_type_enum True,
      enum_create job_status_enum True,
      create_table documents_table,
      create_index ''ix_documents_checksum'' ''documents'' [''checksum''] False,
      create_index ''ix_documents_created_at'' ''documents'' [''created_at''] False,
      create_table processing_jobs_table,
      create_index ''ix_processing_jobs_created_at'' ''processing_jobs'' [''created_at''] False,
      create_index ''ix_processing_jobs_document_id'' ''processing_jobs'' [''document_id''] False,
      create_index ''ix_processing_jobs_status_created_at'' ''processing_jobs'' [''status'', ''created_at''] False,
      create_index ''ix_processing_jobs_status_started_at'' ''processing_jobs'' [''status'', ''started_at''] False,
      create_table extraction_results_table,
      create_index ''ix_extraction_results_detected_document_type'' ''extraction_results''
        [''detected_document_type''] False]"

definition downgrade :: statement where
  "downgrade = run_statements
     [drop_index ''ix_extraction_results_detected_document_type'',
      drop_table ''extraction_results'',
      drop_index ''ix_processing_jobs_status_started_at'',
      drop_index ''ix_processing_jobs_status_created_at'',
      drop_index ''ix_processing_jobs_document_id'',
      drop_index ''ix_processing_jobs_created_at'',
      drop_table ''processing_jobs'',
      drop_index ''ix_documents_created_at'',
      drop_index ''ix_documents_checksum'',
      drop_table ''documents'',
      enum_drop job_status_enum True,
      enum_drop document_type_enum True]"

section \<open>Properties\<close>

text \<open>The same up to the order in which constraints and indexes were declared.\<close>

definition same_table :: "table \<Rightarrow> table \<Rightarrow> bool" where
  "same_table a b \<longleftrightarrow>
     tab_name a = tab_name b \<and> tab_columns a = tab_columns b \<and>
     set (tab_constraints a) = set (tab_constraints b)"

definition same_schema :: "db_schema \<Rightarrow> db_schema \<Rightarrow> bool" where
  "same_schema a b \<longleftrightarrow>
     ds_types a = ds_types b \<and> list_all2 same_table (ds_tables a) (ds_tables b) \<and>
     set (ds_indexes a) = set (ds_indexes b) \<and> length (ds_indexes a) = length (ds_indexes b)"

definition migrated :: db_schema where
  "migrated =
     \<lparr>ds_types = [document_type_enum, job_status_enum],
      ds_tables = [documents_table, processing_jobs_table, extraction_results_table],
      ds_indexes = map (\<lambda>(n, t, cs). \<lparr>ix_name = n, ix_table = t, ix_columns = cs, ix_unique = False\<rparr>)
        [(''ix_documents_checksum'', ''documents'', [''checksum'']),
         (''ix_documents_created_at'', ''documents'', [''created_at'']),
         (''ix_processing_jobs_created_at'', ''processing_jobs'', [''created_at'']),
         (''ix_processing_jobs_document_id'', ''processing_jobs'', [''document_id'']),
         (''ix_processing_jobs_status_created_at'', ''processing_jobs'', [''status'', ''created_at'']),
         (''ix_processing_jobs_status_started_at'', ''processing_jobs'', [''status'', ''started_at'']),
         (''ix_extraction_results_detected_document_type'', ''extraction_results'', [''detected_document_type''])]\<rparr>"

lemma upgrade_empty: "upgrade no_schema = Inr migrated"
  by code_simp

lemma downgrade_migrated: "downgrade migrated = Inr no_schema"
  by code_simp

lemma migrated_metadata: "same_schema migrated metadata"
  by code_simp

lemma upgrade_leftover_types:
  "upgrade (no_schema\<lparr>ds_types := [document_type_enum, job_status_enum]\<rparr>) = Inr migrated"
  by code_simp

lemma upgrade_twice: "upgrade migrated = Inl (programming_error ''relation already exists'')"
  by code_simp

text \<open>
  The migration builds the schema the models declare: the same enum types with the wire values of
  the Python enums, the same tables, column by column, with the same keys, unique constraints and
  cascades under the same names, and the same indexes. Downgrading gives back the empty database;
  enum types left behind by an interrupted downgrade do not stand in the way, and applying the
  migration twice is refused.
\<close>

lemma migration_matches_models:
  "\<exists>s. upgrade no_schema = Inr s \<and> same_schema s metadata \<and> downgrade s = Inr no_schema \<and>
     upgrade (no_schema\<lparr>ds_types := [document_type_enum, job_status_enum]\<rparr>) = Inr s \<and>
     upgrade s = Inl (programming_error ''relation already exists'')"
  using upgrade_empty migrated_metadata downgrade_migrated upgrade_leftover_types upgrade_twice by blast

end
