(* ===== verification/Alembic_Env.thy ===== *)
theory Alembic_Env
  imports Settings Errors "HOL-Library.AList"
begin

text \<open>
  \<^verbatim>\<open>alembic/env.py\<close>: how the database URL of the settings travels through the configuration file parser to
  the engine the migrations run on, and the two ways to run them. The parser is the one of the standard
  library, with its interpolation of \<open>%(name)s\<close>; what Alembic does with a configured context is an argument.
\<close>

section \<open>Interpolation (configparser)\<close>

definition parser_error :: "string \<Rightarrow> string \<Rightarrow> exc" where
  "parser_error cls t = OtherExc [''configparser.'' @ cls, ''configparser.Error'', ''builtins.Exception''] t"

definition value_error :: "string \<Rightarrow> exc" where
  "value_error t = OtherExc [''builtins.ValueError'', ''builtins.Exception''] t"

text \<open>\<^verbatim>\<open>str.replace("%", "%%")\<close> and \<^verbatim>\<open>str.replace("%%", "")\<close>.\<close>

definition escape_percent :: "string \<Rightarrow> string" where
  "escape_percent value = concat (map (\<lambda>c. if c = CHR ''%'' then ''%%'' else [c]) value)"

fun drop_pairs :: "string \<Rightarrow> string" where
  "drop_pairs [] = []"
| "drop_pairs [c] = [c]"
| "drop_pairs (c # d # cs) = (if c = CHR ''%'' \<and> d = CHR ''%'' then drop_pairs cs else c # drop_pairs (d # cs))"

text \<open>The pattern \<^verbatim>\<open>%\(([^)]+)\)s\<close> at the head of a text: the name and what follows.\<close>

fun reference :: "string \<Rightarrow> (string \<times> string) option" where
  "reference (p # q # cs) =
     (if p = CHR ''%'' \<and> q = CHR ''('' then
        (let name = takeWhile (\<lambda>c. c \<noteq> CHR '')'') cs; rest = dropWhile (\<lambda>c. c \<noteq> CHR '')'') cs
         in if name \<noteq> [] \<and> take 2 rest = '')s'' then Some (name, drop 2 rest) else None)
      else None)"
| "reference _ = None"

lemma reference_shorter: "reference s = Some (name, rest) \<Longrightarrow> length rest < length s"
proof (induction s rule: reference.induct)
  case (1 p q cs)
  have "length (dropWhile (\<lambda>c. c \<noteq> CHR '')'') cs) \<le> length cs" by (rule length_dropWhile_le)
  with 1 show ?case by (auto simp: Let_def split: if_splits)
qed simp_all

function drop_references :: "string \<Rightarrow> string" where
  "drop_references [] = []"
| "drop_references (c # cs) =
     (case reference (c # cs) of Some (name, rest) \<Rightarrow> drop_references rest | None \<Rightarrow> c # drop_references cs)"
  by pat_completeness auto

termination
  by (relation "measure length") (auto dest!: reference_shorter)

text \<open>\<^verbatim>\<open>BasicInterpolation.before_set\<close>: a sign that is neither doubled nor part of a reference is refused.\<close>

definition before_set :: "string \<Rightarrow> string result" where
  "before_set value =
     (if CHR ''%'' \<in> set (drop_references (drop_pairs value))
      then Inl (value_error (''invalid interpolation syntax in '' @ value)) else Inr value)"

text \<open>
  \<^verbatim>\<open>BasicInterpolation._interpolate_some\<close>: a value that itself contains \<open>%\<close> is interpolated in turn, to
  a depth of ten (\<open>d\<close> is what is left of it).
\<close>

definition MAX_INTERPOLATION_DEPTH :: nat where
  "MAX_INTERPOLATION_DEPTH = 10"

function interpolate :: "nat \<Rightarrow> (string \<Rightarrow> string option) \<Rightarrow> string \<Rightarrow> string result" where
  "interpolate 0 vars s = Inl (parser_error ''InterpolationDepthError'' s)"
| "interpolate (Suc d) vars [] = Inr []"
| "interpolate (Suc d) vars (c # cs) =
     (if c \<noteq> CHR ''%'' then map_sum id ((#) c) (interpolate (Suc d) vars cs)
      else if take 1 cs = ''%'' then map_sum id ((#) c) (interpolate (Suc d) vars (drop 1 cs))
      else
        (case reference (c # cs) of
           None \<Rightarrow> Inl (parser_error ''InterpolationSyntaxError'' (c # cs))
         | Some (name, rest) \<Rightarrow>
             (case vars (lower name) of
                None \<Rightarrow> Inl (parser_error ''InterpolationMissingOptionError'' name)
              | Some v \<Rightarrow>
                  (case (if CHR ''%'' \<in> set v then interpolate d vars v else Inr v) of
                     Inl e \<Rightarrow> Inl e
                   | Inr a \<Rightarrow> map_sum id ((@) a) (interpolate (Suc d) vars rest)))))"
  by pat_completeness auto

termination
  by (relation "measures [\<lambda>(d, vars, s). d, \<lambda>(d, vars, s). length s]") (auto dest!: reference_shorter)

section \<open>A section of the configuration\<close>

type_synonym config_section = "(string \<times> string) list"

definition set_main_option :: "string \<Rightarrow> string \<Rightarrow> config_section \<Rightarrow> config_section result" where
  "set_main_option key value options =
     (case before_set value of Inl e \<Rightarrow> Inl e | Inr v \<Rightarrow> Inr (AList.update (lower key) v options))"

fun interpolate_all :: "(string \<Rightarrow> string option) \<Rightarrow> config_section \<Rightarrow> config_section result" where
  "interpolate_all vars [] = Inr []"
| "interpolate_all vars ((k, v) # ps) =
     (case interpolate MAX_INTERPOLATION_DEPTH vars v of
        Inl e \<Rightarrow> Inl e
      | Inr v' \<Rightarrow> map_sum id ((#) (k, v')) (interpolate_all vars ps))"

definition get_section :: "config_section \<Rightarrow> config_section result" where
  "get_section options = interpolate_all (map_of options) options"

section \<open>The environment (alembic/env.py)\<close>

datatype migration_target = OfflineUrl string | OnlineConnection

record migration_options =
  mo_target :: migration_target
  mo_literal_binds :: bool
  mo_paramstyle :: "string option"
  mo_compare_type :: bool
  mo_compare_server_default :: bool

record migration_engine =
  me_url :: string
  me_options :: "(string \<times> string) list"
  me_poolclass :: string

text \<open>
  What the script finds in Alembic: whether it runs offline, the configuration file, setting up the
  loggers from that file, and one transaction that runs the migrations on a configured context. Connecting
  and disposing belong to the engine.
\<close>

record 'c alembic =
  al_offline :: bool
  al_config_file_name :: "string option"
  al_file_config :: "string \<Rightarrow> 'c \<Rightarrow> unit result \<times> 'c"
  al_run_migrations :: "migration_options \<Rightarrow> 'c \<Rightarrow> unit result \<times> 'c"
  al_connect :: "migration_engine \<Rightarrow> 'c \<Rightarrow> unit result \<times> 'c"
  al_close :: "migration_engine \<Rightarrow> 'c \<Rightarrow> 'c"
  al_dispose :: "migration_engine \<Rightarrow> 'c \<Rightarrow> unit result \<times> 'c"

definition run_migrations_offline :: "'c alembic \<Rightarrow> string \<Rightarrow> 'c \<Rightarrow> unit result \<times> 'c" where
  "run_migrations_offline al url =
     al_run_migrations al
       \<lparr>mo_target = OfflineUrl url, mo_literal_binds = True, mo_paramstyle = Some ''named'',
        mo_compare_type = True, mo_compare_server_default = True\<rparr>"

definition do_run_migrations :: "'c alembic \<Rightarrow> 'c \<Rightarrow> unit result \<times> 'c" where
  "do_run_migrations al =
     al_run_migrations al
       \<lparr>mo_target = OnlineConnection, mo_literal_binds = False, mo_paramstyle = None,
        mo_compare_type = True, mo_compare_server_default = True\<rparr>"

text \<open>\<^verbatim>\<open>async_engine_from_config(configuration, prefix="sqlalchemy.")\<close>: the URL under \<^verbatim>\<open>sqlalchemy.url\<close>.\<close>

definition engine_prefix :: string where
  "engine_prefix = ''sqlalchemy.''"

definition engine_from_config :: "config_section \<Rightarrow> string \<Rightarrow> migration_engine result" where
  "engine_from_config configuration poolclass =
     (let options = map (apfst (drop (length engine_prefix)))
        (filter (\<lambda>(k, v). take (length engine_prefix) k = engine_prefix) configuration)
      in (case map_of options ''url'' of
            None \<Rightarrow> Inl (OtherExc [''builtins.KeyError'', ''builtins.LookupError'', ''builtins.Exception''] ''url'')
          | Some url \<Rightarrow>
              Inr \<lparr>me_url = url, me_options = filter (\<lambda>(k, v). k \<noteq> ''url'') options, me_poolclass = poolclass\<rparr>))"

text \<open>The connection is closed whatever happens on it; the engine is disposed only when nothing was raised.\<close>

definition run_migrations_online :: "'c alembic \<Rightarrow> config_section \<Rightarrow> 'c \<Rightarrow> unit result \<times> 'c" where
  "run_migrations_online al options c =
     (case get_section options of
        Inl e \<Rightarrow> (Inl e, c)
      | Inr configuration \<Rightarrow>
          (case engine_from_config configuration ''NullPool'' of
             Inl e \<Rightarrow> (Inl e, c)
           | Inr engine \<Rightarrow>
               (case al_connect al engine c of
                  (Inl e, c1) \<Rightarrow> (Inl e, c1)
                | (Inr _, c1) \<Rightarrow>
                    (case do_run_migrations al c1 of
                       (Inl e, c2) \<Rightarrow> (Inl e, al_close al engine c2)
                     | (Inr _, c2) \<Rightarrow> al_dispose al engine (al_close al engine c2)))))"

definition run_env :: "settings \<Rightarrow> 'c alembic \<Rightarrow> config_section \<Rightarrow> 'c \<Rightarrow> unit result \<times> 'c" where
  "run_env s al options c =
     (case (case al_config_file_name al of None \<Rightarrow> (Inr (), c) | Some f \<Rightarrow> al_file_config al f c) of
        (Inl e, c1) \<Rightarrow> (Inl e, c1)
      | (Inr _, c1) \<Rightarrow>
          (case set_main_option ''sqlalchemy.url'' (escape_percent (database_url s)) options of
             Inl e \<Rightarrow> (Inl e, c1)
           | Inr options' \<Rightarrow>
               if al_offline al then run_migrations_offline al (database_url s) c1
               else run_migrations_online al options' c1))"

section \<open>Properties\<close>

lemma escape_percent_simps [simp]:
  "escape_percent [] = []"
  "escape_percent (c # cs) = (if c = CHR ''%'' then ''%%'' else [c]) @ escape_percent cs"
  by (simp_all add: escape_percent_def)

lemma escape_percent_plain: "CHR ''%'' \<notin> set u \<Longrightarrow> escape_percent u = u"
  by (induction u) auto

lemma drop_pairs_plain [simp]: "c \<noteq> CHR ''%'' \<Longrightarrow> drop_pairs (c # cs) = c # drop_pairs cs"
  by (cases cs) auto

lemma drop_pairs_escaped: "drop_pairs (escape_percent u) = filter (\<lambda>c. c \<noteq> CHR ''%'') u"
  by (induction u) auto

lemma reference_plain [simp]: "c \<noteq> CHR ''%'' \<Longrightarrow> reference (c # cs) = None"
  by (cases cs) auto

lemma drop_references_plain: "CHR ''%'' \<notin> set u \<Longrightarrow> drop_references u = u"
  by (induction u) auto

text \<open>Whatever the text, its escaped form is accepted and read back as the text itself.\<close>

lemma before_set_escaped: "before_set (escape_percent u) = Inr (escape_percent u)"
  by (simp add: before_set_def drop_pairs_escaped drop_references_plain)

lemma interpolate_escaped: "interpolate (Suc d) vars (escape_percent u) = Inr u"
  by (induction u) (auto simp: map_sum_def)

lemma interpolate_plain: "CHR ''%'' \<notin> set u \<Longrightarrow> interpolate (Suc d) vars u = Inr u"
  using interpolate_escaped[of d vars u] by (simp add: escape_percent_plain)

text \<open>Without the doubling a URL with an encoded character is refused: \<open>%40\<close> is no reference.\<close>

lemma unescaped_is_refused: "\<exists>e. set_main_option ''sqlalchemy.url'' ''postgresql://u:p%40q@h/db'' options = Inl e"
  by (simp add: set_main_option_def before_set_def Let_def)

lemma interpolate_all_plain:
  assumes "\<forall>(k, v) \<in> set options. CHR ''%'' \<notin> set v"
  shows "interpolate_all vars options = Inr options"
  using assms by (induction options) (auto simp: MAX_INTERPOLATION_DEPTH_def numeral_eq_Suc interpolate_plain)

lemma interpolate_all_update:
  assumes "\<forall>(k, v) \<in> set options. CHR ''%'' \<notin> set v"
  shows "interpolate_all vars (AList.update key (escape_percent u) options) = Inr (AList.update key u options)"
  using assms
  by (induction options)
    (auto simp: MAX_INTERPOLATION_DEPTH_def numeral_eq_Suc interpolate_escaped interpolate_plain
      interpolate_all_plain[unfolded MAX_INTERPOLATION_DEPTH_def numeral_eq_Suc])

text \<open>The keys of the section that \<^verbatim>\<open>async_engine_from_config\<close> looks at: only the URL.\<close>

definition only_url :: "config_section \<Rightarrow> bool" where
  "only_url options \<longleftrightarrow>
     (\<forall>(k, v) \<in> set options. take (length engine_prefix) k = engine_prefix \<longrightarrow> k = ''sqlalchemy.url'')"

lemma only_url_update: "only_url options \<Longrightarrow> only_url (AList.update ''sqlalchemy.url'' u options)"
  by (induction options) (auto simp: only_url_def)

lemma engine_of_section:
  assumes "only_url configuration" and "map_of configuration ''sqlalchemy.url'' = Some url"
  shows "engine_from_config configuration pool = Inr \<lparr>me_url = url, me_options = [], me_poolclass = pool\<rparr>"
proof -
  let ?p = "\<lambda>(k, v :: string). take (length engine_prefix) k = engine_prefix"
  have p: "take (length engine_prefix) ''sqlalchemy.url'' = engine_prefix" "drop (length engine_prefix) ''sqlalchemy.url'' = ''url''"
    by (simp_all add: engine_prefix_def)
  have "map_of (map (apfst (drop (length engine_prefix))) (filter ?p xs)) ''url'' = map_of xs ''sqlalchemy.url'' \<and>
      filter (\<lambda>(k, v). k \<noteq> ''url'') (map (apfst (drop (length engine_prefix))) (filter ?p xs)) = []"
    if "only_url xs" for xs
    using that
  proof (induction xs)
    case (Cons x xs)
    obtain k v where x: "x = (k, v)" by fastforce
    have IH: "only_url xs" using Cons.prems by (simp add: only_url_def)
    show ?case
    proof (cases "take (length engine_prefix) k = engine_prefix")
      case True
      then have "k = ''sqlalchemy.url''" using Cons.prems by (simp add: x only_url_def)
      with Cons.IH[OF IH] show ?thesis unfolding x by (simp only: p filter.simps list.map map_of.simps) (simp add: p)
    next
      case False
      then have "k \<noteq> ''sqlalchemy.url''" using p(1) by blast
      with False Cons.IH[OF IH] show ?thesis by (simp add: x)
    qed
  qed simp
  with assms show ?thesis by (simp add: engine_from_config_def Let_def)
qed

text \<open>
  The migrations run on the database of the settings, whatever characters its URL contains: doubling
  the percent signs makes the parser accept the URL and give it back unchanged. Offline the URL is what the
  SQL is generated for; online the engine is created from it, with no other option and without a pool, and
  disposed when the migrations have run.
\<close>

lemma migrations_reach_the_database:
  assumes "\<forall>(k, v) \<in> set options. CHR ''%'' \<notin> set v" and "only_url options"
    and "(case al_config_file_name al of None \<Rightarrow> (Inr (), c) | Some f \<Rightarrow> al_file_config al f c) = (Inr (), c1)"
  shows "run_env s al options c =
    (let engine = \<lparr>me_url = database_url s, me_options = [], me_poolclass = ''NullPool''\<rparr>
     in if al_offline al then run_migrations_offline al (database_url s) c1
        else (case al_connect al engine c1 of
           (Inl e, c2) \<Rightarrow> (Inl e, c2)
         | (Inr _, c2) \<Rightarrow>
             (case do_run_migrations al c2 of
                (Inl e, c3) \<Rightarrow> (Inl e, al_close al engine c3)
              | (Inr _, c3) \<Rightarrow> al_dispose al engine (al_close al engine c3))))"
proof -
  let ?url = "database_url s" and ?k = "''sqlalchemy.url''"
  have "lower ?k = ?k" by (simp add: lower_def lower_char_def)
  then have "set_main_option ?k (escape_percent ?url) options = Inr (AList.update ?k (escape_percent ?url) options)"
    by (simp add: set_main_option_def before_set_escaped)
  moreover have "get_section (AList.update ?k (escape_percent ?url) options) = Inr (AList.update ?k ?url options)"
    unfolding get_section_def by (rule interpolate_all_update[OF assms(1)])
  moreover have "engine_from_config (AList.update ?k ?url options) ''NullPool'' =
      Inr \<lparr>me_url = ?url, me_options = [], me_poolclass = ''NullPool''\<rparr>"
    using engine_of_section[OF only_url_update[OF assms(2)]] by (simp add: update_conv')
  ultimately show ?thesis using assms(3) by (simp add: run_env_def run_migrations_online_def Let_def)
qed

text \<open>The options of \<^verbatim>\<open>alembic.ini\<close>, a password with a percent sign, and an Alembic that records what it is asked to do.\<close>

definition ini_options :: config_section where
  "ini_options = [(''script_location'', ''alembic''), (''prepend_sys_path'', ''.''), (''path_separator'', ''os''),
     (''sqlalchemy.url'', [])]"

definition recording_alembic :: "bool \<Rightarrow> string list alembic" where
  "recording_alembic offline =
     \<lparr>al_offline = offline, al_config_file_name = Some ''alembic.ini'', al_file_config = (\<lambda>f c. (Inr (), c @ [f])),
      al_run_migrations = (\<lambda>m c. (Inr (), c @ [case mo_target m of OfflineUrl u \<Rightarrow> u | OnlineConnection \<Rightarrow> ''run''])),
      al_connect = (\<lambda>e c. (Inr (), c @ [me_url e])), al_close = (\<lambda>e c. c @ [''close'']),
      al_dispose = (\<lambda>e c. (Inr (), c @ [''dispose'']))\<rparr>"

lemma percent_in_password:
  "run_env (default_settings\<lparr>database_url := ''postgresql+asyncpg://u:p%40q@h/db''\<rparr>) (recording_alembic False) ini_options [] =
     (Inr (), [''alembic.ini'', ''postgresql+asyncpg://u:p%40q@h/db'', ''run'', ''close'', ''dispose'']) \<and>
   run_env (default_settings\<lparr>database_url := ''postgresql+asyncpg://u:p%40q@h/db''\<rparr>) (recording_alembic True) ini_options [] =
     (Inr (), [''alembic.ini'', ''postgresql+asyncpg://u:p%40q@h/db''])"
proof -
  have o: "\<forall>(k, v) \<in> set ini_options. CHR ''%'' \<notin> set v" "only_url ini_options"
    by (simp_all add: ini_options_def only_url_def engine_prefix_def)
  have f: "(case al_config_file_name (recording_alembic b) of None \<Rightarrow> (Inr (), [])
      | Some f \<Rightarrow> al_file_config (recording_alembic b) f []) = (Inr (), [''alembic.ini''])" for b
    by (simp add: recording_alembic_def)
  show ?thesis
    unfolding migrations_reach_the_database[OF o f]
    by (simp add: recording_alembic_def run_migrations_offline_def do_run_migrations_def)
qed

end
