(* ===== verification/App.thy ===== *)
theory App
  imports Settings Errors
begin

text \<open>
  The application as \<^verbatim>\<open>create_app\<close> of \<^verbatim>\<open>app/api/main.py\<close> puts it together: the routes of the routers in the
  order they are included, the static files, the middleware with the CORS options of the settings, and the
  exception handlers; and the cached settings of \<^verbatim>\<open>app/core/config.py\<close>. How a request is matched against the
  routes is FastAPI.
\<close>

section \<open>The settings of the process\<close>

text \<open>\<^verbatim>\<open>lru_cache(maxsize=1)\<close> keeps the first settings that validate; a failure is raised and not kept.\<close>

definition get_settings :: "settings result \<Rightarrow> settings option \<Rightarrow> settings result \<times> settings option" where
  "get_settings parsed cached =
     (case cached of
        Some s \<Rightarrow> (Inr s, cached)
      | None \<Rightarrow> (case parsed of Inl e \<Rightarrow> (Inl e, None) | Inr s \<Rightarrow> (Inr s, Some s)))"

section \<open>Routes\<close>

datatype http_method = GET | POST

text \<open>A route with the name of its handler, by which \<^verbatim>\<open>url_for\<close> finds it.\<close>

record route =
  rt_method :: http_method
  rt_path :: string
  rt_name :: string
  rt_status_code :: nat
  rt_in_schema :: bool

record router =
  ro_prefix :: string
  ro_tags :: "string list"
  ro_in_schema :: bool
  ro_routes :: "route list"

definition api_route :: "http_method \<Rightarrow> string \<Rightarrow> nat \<Rightarrow> string \<Rightarrow> route" where
  "api_route method path status_code name =
     \<lparr>rt_method = method, rt_path = path, rt_name = name, rt_status_code = status_code, rt_in_schema = True\<rparr>"

definition health_router :: router where
  "health_router =
     \<lparr>ro_prefix = [], ro_tags = [''operations''], ro_in_schema = True,
      ro_routes = [api_route GET ''/health'' 200 ''health'', api_route GET ''/ready'' 200 ''ready'']\<rparr>"

definition metrics_router :: router where
  "metrics_router =
     \<lparr>ro_prefix = [], ro_tags = [''metrics''], ro_in_schema = True,
      ro_routes = [api_route GET ''/metrics-summary'' 200 ''metrics_summary'']\<rparr>"

definition documents_router :: router where
  "documents_router =
     \<lparr>ro_prefix = ''/api/v1'', ro_tags = [''documents''], ro_in_schema = True,
      ro_routes = [api_route POST ''/documents'' 202 ''upload_document'',
                   api_route GET ''/documents/{document_id}'' 200 ''get_document'']\<rparr>"

definition jobs_router :: router where
  "jobs_router =
     \<lparr>ro_prefix = ''/api/v1'', ro_tags = [''jobs''], ro_in_schema = True,
      ro_routes = [api_route GET ''/jobs'' 200 ''list_jobs'',
                   api_route GET ''/jobs/{job_id}'' 200 ''get_job'',
                   api_route POST ''/jobs/{job_id}/retry'' 202 ''retry_job'']\<rparr>"

definition dashboard_router :: router where
  "dashboard_router =
     \<lparr>ro_prefix = [], ro_tags = [''dashboard''], ro_in_schema = False,
      ro_routes = [api_route GET ''/'' 200 ''dashboard_home'',
                   api_route GET ''/jobs/{job_id}'' 200 ''dashboard_job_detail'']\<rparr>"

section \<open>The application\<close>

definition CORRELATION_HEADER :: string where
  "CORRELATION_HEADER = ''X-Correlation-ID''"

record cors_options =
  co_allow_origins :: "string list"
  co_allow_credentials :: bool
  co_allow_methods :: "http_method list"
  co_allow_headers :: "string list"
  co_expose_headers :: "string list"

datatype middleware = CorsMiddleware cors_options | CorrelationAndAccessLog

datatype handled_exception = AppErrorHandler | ValidationErrorHandler | HttpExceptionHandler | UnexpectedErrorHandler

record app =
  app_version :: string
  app_docs_url :: string
  app_openapi_url :: string
  app_middleware :: "middleware list"
  app_handlers :: "handled_exception list"
  app_mounts :: "(string \<times> string) list"
  app_routes :: "route list"

definition include_router :: "router \<Rightarrow> app \<Rightarrow> app" where
  "include_router r a = a\<lparr>app_routes := app_routes a @
     map (\<lambda>x. x\<lparr>rt_path := ro_prefix r @ rt_path x, rt_in_schema := rt_in_schema x \<and> ro_in_schema r\<rparr>) (ro_routes r)\<rparr>"

text \<open>\<^verbatim>\<open>add_middleware\<close>: the one added last sees a request first.\<close>

definition add_middleware :: "middleware \<Rightarrow> app \<Rightarrow> app" where
  "add_middleware m a = a\<lparr>app_middleware := m # app_middleware a\<rparr>"

definition register_exception_handlers :: "app \<Rightarrow> app" where
  "register_exception_handlers a = a\<lparr>app_handlers := app_handlers a @
     [AppErrorHandler, ValidationErrorHandler, HttpExceptionHandler, UnexpectedErrorHandler]\<rparr>"

definition create_app :: "string \<Rightarrow> settings \<Rightarrow> app" where
  "create_app static_dir s =
     (let app0 = \<lparr>app_version = ''0.1.0'', app_docs_url = ''/docs'', app_openapi_url = ''/openapi.json'',
            app_middleware = [], app_handlers = [], app_mounts = [], app_routes = []\<rparr>;
          app1 =
            (if cors_origins s \<noteq> [] then
               add_middleware (CorsMiddleware
                 \<lparr>co_allow_origins = cors_origins s, co_allow_credentials = False, co_allow_methods = [GET, POST],
                  co_allow_headers = [''*''], co_expose_headers = [CORRELATION_HEADER]\<rparr>) app0
             else app0);
          app2 = register_exception_handlers (add_middleware CorrelationAndAccessLog app1);
          app3 = app2\<lparr>app_mounts := app_mounts app2 @ [(''/static'', static_dir)]\<rparr>
      in fold include_router [health_router, metrics_router, documents_router, jobs_router, dashboard_router] app3)"

section \<open>Properties\<close>

lemma get_settings_stable:
  assumes "get_settings p None = (Inr s, c)"
  shows "get_settings p' c = (Inr s, c)"
  using assms by (auto simp: get_settings_def split: sum.splits)

lemma get_settings_failure_not_kept: "get_settings (Inl e) None = (Inl e, None)"
  by (simp add: get_settings_def)

text \<open>The routes do not depend on the settings.\<close>

lemma app_routes_table:
  "map (\<lambda>r. (rt_method r, rt_path r, rt_name r)) (app_routes (create_app static_dir s)) =
     [(GET, ''/health'', ''health''), (GET, ''/ready'', ''ready''), (GET, ''/metrics-summary'', ''metrics_summary''),
      (POST, ''/api/v1/documents'', ''upload_document''),
      (GET, ''/api/v1/documents/{document_id}'', ''get_document''),
      (GET, ''/api/v1/jobs'', ''list_jobs''), (GET, ''/api/v1/jobs/{job_id}'', ''get_job''),
      (POST, ''/api/v1/jobs/{job_id}/retry'', ''retry_job''),
      (GET, ''/'', ''dashboard_home''), (GET, ''/jobs/{job_id}'', ''dashboard_job_detail'')]"
  by (simp add: create_app_def Let_def include_router_def add_middleware_def register_exception_handlers_def
      health_router_def metrics_router_def documents_router_def jobs_router_def dashboard_router_def api_route_def)

text \<open>
  A name finds one route and a method with a path belongs to one handler; the dashboard shares no path with the
  API, and only its pages are missing from the schema.
\<close>

lemma app_routes_unambiguous:
  "distinct (map rt_name (app_routes (create_app static_dir s)))"
  "distinct (map (\<lambda>r. (rt_method r, rt_path r)) (app_routes (create_app static_dir s)))"
proof -
  let ?rs = "app_routes (create_app static_dir s)"
  have "map rt_name ?rs = map (snd \<circ> snd) (map (\<lambda>r. (rt_method r, rt_path r, rt_name r)) ?rs)"
    "map (\<lambda>r. (rt_method r, rt_path r)) ?rs =
      map (\<lambda>(m, p, n). (m, p)) (map (\<lambda>r. (rt_method r, rt_path r, rt_name r)) ?rs)"
    by simp_all
  then show "distinct (map rt_name ?rs)" "distinct (map (\<lambda>r. (rt_method r, rt_path r)) ?rs)"
    unfolding app_routes_table by simp_all
qed

lemma schema_hides_the_dashboard:
  "map rt_name (filter (\<lambda>r. \<not> rt_in_schema r) (app_routes (create_app static_dir s))) =
     [''dashboard_home'', ''dashboard_job_detail'']"
  by (simp add: create_app_def Let_def include_router_def add_middleware_def register_exception_handlers_def
      health_router_def metrics_router_def documents_router_def jobs_router_def dashboard_router_def api_route_def)

text \<open>The access log is outermost; another origin is let in only when it is configured, and never with credentials.\<close>

lemma app_middleware_order:
  "\<exists>rest. app_middleware (create_app static_dir s) = CorrelationAndAccessLog # rest \<and>
     (case rest of
        [] \<Rightarrow> cors_origins s = []
      | [CorsMiddleware opts] \<Rightarrow>
          co_allow_origins opts = cors_origins s \<and> cors_origins s \<noteq> [] \<and> \<not> co_allow_credentials opts
      | _ \<Rightarrow> False)"
  by (simp add: create_app_def Let_def include_router_def add_middleware_def register_exception_handlers_def)

end
