(* ===== verification/Dashboard.thy ===== *)
theory Dashboard
  imports Api
begin

text \<open>
  \<^verbatim>\<open>app/api/routes/dashboard.py\<close>: what the two HTML pages are rendered from. The templates themselves
  and the JSON printer of the result are not modelled.
\<close>

section \<open>The home page\<close>

record home_page =
  hp_poll_interval_ms :: int
  hp_recent_limit :: int
  hp_document_types :: "string list"
  hp_max_upload_mb :: py_float

definition dashboard_home :: "settings \<Rightarrow> home_page" where
  "dashboard_home s =
     \<lparr>hp_poll_interval_ms = dashboard_poll_interval_ms s, hp_recent_limit = dashboard_recent_jobs_limit s,
      hp_document_types = map document_type_value document_type_members, hp_max_upload_mb = max_upload_mb s\<rparr>"

section \<open>The page of one job\<close>

record result_payload =
  rp_detected_document_type :: string
  rp_extracted_data :: json
  rp_model_provider :: string
  rp_model_name :: string
  rp_prompt_version :: string
  rp_input_tokens :: "int option"
  rp_output_tokens :: "int option"
  rp_confidence_score :: "py_float option"

definition result_payload_of :: "extraction_result \<Rightarrow> result_payload" where
  "result_payload_of r =
     \<lparr>rp_detected_document_type = document_type_value (res_detected_document_type r),
      rp_extracted_data = res_extracted_data r, rp_model_provider = res_model_provider r,
      rp_model_name = res_model_name r, rp_prompt_version = res_prompt_version r,
      rp_input_tokens = res_input_tokens r, rp_output_tokens = res_output_tokens r,
      rp_confidence_score = res_confidence_score r\<rparr>"

record job_page =
  jp_job :: job
  jp_result_payload :: "result_payload option"
  jp_filename :: "string option"

definition dashboard_job_detail :: "uuid \<Rightarrow> (job_page, 'r, 'p, 'f) endpoint" where
  "dashboard_job_detail jid w =
     (case get_job jid w of
        (Inl e, w1) \<Rightarrow> (Inl e, None, w1)
      | (Inr s, w1) \<Rightarrow>
          (Inr \<lparr>jp_job = sess_job s, jp_result_payload = map_option result_payload_of (sess_result s),
                jp_filename = map_option doc_original_filename (sess_document s)\<rparr>,
           Some s, w1))"

section \<open>The page and the API agree\<close>

text \<open>The select box offers exactly the types the upload endpoint accepts.\<close>

lemma home_types: "t \<in> set (hp_document_types (dashboard_home s)) \<longleftrightarrow> document_type_of_value t \<noteq> None"
proof
  assume "t \<in> set (hp_document_types (dashboard_home s))"
  then show "document_type_of_value t \<noteq> None"
    by (auto simp: dashboard_home_def document_type_of_value_def find_None_iff)
next
  assume "document_type_of_value t \<noteq> None"
  then show "t \<in> set (hp_document_types (dashboard_home s))"
    by (auto simp: dashboard_home_def document_type_of_value_def find_Some_iff)
qed

text \<open>A job page fails exactly as the JSON endpoint does, and shows the same job, file name and result.\<close>

lemma job_page_agrees:
  "(case dashboard_job_detail jid w of
      (Inl e, s, w') \<Rightarrow> get_job_route jid w = (Inl e, s, w')
    | (Inr page, s, w') \<Rightarrow>
        (\<exists>d. get_job_route jid w = (Inr d, s, w') \<and> js_id d = job_id (jp_job page) \<and>
           js_status d = job_status (jp_job page) \<and> js_original_filename d = jp_filename page \<and>
           map_option rp_extracted_data (jp_result_payload page) = map_option er_extracted_data (jd_result d) \<and>
           map_option rp_detected_document_type (jp_result_payload page) =
             map_option document_type_value (js_detected_document_type d)))"
  by (auto simp: dashboard_job_detail_def get_job_route_def job_detail_of_def job_summary_of_def
      job_summary.extend_def job_detail.fields_def result_payload_of_def result_response_of_def option.map_comp
      comp_def split: sum.splits prod.splits)

end
