(* ===== verification/Scripts.thy ===== *)
theory Scripts
  imports Queue
begin

text \<open>
  \<^verbatim>\<open>scripts/benchmark.py\<close> and \<^verbatim>\<open>scripts/seed.py\<close>: two command-line clients of the API. The HTTP client, the
  clock and the sample files are arguments (state \<open>'c\<close>); parsing of the command line and the printing are
  not modelled, what is printed is the record \<open>report\<close>.
\<close>

section \<open>The client\<close>

record upload_reply =
  ur_status_code :: int
  ur_text :: string
  ur_job_id :: uuid

record job_reply =
  jy_is_terminal :: bool
  jy_status :: string

text \<open>A request that cannot be sent, and \<^verbatim>\<open>raise_for_status\<close>, are errors of these functions.\<close>

record 'c http_client =
  hc_health :: "'c \<Rightarrow> unit result \<times> 'c"
  hc_upload :: "string \<Rightarrow> string option \<Rightarrow> 'c \<Rightarrow> upload_reply result \<times> 'c"
  hc_job :: "uuid \<Rightarrow> 'c \<Rightarrow> job_reply result \<times> 'c"
  hc_perf_counter :: "'c \<Rightarrow> py_float \<times> 'c"
  hc_sleep :: "py_float \<Rightarrow> 'c \<Rightarrow> 'c"

section \<open>benchmark.py\<close>

text \<open>The value at the rounded position; \<open>None\<close> is the \<^verbatim>\<open>IndexError\<close> of an empty list.\<close>

definition percentile_index :: "nat \<Rightarrow> int \<Rightarrow> int" where
  "percentile_index n pct =
     max 0 (min (int n - 1) (round_even (fl (py_div_int pct 100 * of_int (int n - 1)))))"

definition percentile :: "py_float list \<Rightarrow> int \<Rightarrow> py_float option" where
  "percentile values pct =
     (if values = [] then None else Some (sort values ! nat (percentile_index (length values) pct)))"

record tally =
  ty_pending :: "(uuid \<times> py_float) list"
  ty_latencies_ms :: "py_float list"
  ty_completed :: int
  ty_failed :: int

text \<open>The body of \<^verbatim>\<open>for job_id in list(pending)\<close>.\<close>

definition poll_one :: "'c http_client \<Rightarrow> uuid \<Rightarrow> tally \<Rightarrow> 'c \<Rightarrow> tally result \<times> 'c" where
  "poll_one cl i t c =
     (case hc_job cl i c of
        (Inl e, c1) \<Rightarrow> (Inl e, c1)
      | (Inr body, c1) \<Rightarrow>
          if \<not> jy_is_terminal body then (Inr t, c1)
          else
            (case hc_perf_counter cl c1 of (now, c2) \<Rightarrow>
               let since = the (map_of (ty_pending t) i);
                   elapsed_ms = fl (fl (now - since) * 1000);
                   t1 = t\<lparr>ty_pending := AList.delete i (ty_pending t),
                          ty_latencies_ms := ty_latencies_ms t @ [elapsed_ms]\<rparr>
               in (Inr (if jy_status body = ''completed'' then t1\<lparr>ty_completed := ty_completed t1 + 1\<rparr>
                        else t1\<lparr>ty_failed := ty_failed t1 + 1\<rparr>), c2)))"

fun poll_all :: "'c http_client \<Rightarrow> uuid list \<Rightarrow> tally \<Rightarrow> 'c \<Rightarrow> tally result \<times> 'c" where
  "poll_all cl [] t c = (Inr t, c)"
| "poll_all cl (i # is) t c =
     (case poll_one cl i t c of
        (Inl e, c1) \<Rightarrow> (Inl e, c1)
      | (Inr t1, c1) \<Rightarrow> poll_all cl is t1 c1)"

text \<open>\<^verbatim>\<open>while pending and time.perf_counter() < deadline\<close>; \<open>None\<close>: still running after \<open>fuel\<close> rounds.\<close>

fun poll_until ::
  "'c http_client \<Rightarrow> py_float \<Rightarrow> py_float \<Rightarrow> nat \<Rightarrow> tally \<Rightarrow> 'c \<Rightarrow> (tally result \<times> 'c) option" where
  "poll_until cl poll_interval deadline 0 t c = None"
| "poll_until cl poll_interval deadline (Suc fuel) t c =
     (if ty_pending t = [] then Some (Inr t, c)
      else
        (case hc_perf_counter cl c of (now, c1) \<Rightarrow>
           if \<not> now < deadline then Some (Inr t, c1)
           else
             (case poll_all cl (map fst (ty_pending t)) t c1 of
                (Inl e, c2) \<Rightarrow> Some (Inl e, c2)
              | (Inr t2, c2) \<Rightarrow>
                  poll_until cl poll_interval deadline fuel t2
                    (if ty_pending t2 = [] then c2 else hc_sleep cl poll_interval c2))))"

text \<open>\<open>Inl None\<close>: an upload was not accepted, the script returns 1.\<close>

fun upload_samples ::
  "'c http_client \<Rightarrow> string list \<Rightarrow> nat \<Rightarrow> nat \<Rightarrow> 'c \<Rightarrow> (exc option + (uuid \<times> py_float) list) \<times> 'c" where
  "upload_samples cl samples index 0 c = (Inr [], c)"
| "upload_samples cl samples index (Suc n) c =
     (case hc_upload cl (samples ! (index mod length samples)) None c of
        (Inl e, c1) \<Rightarrow> (Inl (Some e), c1)
      | (Inr reply, c1) \<Rightarrow>
          if ur_status_code reply \<noteq> 202 then (Inl None, c1)
          else
            (case hc_perf_counter cl c1 of (now, c2) \<Rightarrow>
               (case upload_samples cl samples (Suc index) n c2 of
                  (Inl e, c3) \<Rightarrow> (Inl e, c3)
                | (Inr jobs, c3) \<Rightarrow> (Inr ((ur_job_id reply, now) # jobs), c3))))"

record report =
  rep_submitted :: int
  rep_completed :: int
  rep_failed :: int
  rep_timed_out :: int
  rep_wall_seconds :: py_float
  rep_mean_ms :: "py_float option"
  rep_p50_ms :: "py_float option"
  rep_p95_ms :: "py_float option"
  rep_throughput_per_minute :: py_float

text \<open>\<^verbatim>\<open>statistics.fmean\<close>: the exact sum, rounded, divided by the length.\<close>

definition fmean :: "py_float list \<Rightarrow> py_float" where
  "fmean xs = fl (fl (sum_list xs) / of_nat (length xs))"

definition zero_division :: exc where
  "zero_division =
     OtherExc [''builtins.ZeroDivisionError'', ''builtins.ArithmeticError'', ''builtins.Exception''] ''division by zero''"

definition make_report :: "int \<Rightarrow> py_float \<Rightarrow> tally \<Rightarrow> report result" where
  "make_report submitted wall t =
     (let base = \<lparr>rep_submitted = submitted, rep_completed = ty_completed t, rep_failed = ty_failed t,
            rep_timed_out = int (length (ty_pending t)), rep_wall_seconds = wall, rep_mean_ms = None,
            rep_p50_ms = None, rep_p95_ms = None, rep_throughput_per_minute = 0\<rparr>
      in if ty_latencies_ms t = [] then Inr base
         else if wall = 0 then Inl zero_division
         else Inr (base\<lparr>rep_mean_ms := Some (fmean (ty_latencies_ms t)),
                        rep_p50_ms := percentile (ty_latencies_ms t) 50,
                        rep_p95_ms := percentile (ty_latencies_ms t) 95,
                        rep_throughput_per_minute :=
                          fl (fl (of_int (ty_completed t + ty_failed t) / wall) * 60)\<rparr>))"

text \<open>
  \<^verbatim>\<open>main\<close> after parsing: the exit code and what was printed; \<open>None\<close> if it is still polling after \<open>fuel\<close>
  rounds. A job identifier that occurs twice is one entry of the dictionary.
\<close>

definition benchmark_main ::
  "'c http_client \<Rightarrow> string list \<Rightarrow> int \<Rightarrow> py_float \<Rightarrow> py_float \<Rightarrow> nat \<Rightarrow> 'c \<Rightarrow> (int \<times> report option) result option" where
  "benchmark_main cl samples count poll_interval timeout fuel c =
     (if count < 1 then Some (Inr (2, None))
      else if samples = [] then Some (Inr (1, None))
      else
        (case hc_health cl c of
           (Inl e, c1) \<Rightarrow> Some (Inl e)
         | (Inr _, c1) \<Rightarrow>
             (case hc_perf_counter cl c1 of (started, c2) \<Rightarrow>
                (case upload_samples cl samples 0 (nat count) c2 of
                   (Inl None, c3) \<Rightarrow> Some (Inr (1, None))
                 | (Inl (Some e), c3) \<Rightarrow> Some (Inl e)
                 | (Inr jobs, c3) \<Rightarrow>
                     (case hc_perf_counter cl c3 of (now, c4) \<Rightarrow>
                        (case poll_until cl poll_interval (fl (now + timeout)) fuel
                           \<lparr>ty_pending = dict_of jobs, ty_latencies_ms = [], ty_completed = 0, ty_failed = 0\<rparr> c4 of
                           None \<Rightarrow> None
                         | Some (Inl e, c5) \<Rightarrow> Some (Inl e)
                         | Some (Inr t, c5) \<Rightarrow>
                             (case hc_perf_counter cl c5 of (ended, c6) \<Rightarrow>
                                (case make_report (int (length jobs)) (fl (ended - started)) t of
                                   Inl e \<Rightarrow> Some (Inl e)
                                 | Inr r \<Rightarrow> Some (Inr (if rep_timed_out r = 0 then 0 else 1, Some r))))))))))"

section \<open>seed.py\<close>

definition DOCUMENTS :: "(string \<times> string) list" where
  "DOCUMENTS =
     [(''invoice.txt'', ''invoice''), (''resume.txt'', ''resume''), (''support_ticket.txt'', ''support_ticket''),
      (''business_memo.txt'', ''generic'')]"

fun seed_documents ::
  "'c http_client \<Rightarrow> (string \<Rightarrow> bool) \<Rightarrow> (string \<times> string) list \<Rightarrow> 'c \<Rightarrow> int result \<times> 'c" where
  "seed_documents cl is_file [] c = (Inr 0, c)"
| "seed_documents cl is_file ((filename, document_type) # ds) c =
     (if \<not> is_file filename then (Inr 1, c)
      else
        (case hc_upload cl filename (Some document_type) c of
           (Inl e, c1) \<Rightarrow> (Inl e, c1)
         | (Inr reply, c1) \<Rightarrow>
             if ur_status_code reply \<noteq> 202 then (Inr 1, c1) else seed_documents cl is_file ds c1))"

definition seed_main :: "'c http_client \<Rightarrow> (string \<Rightarrow> bool) \<Rightarrow> 'c \<Rightarrow> int result \<times> 'c" where
  "seed_main cl is_file c =
     (case hc_health cl c of
        (Inl e, c1) \<Rightarrow> (Inl e, c1)
      | (Inr _, c1) \<Rightarrow> seed_documents cl is_file DOCUMENTS c1)"

section \<open>Percentiles\<close>

lemma percentile_index_bounds: "0 < n \<Longrightarrow> 0 \<le> percentile_index n pct \<and> percentile_index n pct < int n"
  by (auto simp: percentile_index_def)

lemma percentile_index_mono: "p \<le> q \<Longrightarrow> percentile_index n p \<le> percentile_index n q"
proof (cases "n = 0")
  case False
  assume "p \<le> q"
  then have "py_div_int p 100 \<le> py_div_int q 100"
    unfolding py_div_int_def by (intro fl_mono divide_right_mono) simp_all
  then have "py_div_int p 100 * of_int (int n - 1) \<le> py_div_int q 100 * of_int (int n - 1)"
    using False by (intro mult_right_mono) simp_all
  then have "round_even (fl (py_div_int p 100 * of_int (int n - 1)))
      \<le> round_even (fl (py_div_int q 100 * of_int (int n - 1)))"
    by (intro round_even_mono fl_mono)
  then show ?thesis by (auto simp: percentile_index_def)
qed (simp add: percentile_index_def)

text \<open>A percentile is one of the values, and a higher one is not smaller.\<close>

lemma percentile_mem:
  assumes "percentile xs p = Some x"
  shows "x \<in> set xs"
proof -
  from assms have ne: "xs \<noteq> []" and x: "x = sort xs ! nat (percentile_index (length xs) p)"
    by (auto simp: percentile_def split: if_splits)
  from percentile_index_bounds[of "length xs" p] ne have "nat (percentile_index (length xs) p) < length (sort xs)"
    by auto
  then have "x \<in> set (sort xs)" unfolding x by (rule nth_mem)
  then show ?thesis by simp
qed

lemma percentile_mono:
  assumes "p \<le> q" and "percentile xs p = Some x" and "percentile xs q = Some y"
  shows "x \<le> y"
proof -
  from assms(2,3) have ne: "xs \<noteq> []" and x: "x = sort xs ! nat (percentile_index (length xs) p)"
    and y: "y = sort xs ! nat (percentile_index (length xs) q)"
    by (auto simp: percentile_def split: if_splits)
  from percentile_index_bounds[of "length xs" q] ne have "nat (percentile_index (length xs) q) < length (sort xs)"
    by auto
  with percentile_index_mono[OF assms(1), of "length xs"] show ?thesis
    unfolding x y by (intro sorted_nth_mono) (simp_all add: nat_mono)
qed

text \<open>
  The docstring says nearest rank; the position is a rounded interpolation index instead, and the two
  differ already for the median of four values.
\<close>

definition nearest_rank :: "py_float list \<Rightarrow> int \<Rightarrow> py_float" where
  "nearest_rank values pct = sort values ! (nat \<lceil>(of_int (pct * int (length values)) :: rat) / 100\<rceil> - 1)"

lemma percentile_not_nearest_rank:
  "percentile [1, 2, 3, 4] 50 = Some 3" and "nearest_rank [1, 2, 3, 4] 50 = 2"
proof -
  show "nearest_rank [1, 2, 3, 4] 50 = 2" by (simp add: nearest_rank_def)
  show "percentile [1, 2, 3, 4] 50 = Some 3" by code_simp
qed

section \<open>The counts add up\<close>

definition tally_ok :: "nat \<Rightarrow> tally \<Rightarrow> bool" where
  "tally_ok n t \<longleftrightarrow>
     distinct (map fst (ty_pending t)) \<and> 0 \<le> ty_completed t \<and> 0 \<le> ty_failed t \<and>
     ty_completed t + ty_failed t = int (length (ty_latencies_ms t)) \<and>
     length (ty_latencies_ms t) + length (ty_pending t) = n"

lemma length_delete:
  "distinct (map fst xs) \<Longrightarrow> i \<in> fst ` set xs \<Longrightarrow> Suc (length (AList.delete i xs)) = length xs"
proof (induction xs)
  case (Cons x xs)
  have "i \<notin> fst ` set xs \<Longrightarrow> AList.delete i xs = xs" by (rule delete_id) auto
  with Cons show ?case by (cases x) (auto simp: AList.delete_eq)
qed simp

lemma poll_one_ok:
  assumes "poll_one cl i t c = (Inr t', c')" and "tally_ok n t" and "i \<in> fst ` set (ty_pending t)"
  shows "tally_ok n t' \<and> fst ` set (ty_pending t) - {i} \<subseteq> fst ` set (ty_pending t')"
proof -
  have "distinct (map fst (AList.delete i (ty_pending t)))"
    using assms(2) by (intro AList.distinct_delete) (simp add: tally_ok_def)
  moreover have "Suc (length (AList.delete i (ty_pending t))) = length (ty_pending t)"
    using assms(2,3) by (intro length_delete) (simp_all add: tally_ok_def)
  ultimately have "tally_ok n t'"
    using assms(1,2) by (auto simp: poll_one_def tally_ok_def Let_def split: sum.splits prod.splits if_splits)
  moreover have "ty_pending t' = ty_pending t \<or> ty_pending t' = AList.delete i (ty_pending t)"
    using assms(1) by (auto simp: poll_one_def Let_def split: sum.splits prod.splits if_splits)
  then have "fst ` set (ty_pending t) - {i} \<subseteq> fst ` set (ty_pending t')"
    by (auto simp: AList.delete_eq image_iff)
  ultimately show ?thesis ..
qed

lemma poll_all_ok:
  assumes "poll_all cl is t c = (Inr t', c')" and "tally_ok n t" and "distinct is"
    and "set is \<subseteq> fst ` set (ty_pending t)"
  shows "tally_ok n t'"
  using assms
proof (induction cl "is" t c rule: poll_all.induct)
  case (2 cl i "is" t c)
  then obtain t1 c1 where p: "poll_one cl i t c = (Inr t1, c1)" and r: "poll_all cl is t1 c1 = (Inr t', c')"
    by (auto split: sum.splits prod.splits)
  from poll_one_ok[OF p] 2(3,5) have "tally_ok n t1" "fst ` set (ty_pending t) - {i} \<subseteq> fst ` set (ty_pending t1)"
    by auto
  moreover have "set is \<subseteq> fst ` set (ty_pending t) - {i}" using 2(4,5) by auto
  ultimately have "set is \<subseteq> fst ` set (ty_pending t1)" by (meson order_trans)
  moreover have "distinct is" using 2(4) by simp
  ultimately show ?case using 2(1)[OF p[symmetric]] r \<open>tally_ok n t1\<close> by simp
qed simp

lemma poll_until_ok:
  assumes "poll_until cl iv deadline fuel t c = Some (Inr t', c')" and "tally_ok n t"
  shows "tally_ok n t'"
  using assms
proof (induction cl iv deadline fuel t c rule: poll_until.induct)
  case (2 cl iv deadline fuel t c)
  obtain now c1 where k: "hc_perf_counter cl c = (now, c1)" by fastforce
  show ?case
  proof (cases "ty_pending t = [] \<or> \<not> now < deadline")
    case True
    with 2(2,3) k show ?thesis by (auto split: if_splits)
  next
    case False
    then obtain t2 c2 where p: "poll_all cl (map fst (ty_pending t)) t c1 = (Inr t2, c2)"
      using 2(2) k by (auto split: sum.splits prod.splits)
    have "tally_ok n t2"
      by (rule poll_all_ok[OF p 2(3)]) (use 2(3) in \<open>auto simp: tally_ok_def\<close>)
    with 2(1)[OF _ k[symmetric] _ p[symmetric]] 2(2) False k p show ?thesis by auto
  qed
qed simp

lemma fold_update_ok:
  assumes "distinct (map fst acc)"
  shows "distinct (map fst (fold (\<lambda>(k, v). AList.update k v) ps acc)) \<and>
    length (fold (\<lambda>(k, v). AList.update k v) ps acc) \<le> length acc + length ps"
  using assms
proof (induction ps arbitrary: acc)
  case (Cons p ps)
  have "length (AList.update k v xs) \<le> Suc (length xs)" for k and v :: 'b and xs by (induction xs) auto
  from this[of "fst p" "snd p" acc]
  have "length (AList.update (fst p) (snd p) acc) + length ps \<le> Suc (length acc + length ps)" by simp
  moreover have "distinct (map fst (AList.update (fst p) (snd p) acc))"
    using Cons.prems by (rule distinct_update)
  ultimately show ?case
    using Cons.IH[of "AList.update (fst p) (snd p) acc"] by (auto simp: case_prod_beta intro: order_trans)
qed simp

lemma dict_of_ok: "distinct (map fst (dict_of ps)) \<and> length (dict_of ps) \<le> length ps"
  using fold_update_ok[of "[]" ps] by (simp add: dict_of_def)

lemma upload_samples_length:
  "upload_samples cl samples k n c = (Inr jobs, c') \<Longrightarrow> length jobs = n"
  by (induction cl samples k n c arbitrary: jobs c' rule: upload_samples.induct)
    (auto split: sum.splits prod.splits if_splits)

lemma make_report_counts:
  "make_report k wall t = Inr r \<Longrightarrow>
     rep_submitted r = k \<and> rep_completed r = ty_completed t \<and> rep_failed r = ty_failed t \<and>
     rep_timed_out r = int (length (ty_pending t))"
  by (auto simp: make_report_def Let_def split: if_splits)

text \<open>
  What the report says adds up: as many uploads as asked for, every job counted once as completed, failed
  or timed out (two uploads with one identifier are one job), and exit code 0 exactly when none timed out.
\<close>

lemma benchmark_accounts:
  assumes "benchmark_main cl samples count iv timeout fuel c = Some (Inr (code, Some r))"
  shows "rep_submitted r = count \<and> 0 \<le> rep_completed r \<and> 0 \<le> rep_failed r \<and> 0 \<le> rep_timed_out r \<and>
    rep_completed r + rep_failed r + rep_timed_out r \<le> rep_submitted r \<and>
    code = (if rep_timed_out r = 0 then 0 else 1)"
proof -
  from assms have pos: "1 \<le> count" and ne: "samples \<noteq> []"
    by (auto simp: benchmark_main_def split: if_splits)
  from assms pos ne obtain c1 started c2 jobs c3 now c4 where
    u: "upload_samples cl samples 0 (nat count) c2 = (Inr jobs, c3)" and h: "hc_health cl c = (Inr (), c1)"
    and p: "hc_perf_counter cl c1 = (started, c2)" "hc_perf_counter cl c3 = (now, c4)"
    by (auto simp: benchmark_main_def split: sum.splits option.splits prod.splits)
  let ?t0 = "\<lparr>ty_pending = dict_of jobs, ty_latencies_ms = [], ty_completed = 0, ty_failed = 0\<rparr>"
  from assms pos ne u h p obtain t c5 ended c6 where
    t: "poll_until cl iv (fl (now + timeout)) fuel ?t0 c4 = Some (Inr t, c5)"
    and r: "make_report (int (length jobs)) (fl (ended - started)) t = Inr r"
    and code: "code = (if rep_timed_out r = 0 then 0 else 1)"
    by (auto simp: benchmark_main_def split: sum.splits option.splits prod.splits)
  have "tally_ok (length (dict_of jobs)) ?t0" using dict_of_ok[of jobs] by (simp add: tally_ok_def)
  from poll_until_ok[OF t this] have "tally_ok (length (dict_of jobs)) t" .
  with make_report_counts[OF r] upload_samples_length[OF u] dict_of_ok[of jobs] pos code show ?thesis
    by (auto simp: tally_ok_def)
qed

section \<open>The polling ends\<close>

text \<open>The clock never goes back and a pause of \<open>iv\<close> seconds takes at least that long.\<close>

definition ticking :: "'c http_client \<Rightarrow> ('c \<Rightarrow> py_float) \<Rightarrow> py_float \<Rightarrow> bool" where
  "ticking cl clock iv \<longleftrightarrow>
     (\<forall>c now c'. hc_perf_counter cl c = (now, c') \<longrightarrow> now = clock c \<and> clock c \<le> clock c') \<and>
     (\<forall>i c r c'. hc_job cl i c = (r, c') \<longrightarrow> clock c \<le> clock c') \<and>
     (\<forall>c. clock c + iv \<le> clock (hc_sleep cl iv c))"

lemma poll_one_clock: "poll_one cl i t c = (r, c') \<Longrightarrow> ticking cl clock iv \<Longrightarrow> clock c \<le> clock c'"
proof -
  assume p: "poll_one cl i t c = (r, c')" and tick: "ticking cl clock iv"
  obtain r1 c1 where j: "hc_job cl i c = (r1, c1)" by fastforce
  obtain now c2 where k: "hc_perf_counter cl c1 = (now, c2)" by fastforce
  have "clock c \<le> clock c1" "clock c1 \<le> clock c2" using tick j k unfolding ticking_def by blast+
  moreover have "c' = c1 \<or> c' = c2"
    using p j k by (auto simp: poll_one_def Let_def split: sum.splits if_splits)
  ultimately show "clock c \<le> clock c'" by auto
qed

lemma poll_all_clock: "poll_all cl is t c = (r, c') \<Longrightarrow> ticking cl clock iv \<Longrightarrow> clock c \<le> clock c'"
proof (induction cl "is" t c arbitrary: r c' rule: poll_all.induct)
  case (2 cl i "is" t c)
  obtain r1 c1 where p: "poll_one cl i t c = (r1, c1)" by fastforce
  note k = poll_one_clock[OF p 2(3)]
  show ?case
  proof (cases r1)
    case (Inr t1)
    with 2(2) p have "poll_all cl is t1 c1 = (r, c')" by simp
    from 2(1)[OF p[symmetric] Inr this 2(3)] k show ?thesis by simp
  qed (use 2(2) p k in simp)
qed simp

text \<open>One round for every pause that fits into the time left, and one to notice the deadline.\<close>

lemma poll_until_returns:
  assumes "ticking cl clock iv" and "deadline \<le> clock c + of_nat fuel * iv"
  shows "poll_until cl iv deadline (Suc fuel) t c \<noteq> None"
  using assms(2)
proof (induction fuel arbitrary: t c)
  case 0
  obtain now c1 where "hc_perf_counter cl c = (now, c1)" by fastforce
  moreover from this assms(1) have "now = clock c" by (auto simp: ticking_def)
  ultimately show ?case using 0 by simp
next
  case (Suc fuel)
  obtain now c1 where k: "hc_perf_counter cl c = (now, c1)" by fastforce
  then have c1: "clock c \<le> clock c1" using assms(1) by (auto simp: ticking_def)
  obtain r c2 where p: "poll_all cl (map fst (ty_pending t)) t c1 = (r, c2)" by fastforce
  note c2 = poll_all_clock[OF p assms(1)]
  show ?case
  proof (cases r)
    case (Inr t2)
    show ?thesis
    proof (cases "ty_pending t2 = []")
      case True
      then have "poll_until cl iv deadline (Suc fuel) t2 c2 \<noteq> None" by simp
      with k p Inr True show ?thesis by (subst poll_until.simps(2)) simp
    next
      case False
      have "clock c2 + iv \<le> clock (hc_sleep cl iv c2)" using assms(1) by (simp add: ticking_def)
      then have "deadline \<le> clock (hc_sleep cl iv c2) + of_nat fuel * iv"
        using Suc.prems c1 c2 by (simp add: algebra_simps)
      from Suc.IH[OF this, of t2] have "poll_until cl iv deadline (Suc fuel) t2 (hc_sleep cl iv c2) \<noteq> None" .
      with k p Inr False show ?thesis by (subst poll_until.simps(2)) simp
    qed
  qed (use k p in simp)
qed

section \<open>Seeding\<close>

text \<open>The API accepts each document of the list, one after the other.\<close>

fun uploads_accepted :: "'c http_client \<Rightarrow> (string \<times> string) list \<Rightarrow> 'c \<Rightarrow> bool" where
  "uploads_accepted cl [] c \<longleftrightarrow> True"
| "uploads_accepted cl ((f, t) # ds) c \<longleftrightarrow>
     (case hc_upload cl f (Some t) c of
        (Inl e, c1) \<Rightarrow> False
      | (Inr reply, c1) \<Rightarrow> ur_status_code reply = 202 \<and> uploads_accepted cl ds c1)"

text \<open>The script returns 0 exactly when every sample is there and accepted.\<close>

lemma seed_documents_ok:
  "fst (seed_documents cl is_file ds c) = Inr 0 \<longleftrightarrow>
     list_all (\<lambda>d. is_file (fst d)) ds \<and> uploads_accepted cl ds c"
  by (induction cl is_file ds c rule: seed_documents.induct) (auto split: sum.splits prod.splits)

text \<open>The types it declares are the values the upload endpoint knows, each once.\<close>

lemma seed_types: "map (document_type_of_value \<circ> snd) DOCUMENTS = map Some document_type_members"
  by code_simp

end
