(* ===== verification/Spec2Isabelle.thy ===== *)
theory Spec2Isabelle
  imports Job_Properties Queue_Properties Upload_Properties Processor_Branches Worker_Properties Api_Properties
    Retry_Budget Retry_Delivery Crash_Recovery Duplicate_Result Whole_System Logs Log_Setup Metrics Fake_Provider Migration Alembic_Env App Dashboard Scripts
begin

text \<open>
  A model of the asynchronous document pipeline: an HTTP API takes uploads, stores the file, commits a
  document and a job to PostgreSQL and publishes an event to a Redis stream; worker processes read the
  stream, claim the job, extract the text, ask a language model for structured data and commit the
  result. Redis delivers at least once and any step may fail, so most of the program, and most of
  this development, is about what is true whatever fails and whatever others do meanwhile.

  \<^bold>\<open>How the program is modelled.\<close> A stateful function takes a \<open>world\<close> (theory World) and returns a result
  and a world. The world holds the database, the state of Redis, of the file store and of the model
  provider, and everything the program does not determine: the clock readings, the fresh UUIDs, the
  random numbers, one fault for each database call (it succeeds, it raises before its effect, or it
  raises although it took effect) and the commits other processes make before each call. Theorems
  quantify over all of these. Exceptions are values: \<open>exc + 'a\<close>, an application error with its class of
  \<^verbatim>\<open>app/core/exceptions.py\<close> or a foreign exception with the names of its classes. Floats are rationals
  with the rounding of IEEE doubles (theory Py_Float), texts of the program are \<open>string\<close>, document text
  is a list of code points, bytes are \<open>8 word\<close>.

  \<^bold>\<open>Theories and code.\<close>
  \<^item> Prelude: string and list functions of Python; Py_Float: float arithmetic and \<^verbatim>\<open>round\<close>.
  \<^item> Enums, Errors, Settings, Models: \<^verbatim>\<open>app/core/enums.py\<close>, \<^verbatim>\<open>exceptions.py\<close>, \<^verbatim>\<open>config.py\<close>, \<^verbatim>\<open>time.py\<close> and
    the rows, constraints and helpers of \<^verbatim>\<open>app/db/models\<close>.
  \<^item> World, Session, Database: the calls that leave the program, what a SQLAlchemy session does to a row
    (load, flush of the changed columns by primary key, commit, rollback, refresh) and
    \<^verbatim>\<open>app/db/session.py\<close>.
  \<^item> Job_Service: \<^verbatim>\<open>app/services/job_service.py\<close>, every operation.
  \<^item> Protocol: the abstract machine. \<open>db_step\<close> has one rule per kind of commit (create, claim,
    complete, retry, fail, requeue); the locale \<open>job_protocol\<close> states what the job service promises its
    clients over any relation that contains these commits, as far as the results satisfy a predicate \<open>V\<close>. It is
    interpreted on \<open>db_steps\<close> (any result) and on \<open>valid_steps\<close> (results that satisfy their schema, Stored_Results).
  \<^item> Redis, Events, Queue: the Redis commands as a parameter with the laws of the locale \<open>redis_server\<close>
    (interpreted on an in-memory server), \<^verbatim>\<open>app/schemas/events.py\<close> and \<^verbatim>\<open>app/services/queue.py\<close>.
    Redis_Stream: the entries behind the messages, as the locale \<open>redis_stream\<close> on top of it (no command the program
    uses changes an entry, and what is read or claimed is an entry of the stream); Queue_Stream: the queue over it.
  \<^item> Utf8, Sha256, Validation, Storage, Text_Extraction: \<^verbatim>\<open>app/services/file_validation.py\<close>,
    \<^verbatim>\<open>file_storage.py\<close> (locales \<open>file_system\<close> and \<open>storage_backend\<close>) and \<^verbatim>\<open>text_extraction.py\<close>.
  \<^item> Schemas, Llm: \<^verbatim>\<open>app/schemas/extraction.py\<close> and \<^verbatim>\<open>app/llm\<close>: the provider interface, the deterministic
    provider, the OpenAI provider with its repair call, prompts, factory.
  \<^item> Retry_Policy, Processor, Worker: \<^verbatim>\<open>app/worker\<close>: classification and back-off, one event from claim to
    outcome, the consumer, the two sweepers, the signal handlers, the task group that interleaves the loops turn by
    turn (\<open>task_group\<close>), start, shutdown and exit code.
  \<^item> Logs, Log_Setup, Api_Schemas, Api, Metrics: \<^verbatim>\<open>app/core/logging.py\<close>, the response models, \<^verbatim>\<open>app/services/publisher.py\<close>,
    the routes, middleware, error handlers and lifespan of \<^verbatim>\<open>app/api\<close>, and \<^verbatim>\<open>app/services/metrics.py\<close>.
  \<^item> Migration: the schema the ORM models declare and the one
    \<^verbatim>\<open>alembic/versions/b1cbb1995668_initial_schema.py\<close> builds, and their agreement; Alembic_Env:
    \<^verbatim>\<open>alembic/env.py\<close>, which runs it on the URL of the settings.
  \<^item> App: the routes, middleware and handlers \<^verbatim>\<open>create_app\<close> of \<^verbatim>\<open>app/api/main.py\<close> puts together, and the cached settings.
  \<^item> Dashboard: what the pages of \<^verbatim>\<open>app/api/routes/dashboard.py\<close> show; Scripts: \<^verbatim>\<open>scripts/benchmark.py\<close> and
    \<^verbatim>\<open>scripts/seed.py\<close> over an HTTP client and a clock.
  \<^item> End_To_End: the API and a worker on the same services, from the upload to the completed job; Retry_Budget: a job
    whose every attempt fails; Retry_Delivery: the way of a retry back to the stream; Crash_Recovery: what the
    recovery sweep does with the job of a worker that died;
    Duplicate_Result: a job that is processed although it has a result; Worker_Process: a worker from its start to
    its exit code; Stored_Results: the contract of \<^verbatim>\<open>LLMProvider\<close> as a locale, its two providers as instances;
    Whole_System: the API and any number of workers as one step relation (\<open>system_step\<close>).
  \<^item> Samples, Fake_Provider and the theories named \<open>\<dots>_Properties\<close>, Processor_Outcomes, Processor_Branches and
    Processor_Frame hold the lemmas and the properties of these components.

  \<^bold>\<open>What the lemmas show.\<close> Of a component alone: the transition table and the exclusiveness of claims
  (Job_Properties), lossless and atomic queue operations (Queue_Properties), validation, confinement
  and round trip of uploads (Upload_Properties), text extraction (Text_Extraction), bounds of the
  back-off (Retry_Policy), validated model output (Llm_Properties), masking of log lines (Logs), the
  tallies (Metrics). Of the components together: processing and every API request make only commits of
  the abstract machine, so every reachable database satisfies its invariant and documents, results and the identity of
  jobs are never lost; each outcome the worker acknowledges means in the database what it says
  (Processor_Outcomes); a run of the worker (\<open>worker_run\<close>, any interleaving of rounds of its loops) comes with a log of
  what was handed to the processor, and a message leaves the consumer group only when its entry does not decode or the
  log shows that its own event was processed to an outcome (Worker_Properties);
  an accepted upload is stored, committed and published, and becomes
  a completed job with the data extracted from its bytes when nothing refuses on the way (End_To_End); a
  job whose model keeps failing is attempted once more than its budget of retries and then failed (Retry_Budget);
  a retry that was scheduled is on the stream again after the first sweep that finds it due (Retry_Delivery);
  a termination signal ends the worker with code 0 once each loop had another turn, whatever failed before, as long as
  acknowledgements get through, and a refused acknowledgement ends it with an uncaught exception group (Worker_Process). Of everything together: whatever the API and any number
  of workers do, in any order, with any failures and any answers of the model, the constraints of the schema hold, no
  job exceeds its retries and each completed job has exactly one result, which satisfies its schema (Whole_System).
  Some properties state limits of the code: the message of a worker that died is acknowledged away when it is
  reclaimed before the claim is stale, a session whose claim went stale overwrites a completed
  job, a due retry whose publication fails is lost for good, a job with a result that is re-queued never becomes
  completed again, a job that is not \<open>FAILED\<close> cannot be
  re-queued.

  \<^bold>\<open>Bounds.\<close> The task group takes the list of what happens to it, signals and turns of its loops in the order the
  event loop lets them run, and is \<open>None\<close>, still running, when the list is used up; that the process ends is
  proved for every list in which a signal is followed by a turn of each loop. Each loop alone takes the list of
  answers its shutdown event will give and is \<open>Running\<close> when it is used up. The connection loops recurse on the configured number of
  attempts, the upload loop on the bytes left, the rest on data. The polling loop of the benchmark has
  fuel; one round for each pause that fits into its timeout, and one more, is enough (Scripts).

  \<^bold>\<open>What is not modelled.\<close> PostgreSQL refuses values its columns cannot hold: modelled for the rows of documents and
  results (lengths, U+0000 and surrogates, 32-bit token counts) and for the consumer name's length, not for U+0000 in error messages
  or consumer names nor for the range of a job's integers. A close of the Redis connection that fails. asyncio itself: interleaving is at database calls and between turns of the
  loops, so a task that is cancelled because another one raised is cancelled between its turns. SQLAlchemy, redis-py, the OpenAI client, pydantic, the PDF
  and DOCX parsers, Unicode normalisation and JSON coding of events are arguments, with the laws a
  property needs as hypotheses. FastAPI's matching of requests and rendering, structlog's rendering, the HTML
  templates and the command lines of the scripts are left out: they are wiring or layout. Log calls are left out of the operations; they change no
  state.
\<close>

end
